(* ===== verification/Prelude.thy ===== *)
theory Prelude
  imports Complex_Main "HOL-Library.List_Lexorder" "HOL-Library.Char_ord"
    "HOL-Library.Product_Lexorder"
begin

text \<open>
  Shared vocabulary of the development: the JSON-like values that the Python code passes
  around (\<open>pyval\<close>), the exceptions it raises (\<open>exc\<close>), the string operations it
  uses, and the state-and-exception monad \<open>io\<close> in which every operation with an effect is
  written. An exception of Python does not roll the state back, so a computation returns its
  outcome (\<open>Inl\<close> an exception, \<open>Inr\<close> a value) together with the state at that point.
  The \<open>wp\<close> calculus and the predicates \<open>keeps\<close> and \<open>ensures\<close> carry the proofs
  about such computations. Strings are lists of 8-bit characters, i.e. Python strings whose
  code points are below 256.
\<close>

named_theorems wp \<open>weakest-precondition equations of the monad\<close>
named_theorems keeps_intro \<open>preservation of a predicate by a computation\<close>

section \<open>Values\<close>

datatype pyval =
    PNone
  | PBool bool
  | PInt int
  | PFloat rat
  | PStr string
  | PList "pyval list"
  | PDict "(string \<times> pyval) list"

type_synonym pydict = "(string \<times> pyval) list"

text \<open>\<open>d.get(k)\<close>: the value stored under a key, \<open>None\<close> where there is none.\<close>

definition dict_get :: "pydict \<Rightarrow> string \<Rightarrow> pyval" where
  "dict_get d k = (case map_of d k of None \<Rightarrow> PNone | Some v \<Rightarrow> v)"

definition dict_get_or :: "pydict \<Rightarrow> string \<Rightarrow> pyval \<Rightarrow> pyval" where
  "dict_get_or d k dflt = (case map_of d k of None \<Rightarrow> dflt | Some v \<Rightarrow> v)"

definition dict_has :: "pydict \<Rightarrow> string \<Rightarrow> bool" where
  "dict_has d k \<longleftrightarrow> k \<in> set (map fst d)"

text \<open>\<open>d[k] = v\<close>: an existing key keeps its position, a new key goes to the end.\<close>

fun dict_put :: "pydict \<Rightarrow> string \<Rightarrow> pyval \<Rightarrow> pydict" where
  "dict_put [] k v = [(k, v)]"
| "dict_put ((k', v') # d) k v = (if k' = k then (k, v) # d else (k', v') # dict_put d k v)"

definition dict_update :: "pydict \<Rightarrow> pydict \<Rightarrow> pydict" where
  "dict_update d e = fold (\<lambda>(k, v) acc. dict_put acc k v) e d"

text \<open>
  Numbers compare by value across \<open>bool\<close>, \<open>int\<close> and \<open>float\<close>
  (\<open>True == 1 == 1.0\<close>); an \<open>isinstance(v, int)\<close> test accepts booleans.
\<close>

fun py_num :: "pyval \<Rightarrow> rat option" where
  "py_num (PBool b) = Some (if b then 1 else 0)"
| "py_num (PInt i) = Some (of_int i)"
| "py_num (PFloat r) = Some r"
| "py_num _ = None"

fun py_int :: "pyval \<Rightarrow> int option" where
  "py_int (PBool b) = Some (if b then 1 else 0)"
| "py_int (PInt i) = Some i"
| "py_int _ = None"

text \<open>Python's \<open>==\<close>: lists pointwise, dictionaries as finite maps.\<close>

fun py_eq :: "pyval \<Rightarrow> pyval \<Rightarrow> bool"
  and py_eq_list :: "pyval list \<Rightarrow> pyval list \<Rightarrow> bool"
  and py_sub_dict :: "pydict \<Rightarrow> pydict \<Rightarrow> bool" where
  "py_eq v w =
     (case v of
        PNone \<Rightarrow> w = PNone
      | PStr s \<Rightarrow> w = PStr s
      | PList vs \<Rightarrow> (case w of PList ws \<Rightarrow> py_eq_list vs ws | _ \<Rightarrow> False)
      | PDict d \<Rightarrow> (case w of PDict e \<Rightarrow> length d = length e \<and> py_sub_dict d e | _ \<Rightarrow> False)
      | _ \<Rightarrow> py_num w \<noteq> None \<and> py_num v = py_num w)"
| "py_eq_list [] ws = (ws = [])"
| "py_eq_list (v # vs) ws = (case ws of [] \<Rightarrow> False | w # ws' \<Rightarrow> py_eq v w \<and> py_eq_list vs ws')"
| "py_sub_dict [] e = True"
| "py_sub_dict ((k, v) # d) e =
     ((case map_of e k of None \<Rightarrow> False | Some w \<Rightarrow> py_eq v w) \<and> py_sub_dict d e)"

declare py_eq.simps [simp del]

lemma py_eq_str [simp]: "py_eq (PStr a) (PStr b) \<longleftrightarrow> a = b"
  by (auto simp: py_eq.simps)

lemma py_eq_int [simp]: "py_eq (PInt a) (PInt b) \<longleftrightarrow> a = b"
  by (simp add: py_eq.simps)

fun py_truthy :: "pyval \<Rightarrow> bool" where
  "py_truthy PNone = False"
| "py_truthy (PBool b) = b"
| "py_truthy (PInt i) = (i \<noteq> 0)"
| "py_truthy (PFloat r) = (r \<noteq> 0)"
| "py_truthy (PStr s) = (s \<noteq> [])"
| "py_truthy (PList vs) = (vs \<noteq> [])"
| "py_truthy (PDict d) = (d \<noteq> [])"

fun opt_str :: "string option \<Rightarrow> pyval" where
  "opt_str None = PNone"
| "opt_str (Some s) = PStr s"

section \<open>Strings\<close>

definition py_space :: "char \<Rightarrow> bool" where
  "py_space c \<longleftrightarrow>
     (let n = (of_char c :: nat)
      in 9 \<le> n \<and> n \<le> 13 \<or> 28 \<le> n \<and> n \<le> 32 \<or> n = 133 \<or> n = 160)"

definition py_lstrip :: "string \<Rightarrow> string" where
  "py_lstrip s = dropWhile py_space s"

definition py_rstrip :: "string \<Rightarrow> string" where
  "py_rstrip s = rev (dropWhile py_space (rev s))"

definition py_strip :: "string \<Rightarrow> string" where
  "py_strip s = py_rstrip (py_lstrip s)"

text \<open>\<open>s.lower()\<close>: the capital letters of ASCII and of the range 192 to 222, without the sign 215.\<close>

definition py_lower_char :: "char \<Rightarrow> char" where
  "py_lower_char c =
     (let n = (of_char c :: nat)
      in if 65 \<le> n \<and> n \<le> 90 \<or> 192 \<le> n \<and> n \<le> 222 \<and> n \<noteq> 215 then char_of (n + 32) else c)"

definition py_lower :: "string \<Rightarrow> string" where
  "py_lower s = map py_lower_char s"

fun py_join :: "string \<Rightarrow> string list \<Rightarrow> string" where
  "py_join sep [] = []"
| "py_join sep [s] = s"
| "py_join sep (s # t # ss) = s @ sep @ py_join sep (t # ss)"

definition digit_char :: "nat \<Rightarrow> char" where
  "digit_char d = char_of (48 + d)"

fun show_nat :: "nat \<Rightarrow> string" where
  "show_nat n = (if n < 10 then [digit_char n] else show_nat (n div 10) @ [digit_char (n mod 10)])"

declare show_nat.simps [simp del]

definition show_int :: "int \<Rightarrow> string" where
  "show_int i = (if i < 0 then ''-'' @ show_nat (nat (- i)) else show_nat (nat i))"

lemma dropWhile_dropWhile_id: "dropWhile P (dropWhile P xs) = dropWhile P xs"
  by (induction xs) auto

lemma hd_dropWhile_not: "dropWhile P xs \<noteq> [] \<Longrightarrow> \<not> P (hd (dropWhile P xs))"
  by (induction xs) auto

lemma dropWhile_id: "xs = [] \<or> \<not> P (hd xs) \<Longrightarrow> dropWhile P xs = xs"
  by (cases xs) auto

lemma hd_py_rstrip: "py_rstrip s \<noteq> [] \<Longrightarrow> hd (py_rstrip s) = hd s"
proof -
  assume ne: "py_rstrip s \<noteq> []"
  have "rev s = takeWhile py_space (rev s) @ dropWhile py_space (rev s)" by simp
  then have "s = py_rstrip s @ rev (takeWhile py_space (rev s))"
    unfolding py_rstrip_def by (metis rev_append rev_rev_ident)
  with ne show ?thesis by (metis hd_append)
qed

lemma py_strip_idem [simp]: "py_strip (py_strip s) = py_strip s"
proof -
  have l: "py_lstrip (py_strip s) = py_strip s"
  proof (cases "py_strip s = []")
    case True
    then show ?thesis by (simp add: py_lstrip_def)
  next
    case False
    then have "py_lstrip s \<noteq> []" by (auto simp: py_strip_def py_rstrip_def)
    then have "\<not> py_space (hd (py_lstrip s))"
      unfolding py_lstrip_def by (rule hd_dropWhile_not)
    moreover have "hd (py_strip s) = hd (py_lstrip s)"
      using False unfolding py_strip_def by (rule hd_py_rstrip)
    ultimately have "\<not> py_space (hd (py_strip s))" by simp
    then show ?thesis unfolding py_lstrip_def by (intro dropWhile_id) simp
  qed
  have r: "py_rstrip (py_strip s) = py_strip s"
    unfolding py_strip_def py_rstrip_def by (simp add: dropWhile_dropWhile_id)
  have "py_strip (py_strip s) = py_rstrip (py_lstrip (py_strip s))"
    by (simp add: py_strip_def [of "py_strip s"])
  also have "\<dots> = py_strip s" by (simp only: l r)
  finally show ?thesis .
qed

text \<open>Removal of duplicates that keeps the first occurrence (the \<open>seen\<close>-set loops).\<close>

fun dedupe :: "'a list \<Rightarrow> 'a list \<Rightarrow> 'a list" where
  "dedupe seen [] = []"
| "dedupe seen (x # xs) = (if x \<in> set seen then dedupe seen xs else x # dedupe (x # seen) xs)"

lemma set_dedupe: "set (dedupe seen xs) = set xs - set seen"
  by (induction xs arbitrary: seen) auto

lemma distinct_dedupe: "distinct (dedupe seen xs)"
  by (induction xs arbitrary: seen) (auto simp: set_dedupe)

lemma dedupe_id: "distinct xs \<Longrightarrow> set xs \<inter> set seen = {} \<Longrightarrow> dedupe seen xs = xs"
  by (induction xs arbitrary: seen) auto

lemma dedupe_idem [simp]: "dedupe [] (dedupe [] xs) = dedupe [] xs"
  by (rule dedupe_id) (auto simp: distinct_dedupe)

section \<open>Exceptions\<close>

datatype exc =
    ValueError string
  | FileNotFoundError string
  | TimeoutError string
  | ConnectionError string
  | KeyError string
  | TypeError string
  | OverflowError string
  | RuntimeError string
  | PolicyDeniedError string string string
  | DelegationDeniedError string string string
  | BudgetExceededError string string
  | ApprovalStateError string string
  | OperatorAuthError string string
  | SessionAuthError string string string
  | OtherError string string

text \<open>\<open>type(exc).__name__\<close> and \<open>str(exc)\<close>.\<close>

fun exc_type :: "exc \<Rightarrow> string" where
  "exc_type (ValueError m) = ''ValueError''"
| "exc_type (FileNotFoundError m) = ''FileNotFoundError''"
| "exc_type (TimeoutError m) = ''TimeoutError''"
| "exc_type (ConnectionError m) = ''ConnectionError''"
| "exc_type (KeyError m) = ''KeyError''"
| "exc_type (TypeError m) = ''TypeError''"
| "exc_type (OverflowError m) = ''OverflowError''"
| "exc_type (RuntimeError m) = ''RuntimeError''"
| "exc_type (PolicyDeniedError m c p) = ''PolicyDeniedError''"
| "exc_type (DelegationDeniedError m c w) = ''DelegationDeniedError''"
| "exc_type (BudgetExceededError m b) = ''BudgetExceededError''"
| "exc_type (ApprovalStateError m a) = ''ApprovalStateError''"
| "exc_type (OperatorAuthError m h) = ''OperatorAuthError''"
| "exc_type (SessionAuthError m h s) = ''SessionAuthError''"
| "exc_type (OtherError n m) = n"

text \<open>\<open>str(KeyError(k))\<close> is the \<open>repr\<close> of the key.\<close>

fun exc_str :: "exc \<Rightarrow> string" where
  "exc_str (ValueError m) = m"
| "exc_str (FileNotFoundError m) = m"
| "exc_str (TimeoutError m) = m"
| "exc_str (ConnectionError m) = m"
| "exc_str (KeyError m) = [CHR 0x27] @ m @ [CHR 0x27]"
| "exc_str (TypeError m) = m"
| "exc_str (OverflowError m) = m"
| "exc_str (RuntimeError m) = m"
| "exc_str (PolicyDeniedError m c p) = m"
| "exc_str (DelegationDeniedError m c w) = m"
| "exc_str (BudgetExceededError m b) = m"
| "exc_str (ApprovalStateError m a) = m"
| "exc_str (OperatorAuthError m h) = m"
| "exc_str (SessionAuthError m h s) = m"
| "exc_str (OtherError n m) = m"

type_synonym 'a res = "exc + 'a"

definition res_bind :: "'a res \<Rightarrow> ('a \<Rightarrow> 'b res) \<Rightarrow> 'b res" where
  "res_bind r f = (case r of Inl e \<Rightarrow> Inl e | Inr x \<Rightarrow> f x)"

lemma res_bind_simps [simp]:
  "res_bind (Inl e) f = Inl e"
  "res_bind (Inr x) f = f x"
  by (simp_all add: res_bind_def)

lemma res_bind_Inr [simp]: "res_bind r f = Inr y \<longleftrightarrow> (\<exists>x. r = Inr x \<and> f x = Inr y)"
  by (cases r) auto

fun res_map :: "('a \<Rightarrow> 'b res) \<Rightarrow> 'a list \<Rightarrow> 'b list res" where
  "res_map f [] = Inr []"
| "res_map f (x # xs) = res_bind (f x) (\<lambda>y. res_bind (res_map f xs) (\<lambda>ys. Inr (y # ys)))"

text \<open>The elements that pass a test which may raise, as in a loop with an early exit by the exception.\<close>

fun res_filter :: "('a \<Rightarrow> bool res) \<Rightarrow> 'a list \<Rightarrow> 'a list res" where
  "res_filter p [] = Inr []"
| "res_filter p (x # xs) =
     res_bind (p x) (\<lambda>b. res_bind (res_filter p xs) (\<lambda>ys. Inr (if b then x # ys else ys)))"

lemma res_filter_Inr:
  "res_filter p xs = Inr ys \<longleftrightarrow> (\<forall>x \<in> set xs. \<exists>b. p x = Inr b) \<and> ys = filter (\<lambda>x. p x = Inr True) xs"
proof (induction xs arbitrary: ys)
  case (Cons x xs)
  show ?case
  proof (cases "p x")
    case (Inr b)
    then show ?thesis by (cases b) (auto simp: Cons.IH ex_bool_eq)
  qed simp
qed auto

section \<open>Computations with state and exceptions\<close>

type_synonym ('s, 'a) io = "'s \<Rightarrow> (exc + 'a) \<times> 's"

definition io_return :: "'a \<Rightarrow> ('s, 'a) io" where
  "io_return x = (\<lambda>s. (Inr x, s))"

definition io_raise :: "exc \<Rightarrow> ('s, 'a) io" where
  "io_raise e = (\<lambda>s. (Inl e, s))"

definition io_bind :: "('s, 'a) io \<Rightarrow> ('a \<Rightarrow> ('s, 'b) io) \<Rightarrow> ('s, 'b) io" where
  "io_bind m f = (\<lambda>s. case m s of (Inl e, s') \<Rightarrow> (Inl e, s') | (Inr x, s') \<Rightarrow> f x s')"

definition io_then :: "('s, 'a) io \<Rightarrow> ('s, 'b) io \<Rightarrow> ('s, 'b) io" where
  "io_then m k = io_bind m (\<lambda>_. k)"

text \<open>\<open>try: m except: h\<close>\<close>

definition io_catch :: "('s, 'a) io \<Rightarrow> (exc \<Rightarrow> ('s, 'a) io) \<Rightarrow> ('s, 'a) io" where
  "io_catch m h = (\<lambda>s. case m s of (Inl e, s') \<Rightarrow> h e s' | (Inr x, s') \<Rightarrow> (Inr x, s'))"

text \<open>\<open>try: m finally: k\<close>: an exception of \<open>k\<close> replaces the outcome of \<open>m\<close>.\<close>

definition io_finally :: "('s, 'a) io \<Rightarrow> ('s, 'b) io \<Rightarrow> ('s, 'a) io" where
  "io_finally m k = (\<lambda>s. case m s of (r, s') \<Rightarrow>
     (case k s' of (Inl e, s'') \<Rightarrow> (Inl e, s'') | (Inr _, s'') \<Rightarrow> (r, s'')))"

definition io_get :: "('s \<Rightarrow> 'a) \<Rightarrow> ('s, 'a) io" where
  "io_get f = (\<lambda>s. (Inr (f s), s))"

definition io_modify :: "('s \<Rightarrow> 's) \<Rightarrow> ('s, unit) io" where
  "io_modify f = (\<lambda>s. (Inr (), f s))"

definition io_lift :: "'a res \<Rightarrow> ('s, 'a) io" where
  "io_lift r = (\<lambda>s. (r, s))"

definition io_when :: "bool \<Rightarrow> ('s, unit) io \<Rightarrow> ('s, unit) io" where
  "io_when b m = (if b then m else io_return ())"

fun io_map :: "('a \<Rightarrow> ('s, 'b) io) \<Rightarrow> 'a list \<Rightarrow> ('s, 'b list) io" where
  "io_map f [] = io_return []"
| "io_map f (x # xs) = io_bind (f x) (\<lambda>y. io_bind (io_map f xs) (\<lambda>ys. io_return (y # ys)))"

subsection \<open>Weakest preconditions\<close>

definition wp :: "('s, 'a) io \<Rightarrow> ('a \<Rightarrow> 's \<Rightarrow> bool) \<Rightarrow> (exc \<Rightarrow> 's \<Rightarrow> bool) \<Rightarrow> 's \<Rightarrow> bool" where
  "wp m Q E s = (case m s of (Inl e, s') \<Rightarrow> E e s' | (Inr x, s') \<Rightarrow> Q x s')"

lemma wp_return [wp]: "wp (io_return x) Q E = Q x"
  by (simp add: wp_def [abs_def] io_return_def)

lemma wp_raise [wp]: "wp (io_raise e) Q E = E e"
  by (simp add: wp_def [abs_def] io_raise_def)

lemma wp_bind [wp]: "wp (io_bind m f) Q E s = wp m (\<lambda>x. wp (f x) Q E) E s"
  by (auto simp: wp_def io_bind_def split: prod.splits sum.splits)

lemma wp_then [wp]: "wp (io_then m k) Q E s = wp m (\<lambda>_. wp k Q E) E s"
  by (simp add: io_then_def wp_bind)

lemma wp_catch [wp]: "wp (io_catch m h) Q E s = wp m Q (\<lambda>e. wp (h e) Q E) s"
  by (auto simp: wp_def io_catch_def split: prod.splits sum.splits)

lemma wp_finally [wp]:
  "wp (io_finally m k) Q E s =
     wp m (\<lambda>x. wp k (\<lambda>_. Q x) E) (\<lambda>e. wp k (\<lambda>_. E e) E) s"
  by (auto simp: wp_def io_finally_def split: prod.splits sum.splits)

lemma wp_get [wp]: "wp (io_get f) Q E s = Q (f s) s"
  by (simp add: wp_def io_get_def)

lemma wp_modify [wp]: "wp (io_modify f) Q E s = Q () (f s)"
  by (simp add: wp_def io_modify_def)

lemma wp_lift [wp]: "wp (io_lift r) Q E s = (case r of Inl e \<Rightarrow> E e s | Inr x \<Rightarrow> Q x s)"
  by (simp add: wp_def io_lift_def)

lemma wp_when [wp]: "wp (io_when b m) Q E s = (if b then wp m Q E s else Q () s)"
  by (simp add: io_when_def wp_return)

lemma wp_if [wp]: "wp (if b then m else k) Q E s = (if b then wp m Q E s else wp k Q E s)"
  by simp

lemma wp_map_Nil [wp]: "wp (io_map f []) Q E s = Q [] s"
  by (simp add: wp_return)

lemma wp_mono:
  assumes "wp m Q E s"
    and "\<And>x s'. m s = (Inr x, s') \<Longrightarrow> Q x s' \<Longrightarrow> Q' x s'"
    and "\<And>e s'. m s = (Inl e, s') \<Longrightarrow> E e s' \<Longrightarrow> E' e s'"
  shows "wp m Q' E' s"
  using assms by (auto simp: wp_def split: prod.splits sum.splits)

lemma wp_conj: "wp m (\<lambda>x s. Q x s \<and> Q' x s) (\<lambda>e s. E e s \<and> E' e s) s \<longleftrightarrow> wp m Q E s \<and> wp m Q' E' s"
  by (auto simp: wp_def split: prod.splits sum.splits)

lemma wp_Inr: "wp m Q E s \<Longrightarrow> m s = (Inr x, s') \<Longrightarrow> Q x s'"
  by (simp add: wp_def)

lemma wp_Inl: "wp m Q E s \<Longrightarrow> m s = (Inl e, s') \<Longrightarrow> E e s'"
  by (simp add: wp_def)

lemma wpI:
  assumes "\<And>x s'. m s = (Inr x, s') \<Longrightarrow> Q x s'" and "\<And>e s'. m s = (Inl e, s') \<Longrightarrow> E e s'"
  shows "wp m Q E s"
  using assms by (auto simp: wp_def split: prod.splits sum.splits)

subsection \<open>Preservation\<close>

text \<open>A predicate is kept whether the computation returns or raises.\<close>

definition keeps :: "('s \<Rightarrow> bool) \<Rightarrow> ('s, 'a) io \<Rightarrow> bool" where
  "keeps I m \<longleftrightarrow> (\<forall>s. I s \<longrightarrow> I (snd (m s)))"

lemma wp_same: "wp m (\<lambda>_. I) (\<lambda>_. I) s \<longleftrightarrow> I (snd (m s))"
  by (simp add: wp_def split: prod.splits sum.splits)

lemma keeps_wp: "keeps I m \<longleftrightarrow> (\<forall>s. I s \<longrightarrow> wp m (\<lambda>_. I) (\<lambda>_. I) s)"
  by (simp add: keeps_def wp_same)

lemma keeps_wpD: "keeps I m \<Longrightarrow> I s \<Longrightarrow> wp m (\<lambda>_. I) (\<lambda>_. I) s"
  by (simp add: keeps_wp)

lemma keepsD: "keeps I m \<Longrightarrow> I s \<Longrightarrow> m s = (r, s') \<Longrightarrow> I s'"
  by (metis keeps_def snd_conv)

lemma keeps_return [keeps_intro]: "keeps I (io_return x)"
  by (simp add: keeps_wp wp)

lemma keeps_raise [keeps_intro]: "keeps I (io_raise e)"
  by (simp add: keeps_wp wp)

lemma keeps_get [keeps_intro]: "keeps I (io_get f)"
  by (simp add: keeps_wp wp)

lemma keeps_lift [keeps_intro]: "keeps I (io_lift r)"
  by (simp add: keeps_def io_lift_def)

lemma keeps_modify: "(\<And>s. I s \<Longrightarrow> I (f s)) \<Longrightarrow> keeps I (io_modify f)"
  by (simp add: keeps_wp wp)

lemma keeps_bind [keeps_intro]:
  assumes "keeps I m" and "\<And>x. keeps I (f x)"
  shows "keeps I (io_bind m f)"
  using assms
  by (auto simp: keeps_def io_bind_def split: prod.splits sum.splits)

lemma keeps_then [keeps_intro]: "keeps I m \<Longrightarrow> keeps I k \<Longrightarrow> keeps I (io_then m k)"
  by (simp add: io_then_def keeps_bind)

lemma keeps_catch [keeps_intro]:
  assumes "keeps I m" and "\<And>e. keeps I (h e)"
  shows "keeps I (io_catch m h)"
  using assms
  by (auto simp: keeps_def io_catch_def split: prod.splits sum.splits)

lemma keeps_finally [keeps_intro]:
  assumes "keeps I m" and "keeps I k"
  shows "keeps I (io_finally m k)"
  using assms
  by (auto simp: keeps_def io_finally_def split: prod.splits sum.splits)

lemma keeps_when [keeps_intro]: "(b \<Longrightarrow> keeps I m) \<Longrightarrow> keeps I (io_when b m)"
  by (simp add: io_when_def keeps_return)

lemma keeps_if [keeps_intro]:
  "(b \<Longrightarrow> keeps I m) \<Longrightarrow> (\<not> b \<Longrightarrow> keeps I k) \<Longrightarrow> keeps I (if b then m else k)"
  by simp

lemma keeps_option [keeps_intro]:
  "(x = None \<Longrightarrow> keeps I m) \<Longrightarrow> (\<And>y. x = Some y \<Longrightarrow> keeps I (k y)) \<Longrightarrow>
   keeps I (case x of None \<Rightarrow> m | Some y \<Rightarrow> k y)"
  by (cases x) auto

lemma keeps_let [keeps_intro]: "(\<And>y. y = x \<Longrightarrow> keeps I (f y)) \<Longrightarrow> keeps I (let y = x in f y)"
  by simp

lemma keeps_map [keeps_intro]:
  assumes "\<And>x. x \<in> set xs \<Longrightarrow> keeps I (f x)"
  shows "keeps I (io_map f xs)"
  using assms by (induction xs) (auto intro!: keeps_intro)

text \<open>A loop over a list: an invariant of the state, and what each result has to do with its element.\<close>

lemma wp_io_map:
  assumes "I s" and "\<And>x s. x \<in> set xs \<Longrightarrow> I s \<Longrightarrow> wp (f x) (\<lambda>y s'. I s' \<and> P x y) E s"
  shows "wp (io_map f xs) (\<lambda>ys s'. I s' \<and> list_all2 P xs ys) E s"
  using assms
proof (induction xs arbitrary: s)
  case Nil
  then show ?case by (simp add: wp)
next
  case (Cons x xs)
  have step: "wp (f x) (\<lambda>y s'. I s' \<and> P x y) E s" using Cons.prems by simp
  have rest: "wp (io_map f xs) (\<lambda>ys s'. I s' \<and> list_all2 P xs ys) E s'" if "I s'" for s'
    using Cons.IH [OF that] Cons.prems by simp
  show ?case
    unfolding io_map.simps wp_bind wp_return
    by (rule wp_mono [OF step]) (auto elim!: wp_mono [OF rest])
qed

lemma list_all2_left: "list_all2 P xs ys \<Longrightarrow> x \<in> set xs \<Longrightarrow> \<exists>y \<in> set ys. P x y"
  by (induction rule: list_all2_induct) auto

lemma list_all2_right: "list_all2 P xs ys \<Longrightarrow> y \<in> set ys \<Longrightarrow> \<exists>x \<in> set xs. P x y"
  by (induction rule: list_all2_induct) auto

lemma io_map_o: "io_map (\<lambda>x. f (g x)) xs = io_map f (map g xs)"
  by (induction xs) simp_all

lemma keeps_pair [keeps_intro]:
  "(\<And>a b. x = (a, b) \<Longrightarrow> keeps I (f a b)) \<Longrightarrow> keeps I (case x of (a, b) \<Rightarrow> f a b)"
  by (cases x) simp

lemma wp_any: "(\<And>x s'. Q x s') \<Longrightarrow> (\<And>e s'. E e s') \<Longrightarrow> wp m Q E s"
  by (simp add: wp_def split: prod.splits sum.splits)

end
