(* ===== verification/Runtime_Env.thy ===== *)
theory Runtime_Env
  imports Prelude
begin

text \<open>
  What the runtime modules share of the outside world: timestamps, the clock, the identifier
  supply, and the directories of JSON files in which every module keeps its state.

  Timestamps. The code stores \<open>datetime.isoformat()\<close> strings and reads them back with
  \<open>datetime.fromisoformat\<close>, the inverse of \<open>isoformat\<close>; a stored timestamp is
  therefore modelled by the \<open>datetime\<close> it denotes: an instant in microseconds with a UTC
  offset in seconds, or a naive local time. Two orders are in use and differ. Comparison of
  \<open>datetime\<close> values (\<open>stamp_gt\<close>, \<open>stamp_le\<close>) compares instants and raises
  \<open>TypeError\<close> between aware and naive values. Comparison of the strings, in sort keys
  and in \<open>min\<close>, is lexicographic: \<open>stamp_key\<close> is the local time first (the
  fixed-width fields; an omitted fraction sorts before a fraction as the next character is one
  of \<open>+\<close>, \<open>-\<close>, which precede the full stop), then the suffix (none, then
  \<open>+hh:mm\<close> growing, then \<open>-hh:mm\<close> growing in magnitude).

  The clock. Every call of \<open>datetime.now(timezone.utc)\<close> is one reading: \<open>clk n\<close> is
  the value of the \<open>n\<close>-th reading and \<open>ticks\<close> counts the readings made, so that
  time passes inside an operation. Nothing is assumed of \<open>clk\<close>; a property that needs the
  readings not to go back says so (\<open>mono (clk w)\<close>). Identifiers from \<open>uuid4\<close> are
  drawn from a supply in the same way.

  Directories. A state directory holds one file per identifier; it is an association list in
  the order in which \<open>glob\<close> lists it. The locale \<open>id_store\<close> states what the modules
  rely on.
\<close>

section \<open>Timestamps\<close>

datatype stamp = Aware int int | Naive int

definition stamp_wall :: "stamp \<Rightarrow> int" where
  "stamp_wall t = (case t of Aware us off \<Rightarrow> us + off * 1000000 | Naive us \<Rightarrow> us)"

definition stamp_suffix :: "stamp \<Rightarrow> int" where
  "stamp_suffix t =
     (case t of Naive us \<Rightarrow> 0 | Aware us off \<Rightarrow> if 0 \<le> off then 1 + off else 100000 - off)"

definition stamp_key :: "stamp \<Rightarrow> int \<times> int" where
  "stamp_key t = (stamp_wall t, stamp_suffix t)"

definition utc_stamp :: "int \<Rightarrow> stamp" where
  "utc_stamp us = Aware us 0"

fun stamp_instant :: "stamp \<Rightarrow> int res" where
  "stamp_instant (Aware us off) = Inr us"
| "stamp_instant (Naive us) =
     Inl (TypeError ''can't compare offset-naive and offset-aware datetimes'')"

text \<open>\<open>parse_timestamp(t) > now\<close> and \<open>parse_timestamp(t) <= now\<close>.\<close>

definition stamp_gt :: "stamp \<Rightarrow> int \<Rightarrow> bool res" where
  "stamp_gt t now = res_bind (stamp_instant t) (\<lambda>us. Inr (us > now))"

definition stamp_le :: "stamp \<Rightarrow> int \<Rightarrow> bool res" where
  "stamp_le t now = res_bind (stamp_instant t) (\<lambda>us. Inr (us \<le> now))"

text \<open>
  \<open>datetime + timedelta(seconds=n)\<close>: beyond the year 9999 (or below the year 1) the
  addition raises \<open>OverflowError\<close>. (For an \<open>n\<close> beyond the range of \<open>timedelta\<close> itself
  the same error is raised with another text, which nothing in the code reads.)
\<close>

definition max_instant :: int where "max_instant = 253402300799999999"
definition min_instant :: int where "min_instant = - 62135596800000000"

definition add_seconds :: "int \<Rightarrow> int \<Rightarrow> int res" where
  "add_seconds us n =
     (let r = us + n * 1000000
      in if r < min_instant \<or> max_instant < r then Inl (OverflowError ''date value out of range'')
         else Inr r)"

text \<open>A \<open>run_at\<close> string, as \<open>datetime.fromisoformat\<close> sees it.\<close>

datatype iso_text = IsoText stamp | BadText string

fun fromisoformat :: "iso_text \<Rightarrow> stamp res" where
  "fromisoformat (IsoText t) = Inr t"
| "fromisoformat (BadText s) = Inl (ValueError (''Invalid isoformat string: '' @ s))"

lemma stamp_key_utc: "stamp_key (utc_stamp a) \<le> stamp_key (utc_stamp b) \<longleftrightarrow> a \<le> b"
  by (auto simp: stamp_key_def utc_stamp_def stamp_wall_def stamp_suffix_def less_eq_prod_def)

lemma stamp_gt_utc [simp]: "stamp_gt (utc_stamp a) now = Inr (a > now)"
  and stamp_le_utc [simp]: "stamp_le (utc_stamp a) now = Inr (a \<le> now)"
  by (simp_all add: stamp_gt_def stamp_le_def utc_stamp_def)

text \<open>Whole seconds since a timestamp, never negative (\<open>max(int(delta.total_seconds()), 0)\<close>).\<close>

fun stamp_minus :: "stamp \<Rightarrow> int \<Rightarrow> int res" where
  "stamp_minus (Aware us off) now = Inr (us - now)"
| "stamp_minus (Naive us) now =
     Inl (TypeError ''can't subtract offset-naive and offset-aware datetimes'')"

definition seconds_since :: "stamp \<Rightarrow> int \<Rightarrow> int res" where
  "seconds_since t now = res_bind (stamp_minus t now) (\<lambda>d. Inr (max ((- d) div 1000000) 0))"

definition seconds_left :: "stamp \<Rightarrow> int \<Rightarrow> int res" where
  "seconds_left t now = res_bind (stamp_minus t now) (\<lambda>d. Inr (max (d div 1000000) 0))"

text \<open>Aware timestamps can all be compared with each other and with the clock.\<close>

fun aware :: "stamp \<Rightarrow> bool" where
  "aware (Aware us off) = True"
| "aware (Naive us) = False"

definition aware_opt :: "stamp option \<Rightarrow> bool" where
  "aware_opt t = (case t of None \<Rightarrow> True | Some u \<Rightarrow> aware u)"

lemma aware_opt_simps [simp]: "aware_opt None" "aware_opt (Some t) = aware t"
  by (simp_all add: aware_opt_def)

lemma aware_utc [simp]: "aware (utc_stamp us)"
  by (simp add: utc_stamp_def)

lemma stamp_gt_aware: "stamp_gt t now = Inr b \<Longrightarrow> aware t"
  by (cases t) (simp_all add: stamp_gt_def)

lemma aware_stamp_gt: "aware t \<Longrightarrow> \<exists>b. stamp_gt t now = Inr b"
  and aware_stamp_le: "aware t \<Longrightarrow> \<exists>b. stamp_le t now = Inr b"
  by (cases t; simp add: stamp_gt_def stamp_le_def)+

text \<open>The values that histories and detail objects record: a timestamp string or another value.\<close>

datatype field_value = FV_stamp "stamp option" | FV_val pyval

fun fv_eq :: "field_value \<Rightarrow> field_value \<Rightarrow> bool" where
  "fv_eq (FV_val v) (FV_val w) = py_eq v w"
| "fv_eq v w = (v = w)"

section \<open>The clock and the identifier supply\<close>

record env =
  clk :: "nat \<Rightarrow> int"
  ticks :: nat
  uuids :: "nat \<Rightarrow> string"
  uuid_n :: nat

definition utc_now :: "('z env_scheme, int) io" where
  "utc_now = (\<lambda>w. (Inr (clk w (ticks w)), w\<lparr>ticks := Suc (ticks w)\<rparr>))"

definition utc_now_iso :: "('z env_scheme, stamp) io" where
  "utc_now_iso = io_bind utc_now (\<lambda>us. io_return (utc_stamp us))"

definition uuid4 :: "('z env_scheme, string) io" where
  "uuid4 = (\<lambda>w. (Inr (uuids w (uuid_n w)), w\<lparr>uuid_n := Suc (uuid_n w)\<rparr>))"

lemma wp_utc_now [wp]: "wp utc_now Q E w = Q (clk w (ticks w)) (w\<lparr>ticks := Suc (ticks w)\<rparr>)"
  by (simp add: wp_def utc_now_def)

lemma wp_utc_now_iso [wp]:
  "wp utc_now_iso Q E w = Q (utc_stamp (clk w (ticks w))) (w\<lparr>ticks := Suc (ticks w)\<rparr>)"
  by (simp add: utc_now_iso_def wp)

lemma wp_uuid4 [wp]: "wp uuid4 Q E w = Q (uuids w (uuid_n w)) (w\<lparr>uuid_n := Suc (uuid_n w)\<rparr>)"
  by (simp add: wp_def uuid4_def)

section \<open>Directories of state files\<close>

type_synonym 'v dir = "(string \<times> 'v) list"

definition dir_get :: "'v dir \<Rightarrow> string \<Rightarrow> 'v option" where
  "dir_get d k = map_of d k"

fun dir_put :: "'v dir \<Rightarrow> string \<Rightarrow> 'v \<Rightarrow> 'v dir" where
  "dir_put [] k v = [(k, v)]"
| "dir_put ((k', v') # d) k v = (if k' = k then (k, v) # d else (k', v') # dir_put d k v)"

definition dir_del :: "'v dir \<Rightarrow> string \<Rightarrow> 'v dir" where
  "dir_del d k = filter (\<lambda>(k', _). k' \<noteq> k) d"

definition dir_ids :: "'v dir \<Rightarrow> string list" where
  "dir_ids d = map fst d"

text \<open>\<open>sorted(directory.glob("*.json"))\<close>: by file name.\<close>

definition sorted_ids :: "'v dir \<Rightarrow> string list" where
  "sorted_ids d = sort_key (\<lambda>k. k @ ''.json'') (dir_ids d)"

definition dir_ok :: "'v dir \<Rightarrow> bool" where
  "dir_ok d \<longleftrightarrow> distinct (map fst d)"

text \<open>
  What a module relies on: a read returns the last write to the same file, writes and
  deletions leave the other files alone, and the listing names exactly the files, once each.
\<close>

locale id_store =
  fixes get :: "'d \<Rightarrow> string \<Rightarrow> 'v option"
    and put :: "'d \<Rightarrow> string \<Rightarrow> 'v \<Rightarrow> 'd"
    and del :: "'d \<Rightarrow> string \<Rightarrow> 'd"
    and ids :: "'d \<Rightarrow> string list"
    and ok :: "'d \<Rightarrow> bool"
  assumes get_put: "get (put d k v) k' = (if k' = k then Some v else get d k')"
    and get_del: "get (del d k) k' = (if k' = k then None else get d k')"
    and ids_get: "k \<in> set (ids d) \<longleftrightarrow> get d k \<noteq> None"
    and ok_distinct: "ok d \<Longrightarrow> distinct (ids d)"
    and ok_put: "ok d \<Longrightarrow> ok (put d k v)"
    and ok_del: "ok d \<Longrightarrow> ok (del d k)"
begin

lemma set_ids_put: "set (ids (put d k v)) = insert k (set (ids d))"
  by (auto simp: ids_get get_put split: if_splits)

lemma set_ids_del: "set (ids (del d k)) = set (ids d) - {k}"
  by (auto simp: ids_get get_del split: if_splits)

lemma length_ids_put_new:
  assumes "ok d" and "get d k = None"
  shows "length (ids (put d k v)) = Suc (length (ids d))"
proof -
  have "distinct (ids (put d k v))" using assms by (intro ok_distinct ok_put)
  then have "length (ids (put d k v)) = card (insert k (set (ids d)))"
    by (metis distinct_card set_ids_put)
  also have "\<dots> = Suc (length (ids d))"
    using assms by (simp add: ids_get ok_distinct distinct_card)
  finally show ?thesis .
qed

lemma length_ids_put_old:
  assumes "ok d" and "get d k = Some v'"
  shows "length (ids (put d k v)) = length (ids d)"
proof -
  have "distinct (ids (put d k v))" using assms by (intro ok_distinct ok_put)
  then have "length (ids (put d k v)) = card (insert k (set (ids d)))"
    by (metis distinct_card set_ids_put)
  also have "insert k (set (ids d)) = set (ids d)"
    using assms by (auto simp: ids_get)
  finally show ?thesis using assms by (simp add: ok_distinct distinct_card)
qed

text \<open>A predicate on files survives a write of a file that satisfies it, and any deletion.\<close>

lemma all_put:
  assumes "\<And>k' v'. get d k' = Some v' \<Longrightarrow> P k' v'" and "P k v"
    and "get (put d k v) k' = Some v'"
  shows "P k' v'"
  using assms by (auto simp: get_put split: if_splits)

lemma all_del:
  assumes "\<And>k' v'. get d k' = Some v' \<Longrightarrow> P k' v'" and "get (del d k) k' = Some v'"
  shows "P k' v'"
  using assms by (auto simp: get_del split: if_splits)

end

lemma map_of_dir_put: "map_of (dir_put d k v) k' = (if k' = k then Some v else map_of d k')"
  by (induction d k v rule: dir_put.induct) auto

lemma set_keys_dir_put: "set (map fst (dir_put d k v)) = insert k (set (map fst d))"
  by (induction d k v rule: dir_put.induct) auto

lemma distinct_dir_put: "distinct (map fst d) \<Longrightarrow> distinct (map fst (dir_put d k v))"
proof (induction d k v rule: dir_put.induct)
  case (2 k' v' d k v)
  then show ?case using set_keys_dir_put [of d k v] by auto
qed simp

lemma map_of_dir_del: "map_of (dir_del d k) k' = (if k' = k then None else map_of d k')"
  unfolding dir_del_def by (induction d) auto

interpretation files: id_store dir_get dir_put dir_del dir_ids dir_ok
proof
  fix d :: "'v dir" and k v k'
  show "dir_get (dir_put d k v) k' = (if k' = k then Some v else dir_get d k')"
    by (simp add: dir_get_def map_of_dir_put)
  show "dir_get (dir_del d k) k' = (if k' = k then None else dir_get d k')"
    by (simp add: dir_get_def map_of_dir_del)
  show "k \<in> set (dir_ids d) \<longleftrightarrow> dir_get d k \<noteq> None"
    by (auto simp: dir_get_def dir_ids_def map_of_eq_None_iff)
  show "dir_ok d \<Longrightarrow> distinct (dir_ids d)"
    by (simp add: dir_ok_def dir_ids_def)
  show "dir_ok d \<Longrightarrow> dir_ok (dir_put d k v)"
    by (simp add: dir_ok_def distinct_dir_put)
  show "dir_ok d \<Longrightarrow> dir_ok (dir_del d k)"
    by (simp add: dir_ok_def dir_del_def distinct_map_filter)
qed

lemma set_sorted_ids [simp]: "set (sorted_ids d) = set (dir_ids d)"
  by (simp add: sorted_ids_def)

lemma distinct_sorted_ids: "dir_ok d \<Longrightarrow> distinct (sorted_ids d)"
  by (simp add: sorted_ids_def files.ok_distinct)

lemma in_dir_ids: "k \<in> set (dir_ids d) \<longleftrightarrow> (\<exists>v. dir_get d k = Some v)"
  using files.ids_get [of k d] by auto

lemmas dir_simps = files.get_put files.get_del

lemma dir_get_in: "dir_ok d \<Longrightarrow> dir_get d k = Some v \<longleftrightarrow> (k, v) \<in> set d"
  by (simp add: dir_ok_def dir_get_def)

lemma dir_get_in': "dir_get d k = Some v \<Longrightarrow> (k, v) \<in> set d"
  by (simp add: dir_get_def map_of_SomeD)

end
