(* ===== verification/Status_Machine.thy ===== *)
theory Status_Machine
  imports Prelude
begin

text \<open>
  The transition tables of the runtime (approvals, workflows, workflow steps) are dictionaries
  from a status to the set of statuses it may change to. A history of statuses is legal when
  each is allowed after the one before. The locale \<open>status_machine\<close> is the interface the
  modules use: terminal statuses have no successor, so nothing follows them. Where the table has
  no cycle (\<open>ranked_machine\<close>) the length of a history is bounded.
\<close>

fun legal :: "('st \<Rightarrow> 'st list) \<Rightarrow> 'st list \<Rightarrow> bool" where
  "legal allowed [] = True"
| "legal allowed [s] = True"
| "legal allowed (s # t # ss) = (t \<in> set (allowed s) \<and> legal allowed (t # ss))"

lemma legal_snoc:
  "legal allowed (ss @ [s, t]) \<longleftrightarrow> legal allowed (ss @ [s]) \<and> t \<in> set (allowed s)"
  by (induction allowed ss rule: legal.induct) auto

lemma legal_append_one:
  "ss \<noteq> [] \<Longrightarrow> legal allowed (ss @ [t]) \<longleftrightarrow> legal allowed ss \<and> t \<in> set (allowed (last ss))"
  using legal_snoc [of allowed "butlast ss" "last ss" t] by (metis append_Cons append_Nil append_assoc append_butlast_last_id)

lemma legal_tl: "legal allowed (s # ss) \<Longrightarrow> legal allowed ss"
  by (cases ss) auto

locale status_machine =
  fixes allowed :: "'st \<Rightarrow> 'st list"
    and terminal :: "'st \<Rightarrow> bool"
  assumes terminal_iff: "terminal s \<longleftrightarrow> allowed s = []"
begin

lemma nothing_after_terminal: "legal allowed (s # ss) \<Longrightarrow> terminal s \<Longrightarrow> ss = []"
  by (cases ss) (auto simp: terminal_iff)

lemma terminal_is_last:
  "legal allowed ss \<Longrightarrow> i < length ss \<Longrightarrow> terminal (ss ! i) \<Longrightarrow> Suc i = length ss"
proof (induction ss arbitrary: i)
  case Nil
  then show ?case by simp
next
  case (Cons s ss)
  show ?case
  proof (cases i)
    case 0
    with Cons.prems have "ss = []" by (auto intro: nothing_after_terminal)
    with 0 show ?thesis by simp
  next
    case (Suc j)
    with Cons.prems Cons.IH [of j] legal_tl [OF Cons.prems(1)] show ?thesis by auto
  qed
qed

end

locale ranked_machine = status_machine +
  fixes rank :: "'st \<Rightarrow> nat"
  assumes rank_decreases: "t \<in> set (allowed s) \<Longrightarrow> rank t < rank s"
begin

lemma legal_length: "legal allowed (s # ss) \<Longrightarrow> length ss \<le> rank s"
proof (induction ss arbitrary: s)
  case Nil
  then show ?case by simp
next
  case (Cons t ss)
  then have "length ss \<le> rank t" and "rank t < rank s"
    by (auto intro: rank_decreases)
  then show ?case by simp
qed

lemma legal_distinct: "legal allowed ss \<Longrightarrow> distinct ss"
proof (induction ss)
  case Nil
  then show ?case by simp
next
  case (Cons s ss)
  have "rank t < rank s" if "t \<in> set ss" for t
    using Cons.prems that
  proof (induction ss arbitrary: s)
    case Nil
    then show ?case by simp
  next
    case (Cons u us)
    then have "rank u < rank s" by (auto intro: rank_decreases)
    moreover have "t = u \<or> rank t < rank u"
      using Cons.IH [of u] Cons.prems by auto
    ultimately show ?case by auto
  qed
  then have "s \<notin> set ss" by blast
  with Cons.IH legal_tl [OF Cons.prems] show ?case by auto
qed

end

end
