(* ===== verification/State_Files.thy ===== *)
theory State_Files
  imports Runtime_Env
begin

text \<open>
  src/runtime/state.py: the versioned envelope in which every module persists its state, the
  checks made when a file is read back, and the migration of files written before envelopes
  existed. A file holds one JSON value; a directory of files is a \<open>dir\<close> of such values.
  The payload, the schema and the version of a call are values of any type, as the code tests
  them at run time.
\<close>

section \<open>Rendering in messages\<close>

text \<open>
  \<open>str(v)\<close> for error texts. The text of containers follows \<open>repr\<close> without the
  escapes inside nested strings, and a float prints as a fixed word; no result depends on it.
\<close>

fun py_str :: "pyval \<Rightarrow> string"
  and py_repr :: "pyval \<Rightarrow> string"
  and py_repr_list :: "pyval list \<Rightarrow> string list"
  and py_repr_dict :: "pydict \<Rightarrow> string list" where
  "py_str v = (case v of PStr s \<Rightarrow> s | _ \<Rightarrow> py_repr v)"
| "py_repr PNone = ''None''"
| "py_repr (PBool b) = (if b then ''True'' else ''False'')"
| "py_repr (PInt i) = show_int i"
| "py_repr (PFloat r) = ''<float>''"
| "py_repr (PStr s) = [CHR 0x27] @ s @ [CHR 0x27]"
| "py_repr (PList vs) = ''['' @ py_join '', '' (py_repr_list vs) @ '']''"
| "py_repr (PDict d) = ''{'' @ py_join '', '' (py_repr_dict d) @ ''}''"
| "py_repr_list [] = []"
| "py_repr_list (v # vs) = py_repr v # py_repr_list vs"
| "py_repr_dict [] = []"
| "py_repr_dict ((k, v) # d) = (py_repr (PStr k) @ '': '' @ py_repr v) # py_repr_dict d"

declare py_str.simps [simp del]

section \<open>Envelopes and versions\<close>

text \<open>\<open>isinstance(v, dict)\<close>\<close>

fun is_dict :: "pyval \<Rightarrow> bool" where
  "is_dict (PDict d) = True"
| "is_dict _ = False"

definition PERSISTED_STATE_VERSION :: string where
  "PERSISTED_STATE_VERSION = ''v0.9''"

text \<open>\<open>isinstance(v, str) and v.strip()\<close>: the stripped text of a non-blank string.\<close>

fun non_empty_text :: "pyval \<Rightarrow> string option" where
  "non_empty_text (PStr s) = (if py_strip s = [] then None else Some (py_strip s))"
| "non_empty_text _ = None"

definition state_envelope :: "pyval \<Rightarrow> pyval \<Rightarrow> pyval \<Rightarrow> pyval res" where
  "state_envelope payload schema version =
     (case payload of
        PDict d \<Rightarrow>
          (case non_empty_text schema of
             None \<Rightarrow> Inl (ValueError ''Persisted state schema must be a non-empty string'')
           | Some sc \<Rightarrow>
               (case non_empty_text version of
                  None \<Rightarrow> Inl (ValueError ''Persisted state version must be a non-empty string'')
                | Some ve \<Rightarrow>
                    Inr (PDict [(''schema'', PStr sc), (''version'', PStr ve), (''payload'', PDict d)])))
      | _ \<Rightarrow> Inl (ValueError ''Persisted state payload must be an object''))"

definition is_digit :: "char \<Rightarrow> bool" where
  "is_digit c \<longleftrightarrow> (let n = (of_char c :: nat) in 48 \<le> n \<and> n \<le> 57)"

definition digit_value :: "char \<Rightarrow> nat" where
  "digit_value c = (of_char c :: nat) - 48"

definition int_of_digits :: "string \<Rightarrow> nat" where
  "int_of_digits ds = foldl (\<lambda>acc c. 10 * acc + digit_value c) 0 ds"

text \<open>\<open>STATE_VERSION_PATTERN.fullmatch\<close>: a v, digits, a full stop, digits, and nothing else.\<close>

definition match_version :: "string \<Rightarrow> (nat \<times> nat) option" where
  "match_version s =
     (case s of
        [] \<Rightarrow> None
      | c # r \<Rightarrow>
          (let a = takeWhile is_digit r; r' = dropWhile is_digit r
           in case r' of
                [] \<Rightarrow> None
              | c' # b \<Rightarrow>
                  if c = CHR ''v'' \<and> a \<noteq> [] \<and> c' = CHR ''.'' \<and> b \<noteq> [] \<and> list_all is_digit b
                  then Some (int_of_digits a, int_of_digits b) else None))"

definition parse_state_version :: "pyval \<Rightarrow> (nat \<times> nat) res" where
  "parse_state_version version =
     (case non_empty_text version of
        None \<Rightarrow> Inl (ValueError ''Persisted state version must be a non-empty string'')
      | Some ve \<Rightarrow>
          (case match_version ve of
             None \<Rightarrow> Inl (ValueError (''Persisted state version `'' @ py_str version
                        @ ''` must match `v<major>.<minor>`''))
           | Some mm \<Rightarrow> Inr mm))"

definition is_supported_state_version :: "pyval \<Rightarrow> pyval \<Rightarrow> bool res" where
  "is_supported_state_version version current_version =
     res_bind (parse_state_version version) (\<lambda>v.
     res_bind (parse_state_version current_version) (\<lambda>c. Inr (v \<le> c)))"

definition has_envelope_keys :: "pydict \<Rightarrow> bool" where
  "has_envelope_keys d \<longleftrightarrow> dict_has d ''schema'' \<and> dict_has d ''version'' \<and> dict_has d ''payload''"

definition unwrap_state_payload :: "pyval \<Rightarrow> string \<Rightarrow> pydict res" where
  "unwrap_state_payload data schema =
     (case data of
        PDict d \<Rightarrow>
          if has_envelope_keys d then
            if \<not> py_eq (dict_get d ''schema'') (PStr schema) then
              Inl (ValueError (''Persisted state schema mismatch: expected `'' @ schema
                @ ''`, got `'' @ py_str (dict_get d ''schema'') @ ''`''))
            else
              res_bind (is_supported_state_version (dict_get d ''version'') (PStr PERSISTED_STATE_VERSION))
                (\<lambda>supported.
                  if \<not> supported then
                    Inl (ValueError (''Persisted state version `'' @ py_str (dict_get d ''version'')
                      @ ''` is newer than supported version `'' @ PERSISTED_STATE_VERSION @ ''`''))
                  else
                    (case dict_get d ''payload'' of
                       PDict p \<Rightarrow> Inr p
                     | _ \<Rightarrow> Inl (ValueError ''Persisted state payload must be an object'')))
          else Inr d
      | _ \<Rightarrow> Inl (ValueError ''Persisted state file must contain an object''))"

section \<open>Files\<close>

record state_dir =
  dir_exists :: bool
  docs :: "pyval dir"

definition write_state_payload ::
    "string \<Rightarrow> pydict \<Rightarrow> string \<Rightarrow> string \<Rightarrow> ('z state_dir_scheme, pydict) io" where
  "write_state_payload path payload schema version =
     io_bind (io_lift (state_envelope (PDict payload) (PStr schema) (PStr version))) (\<lambda>envelope.
     io_then (io_modify (\<lambda>fs. fs\<lparr>docs := dir_put (docs fs) path envelope\<rparr>))
       (io_return payload))"

text \<open>\<open>path.open()\<close>: a missing file raises \<open>FileNotFoundError\<close>.\<close>

definition read_doc :: "string \<Rightarrow> ('z state_dir_scheme, pyval) io" where
  "read_doc path =
     io_bind (io_get (\<lambda>fs. dir_get (docs fs) path)) (\<lambda>doc.
       case doc of
         None \<Rightarrow> io_raise (FileNotFoundError (''No such file or directory: '' @ path))
       | Some v \<Rightarrow> io_return v)"

definition load_state_payload :: "string \<Rightarrow> string \<Rightarrow> ('z state_dir_scheme, pydict) io" where
  "load_state_payload path schema =
     io_bind (read_doc path) (\<lambda>data. io_lift (unwrap_state_payload data schema))"

record inspection =
  in_schema :: pyval
  in_expected_schema :: string
  in_version :: pyval
  in_current_version :: string
  in_legacy_format :: bool
  in_supported :: bool
  in_payload_keys :: "string list"
  in_payload :: "pydict option"
  in_migrated :: "bool option"

definition inspect_value :: "pyval \<Rightarrow> string \<Rightarrow> bool \<Rightarrow> inspection res" where
  "inspect_value data schema include_payload =
     (case data of
        PDict d \<Rightarrow>
          if has_envelope_keys d then
            res_bind (parse_state_version (dict_get d ''version'')) (\<lambda>_.
              (case dict_get d ''payload'' of
                 PDict p \<Rightarrow>
                   res_bind
                     (if py_eq (dict_get d ''schema'') (PStr schema)
                      then is_supported_state_version (dict_get d ''version'') (PStr PERSISTED_STATE_VERSION)
                      else Inr False)
                     (\<lambda>supported.
                       Inr \<lparr>in_schema = dict_get d ''schema'', in_expected_schema = schema,
                            in_version = dict_get d ''version'',
                            in_current_version = PERSISTED_STATE_VERSION,
                            in_legacy_format = False, in_supported = supported,
                            in_payload_keys = sort (map fst p),
                            in_payload = (if include_payload then Some p else None),
                            in_migrated = None\<rparr>)
               | _ \<Rightarrow> Inl (ValueError ''Persisted state payload must be an object'')))
          else
            Inr \<lparr>in_schema = PNone, in_expected_schema = schema, in_version = PNone,
                 in_current_version = PERSISTED_STATE_VERSION, in_legacy_format = True,
                 in_supported = True, in_payload_keys = sort (map fst d),
                 in_payload = (if include_payload then Some d else None), in_migrated = None\<rparr>
      | _ \<Rightarrow> Inl (ValueError ''Persisted state file must contain an object''))"

definition inspect_state_payload ::
    "string \<Rightarrow> string \<Rightarrow> bool \<Rightarrow> ('z state_dir_scheme, inspection) io" where
  "inspect_state_payload path schema include_payload =
     io_bind (read_doc path) (\<lambda>data. io_lift (inspect_value data schema include_payload))"

record migration =
  mig_migrated :: bool
  mig_before :: inspection
  mig_after :: inspection

definition migrate_state_payload ::
    "string \<Rightarrow> string \<Rightarrow> string \<Rightarrow> ('z state_dir_scheme, migration) io" where
  "migrate_state_payload path schema target_version =
     io_bind (inspect_state_payload path schema True) (\<lambda>before.
       if \<not> in_legacy_format before then
         if \<not> py_eq (in_schema before) (PStr schema) then
           io_raise (ValueError (''Persisted state schema mismatch: expected `'' @ schema
             @ ''`, got `'' @ py_str (in_schema before) @ ''`''))
         else
           io_bind (io_lift (is_supported_state_version (in_version before) (PStr target_version)))
             (\<lambda>supported.
               if \<not> supported then
                 io_raise (ValueError (''Persisted state version `'' @ py_str (in_version before)
                   @ ''` is newer than supported version `'' @ target_version @ ''`''))
               else
                 io_return \<lparr>mig_migrated = False,
                   mig_before = before\<lparr>in_migrated := Some False\<rparr>,
                   mig_after = before\<lparr>in_payload := None\<rparr>\<rparr>)
       else
         (case in_payload before of
            None \<Rightarrow> io_raise (KeyError ''payload'')
          | Some payload \<Rightarrow>
              io_then (write_state_payload path payload schema target_version)
                (io_bind (inspect_state_payload path schema False) (\<lambda>after.
                   io_return \<lparr>mig_migrated = True,
                     mig_before = before\<lparr>in_migrated := Some True\<rparr>,
                     mig_after = after\<rparr>))))"

record migration_report =
  rep_processed_count :: nat
  rep_migrated_count :: nat
  rep_unchanged_count :: nat
  rep_results :: "(string \<times> migration) list"

text \<open>The optional \<open>limit\<close>: \<open>None\<close>, or a positive integer.\<close>

definition normalize_migration_limit :: "pyval \<Rightarrow> nat option res" where
  "normalize_migration_limit limit =
     (if limit = PNone then Inr None
      else (case py_int limit of
              Some i \<Rightarrow> if i \<le> 0
                then Inl (ValueError ''State migration `limit` must be a positive integer'')
                else Inr (Some (nat i))
            | None \<Rightarrow> Inl (ValueError ''State migration `limit` must be a positive integer'')))"

definition take_limit :: "nat option \<Rightarrow> 'a list \<Rightarrow> 'a list" where
  "take_limit limit xs = (case limit of None \<Rightarrow> xs | Some n \<Rightarrow> take n xs)"

definition migrate_state_directory ::
    "string \<Rightarrow> string \<Rightarrow> pyval \<Rightarrow> bool \<Rightarrow> ('z state_dir_scheme, migration_report) io" where
  "migrate_state_directory schema target_version limit include_unchanged =
     io_bind (io_lift (normalize_migration_limit limit)) (\<lambda>lmt.
     io_bind (io_get dir_exists) (\<lambda>present.
       if \<not> present then io_return \<lparr>rep_processed_count = 0, rep_migrated_count = 0,
         rep_unchanged_count = 0, rep_results = []\<rparr>
       else
         io_bind (io_get (\<lambda>fs. take_limit lmt (sorted_ids (docs fs)))) (\<lambda>paths.
         io_bind (io_map (\<lambda>path. migrate_state_payload path schema target_version) paths) (\<lambda>results.
           io_return
             \<lparr>rep_processed_count = length paths,
              rep_migrated_count = length (filter mig_migrated results),
              rep_unchanged_count = length (filter (\<lambda>r. \<not> mig_migrated r) results),
              rep_results = filter (\<lambda>(_, r). include_unchanged \<or> mig_migrated r) (zip paths results)\<rparr>))))"

section \<open>Reading back what was written\<close>

lemma non_empty_text_strip: "non_empty_text (PStr s) = Some t \<Longrightarrow> non_empty_text (PStr t) = Some t"
  by (auto split: if_splits)

lemma parse_state_version_strip:
  "non_empty_text (PStr s) = Some t \<Longrightarrow> parse_state_version (PStr s) = Inr v \<Longrightarrow>
   parse_state_version (PStr t) = Inr v"
  by (auto simp: parse_state_version_def split: option.splits if_splits)

lemma is_supported_strip:
  "non_empty_text (PStr s) = Some t \<Longrightarrow> is_supported_state_version (PStr s) c = Inr b \<Longrightarrow>
   is_supported_state_version (PStr t) c = Inr b"
proof -
  assume ne: "non_empty_text (PStr s) = Some t"
    and sup: "is_supported_state_version (PStr s) c = Inr b"
  then obtain v where v: "parse_state_version (PStr s) = Inr v"
    unfolding is_supported_state_version_def by (elim res_bind_Inr [THEN iffD1, elim_format]) blast
  with ne have "parse_state_version (PStr t) = Inr v" by (rule parse_state_version_strip)
  with v sup show ?thesis unfolding is_supported_state_version_def by (simp del: res_bind_Inr)
qed

lemma has_envelope_keys_envelope [simp]:
  "has_envelope_keys [(''schema'', a), (''version'', b), (''payload'', c)]"
  by (simp add: has_envelope_keys_def dict_has_def)

lemma dict_get_envelope [simp]:
  "dict_get [(''schema'', a), (''version'', b), (''payload'', c)] ''schema'' = a"
  "dict_get [(''schema'', a), (''version'', b), (''payload'', c)] ''version'' = b"
  "dict_get [(''schema'', a), (''version'', b), (''payload'', c)] ''payload'' = c"
  by (simp_all add: dict_get_def)

text \<open>The conditions under which a call of the writer produces a file its reader accepts.\<close>

definition schema_name_ok :: "string \<Rightarrow> bool" where
  "schema_name_ok sc \<longleftrightarrow> sc \<noteq> [] \<and> py_strip sc = sc"

definition version_supported :: "string \<Rightarrow> bool" where
  "version_supported ve \<longleftrightarrow>
     is_supported_state_version (PStr ve) (PStr PERSISTED_STATE_VERSION) = Inr True"

definition enveloped :: "pydict \<Rightarrow> string \<Rightarrow> string \<Rightarrow> pyval" where
  "enveloped p sc ve =
     PDict [(''schema'', PStr sc), (''version'', PStr (py_strip ve)), (''payload'', PDict p)]"

lemma version_supported_strip:
  assumes "version_supported ve"
  shows "py_strip ve \<noteq> []" and "version_supported (py_strip ve)"
proof -
  have ne: "non_empty_text (PStr ve) \<noteq> None"
    using assms
    by (auto simp: version_supported_def is_supported_state_version_def parse_state_version_def
        split: option.splits)
  then show "py_strip ve \<noteq> []" by (auto split: if_splits)
  then have "non_empty_text (PStr ve) = Some (py_strip ve)" by simp
  then show "version_supported (py_strip ve)"
    using assms unfolding version_supported_def by (rule is_supported_strip)
qed

lemma state_envelope_ok:
  assumes "schema_name_ok sc" and "version_supported ve"
  shows "state_envelope (PDict p) (PStr sc) (PStr ve) = Inr (enveloped p sc ve)"
  using assms version_supported_strip(1) [OF assms(2)]
  by (auto simp: state_envelope_def schema_name_ok_def enveloped_def)

lemma unwrap_enveloped:
  assumes "version_supported ve"
  shows "unwrap_state_payload (enveloped p sc ve) sc = Inr p"
  using version_supported_strip(2) [OF assms]
  by (simp add: unwrap_state_payload_def enveloped_def version_supported_def)

lemma inspect_enveloped:
  assumes "version_supported ve"
  shows "inspect_value (enveloped p sc ve) sc incl =
    Inr \<lparr>in_schema = PStr sc, in_expected_schema = sc, in_version = PStr (py_strip ve),
         in_current_version = PERSISTED_STATE_VERSION, in_legacy_format = False,
         in_supported = True, in_payload_keys = sort (map fst p),
         in_payload = (if incl then Some p else None), in_migrated = None\<rparr>"
  using version_supported_strip(2) [OF assms]
  by (auto simp: inspect_value_def enveloped_def version_supported_def
      is_supported_state_version_def)

lemma write_state_payload_ok:
  assumes "schema_name_ok sc" and "version_supported ve"
  shows "write_state_payload path p sc ve fs =
    (Inr p, fs\<lparr>docs := dir_put (docs fs) path (enveloped p sc ve)\<rparr>)"
  by (simp add: write_state_payload_def state_envelope_ok [OF assms] io_bind_def io_then_def
      io_lift_def io_modify_def io_return_def)

lemma read_doc_eq:
  "read_doc path fs =
     (case dir_get (docs fs) path of
        None \<Rightarrow> (Inl (FileNotFoundError (''No such file or directory: '' @ path)), fs)
      | Some v \<Rightarrow> (Inr v, fs))"
  by (simp add: read_doc_def io_bind_def io_get_def io_raise_def io_return_def split: option.splits)

lemma load_state_payload_eq:
  "load_state_payload path schema fs =
     (case dir_get (docs fs) path of
        None \<Rightarrow> (Inl (FileNotFoundError (''No such file or directory: '' @ path)), fs)
      | Some v \<Rightarrow> (unwrap_state_payload v schema, fs))"
  by (simp add: load_state_payload_def io_bind_def read_doc_eq io_lift_def split: option.splits)

lemma inspect_state_payload_eq:
  "inspect_state_payload path schema incl fs =
     (case dir_get (docs fs) path of
        None \<Rightarrow> (Inl (FileNotFoundError (''No such file or directory: '' @ path)), fs)
      | Some v \<Rightarrow> (inspect_value v schema incl, fs))"
  by (simp add: inspect_state_payload_def io_bind_def read_doc_eq io_lift_def split: option.splits)

section \<open>Migration\<close>

lemma unwrap_Inr_cases:
  assumes "unwrap_state_payload v sc = Inr p"
  obtains (legacy) "v = PDict p" "\<not> has_envelope_keys p"
  | (envelope) d where "v = PDict d" "has_envelope_keys d" "py_eq (dict_get d ''schema'') (PStr sc)"
      "is_supported_state_version (dict_get d ''version'') (PStr PERSISTED_STATE_VERSION) = Inr True"
      "dict_get d ''payload'' = PDict p"
  using assms unfolding unwrap_state_payload_def
  by (cases v) (auto split: if_splits pyval.splits)

lemma version_current: "version_supported PERSISTED_STATE_VERSION"
  unfolding version_supported_def by code_simp

text \<open>A migration of a file that loads: what it reports, and the file it leaves.\<close>

lemma migrate_loaded:
  assumes doc: "dir_get (docs fs) path = Some v" and un: "unwrap_state_payload v sc = Inr p"
    and sc: "schema_name_ok sc"
  shows "\<exists>m. migrate_state_payload path sc PERSISTED_STATE_VERSION fs =
       (Inr m, if mig_migrated m
               then fs\<lparr>docs := dir_put (docs fs) path (enveloped p sc PERSISTED_STATE_VERSION)\<rparr>
               else fs) \<and>
     (mig_migrated m \<longleftrightarrow> v = PDict p \<and> \<not> has_envelope_keys p)"
  using un
proof (cases rule: unwrap_Inr_cases)
  case legacy
  then show ?thesis
    using doc sc
    by (simp add: migrate_state_payload_def io_bind_def io_then_def io_return_def
        inspect_state_payload_eq inspect_value_def write_state_payload_ok version_current
        dir_simps inspect_enveloped [unfolded inspect_value_def])
next
  case (envelope d)
  then obtain ve where "parse_state_version (dict_get d ''version'') = Inr ve"
    by (auto simp: is_supported_state_version_def)
  with envelope doc show ?thesis
    by (auto simp: migrate_state_payload_def io_bind_def io_return_def io_lift_def
        inspect_state_payload_eq inspect_value_def)
qed

lemma unwrap_after_migrate:
  assumes "dir_get (docs fs) path = Some v" and "unwrap_state_payload v sc = Inr p"
    and "schema_name_ok sc"
    and "migrate_state_payload path sc PERSISTED_STATE_VERSION fs = (r, fs')"
  shows "\<exists>v'. dir_get (docs fs') path = Some v' \<and> unwrap_state_payload v' sc = Inr p \<and>
      (\<forall>d. v' = PDict d \<longrightarrow> has_envelope_keys d)"
proof -
  obtain m where eq: "migrate_state_payload path sc PERSISTED_STATE_VERSION fs = (Inr m, if mig_migrated m
        then fs\<lparr>docs := dir_put (docs fs) path (enveloped p sc PERSISTED_STATE_VERSION)\<rparr> else fs)"
    and mm: "mig_migrated m \<longleftrightarrow> v = PDict p \<and> \<not> has_envelope_keys p"
    using migrate_loaded [OF assms(1-3)] by blast
  from eq assms(4) have m: "fs' = (if mig_migrated m
        then fs\<lparr>docs := dir_put (docs fs) path (enveloped p sc PERSISTED_STATE_VERSION)\<rparr> else fs)"
    by simp
  show ?thesis
  proof (cases "mig_migrated m")
    case True
    with m show ?thesis
      using unwrap_enveloped [OF version_current, of p sc]
      by (auto simp: dir_simps enveloped_def)
  next
    case False
    with mm assms(2) have "\<forall>d. v = PDict d \<longrightarrow> has_envelope_keys d"
      by (cases rule: unwrap_Inr_cases [OF assms(2)]) auto
    with False m assms(1,2) show ?thesis by auto
  qed
qed


definition loaded :: "'z state_dir_scheme \<Rightarrow> string \<Rightarrow> string \<Rightarrow> pydict res" where
  "loaded fs sc k = fst (load_state_payload k sc fs)"

definition enveloped_at :: "'z state_dir_scheme \<Rightarrow> string \<Rightarrow> bool" where
  "enveloped_at fs k =
     (case dir_get (docs fs) k of Some (PDict d) \<Rightarrow> has_envelope_keys d | _ \<Rightarrow> False)"

lemma loaded_Inr:
  "loaded fs sc k = Inr p \<longleftrightarrow> (\<exists>v. dir_get (docs fs) k = Some v \<and> unwrap_state_payload v sc = Inr p)"
  by (auto simp: loaded_def load_state_payload_eq split: option.splits)

lemma loaded_cong: "dir_get (docs fs') k = dir_get (docs fs) k \<Longrightarrow> loaded fs' sc k = loaded fs sc k"
  by (simp add: loaded_def load_state_payload_eq split: option.splits)

lemma migrate_step:
  assumes ld: "loaded fs sc k = Inr p" and sc: "schema_name_ok sc"
  shows "\<exists>m fs'. migrate_state_payload k sc PERSISTED_STATE_VERSION fs = (Inr m, fs') \<and>
     mig_migrated m = (\<not> enveloped_at fs k) \<and> (mig_migrated m \<or> fs' = fs) \<and>
     loaded fs' sc k = Inr p \<and> enveloped_at fs' k \<and>
     (\<forall>k'. k' \<noteq> k \<longrightarrow> dir_get (docs fs') k' = dir_get (docs fs) k')"
proof -
  from ld obtain v where v: "dir_get (docs fs) k = Some v" "unwrap_state_payload v sc = Inr p"
    by (auto simp: loaded_Inr)
  obtain m fs' where m: "migrate_state_payload k sc PERSISTED_STATE_VERSION fs = (Inr m, fs')"
      "fs' = (if mig_migrated m
              then fs\<lparr>docs := dir_put (docs fs) k (enveloped p sc PERSISTED_STATE_VERSION)\<rparr> else fs)"
      "mig_migrated m \<longleftrightarrow> v = PDict p \<and> \<not> has_envelope_keys p"
    using migrate_loaded [OF v sc] by blast
  have legacy: "mig_migrated m = (\<not> enveloped_at fs k)"
    using v(2) by (cases rule: unwrap_Inr_cases) (auto simp: m(3) enveloped_at_def v(1))
  obtain v' where v': "dir_get (docs fs') k = Some v'" "unwrap_state_payload v' sc = Inr p"
      "\<forall>d. v' = PDict d \<longrightarrow> has_envelope_keys d"
    using unwrap_after_migrate [OF v sc m(1)] by blast
  have "enveloped_at fs' k"
    using v'(2) by (cases rule: unwrap_Inr_cases) (use v' in \<open>auto simp: enveloped_at_def\<close>)
  then show ?thesis
    using m(1,2) legacy v' by (auto simp: loaded_Inr dir_simps)
qed

lemma migrate_paths:
  assumes "schema_name_ok sc" and "distinct paths" and "\<forall>k\<in>set paths. \<exists>p. loaded fs sc k = Inr p"
  shows "\<exists>ms fs'. io_map (\<lambda>k. migrate_state_payload k sc PERSISTED_STATE_VERSION) paths fs = (Inr ms, fs') \<and>
     map mig_migrated ms = map (\<lambda>k. \<not> enveloped_at fs k) paths \<and>
     (\<forall>k. loaded fs' sc k = loaded fs sc k) \<and> (\<forall>k\<in>set paths. enveloped_at fs' k) \<and>
     (\<forall>k. k \<notin> set paths \<longrightarrow> dir_get (docs fs') k = dir_get (docs fs) k)"
  using assms(2,3)
proof (induction paths arbitrary: fs)
  case Nil
  then show ?case by (simp add: io_return_def)
next
  case (Cons k ks)
  from Cons.prems obtain p where p: "loaded fs sc k = Inr p" by auto
  obtain m fs1 where m: "migrate_state_payload k sc PERSISTED_STATE_VERSION fs = (Inr m, fs1)"
      "mig_migrated m = (\<not> enveloped_at fs k)" "loaded fs1 sc k = Inr p" "enveloped_at fs1 k"
      "\<forall>k'. k' \<noteq> k \<longrightarrow> dir_get (docs fs1) k' = dir_get (docs fs) k'"
    using migrate_step [OF p assms(1)] by blast
  have same: "loaded fs1 sc k' = loaded fs sc k'" for k'
    using m(3,5) p by (cases "k' = k") (auto intro: loaded_cong)
  have env1: "enveloped_at fs1 k' = enveloped_at fs k'" if "k' \<noteq> k" for k'
    using m(5) that by (simp add: enveloped_at_def)
  have "\<forall>k'\<in>set ks. \<exists>p. loaded fs1 sc k' = Inr p" and "distinct ks"
    using Cons.prems same by auto
  then obtain ms fs2 where
      ms: "io_map (\<lambda>k. migrate_state_payload k sc PERSISTED_STATE_VERSION) ks fs1 = (Inr ms, fs2)"
      "map mig_migrated ms = map (\<lambda>k. \<not> enveloped_at fs1 k) ks"
      "\<forall>k. loaded fs2 sc k = loaded fs1 sc k" "\<forall>k\<in>set ks. enveloped_at fs2 k"
      "\<forall>k. k \<notin> set ks \<longrightarrow> dir_get (docs fs2) k = dir_get (docs fs1) k"
    using Cons.IH by blast
  have "enveloped_at fs2 k"
    using m(4) ms(5) Cons.prems(1) by (simp add: enveloped_at_def)
  moreover have "map (\<lambda>k. \<not> enveloped_at fs1 k) ks = map (\<lambda>k. \<not> enveloped_at fs k) ks"
    by (intro map_cong refl) (metis Cons.prems(1) distinct.simps(2) env1)
  ultimately show ?case
    using m ms same by (simp add: io_bind_def io_return_def)
qed

lemma length_filter_map_eq: "map f xs = map g ys \<Longrightarrow> length (filter f xs) = length (filter g ys)"
proof (induction xs arbitrary: ys)
  case Nil
  then show ?case by simp
next
  case (Cons x xs)
  then show ?case by (cases ys) auto
qed

text \<open>
  C39: a state payload written by \<open>write_state_payload\<close> is read back unchanged by
  \<open>load_state_payload\<close> under the same schema, and no other file of the directory changes.
\<close>

theorem write_load_roundtrip:
  assumes "schema_name_ok sc" and "version_supported ve"
  shows "\<exists>fs'. write_state_payload path p sc ve fs = (Inr p, fs') \<and>
     load_state_payload path sc fs' = (Inr p, fs') \<and>
     (\<forall>k. k \<noteq> path \<longrightarrow> dir_get (docs fs') k = dir_get (docs fs) k)"
  by (simp add: write_state_payload_ok [OF assms] load_state_payload_eq dir_simps
      unwrap_enveloped [OF assms(2)])

theorem write_load_roundtrip_witness:
  "\<exists>fs'. write_state_payload ''j1'' [(''status'', PStr ''queued'')] ''job.v1'' ''v0.9''
       \<lparr>dir_exists = True, docs = []\<rparr> = (Inr [(''status'', PStr ''queued'')], fs') \<and>
     load_state_payload ''j1'' ''job.v1'' fs' = (Inr [(''status'', PStr ''queued'')], fs') \<and>
     (\<forall>k. k \<noteq> ''j1'' \<longrightarrow> dir_get (docs fs') k = dir_get [] k)"
proof -
  have "schema_name_ok ''job.v1''" and "version_supported ''v0.9''" by code_simp+
  from write_load_roundtrip [OF this, of "''j1''" "[(''status'', PStr ''queued'')]"
      "\<lparr>dir_exists = True, docs = []\<rparr>"]
  show ?thesis by simp
qed

text \<open>
  C38: \<open>migrate_state_directory\<close> on a directory whose files all load succeeds; it counts
  the files it processed and, among them, exactly the legacy ones as migrated; afterwards every
  processed file is in an envelope, every file of the directory loads with the payload it had
  before, and files beyond the limit are untouched.
\<close>

theorem migrate_directory_preserves:
  assumes "schema_name_ok sc" and "dir_ok (docs fs)" and "dir_exists fs"
    and "\<forall>k\<in>set (dir_ids (docs fs)). \<exists>p. loaded fs sc k = Inr p"
    and "normalize_migration_limit limit = Inr lmt"
    and "paths = take_limit lmt (sorted_ids (docs fs))"
  shows "\<exists>rep fs'. migrate_state_directory sc PERSISTED_STATE_VERSION limit incl fs = (Inr rep, fs') \<and>
     rep_processed_count rep = length paths \<and>
     rep_migrated_count rep = length (filter (\<lambda>k. \<not> enveloped_at fs k) paths) \<and>
     rep_migrated_count rep + rep_unchanged_count rep = rep_processed_count rep \<and>
     (\<forall>k. loaded fs' sc k = loaded fs sc k) \<and> (\<forall>k\<in>set paths. enveloped_at fs' k) \<and>
     (\<forall>k. k \<notin> set paths \<longrightarrow> dir_get (docs fs') k = dir_get (docs fs) k)"
proof -
  have sub: "set paths \<subseteq> set (dir_ids (docs fs))"
    using assms(6) by (auto simp: take_limit_def split: option.splits dest: in_set_takeD)
  have "distinct paths"
    using assms(2,6) by (auto simp: take_limit_def distinct_sorted_ids split: option.splits)
  then obtain ms fs' where
      ms: "io_map (\<lambda>k. migrate_state_payload k sc PERSISTED_STATE_VERSION) paths fs = (Inr ms, fs')"
      "map mig_migrated ms = map (\<lambda>k. \<not> enveloped_at fs k) paths"
      "(\<forall>k. loaded fs' sc k = loaded fs sc k) \<and> (\<forall>k\<in>set paths. enveloped_at fs' k) \<and>
       (\<forall>k. k \<notin> set paths \<longrightarrow> dir_get (docs fs') k = dir_get (docs fs) k)"
    using migrate_paths [OF assms(1), of paths fs] sub assms(4) by blast
  have len: "length ms = length paths" using ms(2) by (metis length_map)
  show ?thesis
    using ms assms(3,5,6) len length_filter_map_eq [OF ms(2)]
      sum_length_filter_compl [of mig_migrated ms]
    by (simp add: migrate_state_directory_def io_bind_def io_lift_def io_get_def io_return_def)
qed

theorem migrate_directory_preserves_witness:
  "\<exists>rep fs'. migrate_state_directory ''job.v1'' PERSISTED_STATE_VERSION (PInt 1) False
       \<lparr>dir_exists = True, docs = [(''b'', PDict [(''x'', PInt 2)]), (''a'', PDict [(''x'', PInt 1)])]\<rparr>
       = (Inr rep, fs') \<and> rep_processed_count rep = 1 \<and> rep_migrated_count rep = 1 \<and>
     enveloped_at fs' ''a'' \<and> dir_get (docs fs') ''b'' = Some (PDict [(''x'', PInt 2)])"
proof -
  let ?fs = "\<lparr>dir_exists = True,
      docs = [(''b'', PDict [(''x'', PInt 2)]), (''a'', PDict [(''x'', PInt 1)])]\<rparr>"
  have 1: "schema_name_ok ''job.v1''" by code_simp
  have 2: "dir_ok (docs ?fs)" and 3: "dir_exists ?fs" by (simp_all add: dir_ok_def)
  have 4: "\<forall>k\<in>set (dir_ids (docs ?fs)). \<exists>p. loaded ?fs ''job.v1'' k = Inr p"
    by (simp add: dir_ids_def loaded_Inr dir_get_def unwrap_state_payload_def has_envelope_keys_def
        dict_has_def)
  have 5: "normalize_migration_limit (PInt 1) = Inr (Some 1)"
    by (simp add: normalize_migration_limit_def)
  have 6: "[''a''] = take_limit (Some 1) (sorted_ids (docs ?fs))" by code_simp
  have leg: "\<not> enveloped_at ?fs ''a''"
    by (simp add: enveloped_at_def dir_get_def has_envelope_keys_def dict_has_def)
  have b: "dir_get (docs ?fs) ''b'' = Some (PDict [(''x'', PInt 2)])"
    by (simp add: dir_get_def)
  from migrate_directory_preserves [OF 1 2 3 4 5 6, of False] leg b
  show ?thesis by (auto simp del: select_convs)
qed


lemma parse_current: "parse_state_version (PStr PERSISTED_STATE_VERSION) = Inr (0, 9)"
  by code_simp

text \<open>
  A file written by a newer runtime (its version greater than the current one) is refused
  both by \<open>load_state_payload\<close> and by \<open>migrate_state_payload\<close>, and the refused
  migration leaves every file as it was.
\<close>

theorem newer_state_refused:
  assumes "dir_get (docs fs) path = Some (PDict d)" and "has_envelope_keys d"
    and "dict_get d ''schema'' = PStr sc"
    and "parse_state_version (dict_get d ''version'') = Inr v" and "(0, 9) < v"
  shows "(\<exists>msg. load_state_payload path sc fs = (Inl (ValueError msg), fs)) \<and>
     (\<exists>msg. migrate_state_payload path sc PERSISTED_STATE_VERSION fs = (Inl (ValueError msg), fs))"
proof -
  have "is_supported_state_version (dict_get d ''version'') (PStr PERSISTED_STATE_VERSION) = Inr False"
    using assms(4,5) by (simp add: is_supported_state_version_def parse_current not_le)
  then show ?thesis
    using assms
    by (auto simp: load_state_payload_eq unwrap_state_payload_def migrate_state_payload_def
        io_bind_def io_lift_def io_raise_def inspect_state_payload_eq inspect_value_def
        split: pyval.splits)
qed

theorem newer_state_refused_witness:
  "\<exists>msg. load_state_payload ''j1'' ''job.v1''
       \<lparr>dir_exists = True, docs = [(''j1'', PDict [(''schema'', PStr ''job.v1''),
          (''version'', PStr ''v1.0''), (''payload'', PDict [])])]\<rparr> =
     (Inl (ValueError msg), \<lparr>dir_exists = True, docs = [(''j1'', PDict [(''schema'', PStr ''job.v1''),
          (''version'', PStr ''v1.0''), (''payload'', PDict [])])]\<rparr>)"
proof -
  let ?d = "[(''schema'', PStr ''job.v1''), (''version'', PStr ''v1.0''), (''payload'', PDict [])]"
  have v: "parse_state_version (dict_get ?d ''version'') = Inr (1, 0)" by code_simp
  show ?thesis
    using newer_state_refused
      [of "\<lparr>dir_exists = True, docs = [(''j1'', PDict ?d)]\<rparr>" "''j1''" ?d "''job.v1''" "(1, 0)"] v
    by (simp add: dir_get_def)
qed

end
