(* ===== verification/Approval.thy ===== *)
theory Approval
  imports Runtime_Env Status_Machine State_Files
begin

text \<open>
  src/runtime/approval.py: approval requests, their status table and their history. The state is
  the directory of approval files (\<open>approvals\<close>); a directory that does not exist yet has no
  files, so the \<open>is_dir\<close> test of the listing needs no flag of its own.
\<close>

datatype approval_status = Pending | Approved | Denied | Aborted | Resumed

fun approval_status_name :: "approval_status \<Rightarrow> string" where
  "approval_status_name Pending = ''pending''"
| "approval_status_name Approved = ''approved''"
| "approval_status_name Denied = ''denied''"
| "approval_status_name Aborted = ''aborted''"
| "approval_status_name Resumed = ''resumed''"

fun TRANSITIONS :: "approval_status \<Rightarrow> approval_status list" where
  "TRANSITIONS Pending = [Approved, Denied, Aborted]"
| "TRANSITIONS Approved = [Resumed, Aborted]"
| "TRANSITIONS Resumed = []"
| "TRANSITIONS Denied = []"
| "TRANSITIONS Aborted = []"

text \<open>A history entry records \<open>requested\<close> or a status, with its time and actor.\<close>

datatype approval_mark = Requested | Reached approval_status

record approval_event =
  ae_state :: approval_mark
  ae_timestamp :: stamp
  ae_actor :: string

record approval =
  ap_approval_id :: string
  ap_status :: approval_status
  ap_created_at :: stamp
  ap_updated_at :: stamp
  ap_requested_run_id :: string
  ap_workflow_id :: string
  ap_resumed_run_id :: "string option"
  ap_agent :: string
  ap_policy :: string
  ap_action :: pydict
  ap_reason :: string
  ap_request :: pydict
  ap_history :: "approval_event list"

record approval_world = env +
  approvals :: "approval dir"

definition write_approval :: "approval \<Rightarrow> ('z approval_world_scheme, approval) io" where
  "write_approval a =
     io_then (io_modify (\<lambda>w. w\<lparr>approvals := dir_put (approvals w) (ap_approval_id a) a\<rparr>)) (io_return a)"

definition get_approval :: "string \<Rightarrow> ('z approval_world_scheme, approval) io" where
  "get_approval approval_id =
     io_bind (io_get (\<lambda>w. dir_get (approvals w) approval_id)) (\<lambda>found.
       case found of
         None \<Rightarrow> io_raise (FileNotFoundError (''Approval not found: '' @ approval_id))
       | Some a \<Rightarrow> io_return a)"

definition list_approvals_for_workflow :: "string \<Rightarrow> ('z approval_world_scheme, approval list) io" where
  "list_approvals_for_workflow workflow_id =
     io_get (\<lambda>w. filter (\<lambda>a. ap_workflow_id a = workflow_id)
       (List.map_filter (dir_get (approvals w)) (sorted_ids (approvals w))))"

definition add_history_entry :: "approval \<Rightarrow> approval_status \<Rightarrow> string \<Rightarrow> ('z env_scheme, approval) io" where
  "add_history_entry a state actor =
     io_bind utc_now_iso (\<lambda>timestamp.
       io_return (a\<lparr>ap_history := ap_history a @
         [\<lparr>ae_state = Reached state, ae_timestamp = timestamp, ae_actor = actor\<rparr>]\<rparr>))"

definition create_approval ::
    "string \<Rightarrow> string \<Rightarrow> string \<Rightarrow> string \<Rightarrow> pydict \<Rightarrow> string \<Rightarrow> pydict \<Rightarrow>
     ('z approval_world_scheme, approval) io" where
  "create_approval run_id workflow_id agent policy_name action reason request =
     io_bind utc_now_iso (\<lambda>timestamp.
     io_bind uuid4 (\<lambda>approval_id.
       write_approval
         \<lparr>ap_approval_id = approval_id, ap_status = Pending, ap_created_at = timestamp,
          ap_updated_at = timestamp, ap_requested_run_id = run_id, ap_workflow_id = workflow_id,
          ap_resumed_run_id = None, ap_agent = agent, ap_policy = policy_name, ap_action = action,
          ap_reason = reason, ap_request = request,
          ap_history =
            [\<lparr>ae_state = Requested, ae_timestamp = timestamp, ae_actor = ''system''\<rparr>,
             \<lparr>ae_state = Reached Pending, ae_timestamp = timestamp, ae_actor = ''system''\<rparr>]\<rparr>))"

definition update_approval_status ::
    "string \<Rightarrow> approval_status \<Rightarrow> string \<Rightarrow> ('z approval_world_scheme, approval) io" where
  "update_approval_status approval_id status actor =
     io_bind (get_approval approval_id) (\<lambda>a.
       if status \<notin> set (TRANSITIONS (ap_status a))
       then io_raise (ApprovalStateError
         (''Cannot transition approval `'' @ approval_id @ ''` from `''
          @ approval_status_name (ap_status a) @ ''` to `'' @ approval_status_name status @ ''`'')
         approval_id)
       else
         io_bind utc_now_iso (\<lambda>now.
         io_bind (add_history_entry (a\<lparr>ap_status := status, ap_updated_at := now\<rparr>) status actor)
           write_approval))"

definition approve_approval :: "string \<Rightarrow> ('z approval_world_scheme, approval) io" where
  "approve_approval approval_id = update_approval_status approval_id Approved ''operator''"

definition deny_approval :: "string \<Rightarrow> ('z approval_world_scheme, approval) io" where
  "deny_approval approval_id = update_approval_status approval_id Denied ''operator''"

definition abort_approval :: "string \<Rightarrow> ('z approval_world_scheme, approval) io" where
  "abort_approval approval_id = update_approval_status approval_id Aborted ''operator''"

definition mark_approval_resumed :: "string \<Rightarrow> string \<Rightarrow> ('z approval_world_scheme, approval) io" where
  "mark_approval_resumed approval_id resumed_run_id =
     io_bind (update_approval_status approval_id Resumed ''system'') (\<lambda>a.
     io_bind utc_now_iso (\<lambda>now.
       write_approval (a\<lparr>ap_resumed_run_id := Some resumed_run_id, ap_updated_at := now\<rparr>)))"

definition approval_matches_request ::
    "approval \<Rightarrow> string \<Rightarrow> string \<Rightarrow> string option \<Rightarrow> pyval \<Rightarrow> bool" where
  "approval_matches_request a user_input agent_name tool_name tool_args =
     py_eq (PDict (ap_request a))
       (PDict [(''input'', PStr user_input), (''agent'', PStr agent_name),
               (''tool'', opt_str tool_name), (''tool_args'', tool_args)])"

record approval_view =
  av_approval_id :: string
  av_status :: approval_status
  av_agent :: string
  av_policy :: string
  av_action :: pydict
  av_reason :: string
  av_requested_run_id :: string
  av_workflow_id :: string
  av_resumed_run_id :: "string option"
  av_created_at :: stamp
  av_updated_at :: stamp

definition approval_summary :: "approval \<Rightarrow> approval_view" where
  "approval_summary a =
     \<lparr>av_approval_id = ap_approval_id a, av_status = ap_status a, av_agent = ap_agent a,
      av_policy = ap_policy a, av_action = ap_action a, av_reason = ap_reason a,
      av_requested_run_id = ap_requested_run_id a, av_workflow_id = ap_workflow_id a,
      av_resumed_run_id = ap_resumed_run_id a, av_created_at = ap_created_at a,
      av_updated_at = ap_updated_at a\<rparr>"

section \<open>The status table\<close>

fun approval_rank :: "approval_status \<Rightarrow> nat" where
  "approval_rank Pending = 2"
| "approval_rank Approved = 1"
| "approval_rank _ = 0"

definition approval_terminal :: "approval_status \<Rightarrow> bool" where
  "approval_terminal s \<longleftrightarrow> s \<in> {Resumed, Denied, Aborted}"

interpretation approval_machine: ranked_machine TRANSITIONS approval_terminal approval_rank
proof
  fix s t
  show "approval_terminal s \<longleftrightarrow> TRANSITIONS s = []"
    by (cases s) (auto simp: approval_terminal_def)
  show "t \<in> set (TRANSITIONS s) \<Longrightarrow> approval_rank t < approval_rank s"
    by (cases s) auto
qed


section \<open>Invariant\<close>

definition approval_path :: "approval \<Rightarrow> approval_status list" where
  "approval_path a =
     List.map_filter (\<lambda>e. case ae_state e of Reached s \<Rightarrow> Some s | Requested \<Rightarrow> None) (ap_history a)"

definition approval_wf :: "approval \<Rightarrow> bool" where
  "approval_wf a \<longleftrightarrow>
     map ae_state (ap_history a) = Requested # map Reached (approval_path a) \<and>
     approval_path a \<noteq> [] \<and> hd (approval_path a) = Pending \<and>
     last (approval_path a) = ap_status a \<and> legal TRANSITIONS (approval_path a) \<and>
     (ap_resumed_run_id a \<noteq> None \<longrightarrow> ap_status a = Resumed)"

definition approvals_inv :: "'z approval_world_scheme \<Rightarrow> bool" where
  "approvals_inv w \<longleftrightarrow> dir_ok (approvals w) \<and>
     (\<forall>k a. dir_get (approvals w) k = Some a \<longrightarrow> ap_approval_id a = k \<and> approval_wf a)"

lemma approval_path_append:
  "approval_path (a\<lparr>ap_history := h @ [\<lparr>ae_state = Reached s, ae_timestamp = t, ae_actor = x\<rparr>]\<rparr>) =
   approval_path (a\<lparr>ap_history := h\<rparr>) @ [s]"
  by (simp add: approval_path_def List.map_filter_def)

lemma approval_path_cong: "ap_history b = ap_history a \<Longrightarrow> approval_path b = approval_path a"
  by (simp add: approval_path_def)

text \<open>One accepted transition extends the path by the new status.\<close>

definition advance :: "approval \<Rightarrow> approval_status \<Rightarrow> string \<Rightarrow> stamp \<Rightarrow> stamp \<Rightarrow> approval" where
  "advance a status actor t1 t2 =
     a\<lparr>ap_status := status, ap_updated_at := t1,
       ap_history := ap_history a @ [\<lparr>ae_state = Reached status, ae_timestamp = t2, ae_actor = actor\<rparr>]\<rparr>"

lemma approval_path_advance [simp]: "approval_path (advance a st actor t1 t2) = approval_path a @ [st]"
  by (simp add: advance_def approval_path_def List.map_filter_def)

lemma advance_simps [simp]:
  "ap_status (advance a st actor t1 t2) = st"
  "ap_approval_id (advance a st actor t1 t2) = ap_approval_id a"
  "ap_resumed_run_id (advance a st actor t1 t2) = ap_resumed_run_id a"
  "ap_requested_run_id (advance a st actor t1 t2) = ap_requested_run_id a"
  "ap_request (advance a st actor t1 t2) = ap_request a"
  "ap_action (advance a st actor t1 t2) = ap_action a"
  by (simp_all add: advance_def)

lemma approval_wf_advance:
  assumes "approval_wf a" and "st \<in> set (TRANSITIONS (ap_status a))"
  shows "approval_wf (advance a st actor t1 t2)"
proof -
  have "map ae_state (ap_history (advance a st actor t1 t2)) =
      Requested # map Reached (approval_path (advance a st actor t1 t2))"
    using assms(1) by (simp add: approval_wf_def) (simp add: advance_def)
  moreover have "ap_resumed_run_id a = None"
    using assms by (auto simp: approval_wf_def)
  ultimately show ?thesis
    using assms by (auto simp: approval_wf_def legal_append_one)
qed

lemma wp_update_approval_status:
  "wp (update_approval_status k st actor) Q E w =
     (case dir_get (approvals w) k of
        None \<Rightarrow> E (FileNotFoundError (''Approval not found: '' @ k)) w
      | Some a \<Rightarrow>
          if st \<notin> set (TRANSITIONS (ap_status a))
          then E (ApprovalStateError
            (''Cannot transition approval `'' @ k @ ''` from `'' @ approval_status_name (ap_status a)
             @ ''` to `'' @ approval_status_name st @ ''`'') k) w
          else (let a' = advance a st actor (utc_stamp (clk w (ticks w))) (utc_stamp (clk w (Suc (ticks w))))
                in Q a' (w\<lparr>ticks := ticks w + 2, approvals := dir_put (approvals w) (ap_approval_id a) a'\<rparr>)))"
  by (auto simp: update_approval_status_def get_approval_def add_history_entry_def write_approval_def
      wp advance_def Let_def split: option.splits)

lemma approvals_inv_put:
  assumes "approvals_inv w" and "approval_wf a"
    and "approvals w' = dir_put (approvals w) (ap_approval_id a) a"
  shows "approvals_inv w'"
  using assms by (auto simp: approvals_inv_def dir_simps files.ok_put split: if_splits)

lemma approvals_inv_cong: "approvals w' = approvals w \<Longrightarrow> approvals_inv w' = approvals_inv w"
  by (simp add: approvals_inv_def)

lemma keeps_update_approval_status [keeps_intro]:
  "keeps approvals_inv (update_approval_status k st actor)"
proof -
  have "wp (update_approval_status k st actor) (\<lambda>_. approvals_inv) (\<lambda>_. approvals_inv) w"
    if inv: "approvals_inv w" for w :: "'a approval_world_scheme"
  proof (cases "dir_get (approvals w) k")
    case None
    then show ?thesis by (simp add: wp_update_approval_status inv)
  next
    case (Some a)
    have "approvals_inv (w\<lparr>ticks := n, approvals := dir_put (approvals w) (ap_approval_id a) (advance a st actor t1 t2)\<rparr>)"
      if "st \<in> set (TRANSITIONS (ap_status a))" for n t1 t2
      using Some inv that
      by (intro approvals_inv_put [OF inv, of "advance a st actor t1 t2"] approval_wf_advance)
        (simp_all add: approvals_inv_def)
    with Some inv show ?thesis by (simp add: wp_update_approval_status Let_def)
  qed
  then show ?thesis by (simp add: keeps_wp)
qed

lemma wp_write_approval [wp]:
  "wp (write_approval a) Q E w = Q a (w\<lparr>approvals := dir_put (approvals w) (ap_approval_id a) a\<rparr>)"
  by (simp add: write_approval_def wp)

lemma keeps_write_approval: "approval_wf a \<Longrightarrow> keeps approvals_inv (write_approval a)"
  by (auto simp: keeps_wp wp intro: approvals_inv_put)

lemma keeps_env_approvals [keeps_intro]: "keeps approvals_inv utc_now_iso" "keeps approvals_inv uuid4"
  by (simp_all add: keeps_wp wp approvals_inv_def)

lemma keeps_create_approval [keeps_intro]:
  "keeps approvals_inv (create_approval run_id wid agent pol act reason req)"
  unfolding create_approval_def
  by (intro keeps_intro keeps_write_approval)
    (simp add: approval_wf_def approval_path_def List.map_filter_def)

lemma keeps_mark_approval_resumed [keeps_intro]:
  "keeps approvals_inv (mark_approval_resumed k run)"
proof -
  have upd: "approvals_inv (w\<lparr>ticks := n, approvals := dir_put (approvals w) (ap_approval_id a)
        ((advance a Resumed actor t1 t2)\<lparr>ap_resumed_run_id := Some run, ap_updated_at := t3\<rparr>)\<rparr>)"
    if inv: "approvals_inv w" and a: "dir_get (approvals w) k = Some a"
      and ok: "Resumed \<in> set (TRANSITIONS (ap_status a))"
    for a actor t1 t2 t3 n and w :: "'a approval_world_scheme"
  proof (rule approvals_inv_put [OF inv])
    have "approval_wf (advance a Resumed actor t1 t2)"
      using inv a ok by (intro approval_wf_advance) (simp_all add: approvals_inv_def)
    then show "approval_wf ((advance a Resumed actor t1 t2)\<lparr>ap_resumed_run_id := Some run, ap_updated_at := t3\<rparr>)"
      by (simp add: approval_wf_def approval_path_cong [of _ "advance a Resumed actor t1 t2"])
  qed simp
  have put: "dir_put (dir_put d i x) i y = dir_put d i y" for d :: "approval dir" and i x y
    by (induction d i x rule: dir_put.induct) auto
  have "wp (mark_approval_resumed k run) (\<lambda>_. approvals_inv) (\<lambda>_. approvals_inv) w"
    if inv: "approvals_inv w" for w :: "'a approval_world_scheme"
    using inv upd [OF inv]
    by (cases "dir_get (approvals w) k")
      (simp_all add: mark_approval_resumed_def wp wp_update_approval_status Let_def put)
  then show ?thesis by (simp add: keeps_wp)
qed

section \<open>Sequences of requests\<close>

datatype approval_op =
    Op_create string string string string pydict string pydict
  | Op_approve string
  | Op_deny string
  | Op_abort string
  | Op_resume string string

fun approval_do :: "approval_op \<Rightarrow> ('z approval_world_scheme, approval) io" where
  "approval_do (Op_create r wid ag pol act rsn req) = create_approval r wid ag pol act rsn req"
| "approval_do (Op_approve k) = approve_approval k"
| "approval_do (Op_deny k) = deny_approval k"
| "approval_do (Op_abort k) = abort_approval k"
| "approval_do (Op_resume k r) = mark_approval_resumed k r"

text \<open>Each request runs to its end, whether it succeeds or raises, before the next.\<close>

fun approval_serve :: "approval_op list \<Rightarrow> 'z approval_world_scheme \<Rightarrow> 'z approval_world_scheme" where
  "approval_serve [] w = w"
| "approval_serve (x # xs) w = approval_serve xs (snd (approval_do x w))"

lemma keeps_approval_do: "keeps approvals_inv (approval_do x)"
  by (cases x)
    (simp_all add: approve_approval_def deny_approval_def abort_approval_def keeps_intro)

lemma approval_do_inv: "approvals_inv w \<Longrightarrow> approvals_inv (snd (approval_do x w))"
  by (rule keeps_approval_do [unfolded keeps_def, rule_format])

lemma approval_serve_inv: "approvals_inv w \<Longrightarrow> approvals_inv (approval_serve xs w)"
  by (induction xs arbitrary: w) (auto simp: approval_do_inv)

lemma approvals_inv_empty: "approvals w = [] \<Longrightarrow> approvals_inv w"
  by (simp add: approvals_inv_def dir_ok_def dir_get_def)

text \<open>
  C10: after any sequence of approval requests from an empty directory, every stored approval has
  a legal history: it starts with the request and \<open>pending\<close>, each status is allowed after
  the one before, no status occurs twice, the last one is the stored status, there are at most
  four entries, and an approval carries a resumed run only if it was approved and then resumed.
\<close>

theorem approval_history_legal:
  assumes "approvals w = []" and "dir_get (approvals (approval_serve ops w)) k = Some a"
  shows "approval_wf a \<and> ap_approval_id a = k \<and> distinct (approval_path a) \<and>
    length (ap_history a) \<le> 4 \<and> (ap_status a = Resumed \<longrightarrow> approval_path a = [Pending, Approved, Resumed])"
proof -
  have wf: "approval_wf a" and id: "ap_approval_id a = k"
    using approval_serve_inv [OF approvals_inv_empty [OF assms(1)], of ops] assms(2)
    by (auto simp: approvals_inv_def)
  then obtain ss where path: "approval_path a = Pending # ss"
    by (cases "approval_path a") (auto simp: approval_wf_def)
  have leg: "legal TRANSITIONS (Pending # ss)" using wf path by (simp add: approval_wf_def)
  have "length ss \<le> 2" using approval_machine.legal_length [OF leg] by simp
  moreover have "length (ap_history a) = Suc (Suc (length ss))"
    using wf path by (auto simp: approval_wf_def dest: arg_cong [of _ _ length])
  moreover have "approval_path a = [Pending, Approved, Resumed]" if "ap_status a = Resumed"
  proof -
    have "last (Pending # ss) = Resumed" using wf path that by (simp add: approval_wf_def)
    with leg show ?thesis unfolding path
      by (cases ss rule: list.exhaust; cases "tl ss"; cases "tl (tl ss)") auto
  qed
  ultimately show ?thesis
    using wf id path approval_machine.legal_distinct [OF leg] by simp
qed

theorem approval_history_legal_witness:
  "let w0 = \<lparr>clk = (\<lambda>n. int n), ticks = 0, uuids = (\<lambda>n. ''a''), uuid_n = 0, approvals = []\<rparr>;
       ops = [Op_create ''r1'' ''w1'' ''agent'' ''p'' [] ''why'' [], Op_deny ''zz'', Op_approve ''a'',
              Op_resume ''a'' ''r2'', Op_abort ''a'']
   in (case dir_get (approvals (approval_serve ops w0)) ''a'' of None \<Rightarrow> False
       | Some a \<Rightarrow> approval_wf a \<and> ap_status a = Resumed)"
proof -
  define w0 :: approval_world where
    "w0 = \<lparr>clk = (\<lambda>n. int n), ticks = 0, uuids = (\<lambda>n. ''a''), uuid_n = 0, approvals = []\<rparr>"
  define ops where
    "ops = [Op_create ''r1'' ''w1'' ''agent'' ''p'' [] ''why'' [], Op_deny ''zz'', Op_approve ''a'',
            Op_resume ''a'' ''r2'', Op_abort ''a'']"
  have "(case dir_get (approvals (approval_serve ops w0)) ''a'' of None \<Rightarrow> False
         | Some a \<Rightarrow> ap_status a = Resumed)"
    unfolding ops_def w0_def by code_simp
  then obtain a where a: "dir_get (approvals (approval_serve ops w0)) ''a'' = Some a" "ap_status a = Resumed"
    by (auto split: option.splits)
  have "approval_wf a"
    using approval_history_legal [OF _ a(1)] by (simp add: w0_def)
  with a show ?thesis unfolding Let_def ops_def [symmetric] w0_def [symmetric] by simp
qed

section \<open>Evolution of one approval\<close>

definition approval_evolves :: "approval \<Rightarrow> approval \<Rightarrow> bool" where
  "approval_evolves a b \<longleftrightarrow>
     (\<exists>h. ap_history b = ap_history a @ h) \<and>
     ap_approval_id b = ap_approval_id a \<and> ap_created_at b = ap_created_at a \<and>
     ap_requested_run_id b = ap_requested_run_id a \<and> ap_workflow_id b = ap_workflow_id a \<and>
     ap_agent b = ap_agent a \<and> ap_policy b = ap_policy a \<and> ap_action b = ap_action a \<and>
     ap_reason b = ap_reason a \<and> ap_request b = ap_request a \<and>
     (approval_terminal (ap_status a) \<longrightarrow> b = a)"

lemma approval_evolves_refl: "approval_evolves a a"
  by (simp add: approval_evolves_def)

lemma approval_evolves_step:
  assumes "approval_evolves a b" and "st \<in> set (TRANSITIONS (ap_status b))"
  shows "approval_evolves a (advance b st actor t1 t2)"
    and "approval_evolves a ((advance b st actor t1 t2)\<lparr>ap_resumed_run_id := r, ap_updated_at := t3\<rparr>)"
proof -
  have "\<not> approval_terminal (ap_status b)"
    using assms(2) by (auto simp: approval_machine.terminal_iff)
  then have "\<not> approval_terminal (ap_status a)"
    using assms(1) by (auto simp: approval_evolves_def)
  then show "approval_evolves a (advance b st actor t1 t2)"
    and "approval_evolves a ((advance b st actor t1 t2)\<lparr>ap_resumed_run_id := r, ap_updated_at := t3\<rparr>)"
    using assms(1) by (auto simp: approval_evolves_def advance_def)
qed

text \<open>The identifiers still to be drawn differ from a given one.\<close>

definition never_drawn :: "string \<Rightarrow> 'z env_scheme \<Rightarrow> bool" where
  "never_drawn k w \<longleftrightarrow> (\<forall>n \<ge> uuid_n w. uuids w n \<noteq> k)"

definition approval_from :: "string \<Rightarrow> approval \<Rightarrow> 'z approval_world_scheme \<Rightarrow> bool" where
  "approval_from k a w \<longleftrightarrow> approvals_inv w \<and> never_drawn k w \<and>
     (\<exists>b. dir_get (approvals w) k = Some b \<and> approval_evolves a b)"

lemma keeps_approval_from_update:
  "keeps (approval_from k a :: 'z approval_world_scheme \<Rightarrow> bool) (update_approval_status j st actor)"
  and keeps_approval_from_resumed: "keeps (approval_from k a :: 'z approval_world_scheme \<Rightarrow> bool) (mark_approval_resumed j run)"
proof -
  have step: "\<exists>b'. dir_get (dir_put (approvals w) (ap_approval_id b) c) k = Some b' \<and> approval_evolves a b'"
    if "approval_from k a w" and "dir_get (approvals w) j = Some b"
      and "approval_evolves a b \<longrightarrow> approval_evolves a c"
    for b c and w :: "'z approval_world_scheme"
    using that by (auto simp: approval_from_def approvals_inv_def dir_simps)
  have put: "dir_put (dir_put d i x) i y = dir_put d i y" for d :: "approval dir" and i x y
    by (induction d i x rule: dir_put.induct) auto
  show "keeps (approval_from k a :: 'z approval_world_scheme \<Rightarrow> bool) (update_approval_status j st actor)"
  proof -
    have "wp (update_approval_status j st actor) (\<lambda>_. approval_from k a) (\<lambda>_. approval_from k a) w"
      if from_w: "approval_from k a w" for w :: "'z approval_world_scheme"
    proof (cases "dir_get (approvals w) j")
      case None
      then show ?thesis by (simp add: wp_update_approval_status from_w)
    next
      case (Some b)
      have inv: "wp (update_approval_status j st actor) (\<lambda>_. approvals_inv) (\<lambda>_. approvals_inv) w"
        by (rule keeps_wpD [OF keeps_update_approval_status]) (use from_w in \<open>simp add: approval_from_def\<close>)
      show ?thesis
        using from_w inv Some step [OF from_w Some] approval_evolves_step(1) [of a b st]
        by (auto simp: wp_update_approval_status Let_def approval_from_def never_drawn_def)
    qed
    then show ?thesis by (simp add: keeps_wp)
  qed
  show "keeps (approval_from k a :: 'z approval_world_scheme \<Rightarrow> bool) (mark_approval_resumed j run)"
  proof -
    have "wp (mark_approval_resumed j run) (\<lambda>_. approval_from k a) (\<lambda>_. approval_from k a) w"
      if from_w: "approval_from k a w" for w :: "'z approval_world_scheme"
    proof (cases "dir_get (approvals w) j")
      case None
      then show ?thesis by (simp add: mark_approval_resumed_def wp wp_update_approval_status from_w)
    next
      case (Some b)
      have inv: "wp (mark_approval_resumed j run) (\<lambda>_. approvals_inv) (\<lambda>_. approvals_inv) w"
        by (rule keeps_wpD [OF keeps_mark_approval_resumed]) (use from_w in \<open>simp add: approval_from_def\<close>)
      show ?thesis
        using from_w inv Some step [OF from_w Some] approval_evolves_step(2) [of a b Resumed]
        by (auto simp: mark_approval_resumed_def wp wp_update_approval_status Let_def put
            approval_from_def never_drawn_def)
    qed
    then show ?thesis by (simp add: keeps_wp)
  qed
qed

lemma keeps_approval_from_create:
  "keeps (approval_from k a :: 'z approval_world_scheme \<Rightarrow> bool) (create_approval run_id wid agent pol act reason req)"
proof -
  have "wp (create_approval run_id wid agent pol act reason req)
      (\<lambda>_. approval_from k a) (\<lambda>_. approval_from k a) w"
    if from_w: "approval_from k a w" for w :: "'z approval_world_scheme"
  proof -
    have "wp (create_approval run_id wid agent pol act reason req) (\<lambda>_. approvals_inv) (\<lambda>_. approvals_inv) w"
      by (rule keeps_wpD [OF keeps_create_approval]) (use from_w in \<open>simp add: approval_from_def\<close>)
    then show ?thesis
      using from_w by (auto simp: create_approval_def wp approval_from_def never_drawn_def dir_simps)
  qed
  then show ?thesis by (simp add: keeps_wp)
qed

lemma keeps_approval_from_do: "keeps (approval_from k a) (approval_do x)"
  by (cases x)
    (simp_all add: approve_approval_def deny_approval_def abort_approval_def
      keeps_approval_from_update keeps_approval_from_resumed keeps_approval_from_create)

lemma approval_serve_from: "approval_from k a w \<Longrightarrow> approval_from k a (approval_serve ops w)"
  by (induction ops arbitrary: w)
    (auto intro: keeps_approval_from_do [unfolded keeps_def, rule_format])

text \<open>
  C37: whatever requests are served, a stored approval is never lost, its history is only ever
  appended to, what was requested (the run, the workflow, the agent, the policy, the action, the
  reason and the request) never changes, and a denied, aborted or resumed approval does not
  change at all. The identifiers drawn for later approvals are assumed to differ from its own.
\<close>

theorem approval_append_only:
  assumes "approvals_inv w" and "dir_get (approvals w) k = Some a" and "never_drawn k w"
  shows "\<exists>b. dir_get (approvals (approval_serve ops w)) k = Some b \<and> approval_evolves a b"
proof -
  have "approval_from k a w"
    using assms approval_evolves_refl by (auto simp: approval_from_def)
  then show ?thesis using approval_serve_from by (fastforce simp: approval_from_def)
qed

theorem approval_append_only_witness:
  "let a = \<lparr>ap_approval_id = ''a'', ap_status = Denied, ap_created_at = utc_stamp 1,
            ap_updated_at = utc_stamp 2, ap_requested_run_id = ''r'', ap_workflow_id = ''w'',
            ap_resumed_run_id = None, ap_agent = ''g'', ap_policy = ''p'', ap_action = [],
            ap_reason = '''', ap_request = [],
            ap_history = [\<lparr>ae_state = Requested, ae_timestamp = utc_stamp 1, ae_actor = ''system''\<rparr>,
              \<lparr>ae_state = Reached Pending, ae_timestamp = utc_stamp 1, ae_actor = ''system''\<rparr>,
              \<lparr>ae_state = Reached Denied, ae_timestamp = utc_stamp 2, ae_actor = ''operator''\<rparr>]\<rparr>;
       w0 = \<lparr>clk = (\<lambda>n. int n), ticks = 3, uuids = (\<lambda>n. ''b''), uuid_n = 1, approvals = [(''a'', a)]\<rparr>
   in dir_get (approvals (approval_serve [Op_approve ''a'', Op_resume ''a'' ''r''] w0)) ''a'' = Some a"
proof -
  define a where
    "a = \<lparr>ap_approval_id = ''a'', ap_status = Denied, ap_created_at = utc_stamp 1,
            ap_updated_at = utc_stamp 2, ap_requested_run_id = ''r'', ap_workflow_id = ''w'',
            ap_resumed_run_id = None, ap_agent = ''g'', ap_policy = ''p'', ap_action = [],
            ap_reason = '''', ap_request = [],
            ap_history = [\<lparr>ae_state = Requested, ae_timestamp = utc_stamp 1, ae_actor = ''system''\<rparr>,
              \<lparr>ae_state = Reached Pending, ae_timestamp = utc_stamp 1, ae_actor = ''system''\<rparr>,
              \<lparr>ae_state = Reached Denied, ae_timestamp = utc_stamp 2, ae_actor = ''operator''\<rparr>]\<rparr>"
  define w0 :: approval_world where
    "w0 = \<lparr>clk = (\<lambda>n. int n), ticks = 3, uuids = (\<lambda>n. ''b''), uuid_n = 1, approvals = [(''a'', a)]\<rparr>"
  have "approvals_inv w0"
    by (auto simp: approvals_inv_def w0_def dir_ok_def dir_get_def a_def approval_wf_def
        approval_path_def List.map_filter_def)
  moreover have "dir_get (approvals w0) ''a'' = Some a" by (simp add: w0_def dir_get_def)
  moreover have "never_drawn ''a'' w0" by (simp add: never_drawn_def w0_def)
  ultimately obtain b where
    "dir_get (approvals (approval_serve [Op_approve ''a'', Op_resume ''a'' ''r''] w0)) ''a'' = Some b"
    and "approval_evolves a b"
    using approval_append_only [of w0 "''a''" a "[Op_approve ''a'', Op_resume ''a'' ''r'']"] by blast
  moreover from this have "b = a" by (auto simp: approval_evolves_def a_def approval_terminal_def)
  ultimately show ?thesis unfolding Let_def a_def [symmetric] w0_def [symmetric] by simp
qed

end
