(* ===== verification/Py_Text.thy ===== *)
theory Py_Text
  imports Runtime_Env
begin

text \<open>
  Operations of Python on strings that several modules use: search of a substring, slices from the
  start, the words of a regular expression over word characters, \<open>str\<close> of a timestamp
  (\<open>isoformat\<close>), and sorted sets of strings.
\<close>

section \<open>Substrings and slices\<close>

definition py_startswith :: "string \<Rightarrow> string \<Rightarrow> bool" where
  "py_startswith s needle \<longleftrightarrow> take (length needle) s = needle"

text \<open>\<open>s.find(needle)\<close>: the first index, or -1.\<close>

fun find_from :: "int \<Rightarrow> string \<Rightarrow> string \<Rightarrow> int" where
  "find_from i needle [] = (if needle = [] then i else - 1)"
| "find_from i needle (c # cs) =
     (if py_startswith (c # cs) needle then i else find_from (i + 1) needle cs)"

definition py_find :: "string \<Rightarrow> string \<Rightarrow> int" where
  "py_find s needle = find_from 0 needle s"

definition py_contains :: "string \<Rightarrow> string \<Rightarrow> bool" where
  "py_contains s needle \<longleftrightarrow> py_find s needle \<ge> 0"

text \<open>\<open>s[:n]\<close>, which counts from the end where \<open>n\<close> is negative.\<close>

definition py_upto :: "'a list \<Rightarrow> int \<Rightarrow> 'a list" where
  "py_upto s n = (if n \<ge> 0 then take (nat n) s else take (length s - nat (- n)) s)"

text \<open>\<open>s[a:b]\<close> for \<open>0 \<le> a\<close> and \<open>0 \<le> b\<close>.\<close>

definition py_slice :: "'a list \<Rightarrow> int \<Rightarrow> int \<Rightarrow> 'a list" where
  "py_slice s a b = drop (nat a) (take (nat b) s)"

definition sorted_set :: "string list \<Rightarrow> string list" where
  "sorted_set ss = sort (remdups ss)"

text \<open>\<open>re.findall("[a-z0-9_]+", s)\<close>\<close>

definition token_char :: "char \<Rightarrow> bool" where
  "token_char c \<longleftrightarrow>
     (let n = (of_char c :: nat) in 97 \<le> n \<and> n \<le> 122 \<or> 48 \<le> n \<and> n \<le> 57 \<or> n = 95)"

fun tokens_of :: "string \<Rightarrow> string \<Rightarrow> string list" where
  "tokens_of token [] = (if token = [] then [] else [token])"
| "tokens_of token (c # cs) =
     (if token_char c then tokens_of (token @ [c]) cs
      else if token = [] then tokens_of [] cs
      else token # tokens_of [] cs)"

section \<open>Timestamps as text\<close>

text \<open>The civil date of a day number (days since 1970-01-01) in the Gregorian calendar.\<close>

definition civil_date :: "int \<Rightarrow> int \<times> int \<times> int" where
  "civil_date days =
     (let z = days + 719468;
          era = z div 146097;
          doe = z mod 146097;
          yoe = (doe - doe div 1460 + doe div 36524 - doe div 146096) div 365;
          doy = doe - (365 * yoe + yoe div 4 - yoe div 100);
          mp = (5 * doy + 2) div 153;
          d = doy - (153 * mp + 2) div 5 + 1;
          m = (if mp < 10 then mp + 3 else mp - 9)
      in (yoe + era * 400 + (if m \<le> 2 then 1 else 0), m, d))"

definition pad_left :: "nat \<Rightarrow> int \<Rightarrow> string" where
  "pad_left width n = (let s = show_int n in replicate (width - length s) (CHR ''0'') @ s)"

definition wall_text :: "int \<Rightarrow> string" where
  "wall_text us =
     (let seconds = us div 1000000;
          micro = us mod 1000000;
          (y, m, d) = civil_date (seconds div 86400);
          s = seconds mod 86400
      in pad_left 4 y @ ''-'' @ pad_left 2 m @ ''-'' @ pad_left 2 d @ ''T'' @
         pad_left 2 (s div 3600) @ '':'' @ pad_left 2 (s div 60 mod 60) @ '':'' @ pad_left 2 (s mod 60) @
         (if micro = 0 then [] else ''.'' @ pad_left 6 micro))"

definition offset_text :: "int \<Rightarrow> string" where
  "offset_text off =
     (let a = \<bar>off\<bar>
      in (if off < 0 then ''-'' else ''+'') @ pad_left 2 (a div 3600) @ '':'' @ pad_left 2 (a div 60 mod 60) @
         (if a mod 60 = 0 then [] else '':'' @ pad_left 2 (a mod 60)))"

definition isoformat :: "stamp \<Rightarrow> string" where
  "isoformat t =
     wall_text (stamp_wall t) @ (case t of Aware us off \<Rightarrow> offset_text off | Naive us \<Rightarrow> [])"

lemma show_nat_digits:
  "n < 10 \<Longrightarrow> show_nat n = [digit_char n]"
  "10 \<le> n \<Longrightarrow> show_nat n = show_nat (n div 10) @ [digit_char (n mod 10)]"
  by (simp_all add: show_nat.simps [of n])

lemma digit_chars:
  "digit_char 0 = CHR ''0''" "digit_char 1 = CHR ''1''" "digit_char 2 = CHR ''2''" "digit_char 3 = CHR ''3''"
  "digit_char 4 = CHR ''4''" "digit_char 5 = CHR ''5''" "digit_char 6 = CHR ''6''" "digit_char 7 = CHR ''7''"
  "digit_char 8 = CHR ''8''" "digit_char 9 = CHR ''9''"
  by code_simp+

lemma civil_leap_day: "civil_date 19782 = (2024, 2, 29)"
  and civil_last_day: "civil_date 2932896 = (9999, 12, 31)"
  and civil_epoch: "civil_date 0 = (1970, 1, 1)"
  by code_simp+

lemma isoformat_leap_day: "isoformat (utc_stamp 1709251199500000) = ''2024-02-29T23:59:59.500000+00:00''"
proof -
  have "pad_left 4 2024 = ''2024''" "pad_left 2 2 = ''02''" "pad_left 2 29 = ''29''" "pad_left 2 23 = ''23''"
    "pad_left 2 59 = ''59''" "pad_left 6 500000 = ''500000''" "pad_left 2 0 = ''00''"
    by (simp_all add: pad_left_def show_int_def show_nat_digits digit_chars)
  then show ?thesis
    by (simp add: isoformat_def utc_stamp_def stamp_wall_def wall_text_def offset_text_def civil_leap_day Let_def)
qed

section \<open>Lemmas\<close>

lemma length_py_upto: "n \<ge> 0 \<Longrightarrow> length (py_upto s n) = min (nat n) (length s)"
  by (simp add: py_upto_def)

lemma length_py_strip: "length (py_strip s) \<le> length s"
proof -
  have "length (py_rstrip t) \<le> length t" for t
    unfolding py_rstrip_def by (metis length_dropWhile_le length_rev)
  from order_trans [OF this length_dropWhile_le] show ?thesis
    by (simp add: py_strip_def py_lstrip_def)
qed

lemma length_py_rstrip: "length (py_rstrip s) \<le> length s"
  unfolding py_rstrip_def by (metis length_dropWhile_le length_rev)

lemma tokens_of_ne: "t \<in> set (tokens_of token s) \<Longrightarrow> t \<noteq> []"
  by (induction token s rule: tokens_of.induct) (auto split: if_splits)

lemma set_sorted_set [simp]: "set (sorted_set ss) = set ss"
  by (simp add: sorted_set_def)

lemma find_from_found:
  "find_from i needle s \<ge> 0 \<Longrightarrow> i \<ge> 0 \<Longrightarrow> \<exists>pre post. s = pre @ needle @ post"
proof (induction i needle s rule: find_from.induct)
  case (1 i needle)
  then show ?case by (auto split: if_splits)
next
  case (2 i needle c cs)
  show ?case
  proof (cases "py_startswith (c # cs) needle")
    case True
    then have "c # cs = needle @ drop (length needle) (c # cs)"
      unfolding py_startswith_def by (metis append_take_drop_id)
    then show ?thesis by (metis append_Nil)
  next
    case False
    with 2 obtain pre post where "cs = pre @ needle @ post" by auto
    then show ?thesis by (metis append_Cons)
  qed
qed

lemma find_from_there: "i \<ge> 0 \<Longrightarrow> find_from i needle (pre @ needle @ post) \<ge> 0"
proof (induction pre arbitrary: i)
  case Nil
  show ?case
  proof (cases "needle @ post")
    case (Cons c cs)
    moreover have "take (length needle) (c # cs) = needle" by (simp flip: Cons)
    ultimately show ?thesis using Nil by (simp add: py_startswith_def)
  qed (use Nil in simp)
next
  case (Cons c pre)
  then show ?case by auto
qed

text \<open>\<open>needle in s\<close> is the search for a factor.\<close>

lemma py_contains_iff: "py_contains s needle \<longleftrightarrow> (\<exists>pre post. s = pre @ needle @ post)"
  unfolding py_contains_def py_find_def
  using find_from_found [of 0 needle s] find_from_there [of 0 needle] by auto

end
