(* ===== verification/Memory.thy ===== *)
theory Memory
  imports Approval Py_Text
begin

text \<open>
  src/runtime/memory.py: typed memory records with a scope, their validation, storage and search.
  The state is the directory of memory files. A stored memory is a record; its payload and its
  metadata stay JSON objects. The functions that build a summary of a memory produce the JSON
  object, with timestamps as text.
\<close>

section \<open>Data\<close>

datatype memory_type = Fact | Summary | Observation | Artifact_ref

datatype scope_kind = Scope_global | Scope_agent | Scope_workflow | Scope_run

fun memory_type_name :: "memory_type \<Rightarrow> string" where
  "memory_type_name Fact = ''fact''"
| "memory_type_name Summary = ''summary''"
| "memory_type_name Observation = ''observation''"
| "memory_type_name Artifact_ref = ''artifact_ref''"

fun scope_kind_name :: "scope_kind \<Rightarrow> string" where
  "scope_kind_name Scope_global = ''global''"
| "scope_kind_name Scope_agent = ''agent''"
| "scope_kind_name Scope_workflow = ''workflow''"
| "scope_kind_name Scope_run = ''run''"

definition MEMORY_TYPES :: "memory_type list" where
  "MEMORY_TYPES = [Fact, Summary, Observation, Artifact_ref]"

definition MEMORY_SCOPE_KINDS :: "scope_kind list" where
  "MEMORY_SCOPE_KINDS = [Scope_global, Scope_agent, Scope_workflow, Scope_run]"

text \<open>The required and the optional field of each type of memory.\<close>

fun MEMORY_SCHEMAS :: "memory_type \<Rightarrow> string list \<times> string list" where
  "MEMORY_SCHEMAS Fact = ([''statement''], [''subject''])"
| "MEMORY_SCHEMAS Summary = ([''text''], [''source''])"
| "MEMORY_SCHEMAS Observation = ([''text''], [''source''])"
| "MEMORY_SCHEMAS Artifact_ref = ([''artifact_id''], [''description''])"

record memory =
  mm_memory_id :: string
  mm_memory_type :: memory_type
  mm_scope_kind :: scope_kind
  mm_scope_value :: "string option"
  mm_agent :: "string option"
  mm_workflow_id :: "string option"
  mm_run_id :: "string option"
  mm_payload :: pydict
  mm_tags :: "string list"
  mm_metadata :: pydict
  mm_created_at :: stamp
  mm_updated_at :: stamp

text \<open>The stores of the modules below the agent form one state, each record extending the one before.\<close>

record memory_world = approval_world +
  memories :: "memory dir"

section \<open>Validation\<close>

definition normalize_non_empty_string :: "pyval \<Rightarrow> string \<Rightarrow> string res" where
  "normalize_non_empty_string v field_name =
     (case non_empty_text v of
        Some s \<Rightarrow> Inr s
      | None \<Rightarrow> Inl (ValueError (''Memory `'' @ field_name @ ''` must be a non-empty string'')))"

definition memory_optional_string :: "pyval \<Rightarrow> string \<Rightarrow> string option res" where
  "memory_optional_string v field_name =
     (if v = PNone then Inr None
      else res_bind (normalize_non_empty_string v field_name) (\<lambda>s. Inr (Some s)))"

definition memory_positive_int :: "pyval \<Rightarrow> string \<Rightarrow> int res" where
  "memory_positive_int v field_name =
     (let bad = Inl (ValueError (''Memory `'' @ field_name @ ''` must be a positive integer''))
      in case py_int v of Some i \<Rightarrow> if i \<le> 0 then bad else Inr i | None \<Rightarrow> bad)"

definition normalize_memory_type :: "string \<Rightarrow> memory_type res" where
  "normalize_memory_type name =
     (case filter (\<lambda>t. memory_type_name t = name) MEMORY_TYPES of
        t # _ \<Rightarrow> Inr t
      | [] \<Rightarrow> Inl (ValueError (''Unknown memory type: '' @ name)))"

definition normalize_scope_kind :: "string \<Rightarrow> scope_kind res" where
  "normalize_scope_kind name =
     (case filter (\<lambda>k. scope_kind_name k = name) MEMORY_SCOPE_KINDS of
        k # _ \<Rightarrow> Inr k
      | [] \<Rightarrow> Inl (ValueError (''Unknown memory scope kind: '' @ name)))"

fun scope_value_for_kind :: "scope_kind \<Rightarrow> pyval \<Rightarrow> pyval \<Rightarrow> pyval \<Rightarrow> string option res" where
  "scope_value_for_kind Scope_global agent workflow_id run_id = Inr None"
| "scope_value_for_kind Scope_agent agent workflow_id run_id =
     res_bind (normalize_non_empty_string agent ''agent'') (\<lambda>s. Inr (Some s))"
| "scope_value_for_kind Scope_workflow agent workflow_id run_id =
     res_bind (normalize_non_empty_string workflow_id ''workflow_id'') (\<lambda>s. Inr (Some s))"
| "scope_value_for_kind Scope_run agent workflow_id run_id =
     res_bind (normalize_non_empty_string run_id ''run_id'') (\<lambda>s. Inr (Some s))"

definition normalize_scope :: "string \<Rightarrow> pyval \<Rightarrow> pyval \<Rightarrow> pyval \<Rightarrow> (scope_kind \<times> string option) res" where
  "normalize_scope scope_kind agent workflow_id run_id =
     res_bind (normalize_scope_kind scope_kind) (\<lambda>kind.
     res_bind (scope_value_for_kind kind agent workflow_id run_id) (\<lambda>v. Inr (kind, v)))"

definition normalize_tags :: "pyval \<Rightarrow> string list res" where
  "normalize_tags tags =
     (case tags of
        PNone \<Rightarrow> Inr []
      | PList raw \<Rightarrow>
          res_bind (res_map (\<lambda>t. normalize_non_empty_string t ''tags[]'') raw) (\<lambda>ts. Inr (dedupe [] ts))
      | _ \<Rightarrow> Inl (ValueError ''Memory `tags` must be a list of strings''))"

definition normalize_metadata :: "pyval \<Rightarrow> pydict res" where
  "normalize_metadata metadata =
     (case metadata of
        PNone \<Rightarrow> Inr []
      | PDict d \<Rightarrow> Inr d
      | _ \<Rightarrow> Inl (ValueError ''Memory `metadata` must be an object''))"

definition normalize_field :: "pydict \<Rightarrow> string \<Rightarrow> (string \<times> pyval) res" where
  "normalize_field payload field =
     res_bind (normalize_non_empty_string (dict_get payload field) (''payload.'' @ field))
       (\<lambda>s. Inr (field, PStr s))"

definition normalize_payload :: "memory_type \<Rightarrow> pyval \<Rightarrow> pydict res" where
  "normalize_payload t v =
     (case v of
        PDict payload \<Rightarrow>
          let (required, optional) = MEMORY_SCHEMAS t;
              missing = filter (\<lambda>f. \<not> dict_has payload f) (sorted_set required);
              unknown = sorted_set (filter (\<lambda>f. f \<notin> set (required @ optional)) (map fst payload))
          in if missing \<noteq> [] then
               Inl (ValueError (''Memory `'' @ memory_type_name t @ ''` payload is missing required fields: ''
                 @ py_join '', '' missing))
             else if unknown \<noteq> [] then
               Inl (ValueError (''Memory `'' @ memory_type_name t @ ''` payload has unknown fields: ''
                 @ py_join '', '' unknown))
             else
               res_bind (res_map (normalize_field payload) (sorted_set required)) (\<lambda>rs.
               res_bind (res_map (normalize_field payload)
                          (filter (\<lambda>f. dict_get payload f \<noteq> PNone) (sorted_set optional))) (\<lambda>os.
                 Inr (rs @ os)))
      | _ \<Rightarrow> Inl (ValueError ''Memory `payload` must be an object''))"

section \<open>Text of a memory\<close>

fun ordered_fields :: "memory_type \<Rightarrow> string list" where
  "ordered_fields Fact = [''statement'', ''subject'']"
| "ordered_fields Summary = [''text'', ''source'']"
| "ordered_fields Observation = [''text'', ''source'']"
| "ordered_fields Artifact_ref = [''description'', ''artifact_id'']"

definition memory_payload_text :: "memory \<Rightarrow> string" where
  "memory_payload_text m =
     (let payload = mm_payload m;
          fields = ordered_fields (mm_memory_type m);
          values = map (dict_get payload) fields @ map snd (filter (\<lambda>(f, _). f \<notin> set fields) payload)
      in py_join '' | '' (List.map_filter non_empty_text values))"

definition scope_object :: "memory \<Rightarrow> pyval" where
  "scope_object m =
     PDict [(''kind'', PStr (scope_kind_name (mm_scope_kind m))), (''value'', opt_str (mm_scope_value m))]"

definition memory_summary :: "memory \<Rightarrow> pydict" where
  "memory_summary m =
     [(''memory_id'', PStr (mm_memory_id m)),
      (''memory_type'', PStr (memory_type_name (mm_memory_type m))),
      (''scope'', scope_object m),
      (''agent'', opt_str (mm_agent m)),
      (''workflow_id'', opt_str (mm_workflow_id m)),
      (''run_id'', opt_str (mm_run_id m)),
      (''tags'', PList (map PStr (mm_tags m))),
      (''created_at'', PStr (isoformat (mm_created_at m))),
      (''updated_at'', PStr (isoformat (mm_updated_at m))),
      (''metadata'', PDict (mm_metadata m)),
      (''payload_summary'', PStr (memory_payload_text m))] @
     (case non_empty_text (dict_get (mm_payload m) ''artifact_id'') of
        None \<Rightarrow> [] | Some s \<Rightarrow> [(''artifact_id'', PStr s)])"

definition memory_search_text :: "memory \<Rightarrow> string" where
  "memory_search_text m =
     (let parts = [memory_type_name (mm_memory_type m), memory_payload_text m, py_join '' '' (mm_tags m)] @
                  List.map_filter (\<lambda>v. non_empty_text (opt_str v)) [mm_agent m, mm_workflow_id m, mm_run_id m]
      in py_strip (py_join '' '' (filter (\<lambda>p. p \<noteq> []) parts)))"

section \<open>Search\<close>

definition query_tokens :: "string \<Rightarrow> string list" where
  "query_tokens query = tokens_of [] (py_lower query)"

definition memory_match_score :: "memory \<Rightarrow> string \<Rightarrow> string list \<Rightarrow> rat \<times> string list" where
  "memory_match_score m query tokens =
     (let haystack = py_lower (memory_search_text m);
          matched = sorted_set (filter (py_contains haystack) tokens);
          payload_text = py_lower (memory_payload_text m)
      in if matched = [] then (0, [])
         else (of_nat (length matched)
               + (if py_contains haystack (py_lower query) then 2 else 0)
               + (if payload_text \<noteq> [] \<and> py_contains payload_text (py_lower query) then 1 else 0),
               matched))"

definition summarize_text :: "string \<Rightarrow> string \<Rightarrow> int \<Rightarrow> string" where
  "summarize_text text query max_chars =
     (if max_chars \<le> 3 then py_upto text max_chars
      else if int (length text) \<le> max_chars then text
      else
        let index = py_find (py_lower text) (py_lower query)
        in if index < 0 then py_rstrip (py_upto text (max_chars - 3)) @ ''...''
           else
             let first = max (index - max_chars div 3) 0;
                 over = first + max_chars > int (length text);
                 finish = (if over then int (length text) else first + max_chars);
                 start = (if over then max (finish - max_chars) 0 else first);
                 middle = py_strip (py_slice text start finish);
                 snippet = (if start > 0 then ''...'' else []) @ middle @
                           (if finish < int (length text) then ''...'' else [])
             in if int (length snippet) > max_chars
                then py_rstrip (py_upto snippet (max_chars - 3)) @ ''...''
                else snippet)"

record memory_hit =
  mh_memory_id :: string
  mh_memory_type :: memory_type
  mh_scope :: pyval
  mh_agent :: "string option"
  mh_workflow_id :: "string option"
  mh_run_id :: "string option"
  mh_tags :: "string list"
  mh_created_at :: stamp
  mh_score :: rat
  mh_matched_terms :: "string list"
  mh_summary :: string

definition memory_source_summary :: "memory \<Rightarrow> string \<Rightarrow> string list \<Rightarrow> rat \<Rightarrow> int \<Rightarrow> memory_hit" where
  "memory_source_summary m query matched_terms score max_summary_chars =
     \<lparr>mh_memory_id = mm_memory_id m, mh_memory_type = mm_memory_type m, mh_scope = scope_object m,
      mh_agent = mm_agent m, mh_workflow_id = mm_workflow_id m, mh_run_id = mm_run_id m,
      mh_tags = mm_tags m, mh_created_at = mm_created_at m, mh_score = score,
      mh_matched_terms = matched_terms,
      mh_summary = summarize_text (memory_payload_text m) query max_summary_chars\<rparr>"

section \<open>Storage\<close>

definition write_memory :: "memory \<Rightarrow> ('z memory_world_scheme, memory) io" where
  "write_memory m =
     io_then (io_modify (\<lambda>w. w\<lparr>memories := dir_put (memories w) (mm_memory_id m) m\<rparr>)) (io_return m)"

record memory_request =
  mr_memory_type :: string
  mr_payload :: pyval
  mr_scope_kind :: string
  mr_agent :: pyval
  mr_workflow_id :: pyval
  mr_run_id :: pyval
  mr_tags :: pyval
  mr_metadata :: pyval

definition check_memory :: "memory_request \<Rightarrow> stamp \<Rightarrow> string \<Rightarrow> memory res" where
  "check_memory r timestamp memory_id =
     res_bind (normalize_memory_type (mr_memory_type r)) (\<lambda>t.
     res_bind (normalize_scope (mr_scope_kind r) (mr_agent r) (mr_workflow_id r) (mr_run_id r)) (\<lambda>(kind, v).
     res_bind (memory_optional_string (mr_agent r) ''agent'') (\<lambda>agent.
     res_bind (memory_optional_string (mr_workflow_id r) ''workflow_id'') (\<lambda>workflow_id.
     res_bind (memory_optional_string (mr_run_id r) ''run_id'') (\<lambda>run_id.
     res_bind (normalize_payload t (mr_payload r)) (\<lambda>payload.
     res_bind (normalize_tags (mr_tags r)) (\<lambda>tags.
     res_bind (normalize_metadata (mr_metadata r)) (\<lambda>metadata.
       Inr \<lparr>mm_memory_id = memory_id, mm_memory_type = t, mm_scope_kind = kind, mm_scope_value = v,
            mm_agent = agent, mm_workflow_id = workflow_id, mm_run_id = run_id, mm_payload = payload,
            mm_tags = tags, mm_metadata = metadata, mm_created_at = timestamp,
            mm_updated_at = timestamp\<rparr>))))))))"

definition create_memory :: "memory_request \<Rightarrow> ('z memory_world_scheme, memory) io" where
  "create_memory r =
     io_bind utc_now_iso (\<lambda>timestamp.
     io_bind uuid4 (\<lambda>memory_id.
     io_bind (io_lift (check_memory r timestamp memory_id)) write_memory))"

definition load_memory :: "string \<Rightarrow> ('z memory_world_scheme, memory) io" where
  "load_memory memory_id =
     io_bind (io_get (\<lambda>w. dir_get (memories w) memory_id)) (\<lambda>found.
       case found of
         None \<Rightarrow> io_raise (FileNotFoundError (''Memory not found: '' @ memory_id))
       | Some m \<Rightarrow> io_return m)"

text \<open>An argument that is \<open>None\<close> keeps the stored value.\<close>

definition check_update :: "memory \<Rightarrow> pyval \<Rightarrow> pyval \<Rightarrow> pyval \<Rightarrow> memory res" where
  "check_update current payload tags metadata =
     res_bind (if payload = PNone then Inr (mm_payload current)
               else normalize_payload (mm_memory_type current) payload) (\<lambda>p.
     res_bind (if tags = PNone then Inr (mm_tags current) else normalize_tags tags) (\<lambda>ts.
     res_bind (if metadata = PNone then Inr (mm_metadata current) else normalize_metadata metadata) (\<lambda>md.
       Inr (current\<lparr>mm_payload := p, mm_tags := ts, mm_metadata := md\<rparr>))))"

definition update_memory ::
    "string \<Rightarrow> pyval \<Rightarrow> pyval \<Rightarrow> pyval \<Rightarrow> ('z memory_world_scheme, memory) io" where
  "update_memory memory_id payload tags metadata =
     io_bind (load_memory memory_id) (\<lambda>current.
     io_bind (io_lift (check_update current payload tags metadata)) (\<lambda>updated.
     io_bind utc_now_iso (\<lambda>now. write_memory (updated\<lparr>mm_updated_at := now\<rparr>))))"

definition delete_memory :: "string \<Rightarrow> ('z memory_world_scheme, memory) io" where
  "delete_memory memory_id =
     io_bind (load_memory memory_id) (\<lambda>m.
     io_then (io_modify (\<lambda>w. w\<lparr>memories := dir_del (memories w) memory_id\<rparr>)) (io_return m))"

section \<open>Listing and querying\<close>

record memory_filter =
  mf_memory_type :: "string option"
  mf_scope_kind :: "string option"
  mf_agent :: pyval
  mf_workflow_id :: pyval
  mf_run_id :: pyval
  mf_tags :: pyval

definition res_and :: "bool res \<Rightarrow> bool res \<Rightarrow> bool res" where
  "res_and a b = res_bind a (\<lambda>x. if x then b else Inr False)"

definition text_matches :: "pyval \<Rightarrow> string \<Rightarrow> string option \<Rightarrow> bool res" where
  "text_matches wanted field_name actual =
     (if wanted = PNone then Inr True
      else res_bind (normalize_non_empty_string wanted field_name) (\<lambda>s. Inr (actual = Some s)))"

definition memory_matches_filters :: "memory_filter \<Rightarrow> memory \<Rightarrow> bool res" where
  "memory_matches_filters f m =
     res_and (case mf_memory_type f of None \<Rightarrow> Inr True
              | Some n \<Rightarrow> res_bind (normalize_memory_type n) (\<lambda>t. Inr (mm_memory_type m = t)))
    (res_and (case mf_scope_kind f of None \<Rightarrow> Inr True
              | Some n \<Rightarrow> res_bind (normalize_scope_kind n) (\<lambda>k. Inr (mm_scope_kind m = k)))
    (res_and (text_matches (mf_agent f) ''agent'' (mm_agent m))
    (res_and (text_matches (mf_workflow_id f) ''workflow_id'' (mm_workflow_id m))
    (res_and (text_matches (mf_run_id f) ''run_id'' (mm_run_id m))
      (if mf_tags f = PNone then Inr True
       else res_bind (normalize_tags (mf_tags f)) (\<lambda>ts. Inr (set ts \<subseteq> set (mm_tags m))))))))"

definition list_memories :: "memory_filter \<Rightarrow> pyval \<Rightarrow> ('z memory_world_scheme, memory list) io" where
  "list_memories f bound =
     io_bind (io_lift (if bound = PNone then Inr 0 else memory_positive_int bound ''limit'')) (\<lambda>n.
     io_bind (io_get (\<lambda>w. List.map_filter (dir_get (memories w)) (sorted_ids (memories w)))) (\<lambda>all.
     io_bind (io_lift (res_filter (memory_matches_filters f) all)) (\<lambda>ms.
       let sorted = sort_key (\<lambda>m. (stamp_key (mm_created_at m), mm_memory_id m)) ms
       in io_return (if bound = PNone then sorted else take (nat n) sorted))))"

record query_limits =
  ql_limit :: int
  ql_max_chars :: int
  ql_max_summary_chars :: int

definition query_candidates :: "string \<Rightarrow> string list \<Rightarrow> memory list \<Rightarrow> (rat \<times> string list \<times> memory) list" where
  "query_candidates query tokens ms =
     sort_key (\<lambda>(score, _, m). (- score, stamp_key (mm_created_at m), mm_memory_id m))
       (filter (\<lambda>(score, _, _). score > 0)
         (map (\<lambda>m. let (score, matched) = memory_match_score m query tokens in (score, matched, m)) ms))"

text \<open>The loop over the candidates: the results so far, the characters used, and whether it was cut short.\<close>

fun collect_results ::
    "query_limits \<Rightarrow> string \<Rightarrow> (rat \<times> string list \<times> memory) list \<Rightarrow> memory_hit list \<Rightarrow> int \<Rightarrow>
     memory_hit list \<times> int \<times> bool" where
  "collect_results ql query [] results used = (results, used, False)"
| "collect_results ql query ((score, matched, m) # cs) results used =
     (if int (length results) \<ge> ql_limit ql then (results, used, True)
      else
        let hit = memory_source_summary m query matched score (ql_max_summary_chars ql);
            chars = int (length (mh_summary hit))
        in if results \<noteq> [] \<and> used + chars > ql_max_chars ql then (results, used, True)
           else
             let kept = (if results = [] \<and> chars > ql_max_chars ql
                         then hit\<lparr>mh_summary := summarize_text (memory_payload_text m) query (ql_max_chars ql)\<rparr>
                         else hit)
             in collect_results ql query cs (results @ [kept]) (used + int (length (mh_summary kept))))"

record query_result =
  qr_query :: string
  qr_filter_tags :: "string list"
  qr_limits :: query_limits
  qr_used_chars :: int
  qr_truncated :: bool
  qr_results :: "memory_hit list"

definition query_memories ::
    "pyval \<Rightarrow> memory_filter \<Rightarrow> pyval \<Rightarrow> pyval \<Rightarrow> pyval \<Rightarrow> ('z memory_world_scheme, query_result) io" where
  "query_memories query f bound max_chars max_summary_chars =
     io_bind (io_lift (normalize_non_empty_string query ''query'')) (\<lambda>q.
     io_bind (io_lift (memory_positive_int bound ''limit'')) (\<lambda>n.
     io_bind (io_lift (memory_positive_int max_chars ''max_chars'')) (\<lambda>chars.
     io_bind (io_lift (memory_positive_int max_summary_chars ''max_summary_chars'')) (\<lambda>summary_chars.
       let tokens = query_tokens q;
           ql = \<lparr>ql_limit = n, ql_max_chars = chars, ql_max_summary_chars = summary_chars\<rparr>
       in if tokens = [] then io_raise (ValueError ''Memory `query` must contain searchable text'')
          else
            io_bind (list_memories f PNone) (\<lambda>ms.
              let (results, used, truncated) = collect_results ql q (query_candidates q tokens ms) [] 0
              in io_bind (io_lift (normalize_tags (mf_tags f))) (\<lambda>tags.
                   io_return \<lparr>qr_query = q, qr_filter_tags = tags, qr_limits = ql,
                     qr_used_chars = used, qr_truncated = truncated, qr_results = results\<rparr>))))))"

end
