(* ===== verification/Memory_Properties.thy ===== *)
theory Memory_Properties
  imports Memory
begin

text \<open>
  Properties of the memory store: what is stored is well formed after any sequence of operations
  and stays the same when it is normalised again; searches respect their limits, return the
  matching memories by rank, and say when they left some out.
\<close>

section \<open>Well-formed memories\<close>

definition trimmed :: "string \<Rightarrow> bool" where
  "trimmed s \<longleftrightarrow> s \<noteq> [] \<and> py_strip s = s"

definition trimmed_opt :: "string option \<Rightarrow> bool" where
  "trimmed_opt v = (case v of None \<Rightarrow> True | Some s \<Rightarrow> trimmed s)"

lemma trimmed_opt_simps [simp]: "trimmed_opt None" "trimmed_opt (Some s) = trimmed s"
  by (simp_all add: trimmed_opt_def)

fun trimmed_value :: "pyval \<Rightarrow> bool" where
  "trimmed_value (PStr s) = trimmed s"
| "trimmed_value v = False"

text \<open>The scope value is the identifier its kind names.\<close>

fun scope_fits :: "memory \<Rightarrow> scope_kind \<Rightarrow> bool" where
  "scope_fits m Scope_global \<longleftrightarrow> mm_scope_value m = None"
| "scope_fits m Scope_agent \<longleftrightarrow> mm_scope_value m = mm_agent m \<and> mm_agent m \<noteq> None"
| "scope_fits m Scope_workflow \<longleftrightarrow> mm_scope_value m = mm_workflow_id m \<and> mm_workflow_id m \<noteq> None"
| "scope_fits m Scope_run \<longleftrightarrow> mm_scope_value m = mm_run_id m \<and> mm_run_id m \<noteq> None"

text \<open>Exactly the required field, at most the optional one, in that order, with trimmed texts.\<close>

definition payload_fits :: "memory_type \<Rightarrow> pydict \<Rightarrow> bool" where
  "payload_fits t payload \<longleftrightarrow>
     (let (required, optional) = MEMORY_SCHEMAS t
      in (map fst payload = required \<or> map fst payload = required @ optional) \<and>
         (\<forall>v \<in> set (map snd payload). trimmed_value v))"

definition memory_wf :: "memory \<Rightarrow> bool" where
  "memory_wf m \<longleftrightarrow> scope_fits m (mm_scope_kind m) \<and> payload_fits (mm_memory_type m) (mm_payload m) \<and>
     trimmed_opt (mm_agent m) \<and> trimmed_opt (mm_workflow_id m) \<and> trimmed_opt (mm_run_id m) \<and>
     distinct (mm_tags m) \<and> (\<forall>t \<in> set (mm_tags m). trimmed t)"

definition memories_inv :: "'z memory_world_scheme \<Rightarrow> bool" where
  "memories_inv w \<longleftrightarrow> dir_ok (memories w) \<and>
     (\<forall>k m. dir_get (memories w) k = Some m \<longrightarrow> mm_memory_id m = k \<and> memory_wf m)"

lemma non_empty_text_trimmed: "non_empty_text v = Some s \<Longrightarrow> trimmed s"
  by (cases v) (auto simp: trimmed_def split: if_splits)

lemma trimmed_non_empty: "trimmed s \<Longrightarrow> non_empty_text (PStr s) = Some s"
  by (simp add: trimmed_def)

lemma normalize_text_Inr [simp]:
  "normalize_non_empty_string v field = Inr s \<longleftrightarrow> non_empty_text v = Some s"
  by (auto simp: normalize_non_empty_string_def split: option.splits)

lemma optional_text_Inr [simp]:
  "memory_optional_string v field = Inr x \<longleftrightarrow>
     (if v = PNone then x = None else \<exists>s. non_empty_text v = Some s \<and> x = Some s)"
  by (auto simp: memory_optional_string_def)

lemma optional_text_trimmed: "memory_optional_string v field = Inr x \<Longrightarrow> trimmed_opt x"
  by (auto dest: non_empty_text_trimmed split: if_splits)

lemma res_map_index:
  "res_map f xs = Inr ys \<longleftrightarrow> length xs = length ys \<and> (\<forall>i < length xs. f (xs ! i) = Inr (ys ! i))"
proof (induction xs arbitrary: ys)
  case (Cons x xs)
  then show ?case by (cases ys) (auto simp: less_Suc_eq_0_disj)
qed auto

lemma res_map_texts:
  "res_map (\<lambda>t. normalize_non_empty_string t field) raw = Inr ts \<Longrightarrow> t \<in> set ts \<Longrightarrow> trimmed t"
  by (auto simp: res_map_index in_set_conv_nth dest: non_empty_text_trimmed)

lemma normalize_tags_fits: "normalize_tags v = Inr ts \<Longrightarrow> distinct ts \<and> (\<forall>t \<in> set ts. trimmed t)"
  unfolding normalize_tags_def
  by (cases v) (auto simp: distinct_dedupe set_dedupe dest: res_map_texts)

lemma normalize_field_Inr:
  "normalize_field payload f = Inr kv \<longleftrightarrow>
     (\<exists>s. non_empty_text (dict_get payload f) = Some s \<and> kv = (f, PStr s))"
  by (auto simp: normalize_field_def)

lemma sorted_set_one [simp]: "sorted_set [] = []" "sorted_set [x] = [x]"
  by (simp_all add: sorted_set_def)

lemma normalize_payload_fits:
  assumes "normalize_payload t v = Inr p"
  shows "payload_fits t p"
proof -
  obtain r q where s: "MEMORY_SCHEMAS t = ([r], [q])" by (cases t) auto
  from assms show ?thesis
    unfolding normalize_payload_def payload_fits_def s
    by (cases v) (auto simp: normalize_field_Inr Let_def dest!: non_empty_text_trimmed split: if_splits)
qed

lemma normalize_payload_again:
  assumes "payload_fits t p"
  shows "normalize_payload t (PDict p) = Inr p"
proof -
  obtain r q where s: "MEMORY_SCHEMAS t = ([r], [q])" and d: "r \<noteq> q" by (cases t) auto
  from assms obtain v vs where p: "p = (r, v) # vs" and v: "trimmed_value v"
    and vs: "vs = [] \<or> (\<exists>u. vs = [(q, u)] \<and> trimmed_value u)"
    unfolding payload_fits_def s by (auto simp: map_eq_Cons_conv)
  from v obtain a where a: "v = PStr a" "non_empty_text (PStr a) = Some a"
    by (cases v) (auto simp: trimmed_non_empty simp del: non_empty_text.simps)
  show ?thesis
  proof (cases "vs = []")
    case True
    then show ?thesis using a d
      by (simp add: p s normalize_payload_def Let_def dict_has_def normalize_field_def
          normalize_non_empty_string_def dict_get_def del: non_empty_text.simps)
  next
    case False
    with vs obtain u where u: "vs = [(q, u)]" "trimmed_value u" by auto
    then obtain b where b: "u = PStr b" "non_empty_text (PStr b) = Some b"
      by (cases u) (auto simp: trimmed_non_empty simp del: non_empty_text.simps)
    show ?thesis using a b d u
      by (simp add: p s normalize_payload_def Let_def dict_has_def normalize_field_def
          normalize_non_empty_string_def dict_get_def del: non_empty_text.simps)
  qed
qed

lemma scope_value_fits:
  assumes "scope_value_for_kind (mm_scope_kind m) a wid rid = Inr (mm_scope_value m)"
    and "memory_optional_string a ''agent'' = Inr (mm_agent m)"
    and "memory_optional_string wid ''workflow_id'' = Inr (mm_workflow_id m)"
    and "memory_optional_string rid ''run_id'' = Inr (mm_run_id m)"
  shows "scope_fits m (mm_scope_kind m)"
  using assms by (cases "mm_scope_kind m") (auto split: if_splits)

lemma check_memory_wf:
  assumes "check_memory r t k = Inr m"
  shows "memory_wf m \<and> mm_memory_id m = k"
proof -
  from assms have "scope_value_for_kind (mm_scope_kind m) (mr_agent r) (mr_workflow_id r) (mr_run_id r)
      = Inr (mm_scope_value m)"
    and agent: "memory_optional_string (mr_agent r) ''agent'' = Inr (mm_agent m)"
    and workflow: "memory_optional_string (mr_workflow_id r) ''workflow_id'' = Inr (mm_workflow_id m)"
    and run: "memory_optional_string (mr_run_id r) ''run_id'' = Inr (mm_run_id m)"
    and payload: "normalize_payload (mm_memory_type m) (mr_payload r) = Inr (mm_payload m)"
    and tags: "normalize_tags (mr_tags r) = Inr (mm_tags m)"
    and k: "mm_memory_id m = k"
    unfolding check_memory_def normalize_scope_def by (auto simp del: optional_text_Inr)
  then have "scope_fits m (mm_scope_kind m)" by (blast intro: scope_value_fits)
  with normalize_payload_fits [OF payload] normalize_tags_fits [OF tags] k show ?thesis
    using optional_text_trimmed [OF agent] optional_text_trimmed [OF workflow] optional_text_trimmed [OF run]
    by (simp add: memory_wf_def)
qed

lemma scope_fits_update [simp]:
  "scope_fits (m\<lparr>mm_payload := x\<rparr>) k = scope_fits m k"
  "scope_fits (m\<lparr>mm_tags := y\<rparr>) k = scope_fits m k"
  "scope_fits (m\<lparr>mm_metadata := z\<rparr>) k = scope_fits m k"
  "scope_fits (m\<lparr>mm_updated_at := u\<rparr>) k = scope_fits m k"
  by (cases k; simp)+

lemma check_update_wf:
  assumes "memory_wf m" and "check_update m p ts md = Inr m'"
  shows "memory_wf (m'\<lparr>mm_updated_at := u\<rparr>) \<and> mm_memory_id m' = mm_memory_id m"
  using assms unfolding check_update_def memory_wf_def
  by (auto dest!: normalize_payload_fits normalize_tags_fits split: if_splits)

section \<open>The store keeps well-formed memories\<close>

datatype memory_op =
    Mem_create memory_request
  | Mem_update string pyval pyval pyval
  | Mem_delete string

fun memory_do :: "memory_op \<Rightarrow> ('z memory_world_scheme, memory) io" where
  "memory_do (Mem_create r) = create_memory r"
| "memory_do (Mem_update k p ts md) = update_memory k p ts md"
| "memory_do (Mem_delete k) = delete_memory k"

fun memory_serve :: "memory_op list \<Rightarrow> 'z memory_world_scheme \<Rightarrow> 'z memory_world_scheme" where
  "memory_serve [] w = w"
| "memory_serve (x # xs) w = memory_serve xs (snd (memory_do x w))"

lemma wp_write_memory [wp]:
  "wp (write_memory m) Q E w = Q m (w\<lparr>memories := dir_put (memories w) (mm_memory_id m) m\<rparr>)"
  by (simp add: write_memory_def wp)

lemma wp_load_memory [wp]:
  "wp (load_memory k) Q E w =
     (case dir_get (memories w) k of
        None \<Rightarrow> E (FileNotFoundError (''Memory not found: '' @ k)) w | Some m \<Rightarrow> Q m w)"
  by (simp add: load_memory_def wp split: option.splits)

lemma memories_inv_put:
  "memories_inv w \<Longrightarrow> memory_wf m \<Longrightarrow> memories w' = dir_put (memories w) (mm_memory_id m) m \<Longrightarrow> memories_inv w'"
  by (auto simp: memories_inv_def dir_simps files.ok_put split: if_splits)

lemma memories_inv_del:
  "memories_inv w \<Longrightarrow> memories w' = dir_del (memories w) k \<Longrightarrow> memories_inv w'"
  by (auto simp: memories_inv_def dir_simps files.ok_del split: if_splits)

lemma keeps_write_memory: "memory_wf m \<Longrightarrow> keeps memories_inv (write_memory m)"
  by (simp add: keeps_wp wp memories_inv_put)

lemma keeps_env_memories [keeps_intro]: "keeps memories_inv utc_now_iso" "keeps memories_inv uuid4"
  by (simp_all add: keeps_wp wp memories_inv_def)

lemma keeps_lifted: "(\<And>x. r = Inr x \<Longrightarrow> keeps I (f x)) \<Longrightarrow> keeps I (io_bind (io_lift r) f)"
  by (cases r) (simp_all add: keeps_wp wp)

lemma keeps_load_memory:
  assumes "\<And>m. memory_wf m \<Longrightarrow> keeps memories_inv (f m)"
  shows "keeps memories_inv (io_bind (load_memory k) f)"
proof -
  have "wp (io_bind (load_memory k) f) (\<lambda>_. memories_inv) (\<lambda>_. memories_inv) w"
    if inv: "memories_inv w" for w :: "'a memory_world_scheme"
  proof (cases "dir_get (memories w) k")
    case (Some m)
    with inv have "memory_wf m" by (simp add: memories_inv_def)
    with assms [OF this] inv Some show ?thesis by (simp add: wp keeps_wp)
  qed (simp add: wp inv)
  then show ?thesis by (simp add: keeps_wp)
qed

lemma keeps_create_memory: "keeps memories_inv (create_memory r)"
  unfolding create_memory_def
  by (rule keeps_bind [OF keeps_env_memories(1)], rule keeps_bind [OF keeps_env_memories(2)],
      rule keeps_lifted, rule keeps_write_memory, drule check_memory_wf, erule conjunct1)

lemma keeps_update_memory: "keeps memories_inv (update_memory k p ts md)"
  unfolding update_memory_def
  by (rule keeps_load_memory, rule keeps_lifted, rule keeps_bind [OF keeps_env_memories(1)],
      rule keeps_write_memory, drule (1) check_update_wf, erule conjunct1)

lemma keeps_delete_memory: "keeps memories_inv (delete_memory k)"
  unfolding delete_memory_def
  by (rule keeps_load_memory, rule keeps_then, rule keeps_modify, erule memories_inv_del)
    (simp_all add: keeps_return)

lemma keeps_memory_do: "keeps memories_inv (memory_do x)"
  by (cases x) (simp_all add: keeps_create_memory keeps_update_memory keeps_delete_memory)

lemma memory_serve_inv: "memories_inv w \<Longrightarrow> memories_inv (memory_serve xs w)"
proof (induction xs arbitrary: w)
  case (Cons x xs)
  then show ?case by (simp add: keeps_memory_do [unfolded keeps_def, rule_format])
qed simp

section \<open>Type of the stored memories\<close>

lemma normalize_tags_again:
  assumes "distinct ts" and "\<forall>t \<in> set ts. trimmed t"
  shows "normalize_tags (PList (map PStr ts)) = Inr ts"
proof -
  have "res_map (\<lambda>t. normalize_non_empty_string t ''tags[]'') (map PStr ts) = Inr ts"
    using assms(2) by (induction ts) (simp_all add: trimmed_def)
  then show ?thesis using assms(1) by (simp add: normalize_tags_def dedupe_id)
qed

lemma stored_form:
  assumes "memories w = []" and "dir_get (memories (memory_serve xs w)) k = Some m"
  shows "mm_memory_id m = k" "memory_wf m"
proof -
  have "memories_inv w" using assms(1) by (simp add: memories_inv_def dir_ok_def dir_get_def)
  then have "memories_inv (memory_serve xs w)" by (rule memory_serve_inv)
  with assms(2) show "mm_memory_id m = k" "memory_wf m" by (simp_all add: memories_inv_def)
qed

text \<open>
  C24: whatever is created, updated and deleted, with valid or invalid arguments, every stored memory
  is filed under its own identifier and well formed: its scope value is the agent, workflow or run it
  names and absent for the global scope, its payload has exactly the required field of its type and
  at most the optional one, all texts are trimmed and not empty, and no tag occurs twice.
\<close>

theorem stored_memories_well_formed:
  assumes "memories w = []" and "dir_get (memories (memory_serve xs w)) k = Some m"
  shows "mm_memory_id m = k \<and> memory_wf m"
  using stored_form [OF assms] by simp

definition sample_memory_world :: memory_world where
  "sample_memory_world =
     \<lparr>clk = (\<lambda>n. int n), ticks = 0, uuids = (\<lambda>n. ''m'' @ show_nat n), uuid_n = 0, approvals = [], memories = []\<rparr>"

definition sample_memory_request :: memory_request where
  "sample_memory_request =
     \<lparr>mr_memory_type = ''fact'', mr_payload = PDict [(''statement'', PStr '' The sky is blue '')],
      mr_scope_kind = ''agent'', mr_agent = PStr ''scout'', mr_workflow_id = PNone, mr_run_id = PNone,
      mr_tags = PList [PStr ''sky'', PStr '' sky''], mr_metadata = PNone\<rparr>"

definition sample_memory :: memory where
  "sample_memory =
     \<lparr>mm_memory_id = ''m0'', mm_memory_type = Fact, mm_scope_kind = Scope_agent,
      mm_scope_value = Some ''scout'', mm_agent = Some ''scout'', mm_workflow_id = None, mm_run_id = None,
      mm_payload = [(''statement'', PStr ''The sky is blue'')], mm_tags = [''sky''], mm_metadata = [],
      mm_created_at = utc_stamp 0, mm_updated_at = utc_stamp 0\<rparr>"

lemma sample_memory_stored:
  "dir_get (memories (memory_serve [Mem_create sample_memory_request] sample_memory_world)) ''m0'' = Some sample_memory"
  by code_simp

theorem stored_memories_well_formed_witness:
  "mm_memory_id sample_memory = ''m0'' \<and> memory_wf sample_memory"
  by (rule stored_memories_well_formed [OF _ sample_memory_stored]) (simp add: sample_memory_world_def)

text \<open>
  C26: an update of a stored memory with its own payload, tags and metadata is accepted and changes
  nothing but the time of the update: what was normalised once stays as it is.
\<close>

theorem memory_update_with_itself:
  assumes "memories v = []" and "w = memory_serve xs v" and "dir_get (memories w) k = Some m"
  shows "update_memory k (PDict (mm_payload m)) (PList (map PStr (mm_tags m))) (PDict (mm_metadata m)) w =
     (let m' = m\<lparr>mm_updated_at := utc_stamp (clk w (ticks w))\<rparr>
      in (Inr m', w\<lparr>ticks := Suc (ticks w), memories := dir_put (memories w) k m'\<rparr>))"
proof -
  have wf: "memory_wf m" and k: "mm_memory_id m = k"
    using stored_form [OF assms(1)] assms(2,3) by auto
  have "normalize_tags (PList (map PStr (mm_tags m))) = Inr (mm_tags m)"
    using wf by (intro normalize_tags_again) (simp_all add: memory_wf_def)
  moreover have "normalize_payload (mm_memory_type m) (PDict (mm_payload m)) = Inr (mm_payload m)"
    using wf by (intro normalize_payload_again) (simp add: memory_wf_def)
  ultimately have "check_update m (PDict (mm_payload m)) (PList (map PStr (mm_tags m))) (PDict (mm_metadata m)) = Inr m"
    by (simp add: check_update_def normalize_metadata_def)
  then show ?thesis
    by (simp add: update_memory_def load_memory_def write_memory_def io_bind_def io_get_def io_lift_def
        io_return_def io_then_def io_modify_def utc_now_iso_def utc_now_def assms(3) k Let_def)
qed

lemma sample_memory_time:
  "clk (memory_serve [Mem_create sample_memory_request] sample_memory_world) (Suc 0) = 1"
  "ticks (memory_serve [Mem_create sample_memory_request] sample_memory_world) = Suc 0"
  by code_simp+

theorem memory_update_with_itself_witness:
  "fst (update_memory ''m0'' (PDict [(''statement'', PStr ''The sky is blue'')]) (PList [PStr ''sky'']) (PDict [])
      (memory_serve [Mem_create sample_memory_request] sample_memory_world))
   = Inr (sample_memory\<lparr>mm_updated_at := utc_stamp 1\<rparr>)"
proof -
  have "memories sample_memory_world = []" by (simp add: sample_memory_world_def)
  from memory_update_with_itself [OF this refl sample_memory_stored] show ?thesis
    by (simp add: sample_memory_def sample_memory_time Let_def del: memory_serve.simps)
qed

section \<open>Searching\<close>

lemma length_ending: "n > 3 \<Longrightarrow> int (length (py_rstrip (py_upto t (n - 3)) @ ''...'')) \<le> n"
proof -
  assume n: "n > 3"
  have "length (py_rstrip (py_upto t (n - 3))) \<le> length (py_upto t (n - 3))" by (rule length_py_rstrip)
  also have "\<dots> \<le> nat (n - 3)" using n by (simp add: length_py_upto)
  finally show ?thesis using n by simp
qed

lemma length_summarize_text: "0 < n \<Longrightarrow> int (length (summarize_text t q n)) \<le> n"
  using length_ending [of n t] length_ending [of n]
  by (auto simp: summarize_text_def Let_def length_py_upto)

definition summary_sum :: "memory_hit list \<Rightarrow> int" where
  "summary_sum hs = sum_list (map (\<lambda>h. int (length (mh_summary h))) hs)"

definition limits_ok :: "query_limits \<Rightarrow> bool" where
  "limits_ok ql \<longleftrightarrow> 0 < ql_limit ql \<and> 0 < ql_max_chars ql \<and> 0 < ql_max_summary_chars ql"

definition within_query :: "query_limits \<Rightarrow> memory_hit list \<Rightarrow> int \<Rightarrow> bool" where
  "within_query ql hs used \<longleftrightarrow> int (length hs) \<le> ql_limit ql \<and> used = summary_sum hs \<and>
     used \<le> ql_max_chars ql \<and> (\<forall>h \<in> set hs. int (length (mh_summary h)) \<le> ql_max_summary_chars ql)"

lemma within_query_step:
  assumes "limits_ok ql" and "within_query ql hs used" and "int (length hs) < ql_limit ql"
    and "int (length (mh_summary h)) \<le> ql_max_summary_chars ql"
    and "used + int (length (mh_summary h)) \<le> ql_max_chars ql"
  shows "within_query ql (hs @ [h]) (used + int (length (mh_summary h)))"
  using assms by (auto simp: within_query_def summary_sum_def)

text \<open>One pass of the loop: stop, or keep the hit, the first one cut down to the limit.\<close>

definition stops :: "query_limits \<Rightarrow> memory_hit \<Rightarrow> memory_hit list \<Rightarrow> int \<Rightarrow> bool" where
  "stops ql hit hs used \<longleftrightarrow> int (length hs) \<ge> ql_limit ql \<or>
     hs \<noteq> [] \<and> used + int (length (mh_summary hit)) > ql_max_chars ql"

definition cut_hit :: "query_limits \<Rightarrow> string \<Rightarrow> memory \<Rightarrow> memory_hit \<Rightarrow> memory_hit list \<Rightarrow> memory_hit" where
  "cut_hit ql q m hit hs =
     (if hs = [] \<and> int (length (mh_summary hit)) > ql_max_chars ql
      then hit\<lparr>mh_summary := summarize_text (memory_payload_text m) q (ql_max_chars ql)\<rparr> else hit)"

lemma collect_Cons:
  "collect_results ql q ((score, matched, m) # cs) hs used =
     (let hit = memory_source_summary m q matched score (ql_max_summary_chars ql)
      in if stops ql hit hs used then (hs, used, True)
         else let kept = cut_hit ql q m hit hs
              in collect_results ql q cs (hs @ [kept]) (used + int (length (mh_summary kept))))"
  by (simp add: stops_def cut_hit_def Let_def)

declare collect_results.simps(2) [simp del]

lemma collect_within_limits:
  assumes "limits_ok ql" and "within_query ql hs used" and "collect_results ql q cs hs used = (hs', used', tr)"
  shows "within_query ql hs' used'"
  using assms(2,3)
proof (induction cs arbitrary: hs used)
  case (Cons c cs)
  obtain score matched m where c: "c = (score, matched, m)" by (cases c)
  define hit where "hit = memory_source_summary m q matched score (ql_max_summary_chars ql)"
  define kept where "kept = cut_hit ql q m hit hs"
  have "int (length (mh_summary hit)) \<le> ql_max_summary_chars ql"
    and short: "int (length (summarize_text (memory_payload_text m) q (ql_max_chars ql))) \<le> ql_max_chars ql"
    using assms(1) by (simp_all add: hit_def memory_source_summary_def length_summarize_text limits_ok_def)
  then have len: "int (length (mh_summary kept)) \<le> ql_max_summary_chars ql"
    by (simp add: kept_def cut_hit_def)
  have fits: "used + int (length (mh_summary kept)) \<le> ql_max_chars ql" if "\<not> stops ql hit hs used"
    using that Cons.prems(1) short
    by (auto simp: kept_def cut_hit_def stops_def within_query_def summary_sum_def split: if_splits)
  show ?case
  proof (cases "stops ql hit hs used")
    case True
    then show ?thesis using Cons.prems by (simp add: c collect_Cons flip: hit_def)
  next
    case False
    then have "within_query ql (hs @ [kept]) (used + int (length (mh_summary kept)))"
      using within_query_step [OF assms(1) Cons.prems(1) _ len] fits by (simp add: stops_def)
    then show ?thesis
      using Cons.prems(2) False by (intro Cons.IH) (simp_all add: c collect_Cons Let_def flip: hit_def kept_def)
  qed
qed simp

text \<open>What a result says of the candidate it was made from.\<close>

definition hit_key :: "memory_hit \<Rightarrow> string \<times> rat" where
  "hit_key h = (mh_memory_id h, mh_score h)"

definition candidate_key :: "rat \<times> string list \<times> memory \<Rightarrow> string \<times> rat" where
  "candidate_key c = (case c of (score, _, m) \<Rightarrow> (mm_memory_id m, score))"

lemma collect_prefix:
  assumes "collect_results ql q cs hs used = (hs', used', tr)"
  shows "\<exists>k \<le> length cs. map hit_key hs' = map hit_key hs @ map candidate_key (take k cs) \<and> (tr \<longleftrightarrow> k < length cs)"
  using assms
proof (induction cs arbitrary: hs used)
  case (Cons c cs)
  obtain score matched m where c: "c = (score, matched, m)" by (cases c)
  define hit where "hit = memory_source_summary m q matched score (ql_max_summary_chars ql)"
  define kept where "kept = cut_hit ql q m hit hs"
  have key: "hit_key kept = candidate_key c"
    by (simp add: kept_def hit_def c cut_hit_def hit_key_def candidate_key_def memory_source_summary_def)
  show ?case
  proof (cases "stops ql hit hs used")
    case True
    then show ?thesis
      using Cons.prems by (intro exI [of _ 0]) (simp add: c collect_Cons flip: hit_def)
  next
    case False
    with Cons.prems have "collect_results ql q cs (hs @ [kept]) (used + int (length (mh_summary kept))) = (hs', used', tr)"
      by (simp add: c collect_Cons Let_def flip: hit_def kept_def)
    from Cons.IH [OF this] obtain k where "k \<le> length cs" "tr \<longleftrightarrow> k < length cs"
      "map hit_key hs' = map hit_key (hs @ [kept]) @ map candidate_key (take k cs)" by blast
    then show ?thesis by (intro exI [of _ "Suc k"]) (simp add: key)
  qed
qed simp


lemma reachable_memories: "memories v = [] \<Longrightarrow> memories_inv (memory_serve xs v)"
  by (rule memory_serve_inv) (simp add: memories_inv_def dir_ok_def dir_get_def)

text \<open>The memories in the order of the files, each once.\<close>

definition all_memories :: "memory dir \<Rightarrow> memory list" where
  "all_memories d = List.map_filter (dir_get d) (sorted_ids d)"

lemma set_all_memories: "set (all_memories d) = {m. \<exists>k. dir_get d k = Some m}"
proof -
  have "m \<in> set (all_memories d) \<longleftrightarrow> (\<exists>k \<in> set (dir_ids d). dir_get d k = Some m)" for m
    by (force simp: all_memories_def map_filter_def)
  moreover have "(\<exists>k \<in> set (dir_ids d). dir_get d k = Some m) \<longleftrightarrow> (\<exists>k. dir_get d k = Some m)" for m
    using in_dir_ids [of _ d] by blast
  ultimately show ?thesis by auto
qed

lemma ids_all_memories:
  assumes "memories_inv w"
  shows "map mm_memory_id (all_memories (memories w)) = sorted_ids (memories w)"
proof -
  have "map mm_memory_id (List.map_filter (dir_get (memories w)) ks) = ks" if "set ks \<subseteq> set (sorted_ids (memories w))" for ks
    using that assms by (induction ks) (auto simp: map_filter_def memories_inv_def in_dir_ids)
  then show ?thesis by (simp add: all_memories_def)
qed

lemma distinct_all_memories: "memories_inv w \<Longrightarrow> distinct (map mm_memory_id (all_memories (memories w)))"
  by (simp add: ids_all_memories distinct_sorted_ids) (simp add: memories_inv_def distinct_sorted_ids)

definition list_order :: "memory \<Rightarrow> (int \<times> int) \<times> string" where
  "list_order m = (stamp_key (mm_created_at m), mm_memory_id m)"

lemma list_memories_run:
  "list_memories f PNone w =
     (case res_filter (memory_matches_filters f) (all_memories (memories w)) of
        Inl e \<Rightarrow> (Inl e, w) | Inr ms \<Rightarrow> (Inr (sort_key list_order ms), w))"
  by (simp add: list_memories_def io_bind_def io_lift_def io_get_def io_return_def list_order_def [abs_def]
      flip: all_memories_def split: sum.splits)

lemma query_memories_Inr:
  assumes "fst (query_memories query f (PInt n) (PInt c) (PInt s) w) = Inr r"
  shows "qr_limits r = \<lparr>ql_limit = n, ql_max_chars = c, ql_max_summary_chars = s\<rparr>"
    and "limits_ok (qr_limits r)"
    and "normalize_non_empty_string query ''query'' = Inr (qr_query r)"
    and "\<exists>ms. res_filter (memory_matches_filters f) (all_memories (memories w)) = Inr ms \<and>
       collect_results (qr_limits r) (qr_query r)
         (query_candidates (qr_query r) (query_tokens (qr_query r)) (sort_key list_order ms)) [] 0
       = (qr_results r, qr_used_chars r, qr_truncated r)"
  using assms
  by (auto simp: query_memories_def io_bind_def io_lift_def io_return_def io_raise_def memory_positive_int_def
      list_memories_run Let_def limits_ok_def split: sum.splits if_splits prod.splits)

text \<open>
  C25: a search keeps within its limits. Whatever is stored and asked, the result has at most the
  requested number of memories, no summary is longer than the limit for one summary, and the
  characters used are counted exactly and never exceed the limit for all of them, although the first
  hit is always kept.
\<close>

theorem query_within_limits:
  assumes "fst (query_memories query f (PInt n) (PInt c) (PInt s) w) = Inr r"
  shows "int (length (qr_results r)) \<le> n \<and>
     qr_used_chars r = sum_list (map (\<lambda>h. int (length (mh_summary h))) (qr_results r)) \<and>
     qr_used_chars r \<le> c \<and> (\<forall>h \<in> set (qr_results r). int (length (mh_summary h)) \<le> s)"
proof -
  note q = query_memories_Inr [OF assms]
  obtain cs where "collect_results (qr_limits r) (qr_query r) cs [] 0 = (qr_results r, qr_used_chars r, qr_truncated r)"
    using q(4) by blast
  from collect_within_limits [OF q(2) _ this]
  have "within_query (qr_limits r) (qr_results r) (qr_used_chars r)"
    using q(2) by (simp add: within_query_def summary_sum_def limits_ok_def)
  then show ?thesis by (simp add: q(1) within_query_def summary_sum_def)
qed

definition sample_filter :: memory_filter where
  "sample_filter =
     \<lparr>mf_memory_type = None, mf_scope_kind = None, mf_agent = PStr ''scout'', mf_workflow_id = PNone,
      mf_run_id = PNone, mf_tags = PList [PStr ''sky'']\<rparr>"

definition sample_result :: query_result where
  "sample_result =
     \<lparr>qr_query = ''sky'', qr_filter_tags = [''sky''],
      qr_limits = \<lparr>ql_limit = 5, ql_max_chars = 8, ql_max_summary_chars = 10\<rparr>, qr_used_chars = 7,
      qr_truncated = False,
      qr_results = [\<lparr>mh_memory_id = ''m0'', mh_memory_type = Fact,
        mh_scope = PDict [(''kind'', PStr ''agent''), (''value'', PStr ''scout'')], mh_agent = Some ''scout'',
        mh_workflow_id = None, mh_run_id = None, mh_tags = [''sky''], mh_created_at = utc_stamp 0,
        mh_score = 4, mh_matched_terms = [''sky''], mh_summary = ''...e...''\<rparr>]\<rparr>"

lemma sample_query:
  "fst (query_memories (PStr ''sky'') sample_filter (PInt 5) (PInt 8) (PInt 10)
     (memory_serve [Mem_create sample_memory_request] sample_memory_world)) = Inr sample_result"
  by code_simp

theorem query_within_limits_witness:
  "int (length (qr_results sample_result)) \<le> 5 \<and>
     qr_used_chars sample_result = sum_list (map (\<lambda>h. int (length (mh_summary h))) (qr_results sample_result)) \<and>
     qr_used_chars sample_result \<le> 8 \<and>
     list_all (\<lambda>h. int (length (mh_summary h)) \<le> 10) (qr_results sample_result)"
  using query_within_limits [OF sample_query] by (simp add: list_all_iff)

section \<open>What a search finds\<close>

definition ranked :: "string \<Rightarrow> memory \<Rightarrow> rat" where
  "ranked q m = fst (memory_match_score m q (query_tokens q))"

definition scored :: "string \<Rightarrow> memory \<Rightarrow> rat \<times> string list \<times> memory" where
  "scored q m = (let (score, matched) = memory_match_score m q (query_tokens q) in (score, matched, m))"

lemma scored_parts [simp]: "fst (scored q m) = ranked q m" "snd (snd (scored q m)) = m"
  by (simp_all add: scored_def ranked_def split: prod.splits)

lemma candidates_scored:
  "query_candidates q (query_tokens q) ms =
     sort_key (\<lambda>(score, _, m). (- score, stamp_key (mm_created_at m), mm_memory_id m))
       (map (scored q) (filter (\<lambda>m. ranked q m > 0) ms))"
proof -
  have "filter (\<lambda>(score, _, _). score > 0) (map (scored q) ms) = map (scored q) (filter (\<lambda>m. ranked q m > 0) ms)"
    by (induction ms) (auto simp: scored_def ranked_def split: prod.splits)
  then show ?thesis by (simp add: query_candidates_def scored_def [abs_def])
qed

lemma set_candidates:
  "set (query_candidates q (query_tokens q) ms) = scored q ` {m \<in> set ms. ranked q m > 0}"
  by (simp add: candidates_scored)

lemma sorted_candidates: "sorted_wrt (\<lambda>a b. fst a \<ge> fst b) (query_candidates q (query_tokens q) ms)"
proof -
  have "sorted (map (\<lambda>(score, _, m). (- score, stamp_key (mm_created_at m), mm_memory_id m))
      (query_candidates q (query_tokens q) ms))"
    by (simp add: candidates_scored)
  then show ?thesis
    unfolding sorted_map by (rule sorted_wrt_mono_rel [rotated]) (auto simp: less_eq_prod_def split: prod.splits)
qed

lemma distinct_map_sort: "distinct (map f (sort_key g xs)) \<longleftrightarrow> distinct (map f xs)"
  by (simp add: distinct_map)

lemma distinct_candidates:
  assumes "distinct (map mm_memory_id ms)"
  shows "distinct (map (fst \<circ> candidate_key) (query_candidates q (query_tokens q) ms))"
proof -
  have "map (fst \<circ> candidate_key) (map (scored q) xs) = map mm_memory_id xs" for xs
    by (induction xs) (auto simp: candidate_key_def scored_def split: prod.splits)
  moreover have "distinct (map mm_memory_id (filter (\<lambda>m. ranked q m > 0) ms))"
    using assms by (rule distinct_map_filter)
  ultimately have "distinct (map (fst \<circ> candidate_key) (map (scored q) (filter (\<lambda>m. ranked q m > 0) ms)))"
    by (simp only:)
  then show ?thesis by (simp only: candidates_scored distinct_map_sort)
qed

text \<open>The results are the first candidates, seen through their identifiers and scores.\<close>

definition candidates_of :: "string \<Rightarrow> memory list \<Rightarrow> (rat \<times> string list \<times> memory) list" where
  "candidates_of q ms = query_candidates q (query_tokens q) (sort_key list_order ms)"

lemma filtered_memories:
  assumes "memories_inv w" and "res_filter p (all_memories (memories w)) = Inr ms"
  shows "distinct (map mm_memory_id ms)"
    and "m \<in> set ms \<longleftrightarrow> dir_get (memories w) (mm_memory_id m) = Some m \<and> p m = Inr True"
proof -
  have ms: "ms = filter (\<lambda>m. p m = Inr True) (all_memories (memories w))"
    using assms(2) by (simp add: res_filter_Inr)
  show "distinct (map mm_memory_id ms)"
    unfolding ms by (rule distinct_map_filter) (rule distinct_all_memories [OF assms(1)])
  show "m \<in> set ms \<longleftrightarrow> dir_get (memories w) (mm_memory_id m) = Some m \<and> p m = Inr True"
    using assms(1) by (auto simp: ms set_all_memories memories_inv_def)
qed

lemma candidate_key_scored [simp]: "candidate_key (scored q m) = (mm_memory_id m, ranked q m)"
  by (simp add: candidate_key_def scored_def ranked_def split: prod.splits)

lemma in_candidates:
  assumes "memories_inv w" and "res_filter p (all_memories (memories w)) = Inr ms"
  shows "c \<in> set (candidates_of q ms) \<longleftrightarrow>
     (\<exists>m. c = scored q m \<and> dir_get (memories w) (mm_memory_id m) = Some m \<and> p m = Inr True \<and> ranked q m > 0)"
  using filtered_memories(2) [OF assms] by (auto simp: candidates_of_def set_candidates)

lemma found_ids:
  assumes "memories_inv w" and "res_filter p (all_memories (memories w)) = Inr ms"
    and hs: "map hit_key hs = map candidate_key (take k (candidates_of q ms))"
  shows "distinct (map mh_memory_id hs)"
proof -
  have "map mh_memory_id hs = map fst (map hit_key hs)" by (simp add: hit_key_def comp_def)
  also have "\<dots> = take k (map (fst \<circ> candidate_key) (candidates_of q ms))" unfolding hs by (simp add: take_map)
  finally have "map mh_memory_id hs = take k (map (fst \<circ> candidate_key) (candidates_of q ms))" .
  moreover have "distinct (map mm_memory_id (sort_key list_order ms))"
    using filtered_memories(1) [OF assms(1,2)] by (simp add: distinct_map)
  ultimately show ?thesis
    unfolding candidates_of_def by (metis distinct_candidates distinct_take)
qed

lemma found_sorted:
  assumes hs: "map hit_key hs = map candidate_key (take k (candidates_of q ms))"
  shows "sorted_wrt (\<lambda>a b. mh_score a \<ge> mh_score b) hs"
proof -
  have "sorted_wrt (\<lambda>a b. snd a \<ge> snd b) (map candidate_key (take k (candidates_of q ms)))"
    unfolding sorted_wrt_map candidates_of_def
    by (rule sorted_wrt_mono_rel [OF _ sorted_wrt_take [OF sorted_candidates]])
      (auto simp: candidate_key_def split: prod.splits)
  then show ?thesis unfolding hs [symmetric] by (simp add: sorted_wrt_map hit_key_def)
qed

lemma found_stored:
  assumes "memories_inv w" and "res_filter p (all_memories (memories w)) = Inr ms"
    and hs: "map hit_key hs = map candidate_key (take k (candidates_of q ms))" and "h \<in> set hs"
  shows "\<exists>m. dir_get (memories w) (mh_memory_id h) = Some m \<and> p m = Inr True \<and>
      mh_score h = ranked q m \<and> mh_score h > 0"
proof -
  have "hit_key h \<in> set (map hit_key hs)" using assms(4) by simp
  then obtain c where c: "c \<in> set (candidates_of q ms)" "hit_key h = candidate_key c"
    unfolding hs by (auto dest: in_set_takeD)
  from c(1) obtain m where m: "c = scored q m" "dir_get (memories w) (mm_memory_id m) = Some m"
    "p m = Inr True" "ranked q m > 0"
    using in_candidates [OF assms(1,2)] by blast
  then show ?thesis using c(2) by (intro exI [of _ m]) (simp add: hit_key_def)
qed

lemma found_all:
  assumes "memories_inv w" and "res_filter p (all_memories (memories w)) = Inr ms"
    and hs: "map hit_key hs = map candidate_key (take k (candidates_of q ms))"
    and m: "dir_get (memories w) i = Some m" "p m = Inr True" "ranked q m > 0"
  shows "i \<in> set (map mh_memory_id hs) \<or>
      k < length (candidates_of q ms) \<and> (\<forall>h \<in> set hs. mh_score h \<ge> ranked q m)"
proof -
  let ?cs = "candidates_of q ms"
  have i: "mm_memory_id m = i" using assms(1) m(1) by (simp add: memories_inv_def)
  then have "scored q m \<in> set ?cs" using in_candidates [OF assms(1,2)] m by blast
  then obtain j where j: "j < length ?cs" "?cs ! j = scored q m" by (auto simp: in_set_conv_nth)
  show ?thesis
  proof (cases "j < k")
    case True
    with j have "candidate_key (scored q m) \<in> set (map candidate_key (take k ?cs))"
      by (force simp: in_set_conv_nth)
    then have "(i, ranked q m) \<in> set (map hit_key hs)" by (simp add: hs i)
    then show ?thesis by (auto simp: hit_key_def)
  next
    case False
    have "mh_score h \<ge> ranked q m" if "h \<in> set hs" for h
    proof -
      have "hit_key h \<in> set (map candidate_key (take k ?cs))" unfolding hs [symmetric] using that by simp
      then obtain l where l: "l < k" "l < length ?cs" "hit_key h = candidate_key (?cs ! l)"
        by (auto simp: in_set_conv_nth)
      then have "fst (?cs ! l) \<ge> fst (?cs ! j)"
        using j(1) False
        unfolding candidates_of_def by (intro sorted_wrt_nth_less [OF sorted_candidates, of l j]) auto
      then show ?thesis using l(3) j(2) by (cases "?cs ! l") (simp add: hit_key_def candidate_key_def)
    qed
    then show ?thesis using False j(1) by auto
  qed
qed

text \<open>
  C23: what a search finds. In any store that operations built, a search that returns gives a ranking:
  no memory twice, the better scores first, each of them a stored memory that passes the filters, has
  a positive score and is reported with it. Nothing is lost silently: a stored memory that passes the
  filters with a positive score is among the results, or the result says it is truncated and no
  result has a lower score.
\<close>

theorem query_finds_the_best:
  assumes "memories v = []" and "w = memory_serve xs v"
    and "fst (query_memories query f (PInt n) (PInt c) (PInt s) w) = Inr r"
  shows "distinct (map mh_memory_id (qr_results r)) \<and>
    sorted_wrt (\<lambda>a b. mh_score a \<ge> mh_score b) (qr_results r) \<and>
    (\<forall>h \<in> set (qr_results r). \<exists>m. dir_get (memories w) (mh_memory_id h) = Some m \<and>
       memory_matches_filters f m = Inr True \<and> mh_score h = ranked (qr_query r) m \<and> mh_score h > 0) \<and>
    (\<forall>k m. dir_get (memories w) k = Some m \<and> memory_matches_filters f m = Inr True \<and> ranked (qr_query r) m > 0 \<longrightarrow>
       k \<in> set (map mh_memory_id (qr_results r)) \<or>
       qr_truncated r \<and> (\<forall>h \<in> set (qr_results r). mh_score h \<ge> ranked (qr_query r) m))"
proof -
  have inv: "memories_inv w" using assms(1,2) by (simp add: reachable_memories)
  obtain ms where ms: "res_filter (memory_matches_filters f) (all_memories (memories w)) = Inr ms"
    and run: "collect_results (qr_limits r) (qr_query r) (candidates_of (qr_query r) ms) [] 0
       = (qr_results r, qr_used_chars r, qr_truncated r)"
    using query_memories_Inr(4) [OF assms(3)] unfolding candidates_of_def by blast
  from collect_prefix [OF run] obtain k
    where k: "map hit_key (qr_results r) = map candidate_key (take k (candidates_of (qr_query r) ms))"
      and tr: "qr_truncated r \<longleftrightarrow> k < length (candidates_of (qr_query r) ms)"
    by auto
  show ?thesis
    using found_ids [OF inv ms k] found_sorted [OF k] found_stored [OF inv ms k] found_all [OF inv ms k] tr
    by blast
qed

theorem query_finds_the_best_witness:
  "map mh_memory_id (qr_results sample_result) = [''m0''] \<and>
   ranked ''sky'' sample_memory > 0 \<and> map mh_score (qr_results sample_result) = [ranked ''sky'' sample_memory]"
proof -
  have e: "memories sample_memory_world = []" by (simp add: sample_memory_world_def)
  have "\<forall>h \<in> set (qr_results sample_result).
      \<exists>m. dir_get (memories (memory_serve [Mem_create sample_memory_request] sample_memory_world)) (mh_memory_id h) = Some m \<and>
        memory_matches_filters sample_filter m = Inr True \<and> mh_score h = ranked (qr_query sample_result) m \<and> mh_score h > 0"
    using query_finds_the_best [OF e refl sample_query] by blast
  then show ?thesis
    by (simp add: sample_result_def sample_memory_stored del: memory_serve.simps)
qed

end
