(* ===== verification/Queue.thy ===== *)
theory Queue
  imports State_Files Status_Machine
begin

text \<open>
  src/runtime/queue.py, the data and the basic operations: jobs, their validation, the transition
  history each write appends to, creation with idempotency keys, loading, updating and listing.
  The state is the directory of job files (\<open>jobs\<close>), listed by \<open>glob\<close> in the order of the
  association list. A stored job is a record with one field per key of its file;
  \<open>lease_expired\<close> is stored by \<open>write_job\<close> and recomputed by \<open>job_summary\<close>. Arguments
  that the code checks at run time are values of any type; numbers that passed an
  \<open>isinstance(v, int)\<close> test are integers. The lifecycle operations are in
  \<open>Queue_Lifecycle\<close>.
\<close>

section \<open>Data\<close>

datatype job_type = Workflow_start | Workflow_resume | Workflow_subrun

datatype job_status = Queued | Scheduled | Running | Completed | Failed | Dead_letter | Canceled

fun job_type_name :: "job_type \<Rightarrow> string" where
  "job_type_name Workflow_start = ''workflow_start''"
| "job_type_name Workflow_resume = ''workflow_resume''"
| "job_type_name Workflow_subrun = ''workflow_subrun''"

fun job_status_name :: "job_status \<Rightarrow> string" where
  "job_status_name Queued = ''queued''"
| "job_status_name Scheduled = ''scheduled''"
| "job_status_name Running = ''running''"
| "job_status_name Completed = ''completed''"
| "job_status_name Failed = ''failed''"
| "job_status_name Dead_letter = ''dead_letter''"
| "job_status_name Canceled = ''canceled''"

definition JOB_TYPES :: "job_type list" where
  "JOB_TYPES = [Workflow_start, Workflow_resume, Workflow_subrun]"

text \<open>In the order of their names, as \<open>sorted(JOB_STATUSES)\<close> lists them.\<close>

definition JOB_STATUSES :: "job_status list" where
  "JOB_STATUSES = [Canceled, Completed, Dead_letter, Failed, Queued, Running, Scheduled]"

definition TERMINAL_JOB_STATUSES :: "job_status list" where
  "TERMINAL_JOB_STATUSES = [Completed, Failed, Dead_letter, Canceled]"

definition normalize_job_type :: "string \<Rightarrow> job_type res" where
  "normalize_job_type s =
     (case find (\<lambda>t. job_type_name t = s) JOB_TYPES of
        Some t \<Rightarrow> Inr t | None \<Rightarrow> Inl (ValueError (''Unknown job type: '' @ s)))"

definition normalize_job_status :: "string \<Rightarrow> job_status res" where
  "normalize_job_status s =
     (case find (\<lambda>t. job_status_name t = s) JOB_STATUSES of
        Some t \<Rightarrow> Inr t | None \<Rightarrow> Inl (ValueError (''Unknown job status: '' @ s)))"

definition normalize_priority :: "pyval \<Rightarrow> int res" where
  "normalize_priority v =
     (case py_int v of Some i \<Rightarrow> Inr i | None \<Rightarrow> Inl (ValueError ''Job priority must be an integer''))"

definition normalize_positive_int :: "pyval \<Rightarrow> string \<Rightarrow> int res" where
  "normalize_positive_int v field_name =
     (let bad = Inl (ValueError (''Job `'' @ field_name @ ''` must be a positive integer''))
      in case py_int v of Some i \<Rightarrow> if i \<le> 0 then bad else Inr i | None \<Rightarrow> bad)"

definition normalize_non_negative_int :: "pyval \<Rightarrow> string \<Rightarrow> int res" where
  "normalize_non_negative_int v field_name =
     (let bad = Inl (ValueError (''Job `'' @ field_name @ ''` must be a non-negative integer''))
      in case py_int v of Some i \<Rightarrow> if i < 0 then bad else Inr i | None \<Rightarrow> bad)"

definition normalize_optional_limit :: "pyval \<Rightarrow> string \<Rightarrow> nat option res" where
  "normalize_optional_limit v field_name =
     (let bad = Inl (ValueError (''Queue `'' @ field_name @ ''` must be a positive integer''))
      in if v = PNone then Inr None
         else (case py_int v of Some i \<Rightarrow> if i \<le> 0 then bad else Inr (Some (nat i)) | None \<Rightarrow> bad))"

definition normalize_terminal_status :: "string \<Rightarrow> pyval \<Rightarrow> job_status res" where
  "normalize_terminal_status field_name raw =
     (case non_empty_text raw of
        None \<Rightarrow> Inl (ValueError (''Queue `'' @ field_name @ ''` must contain non-empty status strings''))
      | Some s \<Rightarrow>
          res_bind (normalize_job_status s) (\<lambda>t.
            if t \<in> set TERMINAL_JOB_STATUSES then Inr t
            else Inl (ValueError (''Queue `'' @ field_name
              @ ''` may only include terminal statuses: completed, failed, dead_letter, canceled''))))"

definition normalize_job_status_list :: "pyval \<Rightarrow> string \<Rightarrow> job_status list res" where
  "normalize_job_status_list v field_name =
     (case v of
        PNone \<Rightarrow> Inr [Dead_letter]
      | PList (x # xs) \<Rightarrow>
          res_bind (res_map (normalize_terminal_status field_name) (x # xs)) (\<lambda>ts. Inr (dedupe [] ts))
      | _ \<Rightarrow> Inl (ValueError (''Queue `'' @ field_name @ ''` must be a non-empty list'')))"

text \<open>A status is recorded by its name.\<close>

abbreviation FV_status :: "job_status \<Rightarrow> field_value" where
  "FV_status s \<equiv> FV_val (PStr (job_status_name s))"

lemma job_status_name_inj [simp]: "job_status_name s = job_status_name t \<longleftrightarrow> s = t"
  by (cases s; cases t) simp_all

datatype job_event_type =
    Ev_claimed | Ev_completed | Ev_failed | Ev_dead_lettered | Ev_canceled | Ev_retry_scheduled
  | Ev_requeued | Ev_rescheduled | Ev_status_changed | Ev_worker_assignment_changed | Ev_reclaimed
  | Ev_ready_at_changed | Ev_updated

record job_change =
  ch_event_type :: job_event_type
  ch_timestamp :: stamp
  ch_from_status :: job_status
  ch_to_status :: job_status
  ch_worker_id :: "string option"
  ch_attempt_count :: int
  ch_reason :: pyval
  ch_changed_fields :: "(string \<times> field_value \<times> field_value) list"
  ch_details :: "(string \<times> field_value) list"

datatype job_event =
    Created_event stamp job_status stamp int
  | Change_event job_change

record job =
  j_job_id :: string
  j_job_type :: job_type
  j_status :: job_status
  j_priority :: int
  j_ready_at :: stamp
  j_payload :: pydict
  j_workflow_id :: "string option"
  j_parent_job_id :: "string option"
  j_idempotency_key :: "string option"
  j_worker_id :: "string option"
  j_claimed_at :: "stamp option"
  j_lease_expires_at :: "stamp option"
  j_reclaim_count :: int
  j_last_requeue_reason :: "string option"
  j_attempt_count :: int
  j_max_attempts :: int
  j_retry_backoff_seconds :: int
  j_last_failure_at :: "stamp option"
  j_next_retry_at :: "stamp option"
  j_dead_lettered_at :: "stamp option"
  j_canceled_at :: "stamp option"
  j_cancel_reason :: "string option"
  j_result :: "pydict option"
  j_error :: "pydict option"
  j_transition_history :: "job_event list"
  j_created_at :: stamp
  j_updated_at :: stamp
  j_lease_expired :: bool

record queue_world = env +
  jobs :: "job dir"

definition opt_dict :: "pydict option \<Rightarrow> pyval" where
  "opt_dict d = (case d of None \<Rightarrow> PNone | Some x \<Rightarrow> PDict x)"

section \<open>Transition history\<close>

text \<open>The fields whose changes are recorded, in the order the code lists them.\<close>

definition tracked_fields :: "job \<Rightarrow> (string \<times> field_value) list" where
  "tracked_fields j =
     [(''status'', FV_status (j_status j)),
      (''worker_id'', FV_val (opt_str (j_worker_id j))),
      (''claimed_at'', FV_stamp (j_claimed_at j)),
      (''lease_expires_at'', FV_stamp (j_lease_expires_at j)),
      (''ready_at'', FV_stamp (Some (j_ready_at j))),
      (''attempt_count'', FV_val (PInt (j_attempt_count j))),
      (''next_retry_at'', FV_stamp (j_next_retry_at j)),
      (''reclaim_count'', FV_val (PInt (j_reclaim_count j))),
      (''dead_lettered_at'', FV_stamp (j_dead_lettered_at j)),
      (''canceled_at'', FV_stamp (j_canceled_at j)),
      (''result'', FV_val (opt_dict (j_result j))),
      (''error'', FV_val (opt_dict (j_error j)))]"

definition job_transition_changed_fields :: "job \<Rightarrow> job \<Rightarrow> (string \<times> field_value \<times> field_value) list" where
  "job_transition_changed_fields current updated =
     List.map_filter (\<lambda>((name, a), (_, b)). if fv_eq a b then None else Some (name, a, b))
       (zip (tracked_fields current) (tracked_fields updated))"

definition classify_job_transition_event :: "job \<Rightarrow> job \<Rightarrow> job_event_type" where
  "classify_job_transition_event current updated =
     (if j_status current \<noteq> j_status updated then
        (case j_status updated of
           Running \<Rightarrow> Ev_claimed
         | Completed \<Rightarrow> Ev_completed
         | Failed \<Rightarrow> Ev_failed
         | Dead_letter \<Rightarrow> Ev_dead_lettered
         | Canceled \<Rightarrow> Ev_canceled
         | Scheduled \<Rightarrow>
             if j_attempt_count updated > j_attempt_count current then Ev_retry_scheduled
             else Ev_status_changed
         | Queued \<Rightarrow>
             if j_status current = Running then Ev_requeued
             else if j_status current \<in> {Failed, Dead_letter, Scheduled} then Ev_rescheduled
             else Ev_status_changed)
      else if j_worker_id current \<noteq> j_worker_id updated then Ev_worker_assignment_changed
      else if j_reclaim_count current \<noteq> j_reclaim_count updated then Ev_reclaimed
      else if j_ready_at current \<noteq> j_ready_at updated then Ev_ready_at_changed
      else Ev_updated)"

text \<open>\<open>a or b\<close>\<close>

definition py_or :: "pyval \<Rightarrow> pyval \<Rightarrow> pyval" where
  "py_or a b = (if py_truthy a then a else b)"

definition change_reason :: "string option \<Rightarrow> job \<Rightarrow> pyval" where
  "change_reason transition_reason updated =
     py_or (opt_str transition_reason)
       (py_or (opt_str (j_cancel_reason updated))
         (py_or (opt_str (j_last_requeue_reason updated))
           (dict_get (case j_error updated of None \<Rightarrow> [] | Some d \<Rightarrow> d) ''message'')))"

definition build_job_transition_history ::
    "job option \<Rightarrow> job \<Rightarrow> string option \<Rightarrow> (string \<times> field_value) list \<Rightarrow> job_event list" where
  "build_job_transition_history previous updated transition_reason transition_details =
     (case previous of
        None \<Rightarrow> j_transition_history updated @
          [Created_event (j_updated_at updated) (j_status updated) (j_ready_at updated) (j_priority updated)]
      | Some prev \<Rightarrow>
          (let changed_fields = job_transition_changed_fields prev updated
           in if changed_fields = [] then j_transition_history prev
              else j_transition_history prev @
                [Change_event
                  \<lparr>ch_event_type = classify_job_transition_event prev updated,
                   ch_timestamp = j_updated_at updated,
                   ch_from_status = j_status prev, ch_to_status = j_status updated,
                   ch_worker_id = j_worker_id updated, ch_attempt_count = j_attempt_count updated,
                   ch_reason = change_reason transition_reason updated,
                   ch_changed_fields = changed_fields, ch_details = transition_details\<rparr>]))"

section \<open>Time of readiness\<close>

definition job_status_for_ready_at :: "stamp \<Rightarrow> ('z env_scheme, job_status) io" where
  "job_status_for_ready_at ready_at =
     io_bind utc_now (\<lambda>now. io_lift (res_bind (stamp_gt ready_at now)
       (\<lambda>later. Inr (if later then Scheduled else Queued))))"

definition build_ready_at :: "pyval \<Rightarrow> iso_text option \<Rightarrow> ('z env_scheme, stamp) io" where
  "build_ready_at delay_seconds run_at =
     (case run_at of
        Some text \<Rightarrow>
          if py_truthy delay_seconds
          then io_raise (ValueError ''Job accepts either `delay_seconds` or `run_at`, not both'')
          else io_lift (fromisoformat text)
      | None \<Rightarrow>
          (case py_int delay_seconds of
             None \<Rightarrow> io_raise (ValueError ''Job `delay_seconds` must be a non-negative integer'')
           | Some n \<Rightarrow>
               if n < 0 then io_raise (ValueError ''Job `delay_seconds` must be a non-negative integer'')
               else io_bind utc_now (\<lambda>now. io_lift (res_bind (add_seconds now n) (\<lambda>t. Inr (utc_stamp t))))))"

definition job_lease_expired :: "job \<Rightarrow> ('z env_scheme, bool) io" where
  "job_lease_expired j =
     (if j_status j \<noteq> Running then io_return False
      else (case j_lease_expires_at j of
              None \<Rightarrow> io_return False
            | Some t \<Rightarrow> io_bind utc_now (\<lambda>now. io_lift (stamp_le t now))))"

definition job_summary :: "job \<Rightarrow> ('z env_scheme, job) io" where
  "job_summary j =
     io_bind (job_lease_expired j) (\<lambda>expired. io_return (j\<lparr>j_lease_expired := expired\<rparr>))"

section \<open>Reading and writing\<close>

definition validate_job :: "job \<Rightarrow> unit res" where
  "validate_job j =
     res_bind (normalize_positive_int (PInt (j_max_attempts j)) ''max_attempts'') (\<lambda>_.
     res_bind (normalize_non_negative_int (PInt (j_retry_backoff_seconds j)) ''retry_backoff_seconds'') (\<lambda>_.
     res_bind (normalize_non_negative_int (PInt (j_attempt_count j)) ''attempt_count'') (\<lambda>_. Inr ())))"

definition put_job :: "string \<Rightarrow> job \<Rightarrow> ('z queue_world_scheme, job) io" where
  "put_job k j = io_then (io_modify (\<lambda>w. w\<lparr>jobs := dir_put (jobs w) k j\<rparr>)) (io_return j)"

definition write_job :: "job \<Rightarrow> ('z queue_world_scheme, job) io" where
  "write_job j =
     io_bind (job_summary j) (\<lambda>snapshot.
     io_bind (io_get (\<lambda>w. dir_get (jobs w) (j_job_id j))) (\<lambda>previous.
       put_job (j_job_id j)
         (snapshot\<lparr>j_transition_history := build_job_transition_history previous snapshot None []\<rparr>)))"

definition not_found :: "string \<Rightarrow> exc" where
  "not_found job_id = FileNotFoundError (''Job not found: '' @ job_id)"

definition load_job_snapshot :: "string \<Rightarrow> ('z queue_world_scheme, job) io" where
  "load_job_snapshot k =
     io_bind (io_get (\<lambda>w. dir_get (jobs w) k)) (\<lambda>found.
       case found of
         None \<Rightarrow> io_raise (not_found k)
       | Some j \<Rightarrow> io_then (io_lift (validate_job j)) (io_return j))"

text \<open>The keyword arguments \<open>**changes\<close> are a function that updates the fields named.\<close>

definition update_job ::
    "string \<Rightarrow> string option \<Rightarrow> (string \<times> field_value) list \<Rightarrow> (job \<Rightarrow> job) \<Rightarrow>
     ('z queue_world_scheme, job) io" where
  "update_job job_id transition_reason transition_details changes =
     io_bind (load_job_snapshot job_id) (\<lambda>current.
     io_bind utc_now_iso (\<lambda>now.
       let updated = (changes current)\<lparr>j_updated_at := now\<rparr>
       in io_then (io_lift (validate_job updated))
            (put_job job_id (updated\<lparr>j_transition_history :=
               build_job_transition_history (Some current) updated transition_reason transition_details\<rparr>))))"

section \<open>Creation\<close>

text \<open>\<open>xs.sort(key=f, reverse=True)\<close> keeps the order of elements with equal keys.\<close>

definition sort_desc :: "('a \<Rightarrow> 'k::linorder) \<Rightarrow> 'a list \<Rightarrow> 'a list" where
  "sort_desc f xs = rev (sort_key f (rev xs))"

definition load_summaries :: "('z queue_world_scheme, job list) io" where
  "load_summaries =
     io_bind (io_get (\<lambda>w. dir_ids (jobs w)))
       (io_map (\<lambda>k. io_bind (load_job_snapshot k) job_summary))"

definition find_job_by_idempotency_key :: "string \<Rightarrow> ('z queue_world_scheme, job option) io" where
  "find_job_by_idempotency_key idempotency_key =
     (if idempotency_key = [] then io_raise (ValueError ''Job `idempotency_key` must be a non-empty string'')
      else io_bind load_summaries (\<lambda>all.
        let matches = filter (\<lambda>j. j_idempotency_key j = Some idempotency_key) all
        in io_return (case sort_desc (\<lambda>j. (stamp_key (j_created_at j), j_job_id j)) matches of
             [] \<Rightarrow> None | j # _ \<Rightarrow> Some j)))"

definition idempotent_request_matches ::
    "job \<Rightarrow> job_type \<Rightarrow> pydict \<Rightarrow> string option \<Rightarrow> string option \<Rightarrow> bool" where
  "idempotent_request_matches existing job_type payload workflow_id parent_job_id \<longleftrightarrow>
     j_job_type existing = job_type \<and> py_eq (PDict (j_payload existing)) (PDict payload) \<and>
     j_workflow_id existing = workflow_id \<and> j_parent_job_id existing = parent_job_id"

record job_request =
  rq_job_type :: string
  rq_payload :: pyval
  rq_priority :: pyval
  rq_delay_seconds :: pyval
  rq_run_at :: "iso_text option"
  rq_workflow_id :: "string option"
  rq_parent_job_id :: "string option"
  rq_idempotency_key :: pyval
  rq_max_attempts :: pyval
  rq_retry_backoff_seconds :: pyval

fun check_payload :: "pyval \<Rightarrow> pydict res" where
  "check_payload (PDict d) = Inr d"
| "check_payload _ = Inl (ValueError ''Job payload must be an object'')"

fun check_idempotency_key :: "pyval \<Rightarrow> string option res" where
  "check_idempotency_key PNone = Inr None"
| "check_idempotency_key (PStr s) =
     (if py_strip s = [] then Inl (ValueError ''Job `idempotency_key` must not be empty'') else Inr (Some s))"
| "check_idempotency_key _ = Inl (ValueError ''Job `idempotency_key` must be a string'')"

record checked_request =
  cq_job_type :: job_type
  cq_payload :: pydict
  cq_idempotency_key :: "string option"
  cq_max_attempts :: int
  cq_retry_backoff_seconds :: int

definition check_request :: "job_request \<Rightarrow> checked_request res" where
  "check_request rq =
     res_bind (normalize_job_type (rq_job_type rq)) (\<lambda>job_type.
     res_bind (check_payload (rq_payload rq)) (\<lambda>payload.
     res_bind (check_idempotency_key (rq_idempotency_key rq)) (\<lambda>key.
     res_bind (normalize_positive_int (rq_max_attempts rq) ''max_attempts'') (\<lambda>max_attempts.
     res_bind (normalize_non_negative_int (rq_retry_backoff_seconds rq) ''retry_backoff_seconds'') (\<lambda>backoff.
       Inr \<lparr>cq_job_type = job_type, cq_payload = payload, cq_idempotency_key = key,
            cq_max_attempts = max_attempts, cq_retry_backoff_seconds = backoff\<rparr>)))))"

definition new_job ::
    "job_request \<Rightarrow> checked_request \<Rightarrow> string \<Rightarrow> job_status \<Rightarrow> int \<Rightarrow> stamp \<Rightarrow> stamp \<Rightarrow> job" where
  "new_job rq cq job_id status priority ready_at timestamp =
     \<lparr>j_job_id = job_id, j_job_type = cq_job_type cq, j_status = status, j_priority = priority,
      j_ready_at = ready_at, j_payload = cq_payload cq, j_workflow_id = rq_workflow_id rq,
      j_parent_job_id = rq_parent_job_id rq, j_idempotency_key = cq_idempotency_key cq,
      j_worker_id = None, j_claimed_at = None, j_lease_expires_at = None, j_reclaim_count = 0,
      j_last_requeue_reason = None, j_attempt_count = 0, j_max_attempts = cq_max_attempts cq,
      j_retry_backoff_seconds = cq_retry_backoff_seconds cq, j_last_failure_at = None,
      j_next_retry_at = None, j_dead_lettered_at = None, j_canceled_at = None,
      j_cancel_reason = None, j_result = None, j_error = None, j_transition_history = [],
      j_created_at = timestamp, j_updated_at = timestamp, j_lease_expired = False\<rparr>"

definition enqueue_new :: "job_request \<Rightarrow> checked_request \<Rightarrow> ('z queue_world_scheme, job) io" where
  "enqueue_new rq cq =
     io_bind (build_ready_at (rq_delay_seconds rq) (rq_run_at rq)) (\<lambda>ready_at.
     io_bind utc_now_iso (\<lambda>timestamp.
     io_bind uuid4 (\<lambda>job_id.
     io_bind (job_status_for_ready_at ready_at) (\<lambda>status.
     io_bind (io_lift (normalize_priority (rq_priority rq))) (\<lambda>priority.
       write_job (new_job rq cq job_id status priority ready_at timestamp))))))"

definition key_in_use :: "string \<Rightarrow> exc" where
  "key_in_use key =
     ValueError (''Idempotency key `'' @ key @ ''` is already used by a different job request'')"

definition create_job :: "job_request \<Rightarrow> ('z queue_world_scheme, job) io" where
  "create_job rq =
     io_bind (io_lift (check_request rq)) (\<lambda>cq.
       case cq_idempotency_key cq of
         None \<Rightarrow> enqueue_new rq cq
       | Some key \<Rightarrow>
           io_bind (find_job_by_idempotency_key key) (\<lambda>existing.
             case existing of
               None \<Rightarrow> enqueue_new rq cq
             | Some j \<Rightarrow>
                 if idempotent_request_matches j (cq_job_type cq) (cq_payload cq)
                      (rq_workflow_id rq) (rq_parent_job_id rq)
                 then io_return j
                 else io_raise (key_in_use key)))"

section \<open>Loading and listing\<close>

definition load_job :: "string \<Rightarrow> ('z queue_world_scheme, job) io" where
  "load_job job_id =
     io_bind (load_job_snapshot job_id) (\<lambda>j.
       if j_status j = Scheduled then
         io_bind (job_status_for_ready_at (j_ready_at j)) (\<lambda>status.
           if status = Queued then update_job job_id None [] (\<lambda>c. c\<lparr>j_status := Queued\<rparr>)
           else job_summary j)
       else job_summary j)"

definition is_due :: "job \<Rightarrow> ('z env_scheme, bool) io" where
  "is_due j =
     (if j_status j = Scheduled
      then io_bind (job_status_for_ready_at (j_ready_at j)) (\<lambda>status. io_return (status = Queued))
      else io_return False)"

definition promote_one :: "job \<Rightarrow> ('z queue_world_scheme, string) io" where
  "promote_one j =
     io_bind (update_job (j_job_id j) (Some ''ready_at_elapsed'') [] (\<lambda>c. c\<lparr>j_status := Queued\<rparr>))
       (\<lambda>promoted. io_return (j_job_id promoted))"

definition due_jobs :: "('z queue_world_scheme, job list) io" where
  "due_jobs =
     io_bind (io_get (\<lambda>w. dir_ids (jobs w))) (\<lambda>ids.
     io_bind (io_map (\<lambda>k. io_bind (load_job_snapshot k) (\<lambda>j.
                io_bind (is_due j) (\<lambda>due. io_return (j, due)))) ids) (\<lambda>js.
       io_return (map fst (filter snd js))))"

definition promote_due_jobs :: "pyval \<Rightarrow> ('z queue_world_scheme, string list) io" where
  "promote_due_jobs limit =
     io_bind (io_lift (if limit = PNone then Inr None
       else (case py_int limit of
               Some i \<Rightarrow> if i \<le> 0
                 then Inl (ValueError ''Queue promotion `limit` must be a positive integer'')
                 else Inr (Some (nat i))
             | None \<Rightarrow> Inl (ValueError ''Queue promotion `limit` must be a positive integer'')))) (\<lambda>lmt.
     io_bind due_jobs (\<lambda>due.
       io_map promote_one
         (take_limit lmt (sort_key (\<lambda>j. (stamp_key (j_ready_at j), - j_priority j, stamp_key (j_created_at j))) due))))"

definition list_key :: "job \<Rightarrow> nat \<times> int \<times> (int \<times> int) \<times> (int \<times> int)" where
  "list_key j = (if j_status j = Queued then 0 else 1, - j_priority j,
     stamp_key (j_ready_at j), stamp_key (j_created_at j))"

definition list_jobs :: "string option \<Rightarrow> bool \<Rightarrow> ('z queue_world_scheme, job list) io" where
  "list_jobs status promote_due =
     io_bind (io_lift (case status of
         None \<Rightarrow> Inr None | Some s \<Rightarrow> res_bind (normalize_job_status s) (\<lambda>t. Inr (Some t)))) (\<lambda>wanted.
     io_then (if promote_due then io_bind (promote_due_jobs PNone) (\<lambda>_. io_return ()) else io_return ())
       (io_bind load_summaries (\<lambda>all.
          io_return (sort_key list_key
            (filter (\<lambda>j. case wanted of None \<Rightarrow> True | Some t \<Rightarrow> j_status j = t) all)))))"

definition ready_jobs :: "('z queue_world_scheme, job list) io" where
  "ready_jobs = io_bind (list_jobs None True) (\<lambda>js. io_return (filter (\<lambda>j. j_status j = Queued) js))"

section \<open>How the store changes\<close>

definition job_after ::
    "string option \<Rightarrow> (string \<times> field_value) list \<Rightarrow> (job \<Rightarrow> job) \<Rightarrow> stamp \<Rightarrow> job \<Rightarrow> job" where
  "job_after reason details changes now j =
     (let updated = (changes j)\<lparr>j_updated_at := now\<rparr>
      in updated\<lparr>j_transition_history := build_job_transition_history (Some j) updated reason details\<rparr>)"

definition job_valid :: "job \<Rightarrow> bool" where
  "job_valid j \<longleftrightarrow> 0 < j_max_attempts j \<and> 0 \<le> j_retry_backoff_seconds j \<and> 0 \<le> j_attempt_count j"

lemma validate_job_iff: "validate_job j = Inr u \<longleftrightarrow> job_valid j"
  by (auto simp: validate_job_def job_valid_def normalize_positive_int_def
      normalize_non_negative_int_def Let_def)

lemma validate_jobI: "job_valid j \<Longrightarrow> validate_job j = Inr ()"
  by (simp add: validate_job_iff)

lemma validate_job_cases:
  obtains (valid) "validate_job j = Inr ()" "job_valid j" | (invalid) e where "validate_job j = Inl e" "\<not> job_valid j"
proof (cases "validate_job j")
  case (Inl e)
  then have "\<not> job_valid j" using validate_jobI [of j] by auto
  with Inl show thesis by (rule invalid)
next
  case (Inr u)
  then show thesis using valid by (simp add: validate_job_iff)
qed

lemma job_valid_updated [simp]:
  "job_valid (j\<lparr>j_updated_at := t\<rparr>) = job_valid j"
  "job_valid (j\<lparr>j_transition_history := h\<rparr>) = job_valid j"
  "job_valid (j\<lparr>j_lease_expired := b\<rparr>) = job_valid j"
  by (simp_all add: job_valid_def)

lemma wp_put_job [wp]: "wp (put_job k j) Q E w = Q j (w\<lparr>jobs := dir_put (jobs w) k j\<rparr>)"
  by (simp add: put_job_def wp)

lemma wp_load_job_snapshot:
  "wp (load_job_snapshot k) Q E w =
     (case dir_get (jobs w) k of
        None \<Rightarrow> E (not_found k) w
      | Some j \<Rightarrow> (case validate_job j of Inl e \<Rightarrow> E e w | Inr _ \<Rightarrow> Q j w))"
  by (auto simp: load_job_snapshot_def wp split: option.splits sum.splits)

lemma wp_update_job:
  "wp (update_job k reason details changes) Q E w =
     (case dir_get (jobs w) k of
        None \<Rightarrow> E (not_found k) w
      | Some j \<Rightarrow>
          (case validate_job j of
             Inl e \<Rightarrow> E e w
           | Inr _ \<Rightarrow>
               (let now = utc_stamp (clk w (ticks w));
                    w1 = w\<lparr>ticks := Suc (ticks w)\<rparr>
                in case validate_job ((changes j)\<lparr>j_updated_at := now\<rparr>) of
                     Inl e \<Rightarrow> E e w1
                   | Inr _ \<Rightarrow> Q (job_after reason details changes now j)
                       (w1\<lparr>jobs := dir_put (jobs w) k (job_after reason details changes now j)\<rparr>))))"
  by (auto simp: update_job_def wp wp_load_job_snapshot Let_def job_after_def
      split: option.splits sum.splits)

text \<open>A property of every stored job.\<close>

definition all_jobs :: "(string \<Rightarrow> job \<Rightarrow> bool) \<Rightarrow> 'z queue_world_scheme \<Rightarrow> bool" where
  "all_jobs P w \<longleftrightarrow> dir_ok (jobs w) \<and> (\<forall>k j. dir_get (jobs w) k = Some j \<longrightarrow> P k j)"

lemma all_jobs_cong: "jobs w' = jobs w \<Longrightarrow> all_jobs P w' = all_jobs P w"
  by (simp add: all_jobs_def)

lemma all_jobsD: "all_jobs P w \<Longrightarrow> dir_get (jobs w) k = Some j \<Longrightarrow> P k j"
  by (simp add: all_jobs_def)

lemma all_jobs_put:
  "all_jobs P w \<Longrightarrow> P k j \<Longrightarrow> jobs w' = dir_put (jobs w) k j \<Longrightarrow> all_jobs P w'"
  by (auto simp: all_jobs_def dir_simps files.ok_put split: if_splits)

lemma all_jobs_del:
  "all_jobs P w \<Longrightarrow> jobs w' = dir_del (jobs w) k \<Longrightarrow> all_jobs P w'"
  by (auto simp: all_jobs_def dir_simps files.ok_del split: if_splits)

lemma keeps_put_job: "P k j \<Longrightarrow> keeps (all_jobs P) (put_job k j)"
  by (auto simp: keeps_wp wp intro: all_jobs_put)

text \<open>The clock, the supply of identifiers and the reads leave the store alone.\<close>

definition store_is :: "job dir \<Rightarrow> 'z queue_world_scheme \<Rightarrow> bool" where
  "store_is d w \<longleftrightarrow> jobs w = d"

lemma keeps_store_env [keeps_intro]:
  "keeps (store_is d) utc_now" "keeps (store_is d) utc_now_iso" "keeps (store_is d) uuid4"
  by (simp_all add: keeps_wp wp store_is_def)

lemma keeps_store_pure [keeps_intro]:
  "keeps (store_is d) (job_status_for_ready_at t)"
  "keeps (store_is d) (build_ready_at v r)"
  "keeps (store_is d) (job_summary j)"
  "keeps (store_is d) (load_job_snapshot k)"
  "keeps (store_is d) (is_due j)"
  unfolding job_status_for_ready_at_def build_ready_at_def job_summary_def job_lease_expired_def
    load_job_snapshot_def is_due_def
  by (intro keeps_intro)+

lemma keeps_store_loops [keeps_intro]:
  "keeps (store_is d) load_summaries"
  "keeps (store_is d) due_jobs"
  "keeps (store_is d) (find_job_by_idempotency_key k)"
  unfolding load_summaries_def due_jobs_def find_job_by_idempotency_key_def
  by (intro keeps_intro)+

text \<open>What keeps the store keeps every property of it.\<close>

lemma keeps_all_jobs_of_store:
  "(\<And>d. keeps (store_is d) m) \<Longrightarrow> keeps (all_jobs P) m"
  unfolding keeps_def store_is_def all_jobs_def by auto

lemma keeps_all_jobs_reads [keeps_intro]:
  "keeps (all_jobs P) utc_now" "keeps (all_jobs P) utc_now_iso" "keeps (all_jobs P) uuid4"
  "keeps (all_jobs P) (job_status_for_ready_at t)"
  "keeps (all_jobs P) (build_ready_at v r)"
  "keeps (all_jobs P) (job_summary j)"
  "keeps (all_jobs P) (load_job_snapshot k)"
  "keeps (all_jobs P) (is_due j)"
  "keeps (all_jobs P) load_summaries"
  "keeps (all_jobs P) due_jobs"
  "keeps (all_jobs P) (find_job_by_idempotency_key k)"
  by (rule keeps_all_jobs_of_store, rule keeps_intro)+

lemma keeps_update_job:
  assumes "\<And>j us. P k j \<Longrightarrow> job_valid (changes j) \<Longrightarrow>
      P k (job_after reason details changes (utc_stamp us) j)"
  shows "keeps (all_jobs P :: 'z queue_world_scheme \<Rightarrow> bool) (update_job k reason details changes)"
  unfolding keeps_wp
proof (intro allI impI)
  fix w :: "'z queue_world_scheme"
  assume inv: "all_jobs P w"
  let ?now = "utc_stamp (clk w (ticks w))"
  show "wp (update_job k reason details changes) (\<lambda>_. all_jobs P) (\<lambda>_. all_jobs P) w"
  proof (cases "dir_get (jobs w) k")
    case None
    with inv show ?thesis by (simp add: wp_update_job)
  next
    case (Some j)
    have put: "all_jobs P (w\<lparr>ticks := n, jobs := dir_put (jobs w) k (job_after reason details changes ?now j)\<rparr>)"
      if "job_valid (changes j)" for n
      by (rule all_jobs_put [OF inv assms [OF all_jobsD [OF inv Some] that]]) simp
    show ?thesis
      by (cases j rule: validate_job_cases; cases "(changes j)\<lparr>j_updated_at := ?now\<rparr>" rule: validate_job_cases)
        (simp_all add: wp_update_job Some inv put Let_def all_jobs_cong [of "w\<lparr>ticks := _\<rparr>"])
  qed
qed

end
