(* ===== verification/Queue_Audit.thy ===== *)
theory Queue_Audit
  imports Queue
begin

text \<open>
  The transition history of a job as an audit trail. \<open>audit_history\<close> reads a history from its
  creation entry on, applies every recorded change to a view of the tracked fields, and rejects
  it when an entry's recorded \<open>from\<close> values are not those of the view or its summary fields
  are not those of the view after the change. \<open>audited\<close> says that the history of a job is
  accepted and ends in the job's own fields. The result and error objects are left out of the
  view: they are compared by Python equality, which identifies objects that differ in layout.
  The locale \<open>job_invariant\<close> is what an invariant of the stored jobs has to satisfy to be kept
  by every operation of the queue that creates or updates a job.
\<close>

section \<open>Replaying a history\<close>

type_synonym job_view = "(string \<times> field_value) list"

definition simple_fields :: "job \<Rightarrow> job_view" where
  "simple_fields j = take 10 (tracked_fields j)"

definition created_view :: "job_status \<Rightarrow> stamp \<Rightarrow> job_view" where
  "created_view status ready_at =
     [(''status'', FV_status status), (''worker_id'', FV_val PNone), (''claimed_at'', FV_stamp None),
      (''lease_expires_at'', FV_stamp None), (''ready_at'', FV_stamp (Some ready_at)),
      (''attempt_count'', FV_val (PInt 0)), (''next_retry_at'', FV_stamp None),
      (''reclaim_count'', FV_val (PInt 0)), (''dead_lettered_at'', FV_stamp None),
      (''canceled_at'', FV_stamp None)]"

definition apply_change :: "job_view \<Rightarrow> job_change \<Rightarrow> job_view" where
  "apply_change m c =
     map (\<lambda>(n, v). (n, case map_of (ch_changed_fields c) n of None \<Rightarrow> v | Some (a, b) \<Rightarrow> b)) m"

definition change_fits :: "job_view \<Rightarrow> job_change \<Rightarrow> bool" where
  "change_fits m c \<longleftrightarrow>
     list_all (\<lambda>(n, v). case map_of (ch_changed_fields c) n of None \<Rightarrow> True | Some (a, b) \<Rightarrow> a = v \<and> a \<noteq> b) m \<and>
     map_of m ''status'' = Some (FV_status (ch_from_status c)) \<and>
     (let m' = apply_change m c
      in map_of m' ''status'' = Some (FV_status (ch_to_status c)) \<and>
         map_of m' ''worker_id'' = Some (FV_val (opt_str (ch_worker_id c))) \<and>
         map_of m' ''attempt_count'' = Some (FV_val (PInt (ch_attempt_count c))))"

fun audit_changes :: "job_view \<Rightarrow> job_event list \<Rightarrow> job_view option" where
  "audit_changes m [] = Some m"
| "audit_changes m (Created_event t s r p # es) = None"
| "audit_changes m (Change_event c # es) =
     (if change_fits m c then audit_changes (apply_change m c) es else None)"

fun audit_history :: "job_event list \<Rightarrow> job_view option" where
  "audit_history (Created_event t s r p # es) = audit_changes (created_view s r) es"
| "audit_history _ = None"

definition audited :: "job \<Rightarrow> bool" where
  "audited j \<longleftrightarrow> audit_history (j_transition_history j) = Some (simple_fields j)"

lemma audit_changes_append:
  "audit_changes m (es @ es') =
     (case audit_changes m es of None \<Rightarrow> None | Some m' \<Rightarrow> audit_changes m' es')"
  by (induction m es rule: audit_changes.induct) auto

lemma audit_history_append:
  "audit_history es = Some m \<Longrightarrow> audit_history (es @ es') = audit_changes m es'"
  by (cases es rule: audit_history.cases) (auto simp: audit_changes_append)

section \<open>A recorded change fits\<close>

lemma map_of_changed_unique:
  fixes xs :: "('a \<times> 'b) list" and ys :: "('a \<times> 'c) list"
  assumes "map fst xs = map fst ys" and "distinct (map fst xs)"
    and "map_of xs n = Some a" and "map_of ys n = Some b"
  shows "map_of (List.map_filter (\<lambda>((n, a), (_, b)). if eq a b then None else Some (n, a, b)) (zip xs ys)) n =
    (if eq a b then None else Some (a, b))"
proof -
  have none: "map_of (List.map_filter (\<lambda>((n, a), (_, b)). if eq a b then None else Some (n, a, b)) (zip us vs)) n = None"
    if "n \<notin> set (map fst us)" for us :: "('a \<times> 'b) list" and vs :: "('a \<times> 'c) list"
    using that by (induction us vs rule: list_induct2') (auto simp: List.map_filter_simps)
  have "length xs = length ys" using assms(1) by (metis length_map)
  then show ?thesis using assms
    by (induction xs ys rule: list_induct2) (auto simp: List.map_filter_simps none)
qed

lemma py_eq_opt_str [simp]: "py_eq (opt_str a) (opt_str b) \<longleftrightarrow> a = b"
  by (cases a; cases b) (auto simp: py_eq.simps)

lemma opt_str_inj [simp]: "opt_str a = opt_str b \<longleftrightarrow> a = b"
  by (cases a; cases b) auto

lemma changed_field:
  assumes "map_of (tracked_fields prev) n = Some a" and "map_of (tracked_fields upd) n = Some b"
  shows "map_of (job_transition_changed_fields prev upd) n = (if fv_eq a b then None else Some (a, b))"
  unfolding job_transition_changed_fields_def
  by (rule map_of_changed_unique [OF _ _ assms]) (simp_all add: tracked_fields_def)

lemma changed_fields_simple:
  "map_of (job_transition_changed_fields p u) ''status'' =
     (if j_status p = j_status u then None else Some (FV_status (j_status p), FV_status (j_status u)))"
  "map_of (job_transition_changed_fields p u) ''worker_id'' =
     (if j_worker_id p = j_worker_id u then None
      else Some (FV_val (opt_str (j_worker_id p)), FV_val (opt_str (j_worker_id u))))"
  "map_of (job_transition_changed_fields p u) ''claimed_at'' =
     (if j_claimed_at p = j_claimed_at u then None
      else Some (FV_stamp (j_claimed_at p), FV_stamp (j_claimed_at u)))"
  "map_of (job_transition_changed_fields p u) ''lease_expires_at'' =
     (if j_lease_expires_at p = j_lease_expires_at u then None
      else Some (FV_stamp (j_lease_expires_at p), FV_stamp (j_lease_expires_at u)))"
  "map_of (job_transition_changed_fields p u) ''ready_at'' =
     (if j_ready_at p = j_ready_at u then None
      else Some (FV_stamp (Some (j_ready_at p)), FV_stamp (Some (j_ready_at u))))"
  "map_of (job_transition_changed_fields p u) ''attempt_count'' =
     (if j_attempt_count p = j_attempt_count u then None
      else Some (FV_val (PInt (j_attempt_count p)), FV_val (PInt (j_attempt_count u))))"
  "map_of (job_transition_changed_fields p u) ''next_retry_at'' =
     (if j_next_retry_at p = j_next_retry_at u then None
      else Some (FV_stamp (j_next_retry_at p), FV_stamp (j_next_retry_at u)))"
  "map_of (job_transition_changed_fields p u) ''reclaim_count'' =
     (if j_reclaim_count p = j_reclaim_count u then None
      else Some (FV_val (PInt (j_reclaim_count p)), FV_val (PInt (j_reclaim_count u))))"
  "map_of (job_transition_changed_fields p u) ''dead_lettered_at'' =
     (if j_dead_lettered_at p = j_dead_lettered_at u then None
      else Some (FV_stamp (j_dead_lettered_at p), FV_stamp (j_dead_lettered_at u)))"
  "map_of (job_transition_changed_fields p u) ''canceled_at'' =
     (if j_canceled_at p = j_canceled_at u then None
      else Some (FV_stamp (j_canceled_at p), FV_stamp (j_canceled_at u)))"
  using changed_field [of p _ _ u, unfolded tracked_fields_def]
  by simp_all

lemma simple_fields_eq:
  "simple_fields j =
     [(''status'', FV_status (j_status j)), (''worker_id'', FV_val (opt_str (j_worker_id j))),
      (''claimed_at'', FV_stamp (j_claimed_at j)), (''lease_expires_at'', FV_stamp (j_lease_expires_at j)),
      (''ready_at'', FV_stamp (Some (j_ready_at j))), (''attempt_count'', FV_val (PInt (j_attempt_count j))),
      (''next_retry_at'', FV_stamp (j_next_retry_at j)), (''reclaim_count'', FV_val (PInt (j_reclaim_count j))),
      (''dead_lettered_at'', FV_stamp (j_dead_lettered_at j)), (''canceled_at'', FV_stamp (j_canceled_at j))]"
  by (simp add: simple_fields_def tracked_fields_def)

lemma apply_recorded_change:
  assumes "ch_changed_fields c = job_transition_changed_fields p u"
  shows "apply_change (simple_fields p) c = simple_fields u"
  by (simp add: apply_change_def assms simple_fields_eq changed_fields_simple)

lemma no_recorded_change:
  assumes "job_transition_changed_fields p u = []"
  shows "simple_fields u = simple_fields p"
  using changed_fields_simple [of p u] by (simp add: assms simple_fields_eq split: if_splits)

lemma recorded_change_fits:
  assumes "ch_changed_fields c = job_transition_changed_fields p u"
    and "ch_from_status c = j_status p" and "ch_to_status c = j_status u"
    and "ch_worker_id c = j_worker_id u" and "ch_attempt_count c = j_attempt_count u"
  shows "change_fits (simple_fields p) c"
  unfolding change_fits_def apply_recorded_change [OF assms(1)] Let_def
  by (simp add: assms simple_fields_eq changed_fields_simple)

lemma simple_fields_cong [simp]:
  "simple_fields (j\<lparr>j_transition_history := h\<rparr>) = simple_fields j"
  "simple_fields (j\<lparr>j_updated_at := t\<rparr>) = simple_fields j"
  "simple_fields (j\<lparr>j_lease_expired := b\<rparr>) = simple_fields j"
  by (simp_all add: simple_fields_eq)

lemma audited_extended:
  assumes "audited p"
  shows "audited (u\<lparr>j_transition_history := build_job_transition_history (Some p) u reason details\<rparr>)"
proof (cases "job_transition_changed_fields p u = []")
  case True
  then show ?thesis
    using assms no_recorded_change [OF True]
    by (simp add: audited_def build_job_transition_history_def)
next
  case False
  then show ?thesis
    using assms
    by (simp add: audited_def build_job_transition_history_def Let_def audit_history_append
        recorded_change_fits [of _ p u] apply_recorded_change [of _ p u])
qed

lemma audited_created:
  assumes "j_transition_history j = []" and "simple_fields j = created_view (j_status j) (j_ready_at j)"
  shows "audited (j\<lparr>j_transition_history := build_job_transition_history None j reason details\<rparr>)"
  using assms by (simp add: audited_def build_job_transition_history_def)

end
