(* ===== verification/Queue_Lifecycle.thy ===== *)
theory Queue_Lifecycle
  imports Queue_Audit
begin

text \<open>
  src/runtime/queue.py, the lifecycle operations: requeueing, failures with retries, repair of
  stale state, the summary, pruning, cancellation and rescheduling. A sequence of requests to the
  queue is a list of \<open>queue_op\<close>, each run to its end before the next. The invariants are
  proved once, for every predicate on jobs that fits the locale \<open>job_invariant\<close>.
\<close>

definition requeue_job :: "string \<Rightarrow> string \<Rightarrow> ('z queue_world_scheme, job) io" where
  "requeue_job job_id reason =
     io_bind (load_job job_id) (\<lambda>job.
       update_job job_id (Some reason) []
         (\<lambda>c. c\<lparr>j_status := Queued, j_worker_id := None, j_claimed_at := None,
                j_lease_expires_at := None, j_reclaim_count := j_reclaim_count job + 1,
                j_last_requeue_reason := Some reason, j_next_retry_at := None\<rparr>))"

definition retry_delay_seconds :: "job \<Rightarrow> int \<Rightarrow> int" where
  "retry_delay_seconds j attempt_count =
     (let base = j_retry_backoff_seconds j
      in if base = 0 then 0 else base * 2 ^ nat (max (attempt_count - 1) 0))"

definition failure_object :: "exc \<Rightarrow> pydict" where
  "failure_object e = [(''type'', PStr (exc_type e)), (''message'', PStr (exc_str e))]"

text \<open>The two outcomes of a failure: the attempts are used up, or a retry is planned.\<close>

definition fail_for_good :: "string \<Rightarrow> exc \<Rightarrow> stamp \<Rightarrow> job \<Rightarrow> ('z queue_world_scheme, job) io" where
  "fail_for_good job_id e timestamp job =
     (let terminal_status = (if j_max_attempts job > 1 then Dead_letter else Failed)
      in update_job job_id (Some (exc_str e)) [(''terminal'', FV_val (PBool True))]
           (\<lambda>c. c\<lparr>j_status := terminal_status, j_attempt_count := j_attempt_count job + 1,
                  j_error := Some (failure_object e), j_last_failure_at := Some timestamp,
                  j_dead_lettered_at := (if terminal_status = Dead_letter then Some timestamp else None),
                  j_next_retry_at := None, j_worker_id := None, j_claimed_at := None,
                  j_lease_expires_at := None\<rparr>))"

definition plan_retry ::
    "string \<Rightarrow> exc \<Rightarrow> stamp \<Rightarrow> int \<Rightarrow> job \<Rightarrow> stamp \<Rightarrow> job_status \<Rightarrow> ('z queue_world_scheme, job) io" where
  "plan_retry job_id e timestamp delay job next_retry_at status =
     update_job job_id (Some (exc_str e)) [(''retry_delay_seconds'', FV_val (PInt delay))]
       (\<lambda>c. c\<lparr>j_status := status, j_attempt_count := j_attempt_count job + 1,
              j_error := Some (failure_object e), j_last_failure_at := Some timestamp,
              j_next_retry_at := Some next_retry_at, j_ready_at := next_retry_at,
              j_worker_id := None, j_claimed_at := None, j_lease_expires_at := None,
              j_last_requeue_reason :=
                Some (''Retry '' @ show_int (j_attempt_count job + 1) @ '' scheduled after failure''),
              j_result := None\<rparr>)"

definition record_job_failure :: "string \<Rightarrow> exc \<Rightarrow> ('z queue_world_scheme, job) io" where
  "record_job_failure job_id e =
     io_bind (load_job job_id) (\<lambda>job.
     io_bind utc_now_iso (\<lambda>timestamp.
       if j_attempt_count job + 1 \<ge> j_max_attempts job then fail_for_good job_id e timestamp job
       else
         io_bind (build_ready_at (PInt (retry_delay_seconds job (j_attempt_count job + 1))) None) (\<lambda>next_retry_at.
         io_bind (job_status_for_ready_at next_retry_at)
           (plan_retry job_id e timestamp (retry_delay_seconds job (j_attempt_count job + 1)) job next_retry_at))))"

section \<open>Repair\<close>

record repair_view =
  rv_job_id :: string
  rv_status :: job_status
  rv_reasons :: "string list"

text \<open>The changes of one job and their reasons; no change where nothing is stale.\<close>

definition stale_changes :: "bool \<Rightarrow> job \<Rightarrow> ((job \<Rightarrow> job) \<times> string) list" where
  "stale_changes due j =
     (if due then [(\<lambda>c. c\<lparr>j_status := Queued\<rparr>, ''Promoted due scheduled job to queued'')] else []) @
     (if j_status j \<noteq> Running then
        (if j_worker_id j \<noteq> None then [(\<lambda>c. c\<lparr>j_worker_id := None\<rparr>, ''Cleared stale worker assignment'')] else []) @
        (if j_claimed_at j \<noteq> None then [(\<lambda>c. c\<lparr>j_claimed_at := None\<rparr>, ''Cleared stale claim timestamp'')] else []) @
        (if j_lease_expires_at j \<noteq> None
         then [(\<lambda>c. c\<lparr>j_lease_expires_at := None\<rparr>, ''Cleared stale lease expiration'')] else [])
      else [])"

fun repair_loop :: "nat option \<Rightarrow> repair_view list \<Rightarrow> job list \<Rightarrow> ('z queue_world_scheme, repair_view list) io" where
  "repair_loop lmt done [] = io_return done"
| "repair_loop lmt done (j # js) =
     io_bind (is_due j) (\<lambda>due.
       let stale = stale_changes due j; reasons = map snd stale
       in if stale = [] then repair_loop lmt done js
          else
            io_bind (update_job (j_job_id j) (Some ''stale_state_repair'')
                [(''reasons'', FV_val (PList (map PStr reasons)))] (\<lambda>c. fold (\<lambda>(f, _). f) stale c))
              (\<lambda>repaired.
                 let done' = done @ [\<lparr>rv_job_id = j_job_id repaired, rv_status = j_status repaired,
                                     rv_reasons = reasons\<rparr>]
                 in if (case lmt of None \<Rightarrow> False | Some n \<Rightarrow> length done' \<ge> n)
                    then io_return done' else repair_loop lmt done' js))"

definition repair_stale_job_state :: "pyval \<Rightarrow> ('z queue_world_scheme, repair_view list) io" where
  "repair_stale_job_state limit =
     io_bind (io_lift (normalize_optional_limit limit ''repair_stale.limit'')) (\<lambda>lmt.
     io_bind (list_jobs None False) (repair_loop lmt []))"

section \<open>Summary\<close>

record queue_view =
  qv_counts :: "(job_status \<times> nat) list"
  qv_total_jobs :: nat
  qv_queued_job_ids :: "string list"
  qv_running_job_ids :: "string list"
  qv_dead_letter_job_ids :: "string list"
  qv_retry_scheduled_job_ids :: "string list"
  qv_oldest_queued_at :: "stamp option"
  qv_next_ready_at :: "stamp option"
  qv_retry_pending_count :: nat
  qv_dead_letter_count :: nat
  qv_promoted_count :: nat
  qv_promoted_job_ids :: "string list"

text \<open>\<open>min(xs, default=None)\<close> of timestamp strings: the first of the least ones.\<close>

fun stamp_min :: "stamp list \<Rightarrow> stamp option" where
  "stamp_min [] = None"
| "stamp_min (t # ts) =
     (case stamp_min ts of
        None \<Rightarrow> Some t
      | Some u \<Rightarrow> Some (if stamp_key u < stamp_key t then u else t))"

definition with_status :: "job_status \<Rightarrow> job list \<Rightarrow> job list" where
  "with_status s js = filter (\<lambda>j. j_status j = s) js"

definition queue_summary :: "('z queue_world_scheme, queue_view) io" where
  "queue_summary =
     io_bind (promote_due_jobs PNone) (\<lambda>promoted.
     io_bind (list_jobs None False) (\<lambda>js.
       let queued = with_status Queued js; scheduled = with_status Scheduled js;
           retry = filter (\<lambda>j. j_attempt_count j > 0) scheduled;
           dead = with_status Dead_letter js
       in io_return
         \<lparr>qv_counts = map (\<lambda>s. (s, length (with_status s js))) JOB_STATUSES,
          qv_total_jobs = length js, qv_queued_job_ids = map j_job_id queued,
          qv_running_job_ids = map j_job_id (with_status Running js),
          qv_dead_letter_job_ids = map j_job_id dead,
          qv_retry_scheduled_job_ids = map j_job_id retry,
          qv_oldest_queued_at = stamp_min (map j_created_at queued),
          qv_next_ready_at = stamp_min (map j_ready_at scheduled),
          qv_retry_pending_count = length retry, qv_dead_letter_count = length dead,
          qv_promoted_count = length promoted, qv_promoted_job_ids = promoted\<rparr>))"

section \<open>Pruning\<close>

definition job_terminal_timestamp :: "job \<Rightarrow> stamp" where
  "job_terminal_timestamp j =
     (case (j_status j, j_dead_lettered_at j, j_canceled_at j) of
        (Dead_letter, Some t, _) \<Rightarrow> t
      | (Canceled, _, Some t) \<Rightarrow> t
      | _ \<Rightarrow> j_updated_at j)"

fun prune_candidates :: "job_status list \<Rightarrow> int \<Rightarrow> job list \<Rightarrow> job list res" where
  "prune_candidates statuses cutoff [] = Inr []"
| "prune_candidates statuses cutoff (j # js) =
     (if j_status j \<notin> set statuses then prune_candidates statuses cutoff js
      else res_bind (stamp_gt (job_terminal_timestamp j) cutoff) (\<lambda>young.
           res_bind (prune_candidates statuses cutoff js) (\<lambda>rest.
             Inr (if young then rest else j # rest))))"

definition unlink_job :: "string \<Rightarrow> ('z queue_world_scheme, string list) io" where
  "unlink_job k =
     io_bind (io_get (\<lambda>w. dir_get (jobs w) k)) (\<lambda>found.
       case found of
         None \<Rightarrow> io_return []
       | Some _ \<Rightarrow> io_then (io_modify (\<lambda>w. w\<lparr>jobs := dir_del (jobs w) k\<rparr>)) (io_return [k]))"

definition prune_jobs :: "pyval \<Rightarrow> pyval \<Rightarrow> pyval \<Rightarrow> ('z queue_world_scheme, string list) io" where
  "prune_jobs statuses older_than_seconds limit =
     io_bind (io_lift (normalize_job_status_list statuses ''prune.statuses'')) (\<lambda>sts.
     io_bind (io_lift (normalize_non_negative_int older_than_seconds ''prune.older_than_seconds'')) (\<lambda>age.
     io_bind (io_lift (normalize_optional_limit limit ''prune.limit'')) (\<lambda>lmt.
     io_bind utc_now (\<lambda>now.
     io_bind (io_lift (add_seconds now (- age))) (\<lambda>cutoff.
     io_bind (list_jobs None False) (\<lambda>js.
     io_bind (io_lift (prune_candidates sts cutoff js)) (\<lambda>candidates.
     io_bind (io_map (\<lambda>j. unlink_job (j_job_id j))
         (take_limit lmt (sort_key (\<lambda>j. (stamp_key (job_terminal_timestamp j), j_job_id j)) candidates)))
       (\<lambda>pruned. io_return (concat pruned)))))))))"

section \<open>Cancellation and rescheduling\<close>

definition cannot :: "string \<Rightarrow> string \<Rightarrow> job_status \<Rightarrow> exc" where
  "cannot job_id verb status =
     ValueError (''Job `'' @ job_id @ ''` cannot be '' @ verb @ '' from status `'' @ job_status_name status @ ''`'')"

definition cancel_job :: "string \<Rightarrow> string \<Rightarrow> ('z queue_world_scheme, job) io" where
  "cancel_job job_id reason =
     io_bind (load_job job_id) (\<lambda>job.
       if j_status job \<in> set [Completed, Failed, Dead_letter, Canceled]
       then io_raise (cannot job_id ''canceled'' (j_status job))
       else
         io_bind utc_now_iso (\<lambda>timestamp.
           update_job job_id (Some reason) []
             (\<lambda>c. c\<lparr>j_status := Canceled, j_canceled_at := Some timestamp, j_cancel_reason := Some reason,
                    j_worker_id := (if j_status job \<noteq> Running then None else j_worker_id job),
                    j_claimed_at := None, j_lease_expires_at := None, j_next_retry_at := None,
                    j_result := None, j_error := None\<rparr>)))"

definition reschedule_job :: "string \<Rightarrow> pyval \<Rightarrow> iso_text option \<Rightarrow> ('z queue_world_scheme, job) io" where
  "reschedule_job job_id delay_seconds run_at =
     io_bind (load_job job_id) (\<lambda>job.
       if j_status job \<notin> set [Queued, Scheduled, Failed, Dead_letter]
       then io_raise (cannot job_id ''rescheduled'' (j_status job))
       else
         io_bind (build_ready_at delay_seconds run_at) (\<lambda>ready_at.
         io_bind (job_status_for_ready_at ready_at) (\<lambda>status.
           update_job job_id (Some ''operator_reschedule'') [(''ready_at'', FV_stamp (Some ready_at))]
             (\<lambda>c. c\<lparr>j_status := status, j_ready_at := ready_at, j_worker_id := None,
                    j_claimed_at := None, j_lease_expires_at := None, j_last_requeue_reason := None,
                    j_attempt_count := 0, j_last_failure_at := None, j_dead_lettered_at := None,
                    j_next_retry_at := None, j_canceled_at := None, j_cancel_reason := None,
                    j_result := None, j_error := None\<rparr>))))"

section \<open>Invariants of stored jobs\<close>

definition job_core ::
    "job \<Rightarrow> (string \<times> job_type \<times> int \<times> pydict \<times> string option \<times> string option \<times> string option) \<times>
      (int \<times> int \<times> stamp \<times> job_event list)" where
  "job_core j =
     ((j_job_id j, j_job_type j, j_priority j, j_payload j, j_workflow_id j, j_parent_job_id j,
       j_idempotency_key j),
      (j_max_attempts j, j_retry_backoff_seconds j, j_created_at j, j_transition_history j))"

text \<open>The updates of the queue and the workers never touch what the request fixed.\<close>

definition tidy :: "(job \<Rightarrow> job) \<Rightarrow> bool" where
  "tidy f \<longleftrightarrow> (\<forall>j. job_core (f j) = job_core j)"

definition aware_new :: "job \<Rightarrow> bool" where
  "aware_new j \<longleftrightarrow> aware (j_ready_at j) \<and> aware (j_created_at j) \<and> aware (j_updated_at j) \<and>
     j_last_failure_at j = None"

definition is_new :: "job \<Rightarrow> bool" where
  "is_new j \<longleftrightarrow> job_valid j \<and> aware_new j \<and> j_transition_history j = [] \<and> j_status j \<in> {Queued, Scheduled} \<and>
     simple_fields j = created_view (j_status j) (j_ready_at j)"

definition aware_job :: "job \<Rightarrow> bool" where
  "aware_job j \<longleftrightarrow> aware (j_ready_at j) \<and> aware (j_created_at j) \<and> aware (j_updated_at j) \<and>
     aware_opt (j_claimed_at j) \<and> aware_opt (j_lease_expires_at j) \<and> aware_opt (j_last_failure_at j) \<and>
     aware_opt (j_next_retry_at j) \<and> aware_opt (j_dead_lettered_at j) \<and> aware_opt (j_canceled_at j)"

text \<open>The updates never store a naive timestamp either.\<close>

definition tidy_change :: "(job \<Rightarrow> job) \<Rightarrow> bool" where
  "tidy_change f \<longleftrightarrow> tidy f \<and> (\<forall>j. aware_job j \<longrightarrow> aware_job (f j))"

text \<open>
  Two interfaces: a predicate on the stored jobs that every update of a job keeps, and one that a
  new job satisfies as well.
\<close>

locale job_update_invariant =
  fixes P :: "string \<Rightarrow> job \<Rightarrow> bool"
  assumes changed: "P k j \<Longrightarrow> tidy_change f \<Longrightarrow> job_valid (f j) \<Longrightarrow>
      P k (job_after reason details f (utc_stamp us) j)"
begin

lemma keeps_change: "tidy_change f \<Longrightarrow> keeps (all_jobs P) (update_job k reason details f)"
  by (rule keeps_update_job) (rule changed)

end

locale job_invariant = job_update_invariant +
  assumes created: "is_new j \<Longrightarrow>
      P (j_job_id j) (j\<lparr>j_transition_history := build_job_transition_history None j None []\<rparr>)"
    and overwritten: "P (j_job_id j) prev \<Longrightarrow> is_new j \<Longrightarrow>
      P (j_job_id j) (j\<lparr>j_transition_history := build_job_transition_history (Some prev) j None []\<rparr>)"

text \<open>The record updates the code makes are tidy.\<close>

lemma tidy_changeI:
  "(\<And>j. job_core (f j) = job_core j) \<Longrightarrow> (\<And>j. aware_job j \<Longrightarrow> aware_job (f j)) \<Longrightarrow> tidy_change f"
  by (simp add: tidy_change_def tidy_def)

lemma tidy_fold_stale: "tidy_change (\<lambda>c. fold (\<lambda>(f, _). f) (stale_changes due j) c)"
  by (rule tidy_changeI) (auto simp: job_core_def stale_changes_def aware_job_def)

lemma tidy_status [simp]: "tidy_change (\<lambda>c. c\<lparr>j_status := s\<rparr>)"
  by (rule tidy_changeI) (simp_all add: job_core_def aware_job_def)

text \<open>What is known of the values read from the clock.\<close>

lemma keeps_after_now:
  "(\<And>us. keeps I (f (utc_stamp us))) \<Longrightarrow> keeps I utc_now_iso \<Longrightarrow> keeps I (io_bind utc_now_iso f)"
  unfolding keeps_def io_bind_def utc_now_iso_def utc_now_def io_return_def by auto

lemma keeps_after_ready:
  assumes "\<And>s. aware t \<Longrightarrow> s \<in> {Queued, Scheduled} \<Longrightarrow> keeps I (f s)"
    and "keeps I (job_status_for_ready_at t)"
  shows "keeps I (io_bind (job_status_for_ready_at t) f)"
  unfolding keeps_def
proof (intro allI impI)
  fix w assume w: "I w"
  obtain r w' where m: "job_status_for_ready_at t w = (r, w')" by (cases "job_status_for_ready_at t w")
  have w': "I w'" using assms(2) w m by (metis keeps_def snd_conv)
  show "I (snd (io_bind (job_status_for_ready_at t) f w))"
  proof (cases r)
    case (Inl e)
    then show ?thesis using m w' by (simp add: io_bind_def)
  next
    case (Inr s)
    then have "aware t \<and> s \<in> {Queued, Scheduled}"
      using m by (auto simp: job_status_for_ready_at_def io_bind_def utc_now_def io_lift_def res_bind_def
          dest: stamp_gt_aware split: sum.splits)
    then show ?thesis using assms(1) m w' Inr by (simp add: io_bind_def keeps_def)
  qed
qed

lemma wp_job_lease_expired_idle:
  "j_status j \<noteq> Running \<Longrightarrow> wp (job_summary j) Q E w = Q (j\<lparr>j_lease_expired := False\<rparr>) w"
  by (simp add: job_summary_def job_lease_expired_def wp)

text \<open>Writing a new job stores it under its identifier with its creation entry.\<close>

lemma wp_write_new:
  assumes "j_status j \<in> {Queued, Scheduled}" and "\<not> j_lease_expired j"
  shows "wp (write_job j) Q E w =
     (let j' = j\<lparr>j_transition_history :=
          build_job_transition_history (dir_get (jobs w) (j_job_id j)) j None []\<rparr>
      in Q j' (w\<lparr>jobs := dir_put (jobs w) (j_job_id j) j'\<rparr>))"
proof -
  have "j\<lparr>j_lease_expired := False\<rparr> = j" using assms(2) by simp
  moreover have "j_status j \<noteq> Running" using assms(1) by auto
  ultimately show ?thesis
    by (simp add: write_job_def wp wp_job_lease_expired_idle Let_def)
qed

lemma check_request_valid:
  "check_request rq = Inr cq \<Longrightarrow> 0 < cq_max_attempts cq \<and> 0 \<le> cq_retry_backoff_seconds cq"
  by (auto simp: check_request_def normalize_positive_int_def normalize_non_negative_int_def Let_def
      split: option.splits if_splits)

lemma is_new_job:
  assumes "check_request rq = Inr cq" and "status \<in> {Queued, Scheduled}"
    and "aware ready_at" and "aware timestamp"
  shows "is_new (new_job rq cq job_id status priority ready_at timestamp)"
  using assms check_request_valid [OF assms(1)]
  by (auto simp: is_new_def aware_new_def new_job_def job_valid_def simple_fields_eq created_view_def)

context job_invariant
begin

lemma keeps_write_new:
  assumes "is_new j" and "\<not> j_lease_expired j"
  shows "keeps (all_jobs P :: 'z queue_world_scheme \<Rightarrow> bool) (write_job j)"
proof -
  have "wp (write_job j) (\<lambda>_. all_jobs P) (\<lambda>_. all_jobs P) w" if inv: "all_jobs P w"
    for w :: "'z queue_world_scheme"
  proof -
    have new: "P (j_job_id j) (j\<lparr>j_transition_history :=
        build_job_transition_history (dir_get (jobs w) (j_job_id j)) j None []\<rparr>)"
    proof (cases "dir_get (jobs w) (j_job_id j)")
      case None
      then show ?thesis using created [OF assms(1)] by simp
    next
      case (Some prev)
      then show ?thesis using overwritten [OF all_jobsD [OF inv Some] assms(1)] by simp
    qed
    have "j_status j \<in> {Queued, Scheduled}" using assms(1) by (simp add: is_new_def)
    then show ?thesis
      by (simp add: wp_write_new assms(2) Let_def all_jobs_put [OF inv new])
  qed
  then show ?thesis by (simp add: keeps_wp)
qed

lemma keeps_enqueue_new:
  assumes "check_request rq = Inr cq"
  shows "keeps (all_jobs P :: 'z queue_world_scheme \<Rightarrow> bool) (enqueue_new rq cq)"
  unfolding enqueue_new_def
  by (intro keeps_after_now keeps_after_ready keeps_intro keeps_write_new is_new_job [OF assms] aware_utc)
    (simp_all add: new_job_def)

lemma keeps_create_job: "keeps (all_jobs P) (create_job rq)"
proof (cases "check_request rq")
  case (Inl e)
  then show ?thesis by (simp add: create_job_def keeps_def io_bind_def io_lift_def)
next
  case (Inr cq)
  have eq: "create_job rq = (case cq_idempotency_key cq of
         None \<Rightarrow> enqueue_new rq cq
       | Some key \<Rightarrow>
           io_bind (find_job_by_idempotency_key key) (\<lambda>existing.
             case existing of
               None \<Rightarrow> enqueue_new rq cq
             | Some j \<Rightarrow>
                 if idempotent_request_matches j (cq_job_type cq) (cq_payload cq)
                      (rq_workflow_id rq) (rq_parent_job_id rq)
                 then io_return j
                 else io_raise (key_in_use key)))"
    by (simp add: create_job_def Inr io_bind_def io_lift_def)
  show ?thesis
    unfolding eq by (intro keeps_intro keeps_enqueue_new [OF Inr])
qed

end

context job_update_invariant
begin

lemma keeps_load_job: "keeps (all_jobs P) (load_job k)"
  unfolding load_job_def by (intro keeps_intro keeps_change tidy_status)

lemma keeps_promote: "keeps (all_jobs P) (promote_due_jobs limit)"
  unfolding promote_due_jobs_def promote_one_def by (intro keeps_intro keeps_change tidy_status)

lemma keeps_list_jobs: "keeps (all_jobs P) (list_jobs status promote)"
  unfolding list_jobs_def by (intro keeps_intro keeps_promote)

lemma keeps_requeue: "keeps (all_jobs P) (requeue_job k reason)"
  unfolding requeue_job_def
  by (intro keeps_intro keeps_load_job keeps_change tidy_changeI) (simp_all add: job_core_def aware_job_def)

lemma keeps_record_failure: "keeps (all_jobs P) (record_job_failure k e)"
  unfolding record_job_failure_def fail_for_good_def plan_retry_def
  by (intro keeps_after_now keeps_after_ready keeps_intro keeps_load_job keeps_change tidy_changeI)
    (simp_all add: job_core_def aware_job_def)

lemma keeps_repair_loop: "keeps (all_jobs P) (repair_loop lmt done js)"
  by (induction js arbitrary: "done")
    (auto intro!: keeps_intro keeps_change tidy_fold_stale simp: Let_def)

lemma keeps_repair: "keeps (all_jobs P) (repair_stale_job_state limit)"
  unfolding repair_stale_job_state_def by (intro keeps_intro keeps_list_jobs keeps_repair_loop)

lemma keeps_summary: "keeps (all_jobs P) queue_summary"
  unfolding queue_summary_def by (intro keeps_intro keeps_list_jobs keeps_promote)

lemma keeps_unlink: "keeps (all_jobs P) (unlink_job k)"
  unfolding unlink_job_def
  by (intro keeps_intro keeps_modify) (auto intro: all_jobs_del)

lemma keeps_prune: "keeps (all_jobs P) (prune_jobs statuses age limit)"
  unfolding prune_jobs_def by (intro keeps_intro keeps_list_jobs keeps_unlink)

lemma keeps_cancel: "keeps (all_jobs P) (cancel_job k reason)"
  unfolding cancel_job_def
  by (intro keeps_after_now keeps_after_ready keeps_intro keeps_load_job keeps_change tidy_changeI)
    (simp_all add: job_core_def aware_job_def)

lemma keeps_reschedule: "keeps (all_jobs P) (reschedule_job k delay run_at)"
  unfolding reschedule_job_def
  by (intro keeps_after_now keeps_after_ready keeps_intro keeps_load_job keeps_change tidy_changeI)
    (simp_all add: job_core_def aware_job_def)

lemmas keeps_queue = keeps_load_job keeps_promote keeps_list_jobs keeps_requeue
  keeps_record_failure keeps_repair keeps_summary keeps_prune keeps_cancel keeps_reschedule

end

section \<open>Sequences of requests\<close>

datatype queue_op =
    Q_create job_request
  | Q_load string
  | Q_list "string option" bool
  | Q_promote pyval
  | Q_requeue string string
  | Q_failure string exc
  | Q_repair pyval
  | Q_summary
  | Q_prune pyval pyval pyval
  | Q_cancel string string
  | Q_reschedule string pyval "iso_text option"

definition ignoring :: "('s, 'a) io \<Rightarrow> ('s, unit) io" where
  "ignoring m = io_bind m (\<lambda>_. io_return ())"

fun queue_do :: "queue_op \<Rightarrow> ('z queue_world_scheme, unit) io" where
  "queue_do (Q_create rq) = ignoring (create_job rq)"
| "queue_do (Q_load k) = ignoring (load_job k)"
| "queue_do (Q_list status promote) = ignoring (list_jobs status promote)"
| "queue_do (Q_promote limit) = ignoring (promote_due_jobs limit)"
| "queue_do (Q_requeue k reason) = ignoring (requeue_job k reason)"
| "queue_do (Q_failure k e) = ignoring (record_job_failure k e)"
| "queue_do (Q_repair limit) = ignoring (repair_stale_job_state limit)"
| "queue_do Q_summary = ignoring queue_summary"
| "queue_do (Q_prune statuses age limit) = ignoring (prune_jobs statuses age limit)"
| "queue_do (Q_cancel k reason) = ignoring (cancel_job k reason)"
| "queue_do (Q_reschedule k delay run_at) = ignoring (reschedule_job k delay run_at)"

fun queue_serve :: "queue_op list \<Rightarrow> 'z queue_world_scheme \<Rightarrow> 'z queue_world_scheme" where
  "queue_serve [] w = w"
| "queue_serve (x # xs) w = queue_serve xs (snd (queue_do x w))"

lemma keeps_ignoring [keeps_intro]: "keeps I m \<Longrightarrow> keeps I (ignoring m)"
  unfolding ignoring_def by (intro keeps_intro)

lemma serve_keeps:
  assumes "\<And>x. keeps I (queue_do x)" and "I w"
  shows "I (queue_serve ops w)"
  using assms(2)
proof (induction ops arbitrary: w)
  case (Cons x xs)
  have "I (snd (queue_do x w))" using assms(1) Cons.prems by (auto simp: keeps_def)
  with Cons.IH show ?case by simp
qed simp

fun creates_job :: "queue_op \<Rightarrow> bool" where
  "creates_job (Q_create rq) = True"
| "creates_job _ = False"

context job_update_invariant
begin

lemma keeps_other_do: "\<not> creates_job x \<Longrightarrow> keeps (all_jobs P) (queue_do x)"
  by (cases x) (auto intro: keeps_intro keeps_queue)

end

context job_invariant
begin

lemma keeps_do: "keeps (all_jobs P) (queue_do x)"
  by (cases x) (auto intro: keeps_intro keeps_queue keeps_create_job)

lemma serve_all_jobs: "all_jobs P w \<Longrightarrow> all_jobs P (queue_serve ops w)"
  using serve_keeps [OF keeps_do] .

end

end
