(* ===== verification/Worker.thy ===== *)
theory Worker
  imports Queue_Lifecycle
begin

text \<open>
  src/runtime/worker.py: the registry of workers with their leases, claiming and running jobs,
  and the recovery operations. The state is the queue's together with the directory of worker
  files (\<open>workers\<close>). What a job does is not in this file: the three functions of the
  workflow runner it is dispatched to are a parameter (\<open>runner\<close>), computations on the whole
  state, so that a dispatched job may itself change jobs and workers (other requests are served
  while it runs). Every other operation runs without interruption; the code takes no locks.
\<close>

datatype worker_status = Idle | Busy | Expired

fun worker_status_name :: "worker_status \<Rightarrow> string" where
  "worker_status_name Idle = ''idle''"
| "worker_status_name Busy = ''busy''"
| "worker_status_name Expired = ''expired''"

datatype worker_event_type = Wv_job_assigned | Wv_job_released | Wv_status_changed | Wv_heartbeat | Wv_lease_updated

record worker_change =
  wc_event_type :: worker_event_type
  wc_timestamp :: stamp
  wc_from_status :: worker_status
  wc_to_status :: worker_status
  wc_current_job_id :: "string option"
  wc_reason :: "string option"
  wc_changed_fields :: "(string \<times> field_value \<times> field_value) list"
  wc_details :: pydict

datatype worker_event =
    Worker_created stamp worker_status int
  | Worker_changed worker_change

record worker =
  wk_worker_id :: string
  wk_name :: string
  wk_status :: worker_status
  wk_lease_seconds :: int
  wk_last_heartbeat_at :: stamp
  wk_lease_expires_at :: stamp
  wk_lease_expired :: bool
  wk_current_job_id :: "string option"
  wk_transition_history :: "worker_event list"
  wk_created_at :: stamp
  wk_updated_at :: stamp

record worker_world = queue_world +
  workers :: "worker dir"

section \<open>Transition history\<close>

definition worker_fields :: "worker \<Rightarrow> (string \<times> field_value) list" where
  "worker_fields u =
     [(''status'', FV_val (PStr (worker_status_name (wk_status u)))),
      (''current_job_id'', FV_val (opt_str (wk_current_job_id u))),
      (''last_heartbeat_at'', FV_stamp (Some (wk_last_heartbeat_at u))),
      (''lease_expires_at'', FV_stamp (Some (wk_lease_expires_at u)))]"

definition worker_transition_changed_fields :: "worker \<Rightarrow> worker \<Rightarrow> (string \<times> field_value \<times> field_value) list" where
  "worker_transition_changed_fields current updated =
     List.map_filter (\<lambda>((name, a), (_, b)). if fv_eq a b then None else Some (name, a, b))
       (zip (worker_fields current) (worker_fields updated))"

definition classify_worker_transition_event :: "worker \<Rightarrow> worker \<Rightarrow> worker_event_type" where
  "classify_worker_transition_event current updated =
     (if wk_current_job_id current \<noteq> wk_current_job_id updated then
        (if wk_current_job_id updated \<noteq> None then Wv_job_assigned else Wv_job_released)
      else if wk_status current \<noteq> wk_status updated then Wv_status_changed
      else if wk_last_heartbeat_at current \<noteq> wk_last_heartbeat_at updated then Wv_heartbeat
      else Wv_lease_updated)"

definition build_worker_transition_history ::
    "worker option \<Rightarrow> worker \<Rightarrow> string option \<Rightarrow> pydict \<Rightarrow> worker_event list" where
  "build_worker_transition_history previous updated transition_reason transition_details =
     (case previous of
        None \<Rightarrow> wk_transition_history updated @
          [Worker_created (wk_updated_at updated) (wk_status updated) (wk_lease_seconds updated)]
      | Some prev \<Rightarrow>
          (let changed_fields = worker_transition_changed_fields prev updated
           in if changed_fields = [] then wk_transition_history prev
              else wk_transition_history prev @
                [Worker_changed
                  \<lparr>wc_event_type = classify_worker_transition_event prev updated,
                   wc_timestamp = wk_updated_at updated,
                   wc_from_status = wk_status prev, wc_to_status = wk_status updated,
                   wc_current_job_id = wk_current_job_id updated, wc_reason = transition_reason,
                   wc_changed_fields = changed_fields, wc_details = transition_details\<rparr>]))"

section \<open>The registry\<close>

definition worker_lease_expired :: "worker \<Rightarrow> ('z env_scheme, bool) io" where
  "worker_lease_expired u = io_bind utc_now (\<lambda>now. io_lift (stamp_le (wk_lease_expires_at u) now))"

definition worker_summary :: "worker \<Rightarrow> ('z env_scheme, worker) io" where
  "worker_summary u =
     io_bind (worker_lease_expired u) (\<lambda>expired.
       io_return (u\<lparr>wk_status := (if expired \<and> wk_current_job_id u \<noteq> None then Expired else wk_status u),
                    wk_lease_expired := expired\<rparr>))"

definition put_worker :: "string \<Rightarrow> worker \<Rightarrow> ('z worker_world_scheme, worker) io" where
  "put_worker k u = io_then (io_modify (\<lambda>w. w\<lparr>workers := dir_put (workers w) k u\<rparr>)) (io_return u)"

definition write_worker :: "worker \<Rightarrow> ('z worker_world_scheme, worker) io" where
  "write_worker u =
     io_bind (worker_summary u) (\<lambda>summary.
     io_bind (io_get (\<lambda>w. dir_get (workers w) (wk_worker_id u))) (\<lambda>previous.
       put_worker (wk_worker_id u)
         (summary\<lparr>wk_transition_history := build_worker_transition_history previous summary None []\<rparr>)))"

definition register_worker :: "string option \<Rightarrow> pyval \<Rightarrow> ('z worker_world_scheme, worker) io" where
  "register_worker name lease_seconds =
     (let bad = io_raise (ValueError ''Worker `lease_seconds` must be a positive integer'')
      in case py_int lease_seconds of
           None \<Rightarrow> bad
         | Some n \<Rightarrow>
             if n \<le> 0 then bad
             else
               io_bind utc_now (\<lambda>timestamp.
               io_bind uuid4 (\<lambda>worker_id.
               io_bind (io_lift (add_seconds timestamp n)) (\<lambda>expires.
                 write_worker
                   \<lparr>wk_worker_id = worker_id,
                    wk_name = (case name of None \<Rightarrow> ''worker'' | Some s \<Rightarrow> if s = [] then ''worker'' else s),
                    wk_status = Idle, wk_lease_seconds = n,
                    wk_last_heartbeat_at = utc_stamp timestamp, wk_lease_expires_at = utc_stamp expires,
                    wk_lease_expired = False, wk_current_job_id = None, wk_transition_history = [],
                    wk_created_at = utc_stamp timestamp, wk_updated_at = utc_stamp timestamp\<rparr>))))"

definition no_worker :: "string \<Rightarrow> exc" where
  "no_worker worker_id = FileNotFoundError (''Worker not found: '' @ worker_id)"

definition load_worker :: "string \<Rightarrow> ('z worker_world_scheme, worker) io" where
  "load_worker k =
     io_bind (io_get (\<lambda>w. dir_get (workers w) k)) (\<lambda>found.
       case found of None \<Rightarrow> io_raise (no_worker k) | Some u \<Rightarrow> io_return u)"

definition update_worker ::
    "string \<Rightarrow> string option \<Rightarrow> pydict \<Rightarrow> (worker \<Rightarrow> worker) \<Rightarrow> ('z worker_world_scheme, worker) io" where
  "update_worker k transition_reason transition_details changes =
     io_bind (load_worker k) (\<lambda>u.
     io_bind utc_now_iso (\<lambda>now.
     io_bind (worker_summary ((changes u)\<lparr>wk_updated_at := now\<rparr>)) (\<lambda>summary.
       put_worker k (summary\<lparr>wk_transition_history :=
         build_worker_transition_history (Some u) summary transition_reason transition_details\<rparr>))))"

definition lease_lost :: "string \<Rightarrow> string \<Rightarrow> exc" where
  "lease_lost worker_id job_id =
     ValueError (''Worker `'' @ worker_id @ ''` lease expired while holding job `'' @ job_id @ ''`'')"

text \<open>\<open>worker_lease_expired(worker) and worker.get("current_job_id") is not None\<close>, raising.\<close>

definition check_lease_held :: "string \<Rightarrow> worker \<Rightarrow> ('z env_scheme, unit) io" where
  "check_lease_held worker_id u =
     io_bind (worker_lease_expired u) (\<lambda>expired.
       case wk_current_job_id u of
         Some j \<Rightarrow> if expired then io_raise (lease_lost worker_id j) else io_return ()
       | None \<Rightarrow> io_return ())"

definition renew_lease :: "int \<Rightarrow> int \<Rightarrow> worker \<Rightarrow> worker" where
  "renew_lease timestamp expires u =
     u\<lparr>wk_last_heartbeat_at := utc_stamp timestamp, wk_lease_expires_at := utc_stamp expires\<rparr>"

definition heartbeat_worker :: "string \<Rightarrow> ('z worker_world_scheme, worker) io" where
  "heartbeat_worker k =
     io_bind (load_worker k) (\<lambda>u.
     io_then (check_lease_held k u)
       (io_bind utc_now (\<lambda>timestamp.
        io_bind (io_lift (add_seconds timestamp (wk_lease_seconds u))) (\<lambda>expires.
          update_worker k (Some ''heartbeat'') [] (renew_lease timestamp expires)))))"

definition list_workers :: "('z worker_world_scheme, worker list) io" where
  "list_workers = io_bind (io_get (\<lambda>w. sorted_ids (workers w))) (io_map load_worker)"

section \<open>Recovery\<close>

text \<open>\<open>try: load_job(...) except FileNotFoundError\<close>\<close>

definition try_load_job :: "string \<Rightarrow> ('z queue_world_scheme, job option) io" where
  "try_load_job k =
     io_catch (io_bind (load_job k) (\<lambda>j. io_return (Some j)))
       (\<lambda>e. case e of FileNotFoundError m \<Rightarrow> io_return None | _ \<Rightarrow> io_raise e)"

definition try_load_worker :: "string \<Rightarrow> ('z worker_world_scheme, worker option) io" where
  "try_load_worker k =
     io_catch (io_bind (load_worker k) (\<lambda>u. io_return (Some u)))
       (\<lambda>e. case e of FileNotFoundError m \<Rightarrow> io_return None | _ \<Rightarrow> io_raise e)"

record reset_view =
  rs_worker :: worker
  rs_reason :: string
  rs_forced :: bool
  rs_requeued_job_ids :: "string list"

text \<open>
  The handling of the job the worker holds: the force flag and the requeued jobs afterwards.
\<close>

definition reset_held_job ::
    "string \<Rightarrow> worker \<Rightarrow> string \<Rightarrow> string \<Rightarrow> bool \<Rightarrow> bool \<Rightarrow>
     ('z queue_world_scheme, bool \<times> string list) io" where
  "reset_held_job worker_id u job_id reason force requeue_running_job =
     io_bind (try_load_job job_id) (\<lambda>found.
       case found of
         None \<Rightarrow> io_return (True, [])
       | Some job \<Rightarrow>
           if j_status job = Running \<and> j_worker_id job = Some worker_id then
             if requeue_running_job then
               io_bind (requeue_job job_id (''Worker reset: '' @ py_strip reason))
                 (\<lambda>requeued. io_return (force, [j_job_id requeued]))
             else if \<not> force then
               io_raise (ValueError (''Worker `'' @ worker_id @ ''` is actively holding job `'' @ job_id
                 @ ''`; pass `requeue_running_job` or `force` to reset''))
             else io_return (force, [])
           else if \<not> force \<and> wk_status u \<noteq> Idle then
             io_raise (ValueError (''Worker `'' @ worker_id @ ''` is not idle and cannot be reset without `force`''))
           else io_return (force, []))"

definition reset_worker ::
    "string \<Rightarrow> string \<Rightarrow> bool \<Rightarrow> bool \<Rightarrow> ('z worker_world_scheme, reset_view) io" where
  "reset_worker worker_id reason force requeue_running_job =
     (if py_strip reason = [] then io_raise (ValueError ''Worker reset `reason` must be a non-empty string'')
      else
        io_bind (load_worker worker_id) (\<lambda>u.
        io_bind (case wk_current_job_id u of
                   None \<Rightarrow> io_return (force, [])
                 | Some job_id \<Rightarrow> reset_held_job worker_id u job_id reason force requeue_running_job)
          (\<lambda>(forced, requeued).
        io_bind utc_now (\<lambda>timestamp.
        io_bind (io_lift (add_seconds timestamp (wk_lease_seconds u))) (\<lambda>expires.
        io_bind (update_worker worker_id (Some (py_strip reason))
            [(''forced'', PBool forced), (''requeued_job_ids'', PList (map PStr requeued))]
            (\<lambda>c. renew_lease timestamp expires (c\<lparr>wk_status := Idle, wk_current_job_id := None\<rparr>)))
          (\<lambda>repaired. io_return \<lparr>rs_worker = repaired, rs_reason = py_strip reason,
                                 rs_forced = forced, rs_requeued_job_ids = requeued\<rparr>))))))"

definition orphan_reason :: "worker \<Rightarrow> ('z queue_world_scheme, string option) io" where
  "orphan_reason u =
     (case wk_current_job_id u of
        None \<Rightarrow> io_return (if wk_status u \<noteq> Idle then Some ''Worker marked busy without a current job'' else None)
      | Some job_id \<Rightarrow>
          io_bind (try_load_job job_id) (\<lambda>found.
            io_return
              (case found of
                 None \<Rightarrow> Some (''Worker references missing job `'' @ job_id @ ''`'')
               | Some job \<Rightarrow>
                   if j_status job \<noteq> Running then
                     Some (''Worker references job `'' @ job_id @ ''` in terminal/non-running status `''
                       @ job_status_name (j_status job) @ ''`'')
                   else if j_worker_id job \<noteq> Some (wk_worker_id u) then
                     Some (''Worker references job `'' @ job_id @ ''` claimed by `''
                       @ (case j_worker_id job of None \<Rightarrow> ''None'' | Some x \<Rightarrow> x) @ ''`'')
                   else None)))"

fun repair_orphans_loop ::
    "nat option \<Rightarrow> reset_view list \<Rightarrow> worker list \<Rightarrow> ('z worker_world_scheme, reset_view list) io" where
  "repair_orphans_loop lmt done [] = io_return done"
| "repair_orphans_loop lmt done (u # us) =
     io_bind (orphan_reason u) (\<lambda>reason.
       case reason of
         None \<Rightarrow> repair_orphans_loop lmt done us
       | Some r \<Rightarrow>
           io_bind (reset_worker (wk_worker_id u) r True False) (\<lambda>v.
             let done' = done @ [v]
             in if (case lmt of None \<Rightarrow> False | Some n \<Rightarrow> length done' \<ge> n)
                then io_return done' else repair_orphans_loop lmt done' us))"

definition repair_orphaned_workers :: "pyval \<Rightarrow> ('z worker_world_scheme, reset_view list) io" where
  "repair_orphaned_workers limit =
     io_bind (io_lift (normalize_optional_limit limit ''repair_orphans.limit'')) (\<lambda>lmt.
     io_bind list_workers (repair_orphans_loop lmt []))"

definition set_idle :: "worker \<Rightarrow> worker" where
  "set_idle c = c\<lparr>wk_status := Idle, wk_current_job_id := None\<rparr>"

definition reclaim_one :: "job \<Rightarrow> ('z worker_world_scheme, string list) io" where
  "reclaim_one j =
     io_bind (job_lease_expired j) (\<lambda>expired.
       if \<not> expired then io_return []
       else
         io_bind (requeue_job (j_job_id j) (''Lease expired for worker `''
             @ (case j_worker_id j of None \<Rightarrow> ''None'' | Some x \<Rightarrow> x) @ ''`'')) (\<lambda>reclaimed.
           case j_worker_id j of
             None \<Rightarrow> io_return [j_job_id reclaimed]
           | Some worker_id \<Rightarrow>
               io_bind (try_load_worker worker_id) (\<lambda>found.
                 case found of
                   None \<Rightarrow> io_return [j_job_id reclaimed]
                 | Some u \<Rightarrow>
                     if wk_current_job_id u = Some (j_job_id j)
                     then io_bind (update_worker worker_id None [] set_idle)
                            (\<lambda>_. io_return [j_job_id reclaimed])
                     else io_return [j_job_id reclaimed])))"

definition reclaim_expired_leases :: "('z worker_world_scheme, string list) io" where
  "reclaim_expired_leases =
     io_bind (list_jobs (Some ''running'') True) (\<lambda>js.
     io_bind (io_map reclaim_one js) (\<lambda>ids. io_return (concat ids)))"

section \<open>Claiming and running\<close>

definition claim_next_job :: "string \<Rightarrow> ('z worker_world_scheme, job option) io" where
  "claim_next_job worker_id =
     io_bind reclaim_expired_leases (\<lambda>_.
     io_bind (load_worker worker_id) (\<lambda>u.
     io_then (check_lease_held worker_id u)
     (io_bind (worker_lease_expired u) (\<lambda>_.
      io_bind (heartbeat_worker worker_id) (\<lambda>u.
        case wk_current_job_id u of
          Some j \<Rightarrow> io_raise (ValueError (''Worker `'' @ worker_id @ ''` is already assigned to job `'' @ j @ ''`''))
        | None \<Rightarrow>
            io_bind ready_jobs (\<lambda>ready.
              case ready of
                [] \<Rightarrow> io_return None
              | job # _ \<Rightarrow>
                  io_bind utc_now (\<lambda>timestamp.
                  io_bind (io_lift (add_seconds timestamp (wk_lease_seconds u))) (\<lambda>expires.
                  io_bind (update_job (j_job_id job) (Some (''claimed_by_worker:'' @ worker_id)) []
                      (\<lambda>c. c\<lparr>j_status := Running, j_worker_id := Some worker_id,
                             j_claimed_at := Some (utc_stamp timestamp),
                             j_lease_expires_at := Some (utc_stamp expires)\<rparr>)) (\<lambda>leased.
                  io_bind (update_worker worker_id (Some (''claimed_job:'' @ j_job_id job)) []
                      (\<lambda>c. renew_lease timestamp expires
                             (c\<lparr>wk_status := Busy, wk_current_job_id := Some (j_job_id job)\<rparr>))) (\<lambda>_.
                    io_return (Some leased)))))))))))"

text \<open>The workflow runner: keyword arguments in, the result object out.\<close>

record 'w runner =
  start_workflow :: "pydict \<Rightarrow> ('w, pydict) io"
  resume_workflow :: "pyval \<Rightarrow> pydict \<Rightarrow> ('w, pydict) io"
  start_child_workflow :: "pyval \<Rightarrow> pydict \<Rightarrow> ('w, pydict) io"

definition payload_item :: "pydict \<Rightarrow> string \<Rightarrow> pyval res" where
  "payload_item d k = (case map_of d k of None \<Rightarrow> Inl (KeyError k) | Some v \<Rightarrow> Inr v)"

definition dispatch_job :: "'w runner \<Rightarrow> job \<Rightarrow> ('w, pydict) io" where
  "dispatch_job r j =
     (let p = j_payload j;
          owner = [(''job_id'', PStr (j_job_id j)), (''worker_id'', opt_str (j_worker_id j))];
          request = [(''user_input'', dict_get_or p ''input'' (PStr [])),
                     (''agent_name'', dict_get_or p ''agent'' (PStr ''default'')),
                     (''tool_name'', dict_get p ''tool''), (''tool_args'', dict_get p ''tool_args'')]
      in case j_job_type j of
           Workflow_start \<Rightarrow>
             start_workflow r (request @ [(''approval_id'', dict_get p ''approval_id'')] @ owner)
         | Workflow_resume \<Rightarrow>
             io_bind (io_lift (payload_item p ''workflow_id'')) (\<lambda>workflow_id.
               resume_workflow r workflow_id owner)
         | Workflow_subrun \<Rightarrow>
             io_bind (io_lift (payload_item p ''workflow_id'')) (\<lambda>workflow_id.
               start_child_workflow r workflow_id
                 (request @
                  map (\<lambda>k. (k, dict_get p k))
                    [''role'', ''allowed_capabilities'', ''allowed_tools'', ''task_intent'',
                     ''expected_output'', ''completion_criteria'', ''shared_memory_ids''] @ owner)))"

definition complete_job :: "string \<Rightarrow> pydict \<Rightarrow> ('z queue_world_scheme, job) io" where
  "complete_job job_id result =
     update_job job_id (Some ''job_completed'') []
       (\<lambda>c. c\<lparr>j_status := Completed, j_result := Some result, j_error := None,
              j_lease_expires_at := None\<rparr>)"

definition fail_job :: "string \<Rightarrow> exc \<Rightarrow> ('z queue_world_scheme, job) io" where
  "fail_job job_id e = record_job_failure job_id e"

definition release_worker :: "string \<Rightarrow> ('z worker_world_scheme, worker) io" where
  "release_worker worker_id = update_worker worker_id (Some ''job_released'') [] set_idle"

definition cancel_job_execution :: "string \<Rightarrow> string \<Rightarrow> ('z worker_world_scheme, job) io" where
  "cancel_job_execution job_id reason =
     io_bind (load_job job_id) (\<lambda>job.
     io_bind (cancel_job job_id reason) (\<lambda>canceled.
       case j_worker_id job of
         None \<Rightarrow> io_return canceled
       | Some worker_id \<Rightarrow>
           io_bind (try_load_worker worker_id) (\<lambda>found.
             case found of
               None \<Rightarrow> io_return canceled
             | Some u \<Rightarrow>
                 if wk_current_job_id u = Some job_id
                 then io_bind (release_worker worker_id) (\<lambda>_. io_return canceled)
                 else io_return canceled)))"

definition run_claimed_job ::
    "'z worker_world_scheme runner \<Rightarrow> string \<Rightarrow> string \<Rightarrow> ('z worker_world_scheme, job) io" where
  "run_claimed_job r worker_id job_id =
     (let refuse = (\<lambda>a b c. io_raise (ValueError (a @ b @ c)))
      in io_bind (load_worker worker_id) (\<lambda>u.
         io_bind (worker_lease_expired u) (\<lambda>expired.
           if expired then
             io_raise (ValueError (''Worker `'' @ worker_id @ ''` lease expired before running job `'' @ job_id @ ''`''))
           else
         io_bind (heartbeat_worker worker_id) (\<lambda>u.
         io_bind (load_job job_id) (\<lambda>job.
           if j_status job = Canceled then
             (if wk_current_job_id u = Some job_id \<or> wk_status u \<noteq> Idle
              then io_bind (release_worker worker_id) (\<lambda>_. io_return job)
              else io_return job)
           else if wk_current_job_id u \<noteq> Some job_id then
             io_raise (ValueError (''Worker `'' @ worker_id @ ''` is not assigned to job `'' @ job_id @ ''`''))
           else if j_status job \<noteq> Running then refuse ''Job `'' job_id ''` is not running''
           else if j_worker_id job \<noteq> Some worker_id then
             io_raise (ValueError (''Job `'' @ job_id @ ''` is not claimed by worker `'' @ worker_id @ ''`''))
           else
         io_bind (job_lease_expired job) (\<lambda>job_expired.
           if job_expired then refuse ''Job `'' job_id ''` lease expired before execution''
           else
             io_finally
               (io_catch (io_bind (dispatch_job r job) (complete_job job_id)) (fail_job job_id))
               (release_worker worker_id)))))))"

definition run_next_job ::
    "'z worker_world_scheme runner \<Rightarrow> string \<Rightarrow> ('z worker_world_scheme, job option) io" where
  "run_next_job r worker_id =
     io_bind (claim_next_job worker_id) (\<lambda>job.
       case job of
         None \<Rightarrow> io_return None
       | Some j \<Rightarrow> io_bind (run_claimed_job r worker_id (j_job_id j)) (\<lambda>j'. io_return (Some j')))"

end
