(* ===== verification/Queue_Health.thy ===== *)
theory Queue_Health
  imports Queue_Lifecycle
begin

text \<open>
  src/runtime/queue.py, \<open>queue_health_summary\<close>: ages, lifecycle counts and recent events of the
  stored jobs. The counters of the code are incremented exactly where an event is appended, so the
  counts are those of the events in the list. A timestamp is never empty in a stored job, so the
  fallback to the empty string in the sort keys does not arise.
\<close>

definition duration_seconds_since :: "stamp option \<Rightarrow> ('z env_scheme, int option) io" where
  "duration_seconds_since t =
     (case t of
        None \<Rightarrow> io_return None
      | Some u \<Rightarrow> io_bind utc_now (\<lambda>now. io_lift (res_bind (seconds_since u now) (\<lambda>n. Inr (Some n)))))"

definition occurred_within_seconds :: "stamp \<Rightarrow> int \<Rightarrow> ('z env_scheme, bool) io" where
  "occurred_within_seconds t seconds =
     io_bind utc_now (\<lambda>now. io_lift (res_bind (seconds_since t now) (\<lambda>n. Inr (n \<le> seconds))))"

definition seconds_until :: "stamp option \<Rightarrow> ('z env_scheme, int option) io" where
  "seconds_until t =
     (case t of
        None \<Rightarrow> io_return None
      | Some u \<Rightarrow> io_bind utc_now (\<lambda>now. io_lift (res_bind (seconds_left u now) (\<lambda>n. Inr (Some n)))))"

definition count_recent :: "stamp list \<Rightarrow> ('z env_scheme, nat) io" where
  "count_recent ts =
     io_bind (io_map (\<lambda>t. occurred_within_seconds t 3600) ts) (\<lambda>bs. io_return (length (filter id bs)))"

definition max_of :: "int list \<Rightarrow> int option" where
  "max_of xs = (case xs of [] \<Rightarrow> None | x # ys \<Rightarrow> Some (fold max ys x))"

section \<open>Lifecycle events\<close>

definition LIFECYCLE_EVENTS :: "job_event_type list" where
  "LIFECYCLE_EVENTS = [Ev_claimed, Ev_retry_scheduled, Ev_requeued, Ev_rescheduled, Ev_completed,
     Ev_failed, Ev_dead_lettered, Ev_canceled]"

record lifecycle_event =
  le_event_type :: job_event_type
  le_job_id :: string
  le_timestamp :: stamp
  le_reason :: pyval
  le_worker_id :: pyval

text \<open>The new value of a changed field, \<open>None\<close> where the field did not change.\<close>

definition changed_to :: "job_change \<Rightarrow> string \<Rightarrow> pyval" where
  "changed_to c n =
     (case map_of (ch_changed_fields c) n of Some (_, FV_val v) \<Rightarrow> v | _ \<Rightarrow> PNone)"

definition attempts_grew :: "job_change \<Rightarrow> bool" where
  "attempts_grew c =
     (case map_of (ch_changed_fields c) ''attempt_count'' of
        Some (FV_val (PInt a), FV_val (PInt b)) \<Rightarrow> b > a
      | _ \<Rightarrow> False)"

definition event_of :: "job \<Rightarrow> job_change \<Rightarrow> job_event_type \<Rightarrow> lifecycle_event" where
  "event_of j c t =
     \<lparr>le_event_type = t, le_job_id = j_job_id j, le_timestamp = ch_timestamp c, le_reason = ch_reason c,
      le_worker_id = changed_to c ''worker_id''\<rparr>"

fun lifecycle_of_entry :: "job \<Rightarrow> job_event \<Rightarrow> lifecycle_event list" where
  "lifecycle_of_entry j (Created_event t s r p) = []"
| "lifecycle_of_entry j (Change_event c) =
     (if ch_event_type c \<in> set LIFECYCLE_EVENTS then [event_of j c (ch_event_type c)] else []) @
     (if ch_to_status c = Scheduled \<and> attempts_grew c \<and> ch_event_type c \<noteq> Ev_retry_scheduled
      then [event_of j c Ev_retry_scheduled] else [])"

definition lifecycle_events :: "job list \<Rightarrow> lifecycle_event list" where
  "lifecycle_events js = concat (map (\<lambda>j. concat (map (lifecycle_of_entry j) (j_transition_history j))) js)"

definition lifecycle_counts :: "lifecycle_event list \<Rightarrow> (job_event_type \<times> nat) list" where
  "lifecycle_counts es = map (\<lambda>t. (t, length (filter (\<lambda>e. le_event_type e = t) es))) LIFECYCLE_EVENTS"

section \<open>Recent events\<close>

datatype recent_kind = Recent_dead_letter | Recent_failed | Recent_retry_pending | Recent_reclaimed

record recent_event =
  re_kind :: recent_kind
  re_job_id :: string
  re_timestamp :: stamp
  re_message :: pyval

definition or_stamp :: "stamp option \<Rightarrow> stamp \<Rightarrow> stamp" where
  "or_stamp a b = (case a of None \<Rightarrow> b | Some t \<Rightarrow> t)"

definition error_message :: "job \<Rightarrow> pyval" where
  "error_message j = dict_get (case j_error j of None \<Rightarrow> [] | Some d \<Rightarrow> d) ''message''"

definition recent_event_of :: "job \<Rightarrow> recent_event list" where
  "recent_event_of j =
     (let event = (\<lambda>k t m. [\<lparr>re_kind = k, re_job_id = j_job_id j, re_timestamp = t, re_message = m\<rparr>])
      in if j_status j = Dead_letter
         then event Recent_dead_letter (or_stamp (j_dead_lettered_at j) (j_updated_at j)) (error_message j)
         else if j_status j = Failed
         then event Recent_failed (or_stamp (j_last_failure_at j) (j_updated_at j)) (error_message j)
         else if j_status j = Scheduled \<and> j_attempt_count j > 0
         then event Recent_retry_pending (or_stamp (j_next_retry_at j) (j_updated_at j))
                (opt_str (j_last_requeue_reason j))
         else if j_reclaim_count j > 0
         then event Recent_reclaimed (j_updated_at j) (opt_str (j_last_requeue_reason j))
         else [])"

section \<open>The summary\<close>

record health_view = queue_view +
  hv_oldest_queued_age :: "int option"
  hv_next_ready_in :: "int option"
  hv_oldest_retry_age :: "int option"
  hv_failed_count :: nat
  hv_expired_running_job_ids :: "string list"
  hv_max_claim_age :: "int option"
  hv_lifecycle_counts :: "(job_event_type \<times> nat) list"
  hv_recent_lifecycle :: "lifecycle_event list"
  hv_failures_last_hour :: nat
  hv_dead_letters_last_hour :: nat
  hv_retries_last_hour :: nat
  hv_reclaimed_total :: int
  hv_recent_events :: "recent_event list"

definition claim_ages :: "job list \<Rightarrow> ('z env_scheme, int list) io" where
  "claim_ages running =
     io_bind (io_map (\<lambda>t. duration_seconds_since (Some t)) (List.map_filter j_claimed_at running))
       (\<lambda>ages. io_return (List.map_filter id ages))"

definition expired_ids :: "job list \<Rightarrow> ('z env_scheme, string list) io" where
  "expired_ids running =
     io_bind (io_map (\<lambda>j. io_bind (job_lease_expired j) (\<lambda>b. io_return (if b then [j_job_id j] else []))) running)
       (\<lambda>ids. io_return (concat ids))"

definition queue_health_summary :: "('z queue_world_scheme, health_view) io" where
  "queue_health_summary =
     io_bind queue_summary (\<lambda>summary.
     io_bind (list_jobs None False) (\<lambda>js.
       let queued = with_status Queued js; scheduled = with_status Scheduled js;
           running = with_status Running js; failed = with_status Failed js;
           dead = with_status Dead_letter js;
           retry = filter (\<lambda>j. j_attempt_count j > 0) scheduled;
           oldest_queued = stamp_min (map j_created_at queued);
           next_ready = stamp_min (map j_ready_at scheduled);
           oldest_retry = stamp_min (map (\<lambda>j. or_stamp (j_next_retry_at j) (j_ready_at j)) retry);
           lifecycle = lifecycle_events js
       in
       io_bind (claim_ages running) (\<lambda>ages.
       io_bind (expired_ids running) (\<lambda>expired.
       io_bind (duration_seconds_since oldest_queued) (\<lambda>queued_age.
       io_bind (seconds_until next_ready) (\<lambda>ready_in.
       io_bind (duration_seconds_since oldest_retry) (\<lambda>retry_age.
       io_bind (count_recent (map (\<lambda>j. or_stamp (j_last_failure_at j) (j_updated_at j)) failed)) (\<lambda>failures.
       io_bind (count_recent (map (\<lambda>j. or_stamp (j_dead_lettered_at j) (j_updated_at j)) dead)) (\<lambda>deads.
       io_bind (count_recent (map (\<lambda>j. or_stamp (j_next_retry_at j) (j_updated_at j)) retry)) (\<lambda>retries.
         io_return (queue_view.extend summary
           \<lparr>hv_oldest_queued_age = queued_age, hv_next_ready_in = ready_in,
            hv_oldest_retry_age = retry_age, hv_failed_count = length failed,
            hv_expired_running_job_ids = expired, hv_max_claim_age = max_of ages,
            hv_lifecycle_counts = lifecycle_counts lifecycle,
            hv_recent_lifecycle =
              take 10 (sort_desc (\<lambda>e. (stamp_key (le_timestamp e), le_job_id e)) lifecycle),
            hv_failures_last_hour = failures, hv_dead_letters_last_hour = deads,
            hv_retries_last_hour = retries, hv_reclaimed_total = sum_list (map j_reclaim_count js),
            hv_recent_events =
              take 5 (sort_desc (\<lambda>e. (stamp_key (re_timestamp e), re_job_id e))
                (concat (map recent_event_of js)))\<rparr>)))))))))))"

end
