(* ===== verification/Worker_Health.thy ===== *)
theory Worker_Health
  imports Worker Queue_Health
begin

text \<open>
  src/runtime/worker.py, \<open>worker_health_summary\<close>: counts, ages, orphaned and expired workers,
  lifecycle and recent events. Each worker adds its part to the report in the order of the listing;
  the counters are those of the values appended, as in \<open>Queue_Health\<close>.
\<close>

definition WORKER_EVENTS :: "worker_event_type list" where
  "WORKER_EVENTS = [Wv_heartbeat, Wv_job_assigned, Wv_job_released, Wv_status_changed, Wv_lease_updated]"

record worker_lifecycle =
  wl_event_type :: worker_event_type
  wl_worker_id :: string
  wl_timestamp :: stamp
  wl_reason :: "string option"
  wl_current_job_id :: "string option"

definition worker_event_of :: "worker \<Rightarrow> worker_change \<Rightarrow> worker_event_type \<Rightarrow> worker_lifecycle" where
  "worker_event_of u c t =
     \<lparr>wl_event_type = t, wl_worker_id = wk_worker_id u, wl_timestamp = wc_timestamp c,
      wl_reason = wc_reason c, wl_current_job_id = wc_current_job_id c\<rparr>"

text \<open>A renewal of the lease inside another change counts as a heartbeat as well.\<close>

fun worker_lifecycle_of_entry :: "worker \<Rightarrow> worker_event \<Rightarrow> worker_lifecycle list" where
  "worker_lifecycle_of_entry u (Worker_created t s n) = []"
| "worker_lifecycle_of_entry u (Worker_changed c) =
     [worker_event_of u c (wc_event_type c)] @
     (if map_of (wc_changed_fields c) ''last_heartbeat_at'' \<noteq> None \<and> wc_event_type c \<noteq> Wv_heartbeat
      then [worker_event_of u c Wv_heartbeat] else [])"

definition worker_lifecycle :: "worker \<Rightarrow> worker_lifecycle list" where
  "worker_lifecycle u = concat (map (worker_lifecycle_of_entry u) (wk_transition_history u))"

datatype incident_kind = Orphaned_worker | Expired_worker

record incident =
  in_kind :: incident_kind
  in_worker_id :: string
  in_timestamp :: stamp
  in_message :: string

definition orphaned :: "worker \<Rightarrow> string \<Rightarrow> incident list" where
  "orphaned u message =
     [\<lparr>in_kind = Orphaned_worker, in_worker_id = wk_worker_id u, in_timestamp = wk_updated_at u,
       in_message = message\<rparr>]"

definition expired :: "worker \<Rightarrow> string \<Rightarrow> incident list" where
  "expired u message =
     (if wk_lease_expired u
      then [\<lparr>in_kind = Expired_worker, in_worker_id = wk_worker_id u,
             in_timestamp = wk_lease_expires_at u, in_message = message\<rparr>]
      else [])"

definition incident_of :: "worker \<Rightarrow> ('z queue_world_scheme, incident list) io" where
  "incident_of u =
     (case wk_current_job_id u of
        None \<Rightarrow>
          io_return (if wk_status u \<noteq> Idle then orphaned u ''Worker marked busy without current job''
                     else expired u ''Worker lease expired while idle'')
      | Some k \<Rightarrow>
          io_bind (try_load_job k) (\<lambda>found.
            io_return
              (case found of
                 None \<Rightarrow> orphaned u (''Worker references missing job `'' @ k @ ''`'')
               | Some j \<Rightarrow>
                   if j_status j \<noteq> Running \<or> j_worker_id j \<noteq> Some (wk_worker_id u)
                   then orphaned u (''Worker references inconsistent job `'' @ k @ ''`'')
                   else expired u (''Worker lease expired while holding job `'' @ k @ ''`''))))"

record worker_report =
  wr_heartbeat_age :: int
  wr_lease_left :: int
  wr_incidents :: "incident list"

definition report_of :: "worker \<Rightarrow> ('z queue_world_scheme, worker_report) io" where
  "report_of u =
     io_bind utc_now (\<lambda>now1.
     io_bind (io_lift (seconds_since (wk_last_heartbeat_at u) now1)) (\<lambda>age.
     io_bind utc_now (\<lambda>now2.
     io_bind (io_lift (seconds_left (wk_lease_expires_at u) now2)) (\<lambda>left.
     io_bind (incident_of u) (\<lambda>incidents.
       io_return \<lparr>wr_heartbeat_age = age, wr_lease_left = left, wr_incidents = incidents\<rparr>)))))"

record worker_health =
  wh_counts :: "(worker_status \<times> nat) list"
  wh_total :: nat
  wh_busy_worker_ids :: "string list"
  wh_expired_worker_ids :: "string list"
  wh_orphaned_worker_ids :: "string list"
  wh_max_heartbeat_age :: "int option"
  wh_min_lease_left :: "int option"
  wh_lifecycle_counts :: "(worker_event_type \<times> nat) list"
  wh_recent_lifecycle :: "worker_lifecycle list"
  wh_updated_last_hour :: nat
  wh_expired_last_hour :: nat
  wh_orphaned_last_hour :: nat
  wh_age_buckets :: "nat \<times> nat \<times> nat"
  wh_recent_events :: "incident list"

definition age_buckets :: "int list \<Rightarrow> nat \<times> nat \<times> nat" where
  "age_buckets ages =
     (length (filter (\<lambda>a. a < 30) ages),
      length (filter (\<lambda>a. \<not> a < 30 \<and> a \<le> 300) ages),
      length (filter (\<lambda>a. \<not> a < 30 \<and> \<not> a \<le> 300) ages))"

definition min_of :: "int list \<Rightarrow> int option" where
  "min_of xs = (case xs of [] \<Rightarrow> None | x # ys \<Rightarrow> Some (fold min ys x))"

definition orphan_ids :: "incident list \<Rightarrow> string list" where
  "orphan_ids es = map in_worker_id (filter (\<lambda>e. in_kind e = Orphaned_worker) es)"

definition worker_health_summary :: "('z worker_world_scheme, worker_health) io" where
  "worker_health_summary =
     io_bind list_workers (\<lambda>listed.
     io_bind (io_map worker_summary listed) (\<lambda>us.
     io_bind (io_map report_of us) (\<lambda>reports.
       let lifecycle = concat (map worker_lifecycle us);
           incidents = concat (map wr_incidents reports)
       in
       io_bind (count_recent (map wk_updated_at us)) (\<lambda>updated.
       io_bind (count_recent (map wk_updated_at (filter wk_lease_expired us))) (\<lambda>lapsed.
       io_bind (io_map (\<lambda>k. io_bind (load_worker k) (\<lambda>u. occurred_within_seconds (wk_updated_at u) 3600))
                  (orphan_ids incidents)) (\<lambda>recent.
         io_return
           \<lparr>wh_counts = map (\<lambda>s. (s, length (filter (\<lambda>u. wk_status u = s) us))) [Idle, Busy, Expired],
            wh_total = length us,
            wh_busy_worker_ids = map wk_worker_id (filter (\<lambda>u. wk_current_job_id u \<noteq> None) us),
            wh_expired_worker_ids = map wk_worker_id (filter wk_lease_expired us),
            wh_orphaned_worker_ids = orphan_ids incidents,
            wh_max_heartbeat_age = max_of (map wr_heartbeat_age reports),
            wh_min_lease_left = min_of (map wr_lease_left reports),
            wh_lifecycle_counts =
              map (\<lambda>t. (t, length (filter (\<lambda>e. wl_event_type e = t) lifecycle))) WORKER_EVENTS,
            wh_recent_lifecycle =
              take 10 (sort_desc (\<lambda>e. (stamp_key (wl_timestamp e), wl_worker_id e)) lifecycle),
            wh_updated_last_hour = updated, wh_expired_last_hour = lapsed,
            wh_orphaned_last_hour = length (filter id recent),
            wh_age_buckets = age_buckets (map wr_heartbeat_age reports),
            wh_recent_events =
              take 5 (sort_desc (\<lambda>e. (stamp_key (in_timestamp e), in_worker_id e)) incidents)\<rparr>))))))"

end
