(* ===== verification/Queue_Properties.thy ===== *)
theory Queue_Properties
  imports Queue_Lifecycle "HOL-Library.Multiset"
begin

text \<open>
  What the queue guarantees of its stored jobs: the invariant with the audit trail, the listing, and
  idempotent creation. The outcomes of the lifecycle operations are in \<open>Queue_Outcomes\<close>.
\<close>

section \<open>The invariant of stored jobs\<close>

text \<open>
  A job is stored under its own identifier, with valid retry limits, timestamps that can be compared
  with the clock, and a history that accounts for its fields.
\<close>

definition job_wf :: "string \<Rightarrow> job \<Rightarrow> bool" where
  "job_wf k j \<longleftrightarrow> j_job_id j = k \<and> job_valid j \<and> aware_job j \<and> audited j"

lemma aware_job_history [simp]: "aware_job (j\<lparr>j_transition_history := h\<rparr>) = aware_job j"
  by (simp add: aware_job_def)

lemma new_job_aware:
  assumes "is_new j"
  shows "aware_job j"
proof -
  have "j_claimed_at j = None \<and> j_lease_expires_at j = None \<and> j_next_retry_at j = None \<and>
      j_dead_lettered_at j = None \<and> j_canceled_at j = None"
    using assms by (simp add: is_new_def simple_fields_eq created_view_def)
  then show ?thesis using assms by (simp add: is_new_def aware_new_def aware_job_def)
qed

interpretation stored: job_invariant job_wf
proof
  fix k j prev and f :: "job \<Rightarrow> job" and reason details us
  show "job_wf k (job_after reason details f (utc_stamp us) j)"
    if "job_wf k j" "tidy_change f" "job_valid (f j)"
  proof -
    have "job_core (f j) = job_core j" "aware_job (f j)"
      using that by (simp_all add: tidy_change_def tidy_def job_wf_def)
    then show ?thesis
      using that audited_extended [of j "(f j)\<lparr>j_updated_at := utc_stamp us\<rparr>" reason details]
      by (simp add: job_wf_def job_after_def Let_def job_core_def aware_job_def)
  qed
  show "job_wf (j_job_id j) (j\<lparr>j_transition_history := build_job_transition_history None j None []\<rparr>)"
    if "is_new j"
    using that new_job_aware [OF that] by (auto simp: job_wf_def is_new_def intro: audited_created)
  show "job_wf (j_job_id j) (j\<lparr>j_transition_history := build_job_transition_history (Some prev) j None []\<rparr>)"
    if "job_wf (j_job_id j) prev" "is_new j"
    using that new_job_aware [OF that(2)] by (auto simp: job_wf_def is_new_def intro: audited_extended)
qed

section \<open>Reading the store\<close>

definition lease_over :: "job \<Rightarrow> int \<Rightarrow> bool" where
  "lease_over j us \<longleftrightarrow> j_status j = Running \<and>
     (case j_lease_expires_at j of None \<Rightarrow> False | Some t \<Rightarrow> stamp_le t us = Inr True)"

text \<open>A summary is the stored job with \<open>lease_expired\<close> as of some reading of the clock.\<close>

definition summary_of :: "job \<Rightarrow> (nat \<Rightarrow> int) \<Rightarrow> job \<Rightarrow> bool" where
  "summary_of j time s \<longleftrightarrow> (\<exists>n. s = j\<lparr>j_lease_expired := lease_over j (time n)\<rparr>)"

text \<open>Nothing but the reading of the clock changes.\<close>

definition only_time :: "'z env_scheme \<Rightarrow> 'z env_scheme \<Rightarrow> bool" where
  "only_time w w' \<longleftrightarrow> (\<exists>n. n \<ge> ticks w \<and> w' = w\<lparr>ticks := n\<rparr>)"

lemma only_time_refl [simp]: "only_time w w"
  by (auto simp: only_time_def intro: exI [of _ "ticks w"])

lemma only_time_tick: "only_time w w' \<Longrightarrow> only_time w (w'\<lparr>ticks := Suc (ticks w')\<rparr>)"
  by (auto simp: only_time_def intro: exI [of _ "Suc (ticks w')"])

lemma only_time_clk: "only_time w w' \<Longrightarrow> clk w' = clk w"
  by (auto simp: only_time_def)

lemma only_time_jobs: "only_time w w' \<Longrightarrow> jobs w' = jobs (w :: 'z queue_world_scheme)"
  by (auto simp: only_time_def)

lemma wp_job_summary:
  assumes "aware_job j" and "only_time w0 w"
  shows "wp (job_summary j) (\<lambda>s w'. only_time w0 w' \<and> summary_of j (clk w0) s) (\<lambda>_ _. False) w"
proof (cases "j_status j = Running")
  case False
  then show ?thesis
    using assms by (auto simp: wp_job_lease_expired_idle summary_of_def lease_over_def)
next
  case run: True
  show ?thesis
  proof (cases "j_lease_expires_at j")
    case None
    then show ?thesis
      using assms run by (auto simp: job_summary_def job_lease_expired_def wp summary_of_def lease_over_def)
  next
    case (Some t)
    then have "aware t" using assms(1) by (simp add: aware_job_def)
    then obtain b where "stamp_le t (clk w (ticks w)) = Inr b" using aware_stamp_le by blast
    then show ?thesis
      using assms run Some only_time_clk [OF assms(2)]
      by (auto simp: job_summary_def job_lease_expired_def wp summary_of_def lease_over_def only_time_tick
          intro!: exI [of _ "ticks w"])
  qed
qed

definition stored_summary :: "'z queue_world_scheme \<Rightarrow> string \<Rightarrow> job \<Rightarrow> bool" where
  "stored_summary w k s \<longleftrightarrow> (\<exists>j. dir_get (jobs w) k = Some j \<and> summary_of j (clk w) s)"

lemma wp_load_summaries:
  fixes w :: "'z queue_world_scheme"
  assumes "all_jobs job_wf w"
  shows "wp load_summaries (\<lambda>js w'. only_time w w' \<and> list_all2 (stored_summary w) (dir_ids (jobs w)) js)
     (\<lambda>_ _. False) w"
proof -
  have one: "wp (io_bind (load_job_snapshot k) job_summary)
      (\<lambda>s w''. only_time w w'' \<and> stored_summary w k s) (\<lambda>_ _. False) w'"
    if k: "k \<in> set (dir_ids (jobs w))" and t: "only_time w w'" for k w'
  proof -
    obtain j where j: "dir_get (jobs w) k = Some j" using k by (meson in_dir_ids)
    then have "job_wf k j" using assms by (rule all_jobsD [rotated])
    then have "validate_job j = Inr ()" "aware_job j" by (simp_all add: job_wf_def validate_jobI)
    then show ?thesis
      using j only_time_jobs [OF t] wp_job_summary [OF _ t]
      by (auto simp: wp_bind wp_load_job_snapshot stored_summary_def elim: wp_mono)
  qed
  show ?thesis
    unfolding load_summaries_def wp_bind wp_get
    by (rule wp_io_map) (use one in auto)
qed

section \<open>Listing\<close>

definition status_wanted :: "job_status option \<Rightarrow> job \<Rightarrow> bool" where
  "status_wanted wanted j \<longleftrightarrow> (case wanted of None \<Rightarrow> True | Some t \<Rightarrow> j_status j = t)"

definition stored_with :: "job_status option \<Rightarrow> 'z queue_world_scheme \<Rightarrow> string \<Rightarrow> bool" where
  "stored_with wanted w k \<longleftrightarrow> (\<exists>j. dir_get (jobs w) k = Some j \<and> status_wanted wanted j)"

text \<open>A listing of a store: ordered, every job with the status asked for exactly once, as it is stored.\<close>

definition listing_of :: "job_status option \<Rightarrow> 'z queue_world_scheme \<Rightarrow> job list \<Rightarrow> bool" where
  "listing_of wanted w js \<longleftrightarrow>
     sorted (map list_key js) \<and>
     mset (map j_job_id js) = mset (filter (stored_with wanted w) (dir_ids (jobs w))) \<and>
     (\<forall>s \<in> set js. stored_summary w (j_job_id s) s)"

lemma summary_fields:
  "summary_of j time s \<Longrightarrow> j_status s = j_status j \<and> j_job_id s = j_job_id j"
  by (auto simp: summary_of_def)

lemma stored_summary_id:
  "all_jobs job_wf w \<Longrightarrow> stored_summary w k s \<Longrightarrow> j_job_id s = k"
  by (auto simp: stored_summary_def dest!: all_jobsD summary_fields) (simp add: job_wf_def)

lemma summaries_ids:
  assumes "all_jobs job_wf w" and "list_all2 (stored_summary w) ks js"
  shows "map j_job_id (filter (status_wanted wanted) js) = filter (stored_with wanted w) ks \<and>
     (\<forall>s \<in> set js. stored_summary w (j_job_id s) s)"
  using assms(2)
proof induction
  case (Cons k ks s js)
  have id: "j_job_id s = k" using stored_summary_id [OF assms(1) Cons.hyps(1)] .
  have "status_wanted wanted s \<longleftrightarrow> stored_with wanted w k"
    using Cons.hyps(1) by (auto simp: stored_summary_def stored_with_def status_wanted_def
        dest: summary_fields split: option.splits)
  then show ?case using Cons.IH Cons.hyps(1) id by simp
qed simp

lemma normalize_status_name: "normalize_job_status (job_status_name s) = Inr s"
  by (cases s) (simp_all add: normalize_job_status_def JOB_STATUSES_def)

lemma wp_list_stored:
  fixes w :: "'z queue_world_scheme"
  assumes "all_jobs job_wf w"
  shows "wp (list_jobs (map_option job_status_name wanted) False)
     (\<lambda>js w'. only_time w w' \<and> listing_of wanted w js) (\<lambda>_ _. False) w"
proof -
  have norm: "(case map_option job_status_name wanted of None \<Rightarrow> Inr None
      | Some s \<Rightarrow> res_bind (normalize_job_status s) (\<lambda>t. Inr (Some t))) = Inr wanted"
    by (cases wanted) (simp_all add: normalize_status_name res_bind_def)
  have sort: "listing_of wanted w (sort_key list_key (filter (\<lambda>j. case wanted of None \<Rightarrow> True | Some t \<Rightarrow> j_status j = t) js))"
    if "list_all2 (stored_summary w) (dir_ids (jobs w)) js" for js
  proof -
    let ?f = "\<lambda>j. case wanted of None \<Rightarrow> True | Some t \<Rightarrow> j_status j = t"
    note ids = summaries_ids [OF assms that, of wanted, unfolded status_wanted_def]
    have "mset (map j_job_id (sort_key list_key (filter ?f js))) = mset (map j_job_id (filter ?f js))"
      by (simp only: mset_map mset_sort)
    then show ?thesis using ids by (simp add: listing_of_def del: mset_map mset_filter)
  qed
  show ?thesis
    unfolding list_jobs_def wp_bind wp_lift norm sum.case wp_then
    by (simp add: wp_return wp_bind, rule wp_mono [OF wp_load_summaries [OF assms]])
      (auto simp: wp intro: sort)
qed


definition empty_queue :: queue_world where
  "empty_queue = \<lparr>clk = (\<lambda>n. int n), ticks = 0, uuids = (\<lambda>n. show_int (int n)), uuid_n = 0, jobs = []\<rparr>"

lemma empty_queue_wf: "all_jobs job_wf empty_queue"
  by (simp add: all_jobs_def empty_queue_def dir_ok_def dir_get_def)

definition plain_request :: "string \<Rightarrow> pyval \<Rightarrow> job_request" where
  "plain_request key priority =
     \<lparr>rq_job_type = ''workflow_start'', rq_payload = PDict [(''input'', PStr ''hello'')],
      rq_priority = priority, rq_delay_seconds = PInt 0, rq_run_at = None, rq_workflow_id = None,
      rq_parent_job_id = None, rq_idempotency_key = (if key = [] then PNone else PStr key),
      rq_max_attempts = PInt 3, rq_retry_backoff_seconds = PInt 30\<rparr>"


section \<open>Idempotency keys\<close>

definition keys_unique :: "'z queue_world_scheme \<Rightarrow> bool" where
  "keys_unique w \<longleftrightarrow>
     (\<forall>k k' j j' key. dir_get (jobs w) k = Some j \<and> dir_get (jobs w) k' = Some j' \<and>
        j_idempotency_key j = Some key \<and> j_idempotency_key j' = Some key \<longrightarrow> k = k')"

lemma keys_uniqueD:
  "keys_unique w \<Longrightarrow> dir_get (jobs w) k = Some j \<Longrightarrow> dir_get (jobs w) k' = Some j' \<Longrightarrow>
   j_idempotency_key j = Some key \<Longrightarrow> j_idempotency_key j' = Some key \<Longrightarrow> k = k'"
  by (auto simp: keys_unique_def)

lemma keys_unique_cong: "jobs w' = jobs w \<Longrightarrow> keys_unique w' = keys_unique w"
  by (simp add: keys_unique_def)

text \<open>Updates change nothing of what a request fixed.\<close>

definition same_request :: "job dir \<Rightarrow> string \<Rightarrow> job \<Rightarrow> bool" where
  "same_request d k j \<longleftrightarrow> (\<exists>j0. dir_get d k = Some j0 \<and> fst (job_core j) = fst (job_core j0))"

interpretation requests: job_update_invariant "same_request d" for d
proof
  fix k j and f :: "job \<Rightarrow> job" and reason details us
  assume "same_request d k j" and f: "tidy_change f"
  moreover have "fst (job_core (job_after reason details f (utc_stamp us) j)) = fst (job_core (f j))"
    by (simp add: job_core_def job_after_def Let_def)
  moreover have "job_core (f j) = job_core j" using f by (simp add: tidy_change_def tidy_def)
  ultimately show "same_request d k (job_after reason details f (utc_stamp us) j)"
    by (simp add: same_request_def)
qed

lemma same_request_start: "dir_ok (jobs w) \<Longrightarrow> all_jobs (same_request (jobs w)) w"
  by (simp add: all_jobs_def same_request_def)

lemma same_request_key: "same_request d k j \<Longrightarrow> \<exists>j0. dir_get d k = Some j0 \<and> j_idempotency_key j = j_idempotency_key j0"
  by (auto simp: same_request_def job_core_def)

lemma keys_unique_kept:
  assumes "keys_unique w" and "all_jobs (same_request (jobs w)) w'"
  shows "keys_unique w'"
  unfolding keys_unique_def
proof (intro allI impI, elim conjE)
  fix k k' j j' key
  assume a: "dir_get (jobs w') k = Some j" "dir_get (jobs w') k' = Some j'"
    and key: "j_idempotency_key j = Some key" "j_idempotency_key j' = Some key"
  show "k = k'"
    using same_request_key [OF all_jobsD [OF assms(2) a(1)]] same_request_key [OF all_jobsD [OF assms(2) a(2)]] key
      keys_uniqueD [OF assms(1)]
    by metis
qed

lemma wp_store:
  fixes w :: "'z queue_world_scheme"
  assumes "\<And>d. keeps (store_is d :: 'z queue_world_scheme \<Rightarrow> bool) m"
    and "\<And>x w'. jobs w' = jobs w \<Longrightarrow> Q x w'" and "\<And>e w'. jobs w' = jobs w \<Longrightarrow> E e w'"
  shows "wp m Q E w"
proof -
  have "jobs (snd (m w)) = jobs w" using assms(1) [of "jobs w"] by (simp add: keeps_def store_is_def)
  then show ?thesis using assms(2,3) by (auto simp: wp_def split: prod.splits sum.splits)
qed

lemma wp_ready_status:
  "wp (job_status_for_ready_at t) (\<lambda>s w'. s \<in> {Queued, Scheduled} \<and> only_time w w') (\<lambda>_. only_time w) w"
  by (auto simp: job_status_for_ready_at_def wp res_bind_def only_time_tick split: sum.splits)

definition stored_new :: "checked_request \<Rightarrow> 'z queue_world_scheme \<Rightarrow> job \<Rightarrow> 'z queue_world_scheme \<Rightarrow> bool" where
  "stored_new cq w j w' \<longleftrightarrow>
     jobs w' = dir_put (jobs w) (j_job_id j) j \<and> j_idempotency_key j = cq_idempotency_key cq"

lemma wp_enqueue_new:
  "wp (enqueue_new rq cq) (stored_new cq w) (\<lambda>_ w'. jobs w' = jobs w) w"
proof -
  have stores: "wp (write_job (new_job rq cq job_id st pr ready_at timestamp)) (stored_new cq w) (\<lambda>_ w'. jobs w' = jobs w) w'"
    if "jobs w' = jobs w" "st \<in> {Queued, Scheduled}" for job_id st pr ready_at timestamp w'
    using that by (simp add: wp_write_new new_job_def stored_new_def Let_def)
  have ready: "wp (job_status_for_ready_at t) Q (\<lambda>_ w'. jobs w' = jobs w) w'"
    if w': "jobs w' = jobs w"
      and f: "\<And>w'' st. jobs w'' = jobs w \<Longrightarrow> st \<in> {Queued, Scheduled} \<Longrightarrow> Q st w''" for t Q w'
    by (rule wp_mono [OF wp_ready_status]) (auto simp: only_time_jobs w' intro: f)
  show ?thesis
    unfolding enqueue_new_def wp_bind wp_utc_now_iso wp_uuid4
    by (rule wp_store, rule keeps_intro, rule ready)
      (auto intro!: stores simp: wp_lift split: sum.splits)
qed

lemma set_sort_desc [simp]: "set (sort_desc f xs) = set xs"
  by (simp add: sort_desc_def)

text \<open>The search by key finds a job exactly where one is stored with the key.\<close>

definition found_by_key :: "string \<Rightarrow> 'z queue_world_scheme \<Rightarrow> job option \<Rightarrow> bool" where
  "found_by_key key w found \<longleftrightarrow>
     (case found of
        None \<Rightarrow> \<forall>k j. dir_get (jobs w) k = Some j \<longrightarrow> j_idempotency_key j \<noteq> Some key
      | Some s \<Rightarrow> \<exists>k j. dir_get (jobs w) k = Some j \<and> j_idempotency_key j = Some key \<and> summary_of j (clk w) s)"

lemma found_by_key_sorted:
  assumes "list_all2 (stored_summary w) (dir_ids (jobs w)) js"
  shows "found_by_key key w
     (case sort_desc f (filter (\<lambda>j. j_idempotency_key j = Some key) js) of [] \<Rightarrow> None | j # _ \<Rightarrow> Some j)"
proof (cases "sort_desc f (filter (\<lambda>j. j_idempotency_key j = Some key) js)")
  case Nil
  then have none: "\<forall>s \<in> set js. j_idempotency_key s \<noteq> Some key"
    by (metis (mono_tags, lifting) set_sort_desc set_empty filter_empty_conv)
  have "j_idempotency_key j \<noteq> Some key" if "dir_get (jobs w) k = Some j" for k j
  proof -
    have "k \<in> set (dir_ids (jobs w))" using that by (auto simp: in_dir_ids)
    then obtain s where "s \<in> set js" "stored_summary w k s"
      using list_all2_left [OF assms] by blast
    then show ?thesis using none that by (auto simp: stored_summary_def summary_of_def)
  qed
  then show ?thesis by (simp add: Nil found_by_key_def)
next
  case (Cons s ss)
  then have "s \<in> set (filter (\<lambda>j. j_idempotency_key j = Some key) js)"
    by (metis list.set_intros(1) set_sort_desc)
  then obtain k where "stored_summary w k s" "j_idempotency_key s = Some key"
    using list_all2_right [OF assms, of s] by auto
  then obtain j n where "dir_get (jobs w) k = Some j" "s = j\<lparr>j_lease_expired := lease_over j (clk w n)\<rparr>"
    "j_idempotency_key j = Some key"
    by (auto simp: stored_summary_def summary_of_def)
  then show ?thesis unfolding Cons found_by_key_def summary_of_def by auto
qed

lemma wp_find_by_key:
  fixes w :: "'z queue_world_scheme"
  assumes "all_jobs job_wf w" and "key \<noteq> []"
  shows "wp (find_job_by_idempotency_key key) (\<lambda>found w'. only_time w w' \<and> found_by_key key w found) (\<lambda>_ _. False) w"
  unfolding find_job_by_idempotency_key_def Let_def
  by (simp add: assms(2) wp_bind, rule wp_mono [OF wp_load_summaries [OF assms(1)]])
    (auto simp: wp intro: found_by_key_sorted)

lemma checked_key: "check_request rq = Inr cq \<Longrightarrow> cq_idempotency_key cq \<noteq> Some []"
  unfolding check_request_def
  by (cases "rq_idempotency_key rq")
    (auto simp: res_bind_def py_strip_def py_lstrip_def py_rstrip_def split: sum.splits if_splits)

lemma keys_unique_stored_new:
  assumes "keys_unique w" and new: "stored_new cq w j w'"
    and "\<And>key. cq_idempotency_key cq = Some key \<Longrightarrow> found_by_key key w None"
  shows "keys_unique w'"
  unfolding keys_unique_def
proof (intro allI impI, elim conjE)
  fix k k' j1 j2 key
  assume a: "dir_get (jobs w') k = Some j1" "dir_get (jobs w') k' = Some j2"
    and key: "j_idempotency_key j1 = Some key" "j_idempotency_key j2 = Some key"
  have old: "dir_get (jobs w) i \<noteq> Some j'" if "j_idempotency_key j = Some key" "j_idempotency_key j' = Some key" for i j'
    using assms(3) [of key] new that by (auto simp: found_by_key_def stored_new_def)
  show "k = k'"
    using a key new old keys_uniqueD [OF assms(1), of k j1 k' j2 key]
    by (auto simp: stored_new_def dir_simps split: if_splits)
qed

lemma keys_unique_create:
  assumes "all_jobs job_wf w" and "keys_unique w"
  shows "keys_unique (snd (create_job rq w))"
proof (cases "check_request rq")
  case (Inl e)
  then show ?thesis using assms by (simp add: create_job_def io_bind_def io_lift_def)
next
  case (Inr cq)
  have new: "wp (enqueue_new rq cq) (\<lambda>_. keys_unique) (\<lambda>_. keys_unique) w'"
    if t: "only_time w w'" and none: "\<And>key. cq_idempotency_key cq = Some key \<Longrightarrow> found_by_key key w None" for w'
  proof (rule wp_mono [OF wp_enqueue_new])
    note jw = only_time_jobs [OF t]
    have u: "keys_unique w'" using assms(2) keys_unique_cong [OF jw] by blast
    show "keys_unique w''" if "jobs w'' = jobs w'" for w'' using u keys_unique_cong [OF that] by blast
    show "keys_unique w''" if "stored_new cq w' j w''" for j w''
      by (rule keys_unique_stored_new [OF u that]) (use none in \<open>simp add: found_by_key_def jw\<close>)
  qed
  have "wp (create_job rq) (\<lambda>_. keys_unique) (\<lambda>_. keys_unique) w"
  proof (cases "cq_idempotency_key cq")
    case None
    show ?thesis
      unfolding create_job_def wp_bind wp_lift Inr sum.case None option.case
      by (rule new) (simp_all add: None)
  next
    case (Some key)
    have ne: "key \<noteq> []" using checked_key [OF Inr] Some by auto
    show ?thesis
      unfolding create_job_def wp_bind wp_lift Inr sum.case Some option.case
    proof (rule wp_mono [OF wp_find_by_key [OF assms(1) ne]])
      fix found w' assume f: "only_time w w' \<and> found_by_key key w found"
      then have u: "keys_unique w'" using assms(2) keys_unique_cong [OF only_time_jobs] by blast
      show "wp (case found of None \<Rightarrow> enqueue_new rq cq
          | Some j \<Rightarrow> if idempotent_request_matches j (cq_job_type cq) (cq_payload cq) (rq_workflow_id rq)
              (rq_parent_job_id rq) then io_return j else io_raise (key_in_use key))
          (\<lambda>_. keys_unique) (\<lambda>_. keys_unique) w'"
      proof (cases found)
        case None
        show ?thesis
          unfolding None option.case by (rule new) (use f Some None in auto)
      next
        case (Some j)
        then show ?thesis using u by (simp add: wp_if wp_return wp_raise)
      qed
    qed simp
  qed
  then show ?thesis by (simp add: wp_same)
qed

lemma keys_unique_other:
  assumes "dir_ok (jobs w)" and "keys_unique w" and "\<not> creates_job x"
  shows "keys_unique (snd (queue_do x w))"
  using requests.keeps_other_do [OF assms(3), of "jobs w"] same_request_start [OF assms(1)] assms(2)
  by (auto simp: keeps_def intro: keys_unique_kept)

lemma idempotency_keys_kept:
  fixes w :: "'z queue_world_scheme"
  assumes "all_jobs job_wf w" and "keys_unique w"
  shows "keys_unique (queue_serve ops w)"
  using assms
proof (induction ops arbitrary: w)
  case (Cons x xs)
  have "keys_unique (snd (queue_do x w))"
  proof (cases "creates_job x")
    case True
    then obtain rq where "x = Q_create rq" by (cases x) simp_all
    then show ?thesis
      using keys_unique_create [OF Cons.prems, of rq]
      by (auto simp: ignoring_def io_bind_def io_return_def split: prod.splits sum.splits)
  next
    case False
    then show ?thesis using Cons.prems by (intro keys_unique_other) (simp_all add: all_jobs_def)
  qed
  moreover have "keeps (all_jobs job_wf :: 'z queue_world_scheme \<Rightarrow> bool) (queue_do x)"
    by (rule stored.keeps_do)
  then have "all_jobs job_wf (snd (queue_do x w))" using Cons.prems by (simp add: keeps_def)
  ultimately show ?case using Cons.IH by simp
qed simp

text \<open>
  C17: An idempotency key belongs to at most one stored job: over any sequence of requests to the
  queue, whatever their outcome, no two stored jobs ever share a key.
\<close>

theorem idempotency_keys_stay_unique:
  fixes w :: "'z queue_world_scheme"
  assumes "all_jobs job_wf w" and "keys_unique w"
  shows "keys_unique (queue_serve ops w)"
  using assms by (rule idempotency_keys_kept)

theorem idempotency_keys_stay_unique_witness:
  "keys_unique (queue_serve [Q_create (plain_request ''nightly'' (PInt 1)), Q_summary,
     Q_create (plain_request ''nightly'' (PInt 2)), Q_create (plain_request [] (PInt 2))] empty_queue)"
  by (rule idempotency_keys_stay_unique [OF empty_queue_wf])
    (simp add: keys_unique_def empty_queue_def dir_get_def)

text \<open>
  C30: A second request with a key in use. Where a job is stored with the request's idempotency key,
  \<open>create_job\<close> stores nothing: a request for the same type, payload, workflow and parent returns
  the stored job (with its \<open>lease_expired\<close> flag brought up to date), and any other request is
  refused with the error that the key is in use.
\<close>

theorem create_job_with_used_key:
  fixes w :: "'z queue_world_scheme"
  assumes "all_jobs job_wf w" and "keys_unique w" and "check_request rq = Inr cq"
    and "cq_idempotency_key cq = Some key"
    and "dir_get (jobs w) k = Some j" and "j_idempotency_key j = Some key"
  shows "\<exists>r w'. create_job rq w = (r, w') \<and> jobs w' = jobs w \<and>
     (if idempotent_request_matches j (cq_job_type cq) (cq_payload cq) (rq_workflow_id rq) (rq_parent_job_id rq)
      then \<exists>s. r = Inr s \<and> summary_of j (clk w) s
      else r = Inl (key_in_use key))"
proof -
  have ne: "key \<noteq> []" using checked_key [OF assms(3)] assms(4) by auto
  have found: "\<exists>s. found = Some s \<and> summary_of j (clk w) s" if fk: "found_by_key key w found" for found
  proof (cases found)
    case None
    then show ?thesis using fk assms(5,6) by (auto simp: found_by_key_def)
  next
    case (Some s)
    then obtain k' j' where "dir_get (jobs w) k' = Some j'" "j_idempotency_key j' = Some key" "summary_of j' (clk w) s"
      using fk by (auto simp: Some found_by_key_def)
    then show ?thesis using keys_uniqueD [OF assms(2,5) _ assms(6)] assms(5) Some by auto
  qed
  let ?match = "\<lambda>j. idempotent_request_matches j (cq_job_type cq) (cq_payload cq) (rq_workflow_id rq) (rq_parent_job_id rq)"
  have same: "?match s = ?match j" if "summary_of j (clk w) s" for s
    using that by (auto simp: idempotent_request_matches_def summary_of_def)
  have "wp (create_job rq)
     (\<lambda>s w'. jobs w' = jobs w \<and> ?match j \<and> summary_of j (clk w) s)
     (\<lambda>e w'. jobs w' = jobs w \<and> \<not> ?match j \<and> e = key_in_use key) w"
    unfolding create_job_def wp_bind wp_lift assms(3) sum.case assms(4) option.case
    by (rule wp_mono [OF wp_find_by_key [OF assms(1) ne]])
      (auto dest!: found simp: wp same only_time_jobs)
  then show ?thesis by (auto simp: wp_def split: prod.splits sum.splits)
qed

definition keyed_queue :: queue_world where
  "keyed_queue = queue_serve [Q_create (plain_request ''nightly'' (PInt 1))] empty_queue"

theorem create_job_with_used_key_witness:
  "\<exists>r w'. create_job (plain_request ''nightly'' (PInt 5)) keyed_queue = (r, w') \<and> jobs w' = jobs keyed_queue \<and>
     (\<exists>s. r = Inr s \<and> j_job_id s = ''0'')"
proof -
  have 1: "all_jobs job_wf keyed_queue"
    unfolding keyed_queue_def by (rule stored.serve_all_jobs [OF empty_queue_wf])
  have "keys_unique empty_queue" by (simp add: keys_unique_def empty_queue_def dir_get_def)
  then have 2: "keys_unique keyed_queue"
    unfolding keyed_queue_def by (rule idempotency_keys_kept [OF empty_queue_wf])
  let ?cq = "\<lparr>cq_job_type = Workflow_start, cq_payload = [(''input'', PStr ''hello'')],
      cq_idempotency_key = Some ''nightly'', cq_max_attempts = 3, cq_retry_backoff_seconds = 30\<rparr>"
  have 3: "check_request (plain_request ''nightly'' (PInt 5)) = Inr ?cq" by code_simp
  have "map_option (\<lambda>j. (j_job_id j, j_idempotency_key j,
      idempotent_request_matches j Workflow_start [(''input'', PStr ''hello'')] None None)) (dir_get (jobs keyed_queue) ''0'')
    = Some (''0'', Some ''nightly'', True)" by code_simp
  then obtain j where j: "dir_get (jobs keyed_queue) ''0'' = Some j" "j_job_id j = ''0''"
    "j_idempotency_key j = Some ''nightly''"
    "idempotent_request_matches j Workflow_start [(''input'', PStr ''hello'')] None None" by auto
  from create_job_with_used_key [OF 1 2 3 _ j(1,3)] j(2,4) show ?thesis
    by (auto simp: plain_request_def summary_of_def)
qed

end
