(* ===== verification/Queue_Outcomes.thy ===== *)
theory Queue_Outcomes
  imports Queue_Properties
begin

text \<open>
  What the lifecycle operations of the queue do to a stored job: the outcome of a failure, pruning,
  the promotion of due jobs, and cancellation, each specified for every branch.
\<close>

section \<open>The outcome of a failure\<close>

lemma wp_load_job_settled:
  fixes w :: "'z queue_world_scheme"
  assumes "dir_get (jobs w) k = Some j" and "job_wf k j" and "j_status j \<noteq> Scheduled"
  shows "wp (load_job k) (\<lambda>s w'. only_time w w' \<and> summary_of j (clk w) s) (\<lambda>_ _. False) w"
proof -
  have "validate_job j = Inr ()" "aware_job j" using assms(2) by (simp_all add: job_wf_def validate_jobI)
  then show ?thesis
    using assms wp_job_summary [of j w w]
    by (simp add: load_job_def wp_bind wp_load_job_snapshot)
qed

lemma summary_limits:
  "summary_of j time s \<Longrightarrow> j_max_attempts s = j_max_attempts j \<and> j_attempt_count s = j_attempt_count j \<and>
   j_retry_backoff_seconds s = j_retry_backoff_seconds j"
  by (auto simp: summary_of_def)

text \<open>The update of a stored job that stays valid.\<close>

lemma wp_update_valid:
  fixes w :: "'z queue_world_scheme"
  assumes "dir_get (jobs w) k = Some j" and "job_valid j" and "job_valid (f j)"
  shows "wp (update_job k reason details f)
     (\<lambda>j' w'. j' = job_after reason details f (utc_stamp (clk w (ticks w))) j \<and>
        jobs w' = dir_put (jobs w) k j') (\<lambda>_ _. False) w"
  using assms by (simp add: wp_update_job validate_jobI Let_def)

definition freed :: "job \<Rightarrow> bool" where
  "freed j \<longleftrightarrow> j_worker_id j = None \<and> j_claimed_at j = None \<and> j_lease_expires_at j = None"

definition failed_for_good :: "exc \<Rightarrow> job \<Rightarrow> job \<Rightarrow> bool" where
  "failed_for_good e j j' \<longleftrightarrow>
     j_status j' = (if j_max_attempts j > 1 then Dead_letter else Failed) \<and>
     j_attempt_count j' = j_attempt_count j + 1 \<and> j_error j' = Some (failure_object e) \<and>
     j_next_retry_at j' = None \<and> freed j' \<and> fst (job_core j') = fst (job_core j)"

definition retry_planned :: "exc \<Rightarrow> int \<Rightarrow> job \<Rightarrow> job \<Rightarrow> bool" where
  "retry_planned e due j j' \<longleftrightarrow>
     j_status j' \<in> {Queued, Scheduled} \<and> j_attempt_count j' = j_attempt_count j + 1 \<and>
     j_error j' = Some (failure_object e) \<and> j_ready_at j' = utc_stamp due \<and>
     j_next_retry_at j' = Some (utc_stamp due) \<and> freed j' \<and> fst (job_core j') = fst (job_core j)"

definition failure_result ::
    "exc \<Rightarrow> job \<Rightarrow> string \<Rightarrow> 'z queue_world_scheme \<Rightarrow> job res \<Rightarrow> 'z queue_world_scheme \<Rightarrow> bool" where
  "failure_result e j k w r w' \<longleftrightarrow>
     (if j_max_attempts j \<le> j_attempt_count j + 1
      then \<exists>j'. r = Inr j' \<and> jobs w' = dir_put (jobs w) k j' \<and> failed_for_good e j j'
      else \<exists>n. case add_seconds (clk w n) (retry_delay_seconds j (j_attempt_count j + 1)) of
          Inl er \<Rightarrow> r = Inl er \<and> jobs w' = jobs w
        | Inr due \<Rightarrow> \<exists>j'. r = Inr j' \<and> jobs w' = dir_put (jobs w) k j' \<and> retry_planned e due j j')"

lemma retry_delay_nonneg: "job_valid j \<Longrightarrow> 0 \<le> retry_delay_seconds j n"
  by (simp add: retry_delay_seconds_def job_valid_def Let_def)

lemma wp_build_delay:
  "0 \<le> n \<Longrightarrow> wp (build_ready_at (PInt n) None) Q E w =
     (case add_seconds (clk w (ticks w)) n of
        Inl er \<Rightarrow> E er (w\<lparr>ticks := Suc (ticks w)\<rparr>)
      | Inr due \<Rightarrow> Q (utc_stamp due) (w\<lparr>ticks := Suc (ticks w)\<rparr>))"
  by (simp add: build_ready_at_def wp res_bind_def split: sum.splits)

lemma wp_fail_for_good:
  fixes w :: "'z queue_world_scheme"
  assumes "dir_get (jobs w) k = Some j" and "job_valid j" and "summary_of j time s"
  shows "wp (fail_for_good k e t s)
     (\<lambda>j' w'. jobs w' = dir_put (jobs w) k j' \<and> failed_for_good e j j') (\<lambda>_ _. False) w"
  unfolding fail_for_good_def Let_def
  by (rule wp_mono [OF wp_update_valid [OF assms(1,2)]])
    (use assms(2) summary_limits [OF assms(3)] in
      \<open>auto simp: job_valid_def job_after_def Let_def failed_for_good_def freed_def job_core_def\<close>)

lemma wp_plan_retry:
  fixes w :: "'z queue_world_scheme"
  assumes "dir_get (jobs w) k = Some j" and "job_valid j" and "summary_of j time s"
    and "st \<in> {Queued, Scheduled}"
  shows "wp (plan_retry k e t d s (utc_stamp due) st)
     (\<lambda>j' w'. jobs w' = dir_put (jobs w) k j' \<and> retry_planned e due j j') (\<lambda>_ _. False) w"
  unfolding plan_retry_def
  by (rule wp_mono [OF wp_update_valid [OF assms(1,2)]])
    (use assms(2,4) summary_limits [OF assms(3)] in
      \<open>auto simp: job_valid_def job_after_def Let_def retry_planned_def freed_def job_core_def\<close>)

lemma wp_record_failure:
  fixes w :: "'z queue_world_scheme"
  assumes get: "dir_get (jobs w) k = Some j" and jw: "job_wf k j" and "j_status j \<noteq> Scheduled"
  shows "wp (record_job_failure k e) (\<lambda>j' w'. failure_result e j k w (Inr j') w')
     (\<lambda>er w'. failure_result e j k w (Inl er) w') w"
  unfolding record_job_failure_def wp_bind wp_utc_now_iso
proof (rule wp_mono [OF wp_load_job_settled [OF assms]])
  fix s w1 assume "only_time w w1 \<and> summary_of j (clk w) s"
  then have t: "only_time w w1" and s: "summary_of j (clk w) s" by simp_all
  note lim = summary_limits [OF s]
  have valid: "job_valid j" using jw by (simp add: job_wf_def)
  have clk1: "clk w1 = clk w" and jobs1: "jobs w1 = jobs w"
    using t by (simp_all add: only_time_clk only_time_jobs)
  have delay: "retry_delay_seconds s n = retry_delay_seconds j n" for n
    by (simp add: retry_delay_seconds_def lim)
  let ?d = "retry_delay_seconds j (j_attempt_count j + 1)"
  let ?w2 = "w1\<lparr>ticks := Suc (ticks w1)\<rparr>"
  let ?w3 = "?w2\<lparr>ticks := Suc (ticks ?w2)\<rparr>"
  let ?Q = "\<lambda>j' w'. failure_result e j k w (Inr j') w'" and ?E = "\<lambda>er w'. failure_result e j k w (Inl er) w'"
  let ?t = "utc_stamp (clk w1 (ticks w1))"
  have final: "wp (fail_for_good k e ?t s) ?Q ?E ?w2" if "j_max_attempts j \<le> j_attempt_count j + 1"
    by (rule wp_mono [OF wp_fail_for_good [OF _ valid s]])
      (use that get jobs1 in \<open>auto simp: failure_result_def\<close>)
  have planned: "wp (job_status_for_ready_at (utc_stamp due))
       (\<lambda>st. wp (plan_retry k e ?t ?d s (utc_stamp due) st) ?Q ?E) ?E ?w3"
    if due: "add_seconds (clk w (ticks ?w2)) ?d = Inr due" and less: "\<not> j_max_attempts j \<le> j_attempt_count j + 1" for due
  proof (rule wp_mono [OF wp_ready_status])
    fix st w4 assume r: "st \<in> {Queued, Scheduled} \<and> only_time ?w3 w4"
    then have "jobs w4 = jobs w" using only_time_jobs [of ?w3 w4] jobs1 by simp
    then show "wp (plan_retry k e ?t ?d s (utc_stamp due) st) ?Q ?E w4"
      by (intro wp_mono [OF wp_plan_retry [OF _ valid s]])
        (use r get due less in \<open>auto simp: failure_result_def intro!: exI [of _ "ticks ?w2"]\<close>)
  next
    show "?E er w4" if "only_time ?w3 w4" "job_status_for_ready_at (utc_stamp due) ?w3 = (Inl er, w4)" for er w4
      using that(2) by (simp add: job_status_for_ready_at_def io_bind_def utc_now_def io_lift_def res_bind_def)
  qed
  show "wp (if j_attempt_count s + 1 \<ge> j_max_attempts s then fail_for_good k e ?t s
       else io_bind (build_ready_at (PInt (retry_delay_seconds s (j_attempt_count s + 1))) None)
         (\<lambda>due. io_bind (job_status_for_ready_at due)
           (plan_retry k e ?t (retry_delay_seconds s (j_attempt_count s + 1)) s due))) ?Q ?E ?w2"
    using final planned clk1 jobs1
    by (cases "add_seconds (clk w (ticks ?w2)) ?d")
      (auto simp: wp_bind lim delay wp_build_delay [OF retry_delay_nonneg [OF valid]] failure_result_def
        intro!: exI [of _ "ticks ?w2"])
qed simp


definition running_job :: "int \<Rightarrow> int \<Rightarrow> int \<Rightarrow> job" where
  "running_job attempts_made allowed backoff =
     \<lparr>j_job_id = ''j1'', j_job_type = Workflow_start, j_status = Running, j_priority = 100,
      j_ready_at = utc_stamp 0, j_payload = [], j_workflow_id = None, j_parent_job_id = None,
      j_idempotency_key = None, j_worker_id = Some ''w1'', j_claimed_at = Some (utc_stamp 5),
      j_lease_expires_at = Some (utc_stamp 60000000), j_reclaim_count = 0, j_last_requeue_reason = None,
      j_attempt_count = attempts_made, j_max_attempts = allowed, j_retry_backoff_seconds = backoff,
      j_last_failure_at = None, j_next_retry_at = None, j_dead_lettered_at = None,
      j_canceled_at = None, j_cancel_reason = None, j_result = None, j_error = None,
      j_transition_history =
        [Created_event (utc_stamp 0) Queued (utc_stamp 0) 100,
         Change_event
           \<lparr>ch_event_type = Ev_claimed, ch_timestamp = utc_stamp 5, ch_from_status = Queued,
            ch_to_status = Running, ch_worker_id = Some ''w1'', ch_attempt_count = attempts_made,
            ch_reason = PStr ''claimed_by_worker:w1'',
            ch_changed_fields =
              [(''status'', FV_status Queued, FV_status Running),
               (''worker_id'', FV_val PNone, FV_val (PStr ''w1'')),
               (''claimed_at'', FV_stamp None, FV_stamp (Some (utc_stamp 5))),
               (''lease_expires_at'', FV_stamp None, FV_stamp (Some (utc_stamp 60000000)))] @
              (if attempts_made = 0 then []
               else [(''attempt_count'', FV_val (PInt 0), FV_val (PInt attempts_made))]),
            ch_details = []\<rparr>],
      j_created_at = utc_stamp 0, j_updated_at = utc_stamp 5, j_lease_expired = False\<rparr>"

definition one_job_world :: "job \<Rightarrow> queue_world" where
  "one_job_world j = empty_queue\<lparr>jobs := [(j_job_id j, j)]\<rparr>"

lemma one_job_world_get: "dir_get (jobs (one_job_world j)) (j_job_id j) = Some j"
  by (simp add: one_job_world_def dir_get_def)

lemma one_job_world_wf:
  assumes "job_wf (j_job_id j) j"
  shows "all_jobs job_wf (one_job_world j)"
  using assms by (auto simp: all_jobs_def one_job_world_def dir_ok_def dir_get_def)

lemma running_job_wf: "job_wf (j_job_id (running_job 0 3 30)) (running_job 0 3 30)"
  and exhausted_job_wf: "job_wf (j_job_id (running_job 33 50 30)) (running_job 33 50 30)"
  by code_simp+


text \<open>
  The doubling has no upper limit: with the default backoff of 30 seconds the 34th retry is due
  after the year 9999, the failure cannot be recorded, and the job stays running.
\<close>

theorem retry_backoff_overflows:
  "let w = one_job_world (running_job 33 50 30); out = record_job_failure ''j1'' (ValueError ''boom'') w
   in fst out = Inl (OverflowError ''date value out of range'') \<and>
      map_option j_status (dir_get (jobs (snd out)) ''j1'') = Some Running"
  by code_simp

section \<open>Pruning\<close>

text \<open>What pruning may remove: jobs with one of the statuses that ended at or before the cutoff.\<close>

definition prunable :: "job_status list \<Rightarrow> int \<Rightarrow> job \<Rightarrow> bool" where
  "prunable statuses cutoff j \<longleftrightarrow>
     j_status j \<in> set statuses \<and> stamp_gt (job_terminal_timestamp j) cutoff = Inr False"

definition prunable_ids :: "job_status list \<Rightarrow> int \<Rightarrow> 'z queue_world_scheme \<Rightarrow> string list" where
  "prunable_ids statuses cutoff w =
     filter (\<lambda>k. case dir_get (jobs w) k of None \<Rightarrow> False | Some j \<Rightarrow> prunable statuses cutoff j) (dir_ids (jobs w))"

lemma terminal_timestamp_summary [simp]:
  "job_terminal_timestamp (j\<lparr>j_lease_expired := b\<rparr>) = job_terminal_timestamp j"
  by (cases "j_status j") (simp_all add: job_terminal_timestamp_def split: option.splits)

lemma summary_prunable: "summary_of j time s \<Longrightarrow> prunable statuses cutoff s = prunable statuses cutoff j"
  by (auto simp: summary_of_def prunable_def)

lemma aware_terminal: "aware_job j \<Longrightarrow> aware (job_terminal_timestamp j)"
  by (auto simp: aware_job_def job_terminal_timestamp_def split: job_status.splits option.splits)

lemma prune_candidates_filter:
  assumes "\<forall>j \<in> set js. aware_job j"
  shows "prune_candidates statuses cutoff js = Inr (filter (prunable statuses cutoff) js)"
  using assms
proof (induction js)
  case (Cons j js)
  have "aware_job j" using Cons.prems by simp
  then obtain b where "stamp_gt (job_terminal_timestamp j) cutoff = Inr b"
    using aware_stamp_gt [OF aware_terminal] by blast
  then show ?case using Cons by (auto simp: prunable_def res_bind_def)
qed simp

lemma listing_aware:
  assumes "all_jobs job_wf w" and "listing_of wanted w js"
  shows "\<forall>s \<in> set js. aware_job s"
proof
  fix s assume "s \<in> set js"
  then obtain j where "dir_get (jobs w) (j_job_id s) = Some j" "summary_of j (clk w) s"
    using assms(2) by (auto simp: listing_of_def stored_summary_def)
  moreover have "aware_job j" using all_jobsD [OF assms(1) calculation(1)] by (simp add: job_wf_def)
  ultimately show "aware_job s" by (auto simp: summary_of_def aware_job_def)
qed

lemma listing_prunable:
  assumes "all_jobs job_wf w" and "listing_of None w js"
  shows "mset (map j_job_id (filter (prunable statuses cutoff) js)) = mset (prunable_ids statuses cutoff w)"
proof -
  let ?p = "\<lambda>k. case dir_get (jobs w) k of None \<Rightarrow> False | Some j \<Rightarrow> prunable statuses cutoff j"
  have stored: "stored_summary w (j_job_id s) s" if "s \<in> set js" for s
    using assms(2) that by (simp add: listing_of_def)
  have "map j_job_id (filter (prunable statuses cutoff) js) = filter ?p (map j_job_id js)"
  proof -
    have "prunable statuses cutoff s \<longleftrightarrow> ?p (j_job_id s)" if "s \<in> set js" for s
      using stored [OF that] by (auto simp: stored_summary_def summary_prunable)
    then show ?thesis by (simp add: filter_map o_def cong: filter_cong)
  qed
  moreover have "mset (map j_job_id js) = mset (dir_ids (jobs w))"
  proof -
    have "filter (stored_with None w) (dir_ids (jobs w)) = dir_ids (jobs w)"
      by (auto simp: filter_id_conv stored_with_def status_wanted_def dest: in_dir_ids [THEN iffD1])
    then show ?thesis using assms(2) by (simp add: listing_of_def)
  qed
  ultimately show ?thesis by (simp add: prunable_ids_def)
qed

lemma wp_unlink_all:
  assumes "distinct ks" and "\<forall>k \<in> set ks. dir_get (jobs w) k \<noteq> None" and "dir_ok (jobs w)"
  shows "wp (io_map unlink_job ks)
     (\<lambda>ys w'. concat ys = ks \<and> (\<forall>k. dir_get (jobs w') k = (if k \<in> set ks then None else dir_get (jobs w) k)))
     (\<lambda>_ _. False) w"
  using assms
proof (induction ks arbitrary: w)
  case Nil
  then show ?case by (simp add: wp)
next
  case (Cons k ks)
  then obtain j where j: "dir_get (jobs w) k = Some j" by auto
  let ?w = "w\<lparr>jobs := dir_del (jobs w) k\<rparr>"
  have "wp (io_map unlink_job ks)
     (\<lambda>ys w'. concat ys = ks \<and> (\<forall>i. dir_get (jobs w') i = (if i \<in> set ks then None else dir_get (jobs ?w) i)))
     (\<lambda>_ _. False) ?w"
    using Cons.prems by (intro Cons.IH) (auto simp: dir_simps files.ok_del)
  then show ?case
    unfolding io_map.simps unlink_job_def wp_bind wp_get j option.case wp_then wp_modify wp_return
    by (rule wp_mono) (use Cons.prems in \<open>auto simp: dir_simps\<close>)
qed

text \<open>
  C22: Pruning is exact. With valid arguments (statuses that are terminal, an age that leads to a
  date in range, an optional limit) \<open>prune_jobs\<close> returns the identifiers of exactly the jobs it
  removed; these are jobs with one of the statuses that ended at or before the cutoff, all of them
  where there is no limit and as many as the limit allows otherwise; every other job is untouched.
\<close>

theorem prune_jobs_exact:
  fixes w :: "'z queue_world_scheme"
  assumes "all_jobs job_wf w"
    and "normalize_job_status_list statuses ''prune.statuses'' = Inr sts"
    and "normalize_non_negative_int age_arg ''prune.older_than_seconds'' = Inr age"
    and "normalize_optional_limit limit ''prune.limit'' = Inr lmt"
    and "add_seconds (clk w (ticks w)) (- age) = Inr cutoff"
  shows "\<exists>ids w'. prune_jobs statuses age_arg limit w = (Inr ids, w') \<and>
     distinct ids \<and> set ids \<subseteq> set (prunable_ids sts cutoff w) \<and>
     length ids = (case lmt of None \<Rightarrow> length (prunable_ids sts cutoff w)
                   | Some n \<Rightarrow> min n (length (prunable_ids sts cutoff w))) \<and>
     (\<forall>k. dir_get (jobs w') k = (if k \<in> set ids then None else dir_get (jobs w) k))"
proof -
  let ?p = "prunable_ids sts cutoff w"
  let ?w = "w\<lparr>ticks := Suc (ticks w)\<rparr>"
  let ?key = "\<lambda>j. (stamp_key (job_terminal_timestamp j), j_job_id j)"
  let ?Q = "\<lambda>ids w'. distinct ids \<and> set ids \<subseteq> set ?p \<and>
     length ids = (case lmt of None \<Rightarrow> length ?p | Some n \<Rightarrow> min n (length ?p)) \<and>
     (\<forall>k. dir_get (jobs w') k = (if k \<in> set ids then None else dir_get (jobs w) k))"
  have ok: "dir_ok (jobs w)" and wf1: "all_jobs job_wf ?w"
    using assms(1) by (simp_all add: all_jobs_def)
  have rest: "wp (io_bind (io_lift (prune_candidates sts cutoff js)) (\<lambda>candidates.
       io_bind (io_map (\<lambda>j. unlink_job (j_job_id j)) (take_limit lmt (sort_key ?key candidates)))
         (\<lambda>pruned. io_return (concat pruned)))) ?Q (\<lambda>_ _. False) w1"
    if t: "only_time ?w w1" and l: "listing_of None ?w js" for js w1
  proof -
    define cs where "cs = sort_key ?key (filter (prunable sts cutoff) js)"
    define ks where "ks = map j_job_id (take_limit lmt cs)"
    have jobs1: "jobs w1 = jobs w" using only_time_jobs [OF t] by simp
    have "mset (map j_job_id cs) = mset (map j_job_id (filter (prunable sts cutoff) js))"
      by (simp only: cs_def mset_map mset_sort)
    also have "\<dots> = mset (prunable_ids sts cutoff ?w)" by (rule listing_prunable [OF wf1 l])
    also have "\<dots> = mset ?p" by (simp add: prunable_ids_def)
    finally have m: "mset (map j_job_id cs) = mset ?p" .
    have "distinct ?p" using ok by (simp add: prunable_ids_def files.ok_distinct)
    then have d: "distinct (map j_job_id cs)" using m by (metis mset_eq_imp_distinct_iff)
    have len: "length cs = length ?p" using arg_cong [OF m, of size] by simp
    have sub: "set (map j_job_id cs) = set ?p" using m by (metis set_mset_mset)
    have ks: "distinct ks \<and> set ks \<subseteq> set ?p \<and>
        length ks = (case lmt of None \<Rightarrow> length ?p | Some n \<Rightarrow> min n (length ?p))"
      using d sub len
      by (cases lmt) (auto simp: ks_def take_limit_def take_map [symmetric] min.commute dest: in_set_takeD)
    have "\<forall>k \<in> set ks. dir_get (jobs w1) k \<noteq> None"
      using ks by (auto simp: jobs1 prunable_ids_def split: option.splits)
    moreover have "dir_ok (jobs w1)" using ok by (simp add: jobs1)
    ultimately have "wp (io_map unlink_job ks) (\<lambda>ys w'. ?Q (concat ys) w') (\<lambda>_ _. False) w1"
      by (intro wp_mono [OF wp_unlink_all [OF conjunct1 [OF ks]]]) (use ks jobs1 in auto)
    then show ?thesis
      by (simp add: prune_candidates_filter [OF listing_aware [OF wf1 l]] wp io_map_o
          flip: cs_def ks_def)
  qed
  have body: "wp (io_bind (list_jobs None False) (\<lambda>js.
       io_bind (io_lift (prune_candidates sts cutoff js)) (\<lambda>candidates.
       io_bind (io_map (\<lambda>j. unlink_job (j_job_id j)) (take_limit lmt (sort_key ?key candidates)))
         (\<lambda>pruned. io_return (concat pruned))))) ?Q (\<lambda>_ _. False) ?w"
    unfolding wp_bind [of "list_jobs None False"]
    by (rule wp_mono [OF wp_list_stored [OF wf1, of None, unfolded option.map]])
      (use rest in blast)+
  have "wp (prune_jobs statuses age_arg limit) ?Q (\<lambda>_ _. False) w"
    unfolding prune_jobs_def wp_bind wp_lift assms(2-4) sum.case wp_utc_now assms(5)
    using body unfolding wp_bind wp_lift .
  then show ?thesis by (auto simp: wp_def split: prod.splits sum.splits)
qed

definition pruned_world :: queue_world where
  "pruned_world = queue_serve [Q_create (plain_request [] (PInt 1)), Q_create (plain_request [] (PInt 2)),
     Q_cancel ''0'' ''operator''] empty_queue"

theorem prune_jobs_exact_witness:
  "\<exists>cutoff ids w'. add_seconds (clk pruned_world (ticks pruned_world)) 0 = Inr cutoff \<and>
     prune_jobs (PList [PStr ''canceled'']) (PInt 0) PNone pruned_world = (Inr ids, w') \<and>
     length ids = length (prunable_ids [Canceled] cutoff pruned_world)"
proof -
  have 1: "normalize_job_status_list (PList [PStr ''canceled'']) ''prune.statuses'' = Inr [Canceled]"
    and 2: "normalize_non_negative_int (PInt 0) ''prune.older_than_seconds'' = Inr 0"
    and 3: "normalize_optional_limit PNone ''prune.limit'' = Inr None"
    and 4: "add_seconds (clk pruned_world (ticks pruned_world)) (- 0) = Inr (clk pruned_world (ticks pruned_world))"
    and 5: "prunable_ids [Canceled] (clk pruned_world (ticks pruned_world)) pruned_world = [''0'']"
    by code_simp+
  have "all_jobs job_wf pruned_world"
    unfolding pruned_world_def by (rule stored.serve_all_jobs [OF empty_queue_wf])
  from prune_jobs_exact [OF this 1 2 3 4] show ?thesis using 4 5 by auto
qed

section \<open>Promotion of due jobs\<close>

definition due_by :: "job \<Rightarrow> int \<Rightarrow> bool" where
  "due_by j us \<longleftrightarrow> j_status j = Scheduled \<and> stamp_gt (j_ready_at j) us = Inr False"

definition promoted :: "job \<Rightarrow> job \<Rightarrow> bool" where
  "promoted j j' \<longleftrightarrow> j_status j' = Queued \<and> fst (job_core j') = fst (job_core j) \<and> j_ready_at j' = j_ready_at j"

lemma job_after_promoted: "promoted j (job_after r d (\<lambda>c. c\<lparr>j_status := Queued\<rparr>) t j)"
  by (simp add: promoted_def job_after_def Let_def job_core_def)

lemma job_after_id: "j_job_id (job_after r d f t j) = j_job_id (f j)"
  by (simp add: job_after_def Let_def)

definition all_promoted :: "job dir \<Rightarrow> job list \<Rightarrow> job dir \<Rightarrow> bool" where
  "all_promoted d js d' \<longleftrightarrow>
     (\<forall>k. k \<notin> j_job_id ` set js \<longrightarrow> dir_get d' k = dir_get d k) \<and>
     (\<forall>j \<in> set js. \<exists>j'. dir_get d' (j_job_id j) = Some j' \<and> promoted j j')"

lemma all_promoted_Cons:
  assumes "all_promoted (dir_put d (j_job_id j) j1) js d'" and "promoted j j1"
    and "j_job_id j \<notin> j_job_id ` set js"
  shows "all_promoted d (j # js) d'"
  using assms by (auto simp: all_promoted_def dir_simps)

lemma wp_promote_one:
  fixes w :: "'z queue_world_scheme"
  assumes "dir_get (jobs w) (j_job_id j) = Some j" and "job_valid j"
  shows "wp (promote_one j)
     (\<lambda>k w'. k = j_job_id j \<and> (\<exists>j1. promoted j j1 \<and> jobs w' = dir_put (jobs w) (j_job_id j) j1)) (\<lambda>_ _. False) w"
proof -
  let ?f = "\<lambda>c. c\<lparr>j_status := Queued\<rparr>"
  have "job_valid (?f j)" using assms(2) by (simp add: job_valid_def)
  note up = wp_update_valid [where f = ?f, OF assms this, of "Some ''ready_at_elapsed''" "[]"]
  show ?thesis
    unfolding promote_one_def wp_bind wp_return
    by (rule wp_mono [OF up]) (auto simp: job_after_id intro!: exI job_after_promoted)
qed

lemma wp_promote_all:
  fixes w :: "'z queue_world_scheme"
  assumes "distinct (map j_job_id js)" and "\<forall>j \<in> set js. dir_get (jobs w) (j_job_id j) = Some j \<and> job_valid j"
  shows "wp (io_map promote_one js)
     (\<lambda>ids w'. ids = map j_job_id js \<and> all_promoted (jobs w) js (jobs w')) (\<lambda>_ _. False) w"
  using assms
proof (induction js arbitrary: w)
  case Nil
  then show ?case by (simp add: wp all_promoted_def)
next
  case (Cons j js)
  have first: "wp (promote_one j)
     (\<lambda>k w'. k = j_job_id j \<and> (\<exists>j1. promoted j j1 \<and> jobs w' = dir_put (jobs w) (j_job_id j) j1)) (\<lambda>_ _. False) w"
    using Cons.prems by (intro wp_promote_one) simp_all
  have rest: "wp (io_map promote_one js)
     (\<lambda>ids w'. ids = map j_job_id js \<and> all_promoted (jobs w) (j # js) (jobs w')) (\<lambda>_ _. False) w1"
    if "promoted j j1" "jobs w1 = dir_put (jobs w) (j_job_id j) j1" for j1 and w1 :: "'z queue_world_scheme"
  proof (rule wp_mono [OF Cons.IH])
    show "distinct (map j_job_id js)" using Cons.prems(1) by simp
    show "\<forall>i \<in> set js. dir_get (jobs w1) (j_job_id i) = Some i \<and> job_valid i"
    proof
      fix i assume i: "i \<in> set js"
      then have "j_job_id i \<noteq> j_job_id j" using Cons.prems(1) by (metis distinct.simps(2) image_eqI image_set list.simps(9))
      then show "dir_get (jobs w1) (j_job_id i) = Some i \<and> job_valid i"
        using bspec [OF Cons.prems(2), of i] i by (simp add: that(2) dir_simps)
    qed
    fix ids and w' :: "'z queue_world_scheme"
    assume a: "ids = map j_job_id js \<and> all_promoted (jobs w1) js (jobs w')"
    then have "all_promoted (dir_put (jobs w) (j_job_id j) j1) js (jobs w')" by (simp add: that(2))
    moreover have "j_job_id j \<notin> j_job_id ` set js" using Cons.prems(1) by simp
    ultimately have "all_promoted (jobs w) (j # js) (jobs w')"
      by (intro all_promoted_Cons [OF _ that(1)])
    then show "ids = map j_job_id js \<and> all_promoted (jobs w) (j # js) (jobs w')" using a by blast
  qed simp
  show ?case
    unfolding io_map.simps wp_bind wp_return
  proof (rule wp_mono [OF first], elim conjE exE)
    fix k j1 and w1 :: "'z queue_world_scheme"
    assume 1: "k = j_job_id j" "promoted j j1" "jobs w1 = dir_put (jobs w) (j_job_id j) j1"
    show "wp (io_map promote_one js)
       (\<lambda>ks. (\<lambda>ids w'. ids = map j_job_id (j # js) \<and> all_promoted (jobs w) (j # js) (jobs w')) (k # ks))
       (\<lambda>_ _. False) w1"
      by (rule wp_mono [OF rest [OF 1(2,3)]]) (simp_all add: 1(1))
  qed
qed

lemma wp_is_due:
  assumes "aware_job j" and "only_time w0 w"
  shows "wp (is_due j) (\<lambda>d w'. only_time w0 w' \<and> (\<exists>n \<ge> ticks w0. d = due_by j (clk w0 n))) (\<lambda>_ _. False) w"
proof (cases "j_status j = Scheduled")
  case False
  then show ?thesis using assms(2) by (auto simp: is_due_def wp due_by_def)
next
  case True
  have "aware (j_ready_at j)" using assms(1) by (simp add: aware_job_def)
  then obtain b where "stamp_gt (j_ready_at j) (clk w (ticks w)) = Inr b" using aware_stamp_gt by blast
  moreover have "ticks w0 \<le> ticks w" using assms(2) by (auto simp: only_time_def)
  ultimately show ?thesis
    using True only_time_tick [OF assms(2)] only_time_clk [OF assms(2)]
    by (auto simp: is_due_def job_status_for_ready_at_def wp due_by_def res_bind_def intro!: exI [of _ "ticks w"])
qed

definition due_result :: "'z queue_world_scheme \<Rightarrow> string \<Rightarrow> job \<times> bool \<Rightarrow> bool" where
  "due_result w k r \<longleftrightarrow> dir_get (jobs w) k = Some (fst r) \<and> (\<exists>n \<ge> ticks w. snd r = due_by (fst r) (clk w n))"

lemma wp_due_jobs:
  fixes w :: "'z queue_world_scheme"
  assumes "all_jobs job_wf w"
  shows "wp due_jobs
     (\<lambda>js w'. only_time w w' \<and> (\<exists>rs. list_all2 (due_result w) (dir_ids (jobs w)) rs \<and> js = map fst (filter snd rs)))
     (\<lambda>_ _. False) w"
proof -
  have one: "wp (io_bind (load_job_snapshot k) (\<lambda>j. io_bind (is_due j) (\<lambda>due. io_return (j, due))))
      (\<lambda>r w''. only_time w w'' \<and> due_result w k r) (\<lambda>_ _. False) w'"
    if k: "k \<in> set (dir_ids (jobs w))" and t: "only_time w w'" for k w'
  proof -
    obtain j where j: "dir_get (jobs w) k = Some j" using k by (meson in_dir_ids)
    then have "job_wf k j" by (rule all_jobsD [OF assms])
    then have v: "validate_job j = Inr ()" "aware_job j" by (simp_all add: job_wf_def validate_jobI)
    show ?thesis
      by (simp add: wp_bind wp_load_job_snapshot only_time_jobs [OF t] j v wp_return,
          rule wp_mono [OF wp_is_due [OF v(2) t]]) (auto simp: due_result_def j)
  qed
  show ?thesis
    unfolding due_jobs_def wp_bind wp_get wp_return
    by (rule wp_mono [OF wp_io_map [where I = "only_time w" and P = "due_result w", OF only_time_refl]])
      (use one in \<open>auto intro: only_time_refl\<close>)
qed

lemma due_results:
  assumes "all_jobs job_wf w" and "list_all2 (due_result w) ks rs" and "distinct ks"
  shows "distinct (map j_job_id (map fst (filter snd rs))) \<and>
     set (map j_job_id (map fst (filter snd rs))) \<subseteq> set ks \<and>
     (\<forall>j \<in> set (map fst (filter snd rs)). dir_get (jobs w) (j_job_id j) = Some j \<and> job_valid j \<and>
        (\<exists>n. due_by j (clk w n))) \<and>
     (\<forall>k j. k \<in> set ks \<and> dir_get (jobs w) k = Some j \<and> (\<forall>n \<ge> ticks w. due_by j (clk w n)) \<longrightarrow>
        j \<in> set (map fst (filter snd rs)))"
  using assms(2,3)
proof induction
  case (Cons k ks r rs)
  obtain j d where r: "r = (j, d)" by (cases r)
  then have j: "dir_get (jobs w) k = Some j" and d: "\<exists>n \<ge> ticks w. d = due_by j (clk w n)"
    using Cons.hyps(1) by (simp_all add: due_result_def)
  have "job_wf k j" by (rule all_jobsD [OF assms(1) j])
  then have id: "j_job_id j = k" "job_valid j" by (simp_all add: job_wf_def)
  show ?case using Cons.IH Cons.prems j d id r by auto
qed simp

definition promotion_result :: "'z queue_world_scheme \<Rightarrow> string list \<Rightarrow> 'z queue_world_scheme \<Rightarrow> bool" where
  "promotion_result w ids w' \<longleftrightarrow>
     (\<forall>k. k \<notin> set ids \<longrightarrow> dir_get (jobs w') k = dir_get (jobs w) k) \<and>
     (\<forall>k \<in> set ids. \<exists>j j'. dir_get (jobs w) k = Some j \<and> (\<exists>n. due_by j (clk w n)) \<and>
        dir_get (jobs w') k = Some j' \<and> promoted j j') \<and>
     (\<forall>k j. dir_get (jobs w) k = Some j \<and> due_by j (clk w (ticks w)) \<longrightarrow> k \<in> set ids)"

lemma due_later: "mono time \<Longrightarrow> due_by j (time n) \<Longrightarrow> n \<le> m \<Longrightarrow> due_by j (time m)"
  by (auto simp: due_by_def stamp_gt_def res_bind_def mono_def split: sum.splits)
     (metis linorder_not_less order_less_le_trans)

lemma stored_id: "all_jobs job_wf w \<Longrightarrow> dir_get (jobs w) k = Some j \<Longrightarrow> j_job_id j = k"
  by (drule (1) all_jobsD) (simp add: job_wf_def)


definition scheduled_job :: job where
  "scheduled_job =
     (new_job (plain_request [] (PInt 1))
        \<lparr>cq_job_type = Workflow_start, cq_payload = [], cq_idempotency_key = None, cq_max_attempts = 3,
         cq_retry_backoff_seconds = 30\<rparr>
        ''j1'' Scheduled 1 (utc_stamp 5) (utc_stamp 0))
     \<lparr>j_transition_history := [Created_event (utc_stamp 0) Scheduled (utc_stamp 5) 1]\<rparr>"

definition waiting_queue :: queue_world where
  "waiting_queue = (one_job_world scheduled_job)\<lparr>ticks := 100\<rparr>"


section \<open>Cancellation\<close>

definition canceled_from :: "string \<Rightarrow> job \<Rightarrow> job \<Rightarrow> bool" where
  "canceled_from reason j j' \<longleftrightarrow>
     j_status j' = Canceled \<and> j_cancel_reason j' = Some reason \<and> j_canceled_at j' \<noteq> None \<and>
     j_worker_id j' = (if j_status j = Running then j_worker_id j else None) \<and>
     j_claimed_at j' = None \<and> j_lease_expires_at j' = None \<and> j_next_retry_at j' = None \<and>
     j_result j' = None \<and> j_error j' = None \<and> fst (job_core j') = fst (job_core j)"

definition loaded :: "string \<Rightarrow> 'z queue_world_scheme \<Rightarrow> job \<Rightarrow> job \<Rightarrow> 'z queue_world_scheme \<Rightarrow> bool" where
  "loaded k w j s w' \<longleftrightarrow>
     summary_of j (clk w) s \<and> jobs w' = jobs w \<or>
     j_status j = Scheduled \<and> promoted j s \<and> job_valid s \<and> jobs w' = dir_put (jobs w) k s"

lemma wp_load_job:
  fixes w :: "'z queue_world_scheme"
  assumes j: "dir_get (jobs w) k = Some j" and "job_wf k j"
  shows "wp (load_job k) (loaded k w j) (\<lambda>_ _. False) w"
proof (cases "j_status j = Scheduled")
  case False
  show ?thesis
    by (rule wp_mono [OF wp_load_job_settled [OF assms False]]) (auto simp: loaded_def only_time_jobs)
next
  case True
  have v: "validate_job j = Inr ()" "job_valid j" "aware_job j"
    using assms(2) by (simp_all add: job_wf_def validate_jobI)
  let ?f = "\<lambda>c. c\<lparr>j_status := Queued\<rparr>"
  have vf: "job_valid (?f j)" using v(2) by (simp add: job_valid_def)
  have next_step: "wp (if st = Queued then update_job k None [] ?f else job_summary j) (loaded k w j) (\<lambda>_ _. False) w1"
    if t: "only_time w w1" for st and w1 :: "'z queue_world_scheme"
  proof -
    have j1: "dir_get (jobs w1) k = Some j" using j by (simp add: only_time_jobs [OF t])
    have valid: "job_valid (job_after None [] ?f x j)" for x
      using v(2) by (simp add: job_after_def Let_def job_valid_def)
    have "wp (update_job k None [] ?f) (loaded k w j) (\<lambda>_ _. False) w1"
      by (rule wp_mono [OF wp_update_valid [where f = ?f, OF j1 v(2) vf]])
        (use True valid in \<open>auto simp: loaded_def only_time_jobs [OF t] job_after_promoted\<close>)
    moreover have "wp (job_summary j) (loaded k w j) (\<lambda>_ _. False) w1"
      by (rule wp_mono [OF wp_job_summary [OF v(3) t]]) (auto simp: loaded_def only_time_jobs)
    ultimately show ?thesis by simp
  qed
  obtain b where "stamp_gt (j_ready_at j) (clk w (ticks w)) = Inr b"
    using aware_stamp_gt v(3) by (auto simp: aware_job_def)
  then show ?thesis
    using next_step [OF only_time_tick [OF only_time_refl]] True
    by (simp add: load_job_def wp_bind wp_load_job_snapshot j v(1) job_status_for_ready_at_def wp_utc_now
        wp_lift res_bind_def)
qed

definition cancel_result :: "string \<Rightarrow> job \<Rightarrow> string \<Rightarrow> 'z queue_world_scheme \<Rightarrow> job res \<Rightarrow> 'z queue_world_scheme \<Rightarrow> bool" where
  "cancel_result reason j k w r w' \<longleftrightarrow>
     (if j_status j \<in> set TERMINAL_JOB_STATUSES
      then r = Inl (cannot k ''canceled'' (j_status j)) \<and> jobs w' = jobs w
      else \<exists>j'. r = Inr j' \<and> canceled_from reason j j' \<and>
        (\<forall>i. dir_get (jobs w') i = (if i = k then Some j' else dir_get (jobs w) i)))"

lemma wp_cancel_job:
  fixes w :: "'z queue_world_scheme"
  assumes j: "dir_get (jobs w) k = Some j" and "job_wf k j"
  shows "wp (cancel_job k reason) (\<lambda>j' w'. cancel_result reason j k w (Inr j') w')
     (\<lambda>e w'. cancel_result reason j k w (Inl e) w') w"
  unfolding cancel_job_def wp_bind
proof (rule wp_mono [OF wp_load_job [OF assms]])
  fix s and w1 :: "'z queue_world_scheme"
  assume l: "loaded k w j s w1"
  let ?Q = "\<lambda>j' w'. cancel_result reason j k w (Inr j') w'" and ?E = "\<lambda>e w'. cancel_result reason j k w (Inl e) w'"
  let ?ended = "set [Completed, Failed, Dead_letter, Canceled]"
  have status: "j_status s = (if j_status s = Queued then j_status s else j_status j)"
    "j_status s \<in> ?ended \<Longrightarrow> j_status s = j_status j \<and> jobs w1 = jobs w"
    "j_status s = Running \<longleftrightarrow> j_status j = Running" "j_status s = Running \<Longrightarrow> j_worker_id s = j_worker_id j"
    "j_status j \<in> ?ended \<Longrightarrow> j_status s = j_status j"
    using l by (auto simp: loaded_def summary_of_def promoted_def)
  show "wp (if j_status s \<in> ?ended then io_raise (cannot k ''canceled'' (j_status s))
      else io_bind utc_now_iso (\<lambda>timestamp.
        update_job k (Some reason) []
          (\<lambda>c. c\<lparr>j_status := Canceled, j_canceled_at := Some timestamp, j_cancel_reason := Some reason,
                 j_worker_id := (if j_status s \<noteq> Running then None else j_worker_id s),
                 j_claimed_at := None, j_lease_expires_at := None, j_next_retry_at := None,
                 j_result := None, j_error := None\<rparr>))) ?Q ?E w1"
  proof (cases "j_status s \<in> ?ended")
    case True
    then show ?thesis
      using status(2) [OF True] by (auto simp: wp_raise cancel_result_def TERMINAL_JOB_STATUSES_def)
  next
    case False
    then have nt: "j_status j \<notin> set TERMINAL_JOB_STATUSES"
      using status(5) by (auto simp: TERMINAL_JOB_STATUSES_def)
    obtain j1 where j1: "dir_get (jobs w1) k = Some j1" "job_valid j1" "fst (job_core j1) = fst (job_core j)"
        "\<forall>i. i \<noteq> k \<longrightarrow> dir_get (jobs w1) i = dir_get (jobs w) i"
    proof (cases "jobs w1 = jobs w")
      case True
      have "job_valid j" using assms(2) by (simp add: job_wf_def)
      then show thesis using that [of j] j True by simp
    next
      case False
      then have "job_valid s" "jobs w1 = dir_put (jobs w) k s" "promoted j s"
        using l by (auto simp: loaded_def)
      then show thesis using that [of s] by (simp add: dir_simps promoted_def)
    qed
    let ?f = "\<lambda>t c. c\<lparr>j_status := Canceled, j_canceled_at := Some t, j_cancel_reason := Some reason,
                 j_worker_id := (if j_status s \<noteq> Running then None else j_worker_id s),
                 j_claimed_at := None, j_lease_expires_at := None, j_next_retry_at := None,
                 j_result := None, j_error := None\<rparr>"
    let ?w2 = "w1\<lparr>ticks := Suc (ticks w1)\<rparr>"
    have v: "job_valid (?f t j1)" for t using j1(2) by (simp add: job_valid_def)
    have "wp (update_job k (Some reason) [] (?f t)) ?Q ?E ?w2" for t
    proof (rule wp_mono [OF wp_update_valid [where f = "?f t", OF _ j1(2) v]])
      show "dir_get (jobs ?w2) k = Some j1" using j1(1) by simp
      fix j' and w' :: "'z queue_world_scheme"
      assume a: "j' = job_after (Some reason) [] (?f t) (utc_stamp (clk ?w2 (ticks ?w2))) j1 \<and>
          jobs w' = dir_put (jobs ?w2) k j'"
      then have "canceled_from reason j j'"
        using j1(3) status(3,4) by (auto simp: canceled_from_def job_after_def Let_def job_core_def)
      then show "cancel_result reason j k w (Inr j') w'"
        using a nt j1(4) by (auto simp: cancel_result_def dir_simps)
    qed simp
    then show ?thesis using False by (simp add: wp_bind wp_utc_now_iso)
  qed
qed simp

text \<open>
  C29: Cancelling a stored job. A job that has ended (completed, failed, dead letter, canceled) is
  refused and the store stays as it is. Any other job is stored canceled
  with the reason, without claim, lease, retry time, result or error; only a running job keeps the
  name of its worker.
\<close>

theorem cancel_job_outcome:
  fixes w :: "'z queue_world_scheme"
  assumes "all_jobs job_wf w" and "dir_get (jobs w) k = Some j"
  shows "\<exists>r w'. cancel_job k reason w = (r, w') \<and> cancel_result reason j k w r w'"
  using wp_cancel_job [OF assms(2) all_jobsD [OF assms], of reason]
  by (auto simp: wp_def split: prod.splits sum.splits)

theorem cancel_job_outcome_witness:
  "\<exists>r w'. cancel_job (j_job_id (running_job 0 3 30)) ''operator'' (one_job_world (running_job 0 3 30)) = (r, w') \<and>
     cancel_result ''operator'' (running_job 0 3 30) (j_job_id (running_job 0 3 30))
       (one_job_world (running_job 0 3 30)) r w'"
  by (rule cancel_job_outcome [OF one_job_world_wf [OF running_job_wf] one_job_world_get])

end
