(* ===== verification/Worker_Properties.thy ===== *)
theory Worker_Properties
  imports Worker Queue_Outcomes
begin

text \<open>
  What the workers guarantee: they keep every invariant of the stored jobs (so the audit trail holds
  for the queue and the workers together), and what a claim does.
\<close>

section \<open>Workers keep the invariants of the jobs\<close>

text \<open>The runner may do anything to the state that keeps the invariant.\<close>

definition runner_keeps :: "('w \<Rightarrow> bool) \<Rightarrow> 'w runner \<Rightarrow> bool" where
  "runner_keeps I r \<longleftrightarrow>
     (\<forall>d. keeps I (start_workflow r d)) \<and> (\<forall>v d. keeps I (resume_workflow r v d)) \<and>
     (\<forall>v d. keeps I (start_child_workflow r v d))"

lemma keeps_dispatch: "runner_keeps I r \<Longrightarrow> keeps I (dispatch_job r j)"
  unfolding dispatch_job_def runner_keeps_def
  by (cases "j_job_type j") (auto simp: Let_def intro!: keeps_intro)

lemma keeps_put_worker:
  "keeps (all_jobs P :: 'z worker_world_scheme \<Rightarrow> bool) (put_worker k u)"
  unfolding put_worker_def by (intro keeps_intro keeps_modify) (simp add: all_jobs_def)

lemma keeps_worker_reads [keeps_intro]:
  "keeps (all_jobs P :: 'z worker_world_scheme \<Rightarrow> bool) (worker_lease_expired u)"
  "keeps (all_jobs P :: 'z worker_world_scheme \<Rightarrow> bool) (worker_summary u)"
  "keeps (all_jobs P :: 'z worker_world_scheme \<Rightarrow> bool) (check_lease_held k u)"
  "keeps (all_jobs P :: 'z worker_world_scheme \<Rightarrow> bool) (load_worker k)"
  "keeps (all_jobs P :: 'z worker_world_scheme \<Rightarrow> bool) list_workers"
  unfolding worker_lease_expired_def worker_summary_def check_lease_held_def load_worker_def list_workers_def
  by (intro keeps_intro)+

lemma keeps_worker_writes [keeps_intro]:
  "keeps (all_jobs P :: 'z worker_world_scheme \<Rightarrow> bool) (update_worker k rs d f)"
  "keeps (all_jobs P :: 'z worker_world_scheme \<Rightarrow> bool) (write_worker u)"
  unfolding update_worker_def write_worker_def by (intro keeps_intro keeps_put_worker)+

lemma keeps_worker_ops [keeps_intro]:
  "keeps (all_jobs P :: 'z worker_world_scheme \<Rightarrow> bool) (register_worker n v)"
  "keeps (all_jobs P :: 'z worker_world_scheme \<Rightarrow> bool) (heartbeat_worker k)"
  "keeps (all_jobs P :: 'z worker_world_scheme \<Rightarrow> bool) (release_worker k)"
  unfolding register_worker_def heartbeat_worker_def release_worker_def Let_def
  by (intro keeps_intro)+

context job_update_invariant
begin

lemma keeps_try_load_job: "keeps (all_jobs P) (try_load_job k)"
  unfolding try_load_job_def
  by (intro keeps_intro keeps_load_job) (simp split: exc.splits add: keeps_intro)

lemma keeps_try_load_worker: "keeps (all_jobs P) (try_load_worker k)"
  unfolding try_load_worker_def
  by (intro keeps_intro) (simp split: exc.splits add: keeps_intro)

lemma keeps_reset_worker: "keeps (all_jobs P) (reset_worker k reason force requeue)"
  unfolding reset_worker_def reset_held_job_def
  by (intro keeps_intro keeps_try_load_job keeps_requeue)

lemma keeps_orphans_loop: "keeps (all_jobs P) (repair_orphans_loop lmt done us)"
  by (induction us arbitrary: "done")
    (auto intro!: keeps_intro keeps_try_load_job keeps_reset_worker simp: Let_def orphan_reason_def)

lemma keeps_repair_orphans: "keeps (all_jobs P) (repair_orphaned_workers limit)"
  unfolding repair_orphaned_workers_def by (intro keeps_intro keeps_orphans_loop)

lemma keeps_lease_expired: "keeps (all_jobs P) (job_lease_expired j)"
  unfolding job_lease_expired_def by (intro keeps_intro)

lemma keeps_reclaim: "keeps (all_jobs P) reclaim_expired_leases"
  unfolding reclaim_expired_leases_def reclaim_one_def
  by (intro keeps_intro keeps_list_jobs keeps_requeue keeps_lease_expired keeps_try_load_worker)

lemma keeps_claim: "keeps (all_jobs P) (claim_next_job k)"
  unfolding claim_next_job_def ready_jobs_def
  by (intro keeps_intro keeps_reclaim keeps_list_jobs)
    (auto split: list.splits intro!: keeps_intro keeps_change tidy_changeI simp: job_core_def aware_job_def)

lemma keeps_complete_job: "keeps (all_jobs P) (complete_job k result)"
  unfolding complete_job_def
  by (intro keeps_change tidy_changeI) (simp_all add: job_core_def aware_job_def)

lemma keeps_cancel_execution: "keeps (all_jobs P) (cancel_job_execution k reason)"
  unfolding cancel_job_execution_def
  by (intro keeps_intro keeps_load_job keeps_cancel keeps_try_load_worker)

lemma keeps_run_claimed:
  assumes "runner_keeps (all_jobs P) r"
  shows "keeps (all_jobs P) (run_claimed_job r worker_id job_id)"
  unfolding run_claimed_job_def fail_job_def Let_def
  by (intro keeps_intro keeps_load_job keeps_lease_expired keeps_record_failure keeps_complete_job
      keeps_dispatch assms)

lemma keeps_run_next:
  assumes "runner_keeps (all_jobs P) r"
  shows "keeps (all_jobs P) (run_next_job r worker_id)"
  unfolding run_next_job_def by (intro keeps_intro keeps_claim keeps_run_claimed assms)

end

section \<open>The system of the queue and the workers\<close>

datatype system_op =
    S_queue queue_op
  | S_register "string option" pyval
  | S_heartbeat string
  | S_reset string string bool bool
  | S_repair_orphans pyval
  | S_reclaim
  | S_claim string
  | S_run string string
  | S_run_next string
  | S_cancel string string

fun system_do :: "'z worker_world_scheme runner \<Rightarrow> system_op \<Rightarrow> ('z worker_world_scheme, unit) io" where
  "system_do r (S_queue x) = queue_do x"
| "system_do r (S_register n v) = ignoring (register_worker n v)"
| "system_do r (S_heartbeat k) = ignoring (heartbeat_worker k)"
| "system_do r (S_reset k reason force requeue) = ignoring (reset_worker k reason force requeue)"
| "system_do r (S_repair_orphans limit) = ignoring (repair_orphaned_workers limit)"
| "system_do r S_reclaim = ignoring reclaim_expired_leases"
| "system_do r (S_claim k) = ignoring (claim_next_job k)"
| "system_do r (S_run k j) = ignoring (run_claimed_job r k j)"
| "system_do r (S_run_next k) = ignoring (run_next_job r k)"
| "system_do r (S_cancel j reason) = ignoring (cancel_job_execution j reason)"

fun system_serve ::
    "'z worker_world_scheme runner \<Rightarrow> system_op list \<Rightarrow> 'z worker_world_scheme \<Rightarrow> 'z worker_world_scheme" where
  "system_serve r [] w = w"
| "system_serve r (x # xs) w = system_serve r xs (snd (system_do r x w))"

lemma system_serve_keeps:
  assumes "\<And>x. x \<in> set ops \<Longrightarrow> keeps I (system_do r x)" and "I w"
  shows "I (system_serve r ops w)"
  using assms
proof (induction ops arbitrary: w)
  case (Cons x xs)
  have "I (snd (system_do r x w))" using Cons.prems(1) [of x] Cons.prems(2) by (simp add: keeps_def)
  with Cons show ?case by simp
qed simp

context job_invariant
begin

lemma keeps_system_do:
  "runner_keeps (all_jobs P) r \<Longrightarrow> keeps (all_jobs P) (system_do r x)"
  by (cases x)
    (auto intro!: keeps_intro keeps_do keeps_reset_worker keeps_repair_orphans keeps_reclaim keeps_claim
      keeps_run_claimed keeps_run_next keeps_cancel_execution)

end

text \<open>
  C8: the audit trail. Over any sequence of requests to the queue and to the workers, whatever their
  outcome, and whatever dispatched jobs do that keeps it, every stored job keeps its identifier,
  valid retry limits and comparable timestamps, and its transition history accounts for it: the
  history starts with the creation entry, each recorded change starts from the values the entries
  before lead to and really changes them, its summary fields are those after the change, and the
  last entry leads to the status, worker, claim, lease, attempts, reclaims and times the job has.
\<close>

theorem job_audit_trail:
  assumes "all_jobs job_wf w" and "runner_keeps (all_jobs job_wf) r"
  shows "all_jobs job_wf (system_serve r ops w)"
  by (rule system_serve_keeps [OF stored.keeps_system_do [OF assms(2)] assms(1)])

definition idle_runner :: "'w runner" where
  "idle_runner = \<lparr>start_workflow = (\<lambda>d. io_return []), resume_workflow = (\<lambda>v d. io_return []),
     start_child_workflow = (\<lambda>v d. io_return [])\<rparr>"

definition empty_system :: worker_world where
  "empty_system = queue_world.extend empty_queue \<lparr>workers = []\<rparr>"

theorem job_audit_trail_witness:
  "all_jobs job_wf (system_serve idle_runner
     [S_queue (Q_create (plain_request [] (PInt 1))), S_register None (PInt 60), S_run_next ''1'',
      S_queue (Q_prune PNone (PInt 0) PNone)] empty_system)"
proof (rule job_audit_trail)
  show "all_jobs job_wf empty_system"
    by (simp add: all_jobs_def empty_system_def empty_queue_def dir_ok_def dir_get_def queue_world.defs)
  show "runner_keeps (all_jobs job_wf) idle_runner"
    by (simp add: runner_keeps_def idle_runner_def keeps_return)
qed

end
