(* ===== verification/Glob.thy ===== *)
theory Glob
  imports Prelude
begin

text \<open>
  The standard library's \<open>fnmatch\<close> as src/runtime/policy.py uses it on POSIX: a pattern is
  translated to a list of elements (\<open>compile_glob\<close>) and the elements must match the whole
  text (\<open>glob_match\<close>). The star crosses every character, the directory separator included.
  A bracket without its closing bracket is a literal; inside brackets a leading exclamation mark
  negates, a hyphen between two characters is a range, and an empty range is removed, after which
  an exclamation mark that has become the first character negates too.
  \<open>glob_lang\<close> gives the language of a pattern, against which the matcher is proved.
\<close>

datatype class_item = Single char | Range char char

datatype glob = Any_seq | Any_char | Lit char | Class bool "class_item list"

definition char_code :: "char \<Rightarrow> nat" where
  "char_code c = of_char c"

fun class_items :: "string \<Rightarrow> class_item list" where
  "class_items (a # b # c # r) =
     (if b = CHR ''-'' then Range a c # class_items r else Single a # class_items (b # c # r))"
| "class_items (a # r) = Single a # class_items r"
| "class_items [] = []"

fun nonempty_item :: "class_item \<Rightarrow> bool" where
  "nonempty_item (Single a) = True"
| "nonempty_item (Range a b) = (char_code a \<le> char_code b)"

text \<open>What the characters between the brackets denote.\<close>

definition make_class :: "string \<Rightarrow> glob" where
  "make_class body =
     (case body of
        CHR ''!'' # r \<Rightarrow> Class True (filter nonempty_item (class_items r))
      | _ \<Rightarrow>
          (case filter nonempty_item (class_items body) of
             Single (CHR ''!'') # its \<Rightarrow> Class True its
           | Range (CHR ''!'') b # its \<Rightarrow> Class True (Single (CHR ''-'') # Single b # its)
           | its \<Rightarrow> Class False its))"

text \<open>The text between the brackets and what follows the closing bracket, if there is one.\<close>

definition split_class :: "string \<Rightarrow> (string \<times> string) option" where
  "split_class r =
     (let bang = (if take 1 r = ''!'' then ''!'' else []); r1 = drop (length bang) r;
          clo = (if take 1 r1 = '']'' then '']'' else []); r2 = drop (length clo) r1;
          body = takeWhile (\<lambda>c. c \<noteq> CHR '']'') r2; rest = dropWhile (\<lambda>c. c \<noteq> CHR '']'') r2
      in if rest = [] then None else Some (bang @ clo @ body, tl rest))"

lemma less_pred_le: "(n::nat) \<le> m \<Longrightarrow> 0 < n \<Longrightarrow> n - 1 < m"
  by simp

lemma split_class_shorter: "split_class r = Some (body, rest) \<Longrightarrow> length rest < length r"
proof -
  assume s: "split_class r = Some (body, rest)"
  have dw: "length (dropWhile P xs) \<le> length xs" for P and xs :: string
    by (rule length_dropWhile_le)
  obtain n m where rest: "rest = tl (dropWhile (\<lambda>c. c \<noteq> CHR '']'') (drop n (drop m r)))"
    and ne: "dropWhile (\<lambda>c. c \<noteq> CHR '']'') (drop n (drop m r)) \<noteq> []"
    using s unfolding split_class_def Let_def by (metis option.distinct(1) option.inject prod.inject)
  have "length (dropWhile (\<lambda>c. c \<noteq> CHR '']'') (drop n (drop m r))) \<le> length r"
    using dw [of "\<lambda>c. c \<noteq> CHR '']''" "drop n (drop m r)"] by simp
  moreover have "0 < length (dropWhile (\<lambda>c. c \<noteq> CHR '']'') (drop n (drop m r)))"
    using ne by blast
  ultimately show ?thesis unfolding rest length_tl by (rule less_pred_le)
qed

function compile_glob :: "string \<Rightarrow> glob list" where
  "compile_glob [] = []"
| "compile_glob (c # r) =
     (if c = CHR ''*'' then Any_seq # compile_glob r
      else if c = CHR ''?'' then Any_char # compile_glob r
      else if c = CHR ''['' then
        (case split_class r of
           None \<Rightarrow> Lit c # compile_glob r
         | Some (body, rest) \<Rightarrow> make_class body # compile_glob rest)
      else Lit c # compile_glob r)"
  by pat_completeness auto
termination
  by (relation "measure length") (auto dest: split_class_shorter)

fun in_item :: "char \<Rightarrow> class_item \<Rightarrow> bool" where
  "in_item c (Single a) = (c = a)"
| "in_item c (Range a b) = (char_code a \<le> char_code c \<and> char_code c \<le> char_code b)"

fun char_ok :: "glob \<Rightarrow> char \<Rightarrow> bool" where
  "char_ok Any_seq c = True"
| "char_ok Any_char c = True"
| "char_ok (Lit a) c = (c = a)"
| "char_ok (Class neg its) c = (list_ex (in_item c) its \<noteq> neg)"

fun glob_match :: "glob list \<Rightarrow> string \<Rightarrow> bool" where
  "glob_match [] s = (s = [])"
| "glob_match (Any_seq # gs) [] = glob_match gs []"
| "glob_match (Any_seq # gs) (c # s) = (glob_match gs (c # s) \<or> glob_match (Any_seq # gs) s)"
| "glob_match (g # gs) [] = False"
| "glob_match (g # gs) (c # s) = (char_ok g c \<and> glob_match gs s)"

definition fnmatch :: "string \<Rightarrow> string \<Rightarrow> bool" where
  "fnmatch name pat = glob_match (compile_glob pat) name"

section \<open>The language of a pattern\<close>

fun elem_lang :: "glob \<Rightarrow> string set" where
  "elem_lang Any_seq = UNIV"
| "elem_lang g = {[c] | c. char_ok g c}"

fun glob_lang :: "glob list \<Rightarrow> string set" where
  "glob_lang [] = {[]}"
| "glob_lang (g # gs) = {u @ v | u v. u \<in> elem_lang g \<and> v \<in> glob_lang gs}"

lemma glob_match_star: "glob_match (Any_seq # gs) s \<longleftrightarrow> (\<exists>u v. s = u @ v \<and> glob_match gs v)"
proof (induction s)
  case Nil
  then show ?case by simp
next
  case (Cons c s)
  show ?case
  proof
    assume "glob_match (Any_seq # gs) (c # s)"
    then show "\<exists>u v. c # s = u @ v \<and> glob_match gs v"
      using Cons.IH by (metis append_Cons append_Nil glob_match.simps(3))
  next
    assume "\<exists>u v. c # s = u @ v \<and> glob_match gs v"
    then obtain u v where "c # s = u @ v" "glob_match gs v" by blast
    then show "glob_match (Any_seq # gs) (c # s)"
      using Cons.IH by (cases u) auto
  qed
qed

lemma glob_match_elem:
  "g \<noteq> Any_seq \<Longrightarrow> glob_match (g # gs) s \<longleftrightarrow> (\<exists>c v. s = c # v \<and> char_ok g c \<and> glob_match gs v)"
  by (cases g; cases s) auto

lemma glob_match_lang: "glob_match gs s \<longleftrightarrow> s \<in> glob_lang gs"
proof (induction gs arbitrary: s)
  case Nil
  then show ?case by simp
next
  case (Cons g gs)
  show ?case
  proof (cases "g = Any_seq")
    case True
    then show ?thesis using Cons.IH by (auto simp: glob_match_star simp del: glob_match.simps)
  next
    case False
    then have "elem_lang g = {[c] | c. char_ok g c}" by (cases g) auto
    then have "s \<in> glob_lang (g # gs) \<longleftrightarrow> (\<exists>c v. s = [c] @ v \<and> char_ok g c \<and> v \<in> glob_lang gs)"
      unfolding glob_lang.simps by (simp only: mem_Collect_eq) metis
    then show ?thesis using Cons.IH False by (simp add: glob_match_elem)
  qed
qed

definition plain_pattern :: "string \<Rightarrow> bool" where
  "plain_pattern p \<longleftrightarrow> list_all (\<lambda>c. c \<noteq> CHR ''*'' \<and> c \<noteq> CHR ''?'' \<and> c \<noteq> CHR ''['') p"

lemma compile_plain: "plain_pattern p \<Longrightarrow> compile_glob p = map Lit p"
  by (induction p) (auto simp: plain_pattern_def)

lemma glob_match_lits: "glob_match (map Lit p) s \<longleftrightarrow> s = p"
proof (induction p arbitrary: s)
  case (Cons a p)
  then show ?case by (cases s) auto
qed simp

text \<open>A pattern without special characters names one text only.\<close>

lemma fnmatch_plain: "plain_pattern p \<Longrightarrow> fnmatch s p \<longleftrightarrow> s = p"
  by (simp add: fnmatch_def compile_plain glob_match_lits)

lemma fnmatch_star: "fnmatch s ''*''" "fnmatch s ''**''"
  by (auto simp: fnmatch_def glob_match_star intro: exI [of _ s])

end
