(* ===== verification/Policy.thy ===== *)
theory Policy
  imports Glob State_Files
begin

text \<open>
  src/runtime/policy.py: the rules of capability policies, their validation when a policy is
  loaded (stricter in production), and the decision for an action. A rule is the dictionary the
  code handles; a policy is a record of its name and its three rule lists. What the module reads
  from outside is a parameter (\<open>policy_env\<close>): the environment variables, the parsed YAML
  file, the root of the repository as path components, and \<open>Path.resolve\<close> on absolute
  paths. YAML mappings have string keys.
\<close>

record policy_env =
  getenv :: "string \<Rightarrow> string option"
  read_yaml :: "string \<Rightarrow> pyval res"
  repo_root :: "string list"
  resolve_path :: "string list \<Rightarrow> string list res"

record policy =
  pol_name :: string
  pol_allow :: "pydict list"
  pol_approval :: "pydict list"
  pol_deny :: "pydict list"

record policy_action =
  pa_capability :: string
  pa_path :: "string option"
  pa_domain :: "string option"
  pa_command :: "string option"
  pa_memory_type :: "string option"
  pa_scope_kind :: "string option"

record policy_decision =
  pd_allowed :: bool
  pd_requires_approval :: bool
  pd_reason :: string
  pd_matched_scope :: "string option"

definition CAPABILITY_CLASSES :: "string list" where
  "CAPABILITY_CLASSES =
     [''model_call'', ''file_read'', ''file_write'', ''http'', ''exec'', ''runtime_read'',
      ''runtime_write'', ''memory_read'', ''memory_write'']"

definition PRODUCTION_ENV_NAMES :: "string list" where
  "PRODUCTION_ENV_NAMES = [''production'', ''prod'']"

definition REQUIRED_PRODUCTION_DENIES :: "string list" where
  "REQUIRED_PRODUCTION_DENIES = [''file_write'', ''http'']"

definition BROAD_MATCH_PATTERNS :: "string list" where
  "BROAD_MATCH_PATTERNS = [''*'', ''**'']"

section \<open>The environment\<close>

definition runtime_environment :: "policy_env \<Rightarrow> string" where
  "runtime_environment pe =
     (let value = (case getenv pe ''CLARITYCLAW_ENV'' of
                     Some v \<Rightarrow> v
                   | None \<Rightarrow> (case getenv pe ''CLARITYOS_ENV'' of Some v \<Rightarrow> v | None \<Rightarrow> ''development''))
      in if py_strip value = [] then ''development'' else py_lower (py_strip value))"

definition production_mode_enabled :: "policy_env \<Rightarrow> bool" where
  "production_mode_enabled pe \<longleftrightarrow> runtime_environment pe \<in> set PRODUCTION_ENV_NAMES"

fun env_flag_enabled :: "policy_env \<Rightarrow> string list \<Rightarrow> bool" where
  "env_flag_enabled pe [] = False"
| "env_flag_enabled pe (n # ns) =
     (case getenv pe n of
        None \<Rightarrow> env_flag_enabled pe ns
      | Some v \<Rightarrow> py_lower (py_strip v) \<in> set [''1'', ''true'', ''yes'', ''on''])"

definition allow_agent_policy_overrides :: "policy_env \<Rightarrow> bool" where
  "allow_agent_policy_overrides pe =
     env_flag_enabled pe [''CLARITYCLAW_ALLOW_AGENT_POLICY_OVERRIDES'',
       ''CLARITYOS_ALLOW_AGENT_POLICY_OVERRIDES'']"

text \<open>The default file lies under the repository, here \<open>config/policies.yaml\<close>.\<close>

definition policies_config_path :: "policy_env \<Rightarrow> string" where
  "policies_config_path pe =
     (case List.map_filter (\<lambda>n. case getenv pe n of
                None \<Rightarrow> None
              | Some v \<Rightarrow> if py_strip v = [] then None else Some (py_strip v))
            [''CLARITYCLAW_POLICIES_CONFIG'', ''CLARITYOS_POLICIES_CONFIG''] of
        p # _ \<Rightarrow> p
      | [] \<Rightarrow> ''config/policies.yaml'')"

section \<open>Validation of rules\<close>

definition normalize_rule_list :: "pyval \<Rightarrow> string \<Rightarrow> pydict list res" where
  "normalize_rule_list v field_name =
     (case v of
        PNone \<Rightarrow> Inr []
      | PList es \<Rightarrow>
          res_map (\<lambda>e. case e of
              PDict d \<Rightarrow> Inr d
            | _ \<Rightarrow> Inl (ValueError (''Policy `'' @ field_name @ ''` entries must be objects''))) es
      | _ \<Rightarrow> Inl (ValueError (''Policy `'' @ field_name @ ''` must be a list'')))"

definition rule_contains_broad_pattern :: "pyval \<Rightarrow> bool" where
  "rule_contains_broad_pattern values =
     (case values of
        PList vs \<Rightarrow>
          list_ex (\<lambda>v. case non_empty_text v of
              None \<Rightarrow> True
            | Some t \<Rightarrow> t \<in> set BROAD_MATCH_PATTERNS) vs
      | _ \<Rightarrow> True)"

definition assert_valid_capability :: "string \<Rightarrow> unit res" where
  "assert_valid_capability capability =
     (if capability \<in> set CAPABILITY_CLASSES then Inr ()
      else Inl (ValueError (''Unknown capability class: '' @ capability)))"

definition broad_error :: "string \<Rightarrow> string \<Rightarrow> string \<Rightarrow> string \<Rightarrow> exc" where
  "broad_error policy_name list_name capability what =
     ValueError (''Policy `'' @ policy_name @ ''` '' @ list_name @ '' rule for `'' @ capability
       @ ''` must declare explicit '' @ what @ '' in production'')"

definition validate_rule :: "policy_env \<Rightarrow> string \<Rightarrow> string \<Rightarrow> pydict \<Rightarrow> pydict res" where
  "validate_rule pe policy_name list_name rule =
     (case non_empty_text (dict_get rule ''capability'') of
        None \<Rightarrow> Inl (ValueError (''Policy `'' @ policy_name @ ''` '' @ list_name
                  @ '' rules require a non-empty `capability`''))
      | Some capability \<Rightarrow>
          res_bind (assert_valid_capability capability) (\<lambda>_.
            let normalized = dict_put rule ''capability'' (PStr capability)
            in if production_mode_enabled pe \<and> list_name \<noteq> ''deny'' then
                 if capability = ''exec'' \<and> rule_contains_broad_pattern (dict_get normalized ''commands'')
                 then Inl (broad_error policy_name list_name ''exec'' ''commands'')
                 else if capability = ''http'' \<and> rule_contains_broad_pattern (dict_get normalized ''domains'')
                 then Inl (broad_error policy_name list_name ''http'' ''domains'')
                 else if capability = ''file_write'' \<and> rule_contains_broad_pattern (dict_get normalized ''paths'')
                 then Inl (broad_error policy_name list_name ''file_write'' ''paths'')
                 else Inr normalized
               else Inr normalized))"

definition validated_list :: "policy_env \<Rightarrow> string \<Rightarrow> string \<Rightarrow> pyval \<Rightarrow> string \<Rightarrow> pydict list res" where
  "validated_list pe policy_name list_name v field_name =
     res_bind (normalize_rule_list v field_name) (res_map (validate_rule pe policy_name list_name))"

definition denied_capabilities :: "pydict list \<Rightarrow> string list" where
  "denied_capabilities rules =
     List.map_filter (\<lambda>r. case dict_get r ''capability'' of PStr c \<Rightarrow> Some c | _ \<Rightarrow> None) rules"

definition validate_policy_rules :: "policy_env \<Rightarrow> string \<Rightarrow> pydict \<Rightarrow> policy res" where
  "validate_policy_rules pe policy_name p =
     res_bind (validated_list pe policy_name ''allow'' (dict_get p ''allow'') (policy_name @ ''.allow'')) (\<lambda>allow.
     res_bind (validated_list pe policy_name ''approval'' (dict_get p ''approval'') (policy_name @ ''.approval'')) (\<lambda>approval.
     res_bind (validated_list pe policy_name ''deny'' (dict_get p ''deny'') (policy_name @ ''.deny'')) (\<lambda>deny.
       let missing_denies =
         (if production_mode_enabled pe
          then filter (\<lambda>c. c \<notin> set (denied_capabilities deny)) REQUIRED_PRODUCTION_DENIES else [])
       in if missing_denies \<noteq> []
          then Inl (ValueError (''Policy `'' @ policy_name @ ''` must explicitly deny ''
            @ py_join '', '' missing_denies @ '' in production''))
          else Inr \<lparr>pol_name = policy_name, pol_allow = allow, pol_approval = approval,
                    pol_deny = deny\<rparr>)))"

section \<open>Loading\<close>

definition attribute_error :: "exc" where
  "attribute_error = OtherError ''AttributeError'' ''object has no attribute get''"

text \<open>\<open>data.get("policies", {})\<close> of the parsed file, an empty file giving an empty mapping.\<close>

definition load_policies :: "policy_env \<Rightarrow> pyval res" where
  "load_policies pe =
     res_bind (read_yaml pe (policies_config_path pe)) (\<lambda>data.
       case data of
         PDict d \<Rightarrow> Inr (dict_get_or d ''policies'' (PDict []))
       | _ \<Rightarrow> if py_truthy data then Inl attribute_error else Inr (PDict []))"

text \<open>\<open>name not in policies\<close> on a value that is no mapping: a list or a string is searched.\<close>

fun is_sub :: "string \<Rightarrow> string \<Rightarrow> bool" where
  "is_sub p [] = (p = [])"
| "is_sub p (c # s) = (take (length p) (c # s) = p \<or> is_sub p s)"

definition load_policy :: "policy_env \<Rightarrow> string \<Rightarrow> policy res" where
  "load_policy pe name =
     res_bind (load_policies pe) (\<lambda>policies.
       let unknown = Inl (ValueError (''Unknown policy: '' @ name))
       in case policies of
         PDict d \<Rightarrow>
           (case map_of d name of
              None \<Rightarrow> unknown
            | Some (PDict p) \<Rightarrow> validate_policy_rules pe name p
            | Some v \<Rightarrow> if py_truthy v then Inl attribute_error else validate_policy_rules pe name [])
       | PList vs \<Rightarrow> if list_ex (\<lambda>v. py_eq v (PStr name)) vs
                      then Inl (TypeError ''list indices must be integers or slices, not str'') else unknown
       | PStr s \<Rightarrow> if is_sub name s
                      then Inl (TypeError ''string indices must be integers, not str'') else unknown
       | _ \<Rightarrow> Inl (TypeError ''argument is not iterable''))"

definition check_agent_overrides :: "policy_env \<Rightarrow> pydict list \<Rightarrow> pydict list \<Rightarrow> pydict list \<Rightarrow> unit res" where
  "check_agent_overrides pe agent_allow agent_approval agent_deny =
     (if production_mode_enabled pe \<and> \<not> allow_agent_policy_overrides pe \<and>
         (agent_allow \<noteq> [] \<or> agent_approval \<noteq> [] \<or> agent_deny \<noteq> [])
      then Inl (ValueError (''Agent policy overrides are disabled in production; ''
        @ ''set `CLARITYCLAW_ALLOW_AGENT_POLICY_OVERRIDES=1` to allow them explicitly''))
      else Inr ())"

definition build_agent_policy :: "policy_env \<Rightarrow> pydict \<Rightarrow> policy res" where
  "build_agent_policy pe agent_config =
     (case dict_get agent_config ''policy'' of
        PStr policy_name \<Rightarrow>
          if py_strip policy_name = [] then Inl (ValueError ''Agent is missing required `policy`'')
          else
            res_bind (load_policy pe policy_name) (\<lambda>policy.
            res_bind (normalize_rule_list (dict_get agent_config ''allow'') ''agent.allow'') (\<lambda>agent_allow.
            res_bind (normalize_rule_list (dict_get agent_config ''approval'') ''agent.approval'') (\<lambda>agent_approval.
            res_bind (normalize_rule_list (dict_get agent_config ''deny'') ''agent.deny'') (\<lambda>agent_deny.
            res_bind (check_agent_overrides pe agent_allow agent_approval agent_deny) (\<lambda>_.
            res_bind (res_map (validate_rule pe (pol_name policy) ''agent.allow'') agent_allow) (\<lambda>al.
            res_bind (res_map (validate_rule pe (pol_name policy) ''agent.approval'') agent_approval) (\<lambda>ap.
            res_bind (res_map (validate_rule pe (pol_name policy) ''agent.deny'') agent_deny) (\<lambda>de.
              Inr \<lparr>pol_name = pol_name policy, pol_allow = pol_allow policy @ al,
                   pol_approval = pol_approval policy @ ap, pol_deny = pol_deny policy @ de\<rparr>))))))))
      | _ \<Rightarrow> Inl (ValueError ''Agent is missing required `policy`''))"

section \<open>Matching\<close>

text \<open>
  \<open>any(fnmatch(text, pattern) for pattern in values)\<close>: the values are visited in order up
  to the first match; a value that is no string raises, as does a collection that cannot be
  iterated. A string is iterated by its characters, a mapping by its keys.
\<close>

fun iter_values :: "pyval \<Rightarrow> pyval list res" where
  "iter_values (PList vs) = Inr vs"
| "iter_values (PStr s) = Inr (map (\<lambda>c. PStr [c]) s)"
| "iter_values (PDict d) = Inr (map (\<lambda>(k, _). PStr k) d)"
| "iter_values _ = Inl (TypeError ''object is not iterable'')"

fun any_pattern :: "string \<Rightarrow> pyval list \<Rightarrow> bool res" where
  "any_pattern text [] = Inr False"
| "any_pattern text (v # vs) =
     (case v of
        PStr p \<Rightarrow> if fnmatch text p then Inr True else any_pattern text vs
      | _ \<Rightarrow> Inl (TypeError ''expected str, bytes or os.PathLike object''))"

definition any_match :: "string \<Rightarrow> pyval \<Rightarrow> bool res" where
  "any_match text values = res_bind (iter_values values) (any_pattern text)"

text \<open>\<open>Path(raw)\<close>: the components between slashes, without empty ones and single dots.\<close>

fun split_slash :: "string \<Rightarrow> string \<Rightarrow> string list" where
  "split_slash acc [] = [rev acc]"
| "split_slash acc (c # s) =
     (if c = CHR ''/'' then rev acc # split_slash [] s else split_slash (c # acc) s)"

definition path_parts :: "string \<Rightarrow> string list" where
  "path_parts s = filter (\<lambda>p. p \<noteq> [] \<and> p \<noteq> ''.'') (split_slash [] s)"

definition is_absolute :: "string \<Rightarrow> bool" where
  "is_absolute s \<longleftrightarrow> take 1 s = ''/''"

definition normalize_repo_relative_path :: "policy_env \<Rightarrow> string \<Rightarrow> string option res" where
  "normalize_repo_relative_path pe raw_path =
     res_bind (resolve_path pe (repo_root pe)) (\<lambda>root.
       let candidate = (if is_absolute raw_path then path_parts raw_path else root @ path_parts raw_path)
       in res_bind (resolve_path pe candidate) (\<lambda>resolved.
            if take (length root) resolved = root
            then (let rest = drop (length root) resolved
                  in Inr (Some (if rest = [] then ''.'' else py_join ''/'' rest)))
            else Inr None))"

text \<open>The outcome of a rule: \<open>None\<close> for no match, otherwise the matched scope.\<close>

type_synonym rule_match = "string option option"

definition match_text :: "string \<Rightarrow> string option \<Rightarrow> pyval \<Rightarrow> rule_match res" where
  "match_text prefix text values =
     (case text of
        None \<Rightarrow> Inr None
      | Some t \<Rightarrow> res_bind (any_match t values) (\<lambda>m. Inr (if m then Some (Some (prefix @ t)) else None)))"

definition optional_match :: "pydict \<Rightarrow> string \<Rightarrow> string option \<Rightarrow> bool res" where
  "optional_match rule key text =
     (if dict_has rule key
      then (case text of None \<Rightarrow> Inr False | Some t \<Rightarrow> any_match t (dict_get rule key))
      else Inr True)"

definition rule_matches :: "policy_env \<Rightarrow> pydict \<Rightarrow> policy_action \<Rightarrow> rule_match res" where
  "rule_matches pe rule action =
     (if \<not> py_eq (dict_get rule ''capability'') (PStr (pa_capability action)) then Inr None
      else res_bind (assert_valid_capability (pa_capability action)) (\<lambda>_.
        if dict_has rule ''paths'' then
          (case pa_path action of
             None \<Rightarrow> Inr None
           | Some raw \<Rightarrow>
               res_bind (normalize_repo_relative_path pe raw) (\<lambda>normalized_path.
                 match_text ''path:'' normalized_path (dict_get rule ''paths'')))
        else if dict_has rule ''domains'' then
          match_text ''domain:'' (pa_domain action) (dict_get rule ''domains'')
        else if dict_has rule ''commands'' then
          match_text ''command:'' (pa_command action) (dict_get rule ''commands'')
        else if dict_has rule ''memory_types'' \<or> dict_has rule ''scope_kinds'' then
          res_bind (optional_match rule ''memory_types'' (pa_memory_type action)) (\<lambda>m.
            if \<not> m then Inr None
            else res_bind (optional_match rule ''scope_kinds'' (pa_scope_kind action)) (\<lambda>k.
              if \<not> k then Inr None
              else
                (let details =
                   (case pa_memory_type action of None \<Rightarrow> [] | Some t \<Rightarrow> [''memory_type:'' @ t]) @
                   (case pa_scope_kind action of None \<Rightarrow> [] | Some t \<Rightarrow> [''scope_kind:'' @ t])
                 in Inr (Some (if details = [] then None else Some (py_join '','' details))))))
        else Inr (Some None)))"

text \<open>The loop over a rule list: the scope of the first rule that matches.\<close>

fun first_match :: "policy_env \<Rightarrow> pydict list \<Rightarrow> policy_action \<Rightarrow> rule_match res" where
  "first_match pe [] action = Inr None"
| "first_match pe (rule # rules) action =
     res_bind (rule_matches pe rule action) (\<lambda>m.
       case m of None \<Rightarrow> first_match pe rules action | Some scope \<Rightarrow> Inr (Some scope))"

section \<open>Decisions\<close>

definition policy_reason :: "string \<Rightarrow> policy \<Rightarrow> policy_action \<Rightarrow> string" where
  "policy_reason text p action =
     text @ '' `'' @ pol_name p @ ''` for capability `'' @ pa_capability action @ ''`''"

definition evaluate_policy :: "policy_env \<Rightarrow> policy \<Rightarrow> policy_action \<Rightarrow> policy_decision res" where
  "evaluate_policy pe p action =
     res_bind (assert_valid_capability (pa_capability action)) (\<lambda>_.
         res_bind (first_match pe (pol_deny p) action) (\<lambda>denied.
           case denied of
             Some scope \<Rightarrow> Inr \<lparr>pd_allowed = False, pd_requires_approval = False,
               pd_reason = policy_reason ''Denied by policy'' p action, pd_matched_scope = scope\<rparr>
           | None \<Rightarrow>
         res_bind (first_match pe (pol_approval p) action) (\<lambda>asked.
           case asked of
             Some scope \<Rightarrow> Inr \<lparr>pd_allowed = False, pd_requires_approval = True,
               pd_reason = policy_reason ''Approval required by policy'' p action, pd_matched_scope = scope\<rparr>
           | None \<Rightarrow>
         res_bind (first_match pe (pol_allow p) action) (\<lambda>granted.
           case granted of
             Some scope \<Rightarrow> Inr \<lparr>pd_allowed = True, pd_requires_approval = False,
               pd_reason = policy_reason ''Allowed by policy'' p action, pd_matched_scope = scope\<rparr>
           | None \<Rightarrow> Inr \<lparr>pd_allowed = False, pd_requires_approval = False,
               pd_reason = policy_reason ''No allow rule matched in policy'' p action, pd_matched_scope = None\<rparr>))))"

definition enforce_policy :: "policy_env \<Rightarrow> policy \<Rightarrow> policy_action \<Rightarrow> policy_decision res" where
  "enforce_policy pe p action =
     res_bind (evaluate_policy pe p action) (\<lambda>decision.
       if pd_allowed decision then Inr decision
       else Inl (PolicyDeniedError (pd_reason decision) (pa_capability action) (pol_name p)))"

record policy_snapshot =
  ps_policy :: policy
  ps_runtime_environment :: string
  ps_production_mode :: bool
  ps_agent_policy_overrides_allowed :: bool

definition snapshot_policy :: "policy_env \<Rightarrow> policy \<Rightarrow> policy_snapshot" where
  "snapshot_policy pe p =
     \<lparr>ps_policy = p, ps_runtime_environment = runtime_environment pe,
      ps_production_mode = production_mode_enabled pe,
      ps_agent_policy_overrides_allowed = allow_agent_policy_overrides pe\<rparr>"

section \<open>First match\<close>

definition rule_applies :: "policy_env \<Rightarrow> policy_action \<Rightarrow> pydict \<Rightarrow> bool" where
  "rule_applies pe action rule \<longleftrightarrow> (\<exists>scope. rule_matches pe rule action = Inr (Some scope))"

lemma first_match_append:
  "first_match pe (rs @ rs') action =
     res_bind (first_match pe rs action)
       (\<lambda>m. case m of None \<Rightarrow> first_match pe rs' action | Some s \<Rightarrow> Inr (Some s))"
proof (induction rs)
  case (Cons r rs)
  then show ?case by (cases "rule_matches pe r action") (auto split: option.splits)
qed simp

lemma first_match_None:
  "first_match pe rs action = Inr None \<longleftrightarrow> (\<forall>r\<in>set rs. rule_matches pe r action = Inr None)"
proof (induction rs)
  case (Cons r rs)
  then show ?case by (cases "rule_matches pe r action") (auto split: option.splits)
qed simp

lemma first_match_Some:
  "first_match pe rs action = Inr (Some scope) \<longleftrightarrow>
     (\<exists>as r bs. rs = as @ r # bs \<and> (\<forall>a\<in>set as. rule_matches pe a action = Inr None) \<and>
        rule_matches pe r action = Inr (Some scope))"
  (is "_ \<longleftrightarrow> ?found rs")
proof (induction rs)
  case (Cons r rs)
  show ?case
  proof
    assume L: "first_match pe (r # rs) action = Inr (Some scope)"
    show "?found (r # rs)"
    proof (cases "rule_matches pe r action = Inr None")
      case True
      with L Cons.IH have "?found rs" by simp
      then show ?thesis using True by (metis append_Cons set_ConsD)
    next
      case False
      with L have "rule_matches pe r action = Inr (Some scope)" by (auto split: option.splits)
      then show ?thesis by (metis append_Nil empty_iff list.set(1))
    qed
  next
    assume "?found (r # rs)"
    then obtain as x bs where eq: "r # rs = as @ x # bs"
      and none: "\<forall>a\<in>set as. rule_matches pe a action = Inr None"
      and some: "rule_matches pe x action = Inr (Some scope)" by blast
    show "first_match pe (r # rs) action = Inr (Some scope)"
    proof (cases as)
      case Nil
      with eq some show ?thesis by simp
    next
      case (Cons a as')
      with eq none some have "?found rs" by auto
      with Cons.IH show ?thesis using Cons eq none by simp
    qed
  qed
qed simp

lemma evaluate_policy_cases:
  assumes "evaluate_policy pe p action = Inr d"
  obtains (denied) scope where "first_match pe (pol_deny p) action = Inr (Some scope)"
      "\<not> pd_allowed d" "\<not> pd_requires_approval d" "pd_matched_scope d = scope"
  | (asked) scope where "first_match pe (pol_deny p) action = Inr None"
      "first_match pe (pol_approval p) action = Inr (Some scope)"
      "\<not> pd_allowed d" "pd_requires_approval d" "pd_matched_scope d = scope"
  | (granted) scope where "first_match pe (pol_deny p) action = Inr None"
      "first_match pe (pol_approval p) action = Inr None"
      "first_match pe (pol_allow p) action = Inr (Some scope)"
      "pd_allowed d" "\<not> pd_requires_approval d" "pd_matched_scope d = scope"
  | (default) "first_match pe (pol_deny p) action = Inr None"
      "first_match pe (pol_approval p) action = Inr None"
      "first_match pe (pol_allow p) action = Inr None"
      "\<not> pd_allowed d" "\<not> pd_requires_approval d" "pd_matched_scope d = None"
proof -
  obtain de where de: "first_match pe (pol_deny p) action = Inr de"
    using assms by (auto simp: evaluate_policy_def simp del: list.simps)
  show thesis
  proof (cases de)
    case (Some scope)
    with assms de show ?thesis by (intro denied) (auto simp: evaluate_policy_def)
  next
    case None
    then obtain ap where ap: "first_match pe (pol_approval p) action = Inr ap"
      using assms de by (auto simp: evaluate_policy_def)
    show ?thesis
    proof (cases ap)
      case (Some scope)
      with assms de ap None show ?thesis by (intro asked) (auto simp: evaluate_policy_def)
    next
      case none: None
      then obtain al where al: "first_match pe (pol_allow p) action = Inr al"
        using assms de ap None by (auto simp: evaluate_policy_def)
      show ?thesis
        using assms de ap al None none
        by (cases al) (auto simp: evaluate_policy_def intro: granted default)
    qed
  qed
qed

section \<open>What validation establishes\<close>

lemma res_map_Inr:
  "res_map f xs = Inr ys \<Longrightarrow> length ys = length xs \<and> (\<forall>y\<in>set ys. \<exists>x\<in>set xs. f x = Inr y)"
proof (induction xs arbitrary: ys)
  case (Cons x xs)
  then obtain z zs where "f x = Inr z" "res_map f xs = Inr zs" "ys = z # zs" by auto
  with Cons.IH [of zs] show ?case by auto
qed simp

lemma dict_get_put: "dict_get (dict_put d k v) k' = (if k' = k then v else dict_get d k')"
proof -
  have "map_of (dict_put d k v) k' = (if k' = k then Some v else map_of d k')"
    by (induction d k v rule: dict_put.induct) auto
  then show ?thesis by (simp add: dict_get_def)
qed

lemma dict_get_has: "dict_get d k \<noteq> PNone \<Longrightarrow> dict_has d k"
  unfolding dict_get_def dict_has_def
  by (cases "map_of d k") (auto simp: map_of_eq_None_iff dest!: map_of_SomeD intro: image_eqI [rotated])

text \<open>A list of non-blank patterns of which none, stripped, is one of the broad ones.\<close>

definition explicit_patterns :: "pyval \<Rightarrow> bool" where
  "explicit_patterns v \<longleftrightarrow>
     (\<exists>ps. v = PList (map PStr ps) \<and> (\<forall>p\<in>set ps. py_strip p \<noteq> [] \<and> py_strip p \<noteq> ''*'' \<and> py_strip p \<noteq> ''**''))"

lemma not_broad_explicit: "\<not> rule_contains_broad_pattern v \<Longrightarrow> explicit_patterns v"
proof -
  assume nb: "\<not> rule_contains_broad_pattern v"
  then obtain vs where v: "v = PList vs" by (cases v) (auto simp: rule_contains_broad_pattern_def)
  have item: "\<exists>p. x = PStr p \<and> py_strip p \<noteq> [] \<and> py_strip p \<noteq> ''*'' \<and> py_strip p \<noteq> ''**''"
    if "x \<in> set vs" for x
    using nb that unfolding v
    by (cases x) (auto simp: rule_contains_broad_pattern_def list_ex_iff BROAD_MATCH_PATTERNS_def
        split: if_splits)
  have "map PStr (map (\<lambda>x. case x of PStr p \<Rightarrow> p | _ \<Rightarrow> []) vs) = vs"
    unfolding map_map by (rule map_idI) (auto dest: item)
  moreover have "\<forall>p\<in>set (map (\<lambda>x. case x of PStr p \<Rightarrow> p | _ \<Rightarrow> []) vs).
      py_strip p \<noteq> [] \<and> py_strip p \<noteq> ''*'' \<and> py_strip p \<noteq> ''**''"
    by (auto dest!: item)
  ultimately show ?thesis unfolding explicit_patterns_def v by metis
qed

text \<open>What a rule of a list other than \<open>deny\<close> satisfies in production.\<close>

definition explicit_rule :: "pydict \<Rightarrow> bool" where
  "explicit_rule r \<longleftrightarrow>
     (dict_get r ''capability'' = PStr ''exec'' \<longrightarrow> explicit_patterns (dict_get r ''commands'')) \<and>
     (dict_get r ''capability'' = PStr ''http'' \<longrightarrow> explicit_patterns (dict_get r ''domains'')) \<and>
     (dict_get r ''capability'' = PStr ''file_write'' \<longrightarrow> explicit_patterns (dict_get r ''paths''))"

lemma validate_rule_Inr:
  assumes "validate_rule pe n l rule = Inr r"
  shows "\<exists>c. dict_get r ''capability'' = PStr c \<and> c \<in> set CAPABILITY_CLASSES"
    and "production_mode_enabled pe \<Longrightarrow> l \<noteq> ''deny'' \<Longrightarrow> explicit_rule r"
proof -
  obtain c where c: "non_empty_text (dict_get rule ''capability'') = Some c"
    and cls: "c \<in> set CAPABILITY_CLASSES"
    and r: "r = dict_put rule ''capability'' (PStr c)"
    using assms
    by (auto simp: validate_rule_def assert_valid_capability_def Let_def split: option.splits if_splits)
  then show "\<exists>c. dict_get r ''capability'' = PStr c \<and> c \<in> set CAPABILITY_CLASSES"
    by (simp add: dict_get_put)
  show "explicit_rule r" if "production_mode_enabled pe" "l \<noteq> ''deny''"
    using assms c that
    by (auto simp: validate_rule_def r explicit_rule_def dict_get_put Let_def
        intro: not_broad_explicit split: if_splits)
qed

lemma validated_list_Inr:
  assumes "validated_list pe n l v f = Inr rs" and "r \<in> set rs"
  shows "\<exists>c. dict_get r ''capability'' = PStr c \<and> c \<in> set CAPABILITY_CLASSES"
    and "production_mode_enabled pe \<Longrightarrow> l \<noteq> ''deny'' \<Longrightarrow> explicit_rule r"
  using assms res_map_Inr validate_rule_Inr unfolding validated_list_def by fastforce+

definition explicit_policy :: "policy \<Rightarrow> bool" where
  "explicit_policy p \<longleftrightarrow>
     (\<forall>r\<in>set (pol_allow p) \<union> set (pol_approval p). explicit_rule r) \<and>
     (\<forall>c\<in>set REQUIRED_PRODUCTION_DENIES. \<exists>r\<in>set (pol_deny p). dict_get r ''capability'' = PStr c)"

lemma denied_capabilities_iff:
  "c \<in> set (denied_capabilities rs) \<longleftrightarrow> (\<exists>r\<in>set rs. dict_get r ''capability'' = PStr c)"
  by (induction rs) (auto simp: denied_capabilities_def List.map_filter_def split: pyval.splits)

lemma validate_policy_rules_explicit:
  assumes "validate_policy_rules pe n d = Inr p" and "production_mode_enabled pe"
  shows "explicit_policy p"
proof -
  obtain al ap de where
    "validated_list pe n ''allow'' (dict_get d ''allow'') (n @ ''.allow'') = Inr al"
    "validated_list pe n ''approval'' (dict_get d ''approval'') (n @ ''.approval'') = Inr ap"
    and none: "filter (\<lambda>c. c \<notin> set (denied_capabilities de)) REQUIRED_PRODUCTION_DENIES = []"
    and p: "p = \<lparr>pol_name = n, pol_allow = al, pol_approval = ap, pol_deny = de\<rparr>"
    using assms by (auto simp: validate_policy_rules_def Let_def split: if_splits)
  then have "\<forall>r\<in>set al \<union> set ap. explicit_rule r"
    using validated_list_Inr(2) assms(2) by blast
  then show ?thesis
    using none by (auto simp: explicit_policy_def p filter_empty_conv denied_capabilities_iff)
qed

lemma load_policy_explicit:
  assumes "load_policy pe n = Inr p" and "production_mode_enabled pe"
  shows "explicit_policy p"
proof -
  have "\<exists>d. validate_policy_rules pe n d = Inr p"
  proof -
    obtain v where v: "load_policies pe = Inr v" using assms(1) by (auto simp: load_policy_def)
    then obtain d where d: "v = PDict d"
      using assms(1) by (cases v) (auto simp: load_policy_def split: if_splits)
    then obtain x where "map_of d n = Some x"
      using v assms(1) by (cases "map_of d n") (auto simp: load_policy_def)
    then show ?thesis
      using v d assms(1) by (cases x) (auto simp: load_policy_def split: if_splits)
  qed
  then show ?thesis using assms(2) validate_policy_rules_explicit by blast
qed

lemma build_agent_policy_Inr:
  assumes "build_agent_policy pe cfg = Inr p"
  obtains n base al ap de where
    "dict_get cfg ''policy'' = PStr n" "load_policy pe n = Inr base"
    "p = \<lparr>pol_name = pol_name base, pol_allow = pol_allow base @ al,
          pol_approval = pol_approval base @ ap, pol_deny = pol_deny base @ de\<rparr>"
    "production_mode_enabled pe \<Longrightarrow> \<forall>r\<in>set al \<union> set ap \<union> set de. explicit_rule r"
    "production_mode_enabled pe \<Longrightarrow> \<not> allow_agent_policy_overrides pe \<Longrightarrow> al = [] \<and> ap = [] \<and> de = []"
proof -
  obtain n where n: "dict_get cfg ''policy'' = PStr n"
    using assms by (auto simp: build_agent_policy_def split: pyval.splits)
  obtain base al0 ap0 de0 al ap de where base: "load_policy pe n = Inr base"
    and rules: "res_map (validate_rule pe (pol_name base) ''agent.allow'') al0 = Inr al"
      "res_map (validate_rule pe (pol_name base) ''agent.approval'') ap0 = Inr ap"
      "res_map (validate_rule pe (pol_name base) ''agent.deny'') de0 = Inr de"
    and p: "p = \<lparr>pol_name = pol_name base, pol_allow = pol_allow base @ al,
          pol_approval = pol_approval base @ ap, pol_deny = pol_deny base @ de\<rparr>"
    and off: "production_mode_enabled pe \<Longrightarrow> \<not> allow_agent_policy_overrides pe \<Longrightarrow>
      al0 = [] \<and> ap0 = [] \<and> de0 = []"
  proof -
    obtain base al0 ap0 de0 al ap de where base: "load_policy pe n = Inr base"
      and chk: "check_agent_overrides pe al0 ap0 de0 = Inr ()"
      and rest: "res_map (validate_rule pe (pol_name base) ''agent.allow'') al0 = Inr al"
        "res_map (validate_rule pe (pol_name base) ''agent.approval'') ap0 = Inr ap"
        "res_map (validate_rule pe (pol_name base) ''agent.deny'') de0 = Inr de"
        "p = \<lparr>pol_name = pol_name base, pol_allow = pol_allow base @ al,
          pol_approval = pol_approval base @ ap, pol_deny = pol_deny base @ de\<rparr>"
      using assms n by (auto simp: build_agent_policy_def split: if_splits)
    have off: "al0 = [] \<and> ap0 = [] \<and> de0 = []"
      if "production_mode_enabled pe" "\<not> allow_agent_policy_overrides pe"
      using chk that by (auto simp: check_agent_overrides_def split: if_splits)
    show thesis by (rule that [OF base rest off])
  qed
  have "\<forall>r\<in>set al \<union> set ap \<union> set de. explicit_rule r" if "production_mode_enabled pe"
    using rules [THEN res_map_Inr] validate_rule_Inr(2) [OF _ that] by fastforce
  moreover have "al = [] \<and> ap = [] \<and> de = []"
    if "production_mode_enabled pe" "\<not> allow_agent_policy_overrides pe"
    using rules [THEN res_map_Inr] off [OF that] by simp
  ultimately show thesis using that n base p by blast
qed

section \<open>Properties\<close>

definition rules_total :: "policy_env \<Rightarrow> policy \<Rightarrow> policy_action \<Rightarrow> bool" where
  "rules_total pe p action \<longleftrightarrow>
     (\<forall>r\<in>set (pol_deny p @ pol_approval p @ pol_allow p). \<exists>m. rule_matches pe r action = Inr m)"

lemma first_match_total:
  assumes "\<forall>r\<in>set rs. \<exists>m. rule_matches pe r action = Inr m"
  shows "\<exists>m. first_match pe rs action = Inr m \<and> (m \<noteq> None \<longleftrightarrow> (\<exists>r\<in>set rs. rule_applies pe action r))"
  using assms
proof (induction rs)
  case (Cons r rs)
  from Cons.prems obtain m where m: "rule_matches pe r action = Inr m" by auto
  from Cons obtain n where "first_match pe rs action = Inr n"
    "n \<noteq> None \<longleftrightarrow> (\<exists>r\<in>set rs. rule_applies pe action r)" by auto
  with m show ?case by (cases m) (auto simp: rule_applies_def)
qed simp

lemma rule_applies_first_match:
  "first_match pe rs action = Inr None \<Longrightarrow> r \<in> set rs \<Longrightarrow> \<not> rule_applies pe action r"
  by (auto simp: first_match_None rule_applies_def)

lemma first_match_applies:
  "first_match pe rs action = Inr (Some scope) \<Longrightarrow>
   \<exists>r\<in>set rs. rule_applies pe action r \<and> rule_matches pe r action = Inr (Some scope)"
  by (auto simp: first_match_Some rule_applies_def)

text \<open>
  C7: where the rules of a policy can all be evaluated on an action of a known class, the
  decision is deny over approval over allow over a default refusal: it is allowed exactly when
  some allow rule applies and no deny or approval rule does, and it asks for approval exactly
  when an approval rule applies and no deny rule does; \<open>enforce_policy\<close> returns the allowed
  decision and raises \<open>PolicyDeniedError\<close> for every other one.
\<close>

theorem policy_decision_order:
  assumes "pa_capability action \<in> set CAPABILITY_CLASSES" and "rules_total pe p action"
  shows "\<exists>d. evaluate_policy pe p action = Inr d \<and>
     (pd_allowed d \<longleftrightarrow> list_ex (rule_applies pe action) (pol_allow p) \<and>
        \<not> list_ex (rule_applies pe action) (pol_deny p) \<and>
        \<not> list_ex (rule_applies pe action) (pol_approval p)) \<and>
     (pd_requires_approval d \<longleftrightarrow> list_ex (rule_applies pe action) (pol_approval p) \<and>
        \<not> list_ex (rule_applies pe action) (pol_deny p)) \<and>
     enforce_policy pe p action =
       (if pd_allowed d then Inr d
        else Inl (PolicyDeniedError (pd_reason d) (pa_capability action) (pol_name p)))"
proof -
  have tot: "\<exists>m. first_match pe rs action = Inr m \<and> (m \<noteq> None \<longleftrightarrow> list_ex (rule_applies pe action) rs)"
    if "set rs \<subseteq> set (pol_deny p @ pol_approval p @ pol_allow p)" for rs
    unfolding list_ex_iff by (rule first_match_total) (use that assms(2) in \<open>auto simp: rules_total_def\<close>)
  obtain de where de: "first_match pe (pol_deny p) action = Inr de"
    "de \<noteq> None \<longleftrightarrow> list_ex (rule_applies pe action) (pol_deny p)"
    using tot [of "pol_deny p"] by auto
  obtain ap where ap: "first_match pe (pol_approval p) action = Inr ap"
    "ap \<noteq> None \<longleftrightarrow> list_ex (rule_applies pe action) (pol_approval p)"
    using tot [of "pol_approval p"] by auto
  obtain al where al: "first_match pe (pol_allow p) action = Inr al"
    "al \<noteq> None \<longleftrightarrow> list_ex (rule_applies pe action) (pol_allow p)"
    using tot [of "pol_allow p"] by auto
  note m = de(1) ap(1) al(1) and ex = de(2) ap(2) al(2)
  obtain d where d: "evaluate_policy pe p action = Inr d"
  proof -
    have "\<exists>d. evaluate_policy pe p action = Inr d"
      unfolding evaluate_policy_def assert_valid_capability_def
      using assms(1) m by (simp split: option.split)
    then show thesis using that by blast
  qed
  have "(pd_allowed d \<longleftrightarrow> al \<noteq> None \<and> de = None \<and> ap = None) \<and>
      (pd_requires_approval d \<longleftrightarrow> ap \<noteq> None \<and> de = None)"
    using d by (cases rule: evaluate_policy_cases) (use m in auto)
  moreover have "enforce_policy pe p action =
      (if pd_allowed d then Inr d
       else Inl (PolicyDeniedError (pd_reason d) (pa_capability action) (pol_name p)))"
    by (simp add: enforce_policy_def d)
  ultimately show ?thesis using d ex by blast
qed

theorem policy_decision_order_witness:
  "let pe = \<lparr>getenv = (\<lambda>n. None), read_yaml = (\<lambda>f. Inr PNone), repo_root = [''repo''], resolve_path = Inr\<rparr>;
       p = \<lparr>pol_name = ''p'', pol_allow = [[(''capability'', PStr ''exec'')]],
            pol_approval = [[(''capability'', PStr ''exec''), (''commands'', PList [PStr ''r*''])]],
            pol_deny = [[(''capability'', PStr ''exec''), (''commands'', PList [PStr ''rm''])]]\<rparr>;
       act = (\<lambda>c. \<lparr>pa_capability = ''exec'', pa_path = None, pa_domain = None, pa_command = Some c,
                pa_memory_type = None, pa_scope_kind = None\<rparr>)
   in (\<exists>d. evaluate_policy pe p (act ''ls'') = Inr d \<and> pd_allowed d) \<and>
      (\<exists>d. evaluate_policy pe p (act ''run'') = Inr d \<and> pd_requires_approval d) \<and>
      (\<exists>d. evaluate_policy pe p (act ''rm'') = Inr d \<and> \<not> pd_allowed d \<and> \<not> pd_requires_approval d)"
proof -
  define pe where "pe = \<lparr>getenv = (\<lambda>n. None), read_yaml = (\<lambda>f. Inr PNone),
    repo_root = [''repo''], resolve_path = Inr\<rparr>"
  define p where "p = \<lparr>pol_name = ''p'', pol_allow = [[(''capability'', PStr ''exec'')]],
    pol_approval = [[(''capability'', PStr ''exec''), (''commands'', PList [PStr ''r*''])]],
    pol_deny = [[(''capability'', PStr ''exec''), (''commands'', PList [PStr ''rm''])]]\<rparr>"
  define act where "act = (\<lambda>c. \<lparr>pa_capability = ''exec'', pa_path = None, pa_domain = None,
    pa_command = Some c, pa_memory_type = None, pa_scope_kind = None\<rparr>)"
  have rm: "fnmatch c ''rm'' \<longleftrightarrow> c = ''rm''" for c
    by (rule fnmatch_plain) (simp add: plain_pattern_def)
  have star: "fnmatch ''run'' ''r*''" "fnmatch ''rm'' ''r*''" "\<not> fnmatch ''ls'' ''r*''"
    by (simp_all add: fnmatch_def)
  note defs = p_def act_def rule_matches_def dict_get_def dict_has_def assert_valid_capability_def
    CAPABILITY_CLASSES_def match_text_def any_match_def rm star
  have 1: "pa_capability (act c) \<in> set CAPABILITY_CLASSES" for c
    by (simp add: act_def CAPABILITY_CLASSES_def)
  have 2: "rules_total pe p (act c)" for c
    by (auto simp: rules_total_def defs)
  have ap: "list_ex (rule_applies pe (act ''ls'')) (pol_allow p)"
    "\<not> list_ex (rule_applies pe (act ''ls'')) (pol_deny p)"
    "\<not> list_ex (rule_applies pe (act ''ls'')) (pol_approval p)"
    "list_ex (rule_applies pe (act ''run'')) (pol_approval p)"
    "\<not> list_ex (rule_applies pe (act ''run'')) (pol_deny p)"
    "list_ex (rule_applies pe (act ''rm'')) (pol_deny p)"
    by (simp_all add: rule_applies_def defs)
  show ?thesis
    unfolding Let_def pe_def [symmetric] p_def [symmetric] act_def [symmetric]
    using policy_decision_order [OF 1 2] ap by (metis act_def)
qed

lemma enforce_granted:
  assumes "enforce_policy pe p action = Inr d"
  shows "\<exists>r\<in>set (pol_allow p). rule_matches pe r action = Inr (Some (pd_matched_scope d))"
proof -
  have ev: "evaluate_policy pe p action = Inr d" and al: "pd_allowed d"
    using assms by (auto simp: enforce_policy_def split: if_splits)
  then show ?thesis
    by (cases rule: evaluate_policy_cases) (auto dest: first_match_applies)
qed

lemma production_policies_explicit_base:
  assumes "build_agent_policy pe cfg = Inr p" and "production_mode_enabled pe"
  shows "explicit_policy p"
proof -
  from assms(1) obtain n base al ap de where base: "load_policy pe n = Inr base"
    and p: "p = \<lparr>pol_name = pol_name base, pol_allow = pol_allow base @ al,
          pol_approval = pol_approval base @ ap, pol_deny = pol_deny base @ de\<rparr>"
    and ex: "\<forall>r\<in>set al \<union> set ap \<union> set de. explicit_rule r"
    by (rule build_agent_policy_Inr) (use assms(2) in blast)
  have "explicit_policy base" using base assms(2) by (rule load_policy_explicit)
  then show ?thesis using ex unfolding p explicit_policy_def by auto
qed

text \<open>
  C18: an action goes through only on a positive finding. Whenever \<open>enforce_policy\<close> returns,
  whatever the rules are and whichever of them would raise, the class of the action is a known
  one, every deny rule and every approval rule was evaluated and does not match, and some allow
  rule matches; an error while a rule is evaluated never lets the action through.
\<close>

theorem enforce_fail_closed:
  assumes "enforce_policy pe p action = Inr d"
  shows "pd_allowed d \<and> pa_capability action \<in> set CAPABILITY_CLASSES \<and>
     (\<forall>r\<in>set (pol_deny p) \<union> set (pol_approval p). rule_matches pe r action = Inr None) \<and>
     (\<exists>r\<in>set (pol_allow p). rule_matches pe r action = Inr (Some (pd_matched_scope d)) \<and>
        py_eq (dict_get r ''capability'') (PStr (pa_capability action)))"
proof -
  have ev: "evaluate_policy pe p action = Inr d" and al: "pd_allowed d"
    using assms by (auto simp: enforce_policy_def split: if_splits)
  have "pa_capability action \<in> set CAPABILITY_CLASSES"
    using ev by (auto simp: evaluate_policy_def assert_valid_capability_def split: if_splits)
  moreover have "py_eq (dict_get r ''capability'') (PStr (pa_capability action))"
    if "rule_matches pe r action = Inr (Some scope)" for r scope
    using that by (auto simp: rule_matches_def split: if_splits)
  moreover from ev al obtain scope where
      "first_match pe (pol_deny p) action = Inr None" "first_match pe (pol_approval p) action = Inr None"
      "first_match pe (pol_allow p) action = Inr (Some scope)" "pd_matched_scope d = scope"
    by (cases rule: evaluate_policy_cases) auto
  ultimately show ?thesis
    using al first_match_applies [of pe "pol_allow p" action scope] by (auto simp: first_match_None)
qed

theorem enforce_fail_closed_witness:
  "let pe = \<lparr>getenv = (\<lambda>n. None), read_yaml = (\<lambda>f. Inr PNone), repo_root = [''repo''], resolve_path = Inr\<rparr>;
       p = \<lparr>pol_name = ''p'', pol_allow = [[(''capability'', PStr ''model_call'')]],
            pol_approval = [], pol_deny = [[(''capability'', PStr ''http'')]]\<rparr>;
       a = \<lparr>pa_capability = ''model_call'', pa_path = None, pa_domain = None, pa_command = Some ''m'',
            pa_memory_type = None, pa_scope_kind = None\<rparr>
   in \<exists>d. enforce_policy pe p a = Inr d \<and> pd_allowed d"
proof -
  define pe where "pe = \<lparr>getenv = (\<lambda>n. None), read_yaml = (\<lambda>f. Inr PNone),
    repo_root = [''repo''], resolve_path = Inr\<rparr>"
  define p where "p = \<lparr>pol_name = ''p'', pol_allow = [[(''capability'', PStr ''model_call'')]],
    pol_approval = [], pol_deny = [[(''capability'', PStr ''http'')]]\<rparr>"
  define a where "a = \<lparr>pa_capability = ''model_call'', pa_path = None, pa_domain = None,
    pa_command = Some ''m'', pa_memory_type = None, pa_scope_kind = None\<rparr>"
  have "\<exists>d. enforce_policy pe p a = Inr d"
    by (simp add: enforce_policy_def evaluate_policy_def assert_valid_capability_def p_def a_def
        rule_matches_def dict_get_def dict_has_def CAPABILITY_CLASSES_def)
  then obtain d where "enforce_policy pe p a = Inr d" ..
  with enforce_fail_closed [OF this] show ?thesis
    unfolding Let_def pe_def [symmetric] p_def [symmetric] a_def [symmetric] by blast
qed

text \<open>
  C32: an agent's own rules cannot undo the base policy: for a policy built for an agent, an
  action that a deny rule of the named base policy refuses is refused, with the same scope; and
  an action that the base policy sends to approval is never allowed outright.
\<close>

theorem agent_rules_cannot_relax:
  assumes "build_agent_policy pe cfg = Inr p" and "dict_get cfg ''policy'' = PStr n"
    and "load_policy pe n = Inr base"
  shows "(first_match pe (pol_deny base) action = Inr (Some scope) \<and> evaluate_policy pe p action = Inr d \<longrightarrow>
        \<not> pd_allowed d \<and> \<not> pd_requires_approval d \<and> pd_matched_scope d = scope) \<and>
     (first_match pe (pol_approval base) action = Inr (Some scope) \<and> evaluate_policy pe p action = Inr d \<longrightarrow>
        \<not> pd_allowed d)"
proof -
  from assms(1) obtain al ap de where
    p: "p = \<lparr>pol_name = pol_name base, pol_allow = pol_allow base @ al,
          pol_approval = pol_approval base @ ap, pol_deny = pol_deny base @ de\<rparr>"
    by (rule build_agent_policy_Inr) (use assms(2,3) in auto)
  have deny: "first_match pe (pol_deny p) action = Inr (Some scope)"
    if "first_match pe (pol_deny base) action = Inr (Some scope)"
    using that by (simp add: p first_match_append)
  have ask: "first_match pe (pol_approval p) action = Inr (Some scope)"
    if "first_match pe (pol_approval base) action = Inr (Some scope)"
    using that by (simp add: p first_match_append)
  have "\<not> pd_allowed d \<and> \<not> pd_requires_approval d \<and> pd_matched_scope d = scope"
    if "first_match pe (pol_deny base) action = Inr (Some scope)" "evaluate_policy pe p action = Inr d"
    using that(2) by (cases rule: evaluate_policy_cases) (use deny [OF that(1)] in auto)
  moreover have "\<not> pd_allowed d"
    if "first_match pe (pol_approval base) action = Inr (Some scope)" "evaluate_policy pe p action = Inr d"
    using that(2) by (cases rule: evaluate_policy_cases) (use ask [OF that(1)] in auto)
  ultimately show ?thesis by blast
qed

text \<open>A loaded configuration for the witnesses.\<close>

definition sample_env :: "string \<Rightarrow> pydict \<Rightarrow> policy_env" where
  "sample_env mode rules =
     \<lparr>getenv = (\<lambda>n. if n = ''CLARITYCLAW_ENV'' then Some mode else None),
      read_yaml = (\<lambda>f. Inr (PDict [(''policies'', PDict [(''p'', PDict rules)])])),
      repo_root = [''repo''], resolve_path = Inr\<rparr>"

definition rule_for :: "string \<Rightarrow> pydict \<Rightarrow> pyval" where
  "rule_for c extra = PDict ((''capability'', PStr c) # extra)"

definition sample_action :: "string \<Rightarrow> string option \<Rightarrow> string option \<Rightarrow> string option \<Rightarrow> policy_action" where
  "sample_action c path domain cmd = \<lparr>pa_capability = c, pa_path = path, pa_domain = domain,
     pa_command = cmd, pa_memory_type = None, pa_scope_kind = None\<rparr>"

theorem agent_rules_cannot_relax_witness:
  "\<exists>p d. build_agent_policy (sample_env ''development'' [(''deny'', PList [rule_for ''http'' []])])
       [(''policy'', PStr ''p''), (''allow'', PList [rule_for ''http'' []])] = Inr p \<and>
     evaluate_policy (sample_env ''development'' [(''deny'', PList [rule_for ''http'' []])]) p
       (sample_action ''http'' None (Some ''x'') None) = Inr d \<and> \<not> pd_allowed d"
proof -
  define pe where "pe = sample_env ''development'' [(''deny'', PList [rule_for ''http'' []])]"
  define cfg where "cfg = [(''policy'', PStr ''p''), (''allow'', PList [rule_for ''http'' []])]"
  define a where "a = sample_action ''http'' None (Some ''x'') None"
  have name: "dict_get cfg ''policy'' = PStr ''p''" by (simp add: cfg_def dict_get_def)
  define base where "base = \<lparr>pol_name = ''p'', pol_allow = [], pol_approval = [],
    pol_deny = [[(''capability'', PStr ''http'')]]\<rparr>"
  have base: "load_policy pe ''p'' = Inr base"
    unfolding pe_def base_def by code_simp
  have built: "build_agent_policy pe cfg = Inr (base\<lparr>pol_allow := [[(''capability'', PStr ''http'')]]\<rparr>)"
    unfolding pe_def cfg_def base_def by code_simp
  have deny: "first_match pe (pol_deny base) a = Inr (Some None)"
    unfolding pe_def base_def a_def by code_simp
  obtain d where ev: "evaluate_policy pe (base\<lparr>pol_allow := [[(''capability'', PStr ''http'')]]\<rparr>) a = Inr d"
    using deny by (auto simp: evaluate_policy_def assert_valid_capability_def base_def a_def
        sample_action_def CAPABILITY_CLASSES_def)
  have "\<not> pd_allowed d"
    using agent_rules_cannot_relax [OF built name base, of a None d] deny ev by blast
  with built ev show ?thesis unfolding pe_def cfg_def a_def by blast
qed





section \<open>Two surprises of the production rules\<close>

text \<open>
  The required denies are checked by name only: a deny rule for written files that covers one
  directory satisfies the requirement, and the policy may still allow writing elsewhere.
\<close>

theorem narrow_deny_is_accepted:
  "let pe = sample_env ''production''
        [(''allow'', PList [rule_for ''file_write'' [(''paths'', PList [PStr ''docs/*''])]]),
         (''deny'', PList [rule_for ''http'' [],
            rule_for ''file_write'' [(''paths'', PList [PStr ''secret/*''])]])]
   in production_mode_enabled pe \<and>
      (case build_agent_policy pe [(''policy'', PStr ''p'')] of
         Inl e \<Rightarrow> False
       | Inr p \<Rightarrow> (case enforce_policy pe p (sample_action ''file_write'' (Some ''docs/a'') None None) of
            Inl e \<Rightarrow> False | Inr d \<Rightarrow> pd_allowed d))"
  by code_simp

text \<open>
  Deny rules are exempt from the demand for explicit patterns, but the exemption compares the
  list name with \<open>deny\<close> while an agent's own list is called \<open>agent.deny\<close>: a production
  agent with overrides enabled cannot deny a whole capability.
\<close>

theorem agent_deny_needs_explicit_patterns:
  "let pe = sample_env ''production'' []; rule = [(''capability'', PStr ''http'')]
   in validate_rule pe ''p'' ''deny'' rule = Inr rule \<and>
      validate_rule pe ''p'' ''agent.deny'' rule = Inl (broad_error ''p'' ''agent.deny'' ''http'' ''domains'')"
  by code_simp

end
