(* ===== verification/Workflow.thy ===== *)
theory Workflow
  imports Policy Memory
begin

text \<open>
  src/runtime/workflow.py: the state machine of a workflow. A workflow is a record; the functions
  that mutate the \<open>WorkflowState\<close> object are computations on it, so that a call that raises
  keeps the mutations made before (as the object in memory does). A step is addressed by its
  identifier; where two steps share one, the first is meant, as in \<open>get_step\<close>. The clock
  readings of an operation are arguments. Policies and delegation are typed records with a
  translation to the objects the file holds; loading normalises those objects again.
\<close>

section \<open>Data\<close>

datatype step_type = Model_step | Tool_step | Approval_wait | Retry_wait | Finish

datatype workflow_status = Wf_running | Wf_waiting | Wf_succeeded | Wf_failed

datatype step_status = St_pending | St_in_progress | St_blocked | St_completed | St_failed

fun step_type_name :: "step_type \<Rightarrow> string" where
  "step_type_name Model_step = ''model''"
| "step_type_name Tool_step = ''tool''"
| "step_type_name Approval_wait = ''approval_wait''"
| "step_type_name Retry_wait = ''retry_wait''"
| "step_type_name Finish = ''finish''"

fun workflow_status_name :: "workflow_status \<Rightarrow> string" where
  "workflow_status_name Wf_running = ''running''"
| "workflow_status_name Wf_waiting = ''waiting''"
| "workflow_status_name Wf_succeeded = ''succeeded''"
| "workflow_status_name Wf_failed = ''failed''"

fun step_status_name :: "step_status \<Rightarrow> string" where
  "step_status_name St_pending = ''pending''"
| "step_status_name St_in_progress = ''in_progress''"
| "step_status_name St_blocked = ''blocked''"
| "step_status_name St_completed = ''completed''"
| "step_status_name St_failed = ''failed''"

fun WORKFLOW_STATUS_TRANSITIONS :: "workflow_status \<Rightarrow> workflow_status list" where
  "WORKFLOW_STATUS_TRANSITIONS Wf_running = [Wf_waiting, Wf_succeeded, Wf_failed]"
| "WORKFLOW_STATUS_TRANSITIONS Wf_waiting = [Wf_running, Wf_failed]"
| "WORKFLOW_STATUS_TRANSITIONS Wf_succeeded = []"
| "WORKFLOW_STATUS_TRANSITIONS Wf_failed = []"

fun STEP_STATUS_TRANSITIONS :: "step_status \<Rightarrow> step_status list" where
  "STEP_STATUS_TRANSITIONS St_pending = [St_in_progress, St_blocked, St_completed, St_failed]"
| "STEP_STATUS_TRANSITIONS St_in_progress = [St_blocked, St_completed, St_failed]"
| "STEP_STATUS_TRANSITIONS St_blocked = [St_in_progress, St_completed, St_failed]"
| "STEP_STATUS_TRANSITIONS St_completed = []"
| "STEP_STATUS_TRANSITIONS St_failed = []"

type_synonym details = "(string \<times> field_value) list"

record workflow_step =
  st_step_id :: string
  st_step_type :: step_type
  st_status :: step_status
  st_details :: details
  st_error :: "pydict option"

record subrun_policy =
  sp_max_children :: int
  sp_max_depth :: int
  sp_allowed_agents :: "string list option"
  sp_allowed_capabilities :: "string list option"
  sp_allowed_tools :: "string list option"

record delegation =
  dl_role :: "string option"
  dl_assigned_by_workflow_id :: "string option"
  dl_assigned_by_run_id :: "string option"
  dl_allowed_capabilities :: "string list"
  dl_allowed_tools :: "string list"
  dl_task_intent :: "string option"
  dl_expected_output :: "string option"
  dl_completion_criteria :: "string list"

record retry_policy =
  rp_max_attempts :: int
  rp_backoff_seconds :: int

record retry_state =
  rt_attempts_used :: int
  rt_retries_remaining :: int
  rt_next_retry_at :: "stamp option"
  rt_last_error :: "pydict option"

datatype workflow_event =
    We_created stamp workflow_status string string string
  | We_workflow_status_changed stamp workflow_status workflow_status
  | We_current_step_changed stamp string string
  | We_latest_run_attached stamp string string
  | We_step_added stamp string step_type step_status
  | We_step_status_changed stamp string step_type step_status step_status "pydict option"
  | We_child_workflow_registered stamp string
  | We_artifact_registered stamp pyval pyval
  | We_memory_registered stamp pyval pyval
  | We_retry_state_updated stamp retry_state

record workflow =
  wf_workflow_id :: string
  wf_run_id :: string
  wf_latest_run_id :: string
  wf_root_workflow_id :: string
  wf_parent_workflow_id :: "string option"
  wf_depth :: int
  wf_child_workflow_ids :: "string list"
  wf_agent :: string
  wf_run_type :: step_type
  wf_request :: pydict
  wf_artifacts :: "pydict list"
  wf_memories :: "pydict list"
  wf_shared_memories :: "pydict list"
  wf_subrun_policy :: subrun_policy
  wf_delegation :: "delegation option"
  wf_retry_policy :: retry_policy
  wf_retry_state :: retry_state
  wf_status :: workflow_status
  wf_current_step_id :: string
  wf_steps :: "workflow_step list"
  wf_transition_history :: "workflow_event list"
  wf_created_at :: stamp
  wf_updated_at :: stamp

section \<open>Steps and statuses\<close>

definition action_step_id :: "step_type \<Rightarrow> string" where
  "action_step_id run_type = step_type_name run_type @ ''_step''"

definition finish_step_id :: string where
  "finish_step_id = ''finish_step''"

definition approval_step_id :: "string \<Rightarrow> string" where
  "approval_step_id approval_id = ''approval_wait:'' @ approval_id"

definition retry_step_id :: "int \<Rightarrow> string" where
  "retry_step_id attempt = ''retry_wait:'' @ show_int attempt"

definition find_step :: "workflow \<Rightarrow> string \<Rightarrow> workflow_step option" where
  "find_step wo step_id = find (\<lambda>s. st_step_id s = step_id) (wf_steps wo)"

definition unknown_step :: "string \<Rightarrow> exc" where
  "unknown_step step_id = ValueError (''Unknown workflow step: '' @ step_id)"

definition get_step :: "string \<Rightarrow> (workflow, workflow_step) io" where
  "get_step step_id =
     io_bind (io_get (\<lambda>wo. find_step wo step_id)) (\<lambda>found.
       case found of Some s \<Rightarrow> io_return s | None \<Rightarrow> io_raise (unknown_step step_id))"

definition current_step :: "(workflow, workflow_step) io" where
  "current_step = io_bind (io_get wf_current_step_id) get_step"

definition action_step :: "(workflow, workflow_step) io" where
  "action_step = io_bind (io_get (\<lambda>wo. action_step_id (wf_run_type wo))) get_step"

text \<open>The mutation of the step object with an identifier.\<close>

fun modify_first :: "string \<Rightarrow> (workflow_step \<Rightarrow> workflow_step) \<Rightarrow> workflow_step list \<Rightarrow> workflow_step list" where
  "modify_first step_id f [] = []"
| "modify_first step_id f (s # ss) =
     (if st_step_id s = step_id then f s # ss else s # modify_first step_id f ss)"

definition modify_step :: "string \<Rightarrow> (workflow_step \<Rightarrow> workflow_step) \<Rightarrow> (workflow, unit) io" where
  "modify_step step_id f = io_modify (\<lambda>wo. wo\<lparr>wf_steps := modify_first step_id f (wf_steps wo)\<rparr>)"

definition set_current :: "string \<Rightarrow> (workflow, unit) io" where
  "set_current step_id = io_modify (\<lambda>wo. wo\<lparr>wf_current_step_id := step_id\<rparr>)"

definition transition_step :: "string \<Rightarrow> step_status \<Rightarrow> pydict option \<Rightarrow> (workflow, unit) io" where
  "transition_step step_id next_status err =
     io_bind (get_step step_id) (\<lambda>s.
       if next_status \<notin> set (STEP_STATUS_TRANSITIONS (st_status s)) then
         io_raise (ValueError (''Cannot transition workflow step `'' @ step_id @ ''` from `''
           @ step_status_name (st_status s) @ ''` to `'' @ step_status_name next_status @ ''`''))
       else
         modify_step step_id (\<lambda>s. s\<lparr>st_status := next_status,
           st_error := (case err of None \<Rightarrow> st_error s | Some e \<Rightarrow> Some e)\<rparr>))"

definition transition_workflow :: "workflow_status \<Rightarrow> (workflow, unit) io" where
  "transition_workflow next_status =
     io_bind (io_get (\<lambda>wo. (wf_workflow_id wo, wf_status wo))) (\<lambda>(workflow_id, status).
       if next_status \<notin> set (WORKFLOW_STATUS_TRANSITIONS status) then
         io_raise (ValueError (''Cannot transition workflow `'' @ workflow_id @ ''` from `''
           @ workflow_status_name status @ ''` to `'' @ workflow_status_name next_status @ ''`''))
       else io_modify (\<lambda>wo. wo\<lparr>wf_status := next_status\<rparr>))"

definition start_step :: "string \<Rightarrow> (workflow, unit) io" where
  "start_step step_id =
     io_bind (get_step step_id) (\<lambda>s.
       io_when (st_status s = St_pending) (transition_step step_id St_in_progress None))"

definition mark_action_completed :: "(workflow, unit) io" where
  "mark_action_completed =
     io_bind action_step (\<lambda>action.
     io_then (io_when (st_status action \<noteq> St_completed)
                (transition_step (st_step_id action) St_completed None))
     (io_bind (get_step finish_step_id) (\<lambda>finish.
        io_then (start_step (st_step_id finish)) (set_current (st_step_id finish)))))"

definition complete_finish_step :: "(workflow, unit) io" where
  "complete_finish_step =
     io_bind (get_step finish_step_id) (\<lambda>finish.
     io_then (start_step (st_step_id finish))
     (io_then (io_bind (get_step (st_step_id finish)) (\<lambda>f.
                 io_when (st_status f \<noteq> St_completed) (transition_step (st_step_id finish) St_completed None)))
     (io_then (io_bind (io_get wf_status) (\<lambda>status.
                 io_when (status \<noteq> Wf_succeeded) (transition_workflow Wf_succeeded)))
        (set_current (st_step_id finish)))))"

section \<open>Normalisation of configuration\<close>

text \<open>\<open>value or {}\<close> followed by \<open>.get\<close>.\<close>

definition or_empty :: "pyval \<Rightarrow> pydict res" where
  "or_empty v =
     (case v of PDict d \<Rightarrow> Inr d | _ \<Rightarrow> if py_truthy v then Inl attribute_error else Inr [])"

definition non_negative :: "pyval \<Rightarrow> string \<Rightarrow> int res" where
  "non_negative v msg =
     (case py_int v of Some i \<Rightarrow> if i < 0 then Inl (ValueError msg) else Inr i | None \<Rightarrow> Inl (ValueError msg))"

definition normalize_retry_policy :: "pyval \<Rightarrow> retry_policy res" where
  "normalize_retry_policy v =
     res_bind (or_empty v) (\<lambda>d.
     res_bind (non_negative (dict_get_or d ''max_attempts'' (PInt 0))
         ''Workflow retry policy `max_attempts` must be a non-negative integer'') (\<lambda>max_attempts.
     res_bind (non_negative (dict_get_or d ''backoff_seconds'' (PInt 0))
         ''Workflow retry policy `backoff_seconds` must be a non-negative integer'') (\<lambda>backoff.
       Inr \<lparr>rp_max_attempts = max_attempts, rp_backoff_seconds = backoff\<rparr>)))"

definition normalize_optional_string :: "pyval \<Rightarrow> string \<Rightarrow> string option res" where
  "normalize_optional_string v field_name =
     (if v = PNone then Inr None
      else (case non_empty_text v of
              Some s \<Rightarrow> Inr (Some s)
            | None \<Rightarrow> Inl (ValueError (''Workflow `'' @ field_name @ ''` must be a non-empty string''))))"

definition text_item :: "string \<Rightarrow> pyval \<Rightarrow> string res" where
  "text_item field_name v =
     (case non_empty_text v of
        Some s \<Rightarrow> Inr s
      | None \<Rightarrow> Inl (ValueError (''Workflow `'' @ field_name @ ''` must contain non-empty strings'')))"

definition normalize_string_list :: "pyval \<Rightarrow> string \<Rightarrow> string list res" where
  "normalize_string_list v field_name =
     (case v of
        PNone \<Rightarrow> Inr []
      | PList items \<Rightarrow>
          res_bind (res_map (text_item field_name) items) (\<lambda>ss. Inr (dedupe [] ss))
      | _ \<Rightarrow> Inl (ValueError (''Workflow `'' @ field_name @ ''` must be a list of strings'')))"

definition normalize_optional_string_list :: "pyval \<Rightarrow> string \<Rightarrow> string list option res" where
  "normalize_optional_string_list v field_name =
     (if v = PNone then Inr None
      else res_bind (normalize_string_list v field_name) (\<lambda>ss. Inr (Some ss)))"

definition default_retry_state :: "retry_policy \<Rightarrow> retry_state" where
  "default_retry_state p =
     \<lparr>rt_attempts_used = 0, rt_retries_remaining = rp_max_attempts p, rt_next_retry_at = None,
      rt_last_error = None\<rparr>"

fun check_capabilities :: "string list \<Rightarrow> unit res" where
  "check_capabilities [] = Inr ()"
| "check_capabilities (c # cs) = res_bind (assert_valid_capability c) (\<lambda>_. check_capabilities cs)"

definition normalize_subrun_policy :: "pyval \<Rightarrow> subrun_policy res" where
  "normalize_subrun_policy v =
     res_bind (or_empty v) (\<lambda>d.
     res_bind (normalize_optional_string_list (dict_get d ''allowed_agents'') ''allowed_agents'') (\<lambda>agents.
     res_bind (normalize_optional_string_list (dict_get d ''allowed_capabilities'') ''allowed_capabilities'') (\<lambda>caps.
     res_bind (normalize_optional_string_list (dict_get d ''allowed_tools'') ''allowed_tools'') (\<lambda>tools.
     res_bind (non_negative (dict_get_or d ''max_children'' (PInt 0))
         ''Workflow subrun policy `max_children` must be a non-negative integer'') (\<lambda>max_children.
     res_bind (non_negative (dict_get_or d ''max_depth'' (PInt 0))
         ''Workflow subrun policy `max_depth` must be a non-negative integer'') (\<lambda>max_depth.
     res_bind (check_capabilities (case caps of None \<Rightarrow> [] | Some cs \<Rightarrow> cs)) (\<lambda>_.
       Inr \<lparr>sp_max_children = max_children, sp_max_depth = max_depth, sp_allowed_agents = agents,
            sp_allowed_capabilities = caps, sp_allowed_tools = tools\<rparr>)))))))"

definition normalize_delegation_object :: "pydict \<Rightarrow> delegation res" where
  "normalize_delegation_object d =
     res_bind (normalize_string_list (dict_get d ''allowed_capabilities'') ''delegation.allowed_capabilities'') (\<lambda>caps.
     if caps = [] then
       Inl (ValueError ''Workflow `delegation.allowed_capabilities` must contain at least one capability'')
     else
     res_bind (check_capabilities caps) (\<lambda>_.
     res_bind (normalize_optional_string (dict_get d ''role'') ''delegation.role'') (\<lambda>role.
     res_bind (normalize_optional_string (dict_get d ''assigned_by_workflow_id'') ''delegation.assigned_by_workflow_id'') (\<lambda>by_workflow.
     res_bind (normalize_optional_string (dict_get d ''assigned_by_run_id'') ''delegation.assigned_by_run_id'') (\<lambda>by_run.
     res_bind (normalize_string_list (dict_get d ''allowed_tools'') ''delegation.allowed_tools'') (\<lambda>tools.
     res_bind (normalize_optional_string (dict_get d ''task_intent'') ''delegation.task_intent'') (\<lambda>intent.
     res_bind (normalize_optional_string (dict_get d ''expected_output'') ''delegation.expected_output'') (\<lambda>expected.
     res_bind (normalize_string_list (dict_get d ''completion_criteria'') ''delegation.completion_criteria'') (\<lambda>criteria.
       Inr \<lparr>dl_role = role, dl_assigned_by_workflow_id = by_workflow,
         dl_assigned_by_run_id = by_run, dl_allowed_capabilities = caps, dl_allowed_tools = tools,
         dl_task_intent = intent, dl_expected_output = expected, dl_completion_criteria = criteria\<rparr>)))))))))"

text \<open>An absent or empty delegation is \<open>{}\<close>, here \<open>None\<close>.\<close>

definition normalize_delegation :: "pyval \<Rightarrow> delegation option res" where
  "normalize_delegation v =
     (if \<not> py_truthy v then Inr None
      else (case v of
        PDict d \<Rightarrow> res_bind (normalize_delegation_object d) (\<lambda>dl. Inr (Some dl))
      | _ \<Rightarrow> Inl (ValueError ''Workflow `delegation` must be an object'')))"

definition shared_entry :: "pyval \<Rightarrow> pydict res" where
  "shared_entry v =
     (case v of
        PDict d \<Rightarrow>
          if non_empty_text (dict_get d ''memory_id'') = None
          then Inl (ValueError ''Workflow shared memory entries must include `memory_id`'')
          else Inr d
      | _ \<Rightarrow> Inl (ValueError ''Workflow `shared_memories` entries must be objects''))"

definition normalize_shared_memories :: "pyval \<Rightarrow> pydict list res" where
  "normalize_shared_memories v =
     (case v of
        PNone \<Rightarrow> Inr []
      | PList items \<Rightarrow> res_map shared_entry items
      | _ \<Rightarrow> Inl (ValueError ''Workflow `shared_memories` must be a list''))"

definition delegation_denial_reason :: "workflow \<Rightarrow> string \<Rightarrow> string option \<Rightarrow> string option" where
  "delegation_denial_reason wo capability tool_name =
     (case wf_delegation wo of
        None \<Rightarrow> None
      | Some dl \<Rightarrow>
          if capability \<notin> set (dl_allowed_capabilities dl) then
            Some (''Workflow `'' @ wf_workflow_id wo @ ''` delegation does not allow capability `'' @ capability @ ''`'')
          else
            (case tool_name of
               None \<Rightarrow> None
             | Some tool \<Rightarrow>
                 if tool \<notin> set (dl_allowed_tools dl)
                 then Some (''Workflow `'' @ wf_workflow_id wo @ ''` delegation does not allow tool `'' @ tool @ ''`'')
                 else None))"

section \<open>Creation and configuration\<close>

text \<open>
  \<open>create_workflow_state\<close>: the arguments of the call that the code checks are values of any
  type. The two lists of the initial steps hold the action in progress and the pending finish.
\<close>

record create_args =
  ca_run_id :: string
  ca_agent :: string
  ca_run_type :: string
  ca_request :: "pydict option"
  ca_parent_workflow_id :: "string option"
  ca_root_workflow_id :: "string option"
  ca_depth :: pyval
  ca_delegation :: pyval
  ca_shared_memories :: pyval

definition WORKFLOW_STEP_TYPES :: "step_type list" where
  "WORKFLOW_STEP_TYPES = [Model_step, Tool_step, Approval_wait, Retry_wait, Finish]"

definition check_step_type :: "string \<Rightarrow> step_type res" where
  "check_step_type s =
     (case find (\<lambda>t. step_type_name t = s) WORKFLOW_STEP_TYPES of
        Some t \<Rightarrow> Inr t | None \<Rightarrow> Inl (ValueError (''Unknown workflow step type: '' @ s)))"

definition initial_steps :: "step_type \<Rightarrow> workflow_step list" where
  "initial_steps run_type =
     [\<lparr>st_step_id = action_step_id run_type, st_step_type = run_type, st_status = St_in_progress,
       st_details = [], st_error = None\<rparr>,
      \<lparr>st_step_id = finish_step_id, st_step_type = Finish, st_status = St_pending,
       st_details = [], st_error = None\<rparr>]"

definition or_string :: "string option \<Rightarrow> string \<Rightarrow> string" where
  "or_string a b = (case a of None \<Rightarrow> b | Some s \<Rightarrow> if s = [] then b else s)"

definition create_workflow_state :: "create_args \<Rightarrow> stamp \<Rightarrow> workflow res" where
  "create_workflow_state ca timestamp =
     res_bind (check_step_type (ca_run_type ca)) (\<lambda>run_type.
     res_bind (non_negative (ca_depth ca) ''Workflow depth must be a non-negative integer'') (\<lambda>depth.
     res_bind (normalize_shared_memories (ca_shared_memories ca)) (\<lambda>shared.
     res_bind (normalize_subrun_policy PNone) (\<lambda>subrun.
     res_bind (normalize_delegation (ca_delegation ca)) (\<lambda>delegation.
     res_bind (normalize_retry_policy PNone) (\<lambda>retry.
       Inr \<lparr>wf_workflow_id = ca_run_id ca, wf_run_id = ca_run_id ca, wf_latest_run_id = ca_run_id ca,
            wf_root_workflow_id = or_string (ca_root_workflow_id ca) (ca_run_id ca),
            wf_parent_workflow_id = ca_parent_workflow_id ca, wf_depth = depth,
            wf_child_workflow_ids = [], wf_agent = ca_agent ca, wf_run_type = run_type,
            wf_request = (case ca_request ca of None \<Rightarrow> [] | Some d \<Rightarrow> d), wf_artifacts = [],
            wf_memories = [], wf_shared_memories = shared, wf_subrun_policy = subrun,
            wf_delegation = delegation, wf_retry_policy = retry,
            wf_retry_state = default_retry_state retry, wf_status = Wf_running,
            wf_current_step_id = action_step_id run_type, wf_steps = initial_steps run_type,
            wf_transition_history = [], wf_created_at = timestamp, wf_updated_at = timestamp\<rparr>))))))"

definition attach_run_to_workflow :: "string \<Rightarrow> (workflow, unit) io" where
  "attach_run_to_workflow run_id = io_modify (\<lambda>wo. wo\<lparr>wf_latest_run_id := run_id\<rparr>)"

definition details_update :: "details \<Rightarrow> details \<Rightarrow> details" where
  "details_update d e = fold (\<lambda>(k, v) acc. dir_put acc k v) e d"

definition set_action_details :: "details \<Rightarrow> (workflow, unit) io" where
  "set_action_details d =
     io_bind action_step (\<lambda>action.
       modify_step (st_step_id action) (\<lambda>s. s\<lparr>st_details := details_update (st_details s) d\<rparr>))"

definition configure_retry_policy :: "pyval \<Rightarrow> (workflow, unit) io" where
  "configure_retry_policy v =
     io_bind (io_lift (normalize_retry_policy v)) (\<lambda>p.
       io_modify (\<lambda>wo. wo\<lparr>wf_retry_policy := p,
         wf_retry_state := (wf_retry_state wo)\<lparr>rt_retries_remaining :=
           max (rp_max_attempts p - rt_attempts_used (wf_retry_state wo)) 0\<rparr>\<rparr>))"

definition configure_subrun_policy :: "pyval \<Rightarrow> (workflow, unit) io" where
  "configure_subrun_policy v =
     io_bind (io_lift (normalize_subrun_policy v)) (\<lambda>p.
       io_modify (\<lambda>wo. wo\<lparr>wf_subrun_policy := p\<rparr>))"

text \<open>\<open>d[k]\<close>\<close>

definition dict_item :: "pydict \<Rightarrow> string \<Rightarrow> pyval res" where
  "dict_item d k = (case map_of d k of None \<Rightarrow> Inl (KeyError k) | Some v \<Rightarrow> Inr v)"

text \<open>The position of the first entry whose item equals a value.\<close>

fun find_entry :: "string \<Rightarrow> pyval \<Rightarrow> pydict list \<Rightarrow> nat option res" where
  "find_entry k v [] = Inr None"
| "find_entry k v (d # ds) =
     res_bind (dict_item d k) (\<lambda>x.
       if py_eq x v then Inr (Some 0)
       else res_bind (find_entry k v ds) (\<lambda>found. Inr (map_option Suc found)))"

definition register_artifact :: "pydict \<Rightarrow> (workflow, unit) io" where
  "register_artifact artifact =
     io_bind (io_lift (dict_item artifact ''artifact_id'')) (\<lambda>artifact_id.
     io_bind (io_get (\<lambda>wo. find_entry ''artifact_id'' artifact_id (wf_artifacts wo))) (\<lambda>looked.
     io_bind (io_lift looked) (\<lambda>found.
       io_when (found = None) (io_modify (\<lambda>wo. wo\<lparr>wf_artifacts := wf_artifacts wo @ [artifact]\<rparr>)))))"

definition register_memory :: "pydict \<Rightarrow> (workflow, unit) io" where
  "register_memory memory =
     io_bind (io_lift (dict_item memory ''memory_id'')) (\<lambda>memory_id.
     io_bind (io_get (\<lambda>wo. find_entry ''memory_id'' memory_id (wf_memories wo))) (\<lambda>looked.
     io_bind (io_lift looked) (\<lambda>found.
       io_modify (\<lambda>wo. wo\<lparr>wf_memories :=
         (case found of None \<Rightarrow> wf_memories wo @ [memory] | Some i \<Rightarrow> (wf_memories wo)[i := memory])\<rparr>))))"

definition can_spawn_child_workflow :: "workflow \<Rightarrow> bool" where
  "can_spawn_child_workflow wo \<longleftrightarrow>
     \<not> wf_depth wo \<ge> sp_max_depth (wf_subrun_policy wo) \<and>
     int (length (wf_child_workflow_ids wo)) < sp_max_children (wf_subrun_policy wo)"

definition register_child_workflow :: "string \<Rightarrow> (workflow, unit) io" where
  "register_child_workflow child_id =
     io_bind (io_get (\<lambda>wo. wo)) (\<lambda>wo.
       if child_id \<in> set (wf_child_workflow_ids wo) then io_return ()
       else if \<not> can_spawn_child_workflow wo then
         io_raise (ValueError (''Workflow `'' @ wf_workflow_id wo @ ''` cannot spawn more child workflows''))
       else io_modify (\<lambda>wo. wo\<lparr>wf_child_workflow_ids := wf_child_workflow_ids wo @ [child_id]\<rparr>))"

definition can_retry :: "workflow \<Rightarrow> bool" where
  "can_retry wo \<longleftrightarrow> rt_attempts_used (wf_retry_state wo) < rp_max_attempts (wf_retry_policy wo)"

section \<open>Waiting, resuming, finishing\<close>

text \<open>\<open>steps.insert(-1, s)\<close>: before the last step.\<close>

definition insert_before_last :: "'a \<Rightarrow> 'a list \<Rightarrow> 'a list" where
  "insert_before_last x xs = take (length xs - 1) xs @ [x] @ drop (length xs - 1) xs"

text \<open>
  The step a wait stands for: \<open>try: get_step except ValueError: insert a new one else: update
  its details\<close>.
\<close>

definition enter_wait_step :: "string \<Rightarrow> step_type \<Rightarrow> details \<Rightarrow> details \<Rightarrow> (workflow, unit) io" where
  "enter_wait_step step_id step_type new_details extra =
     io_bind (io_get (\<lambda>wo. find_step wo step_id)) (\<lambda>found.
       case found of
         None \<Rightarrow>
           io_modify (\<lambda>wo. wo\<lparr>wf_steps := insert_before_last
             \<lparr>st_step_id = step_id, st_step_type = step_type, st_status = St_in_progress,
              st_details = new_details, st_error = None\<rparr> (wf_steps wo)\<rparr>)
       | Some _ \<Rightarrow> modify_step step_id (\<lambda>s. s\<lparr>st_details := details_update (st_details s) extra\<rparr>))"

definition enter_waiting :: "(workflow, unit) io" where
  "enter_waiting =
     io_bind (io_get wf_status) (\<lambda>status. io_when (status \<noteq> Wf_waiting) (transition_workflow Wf_waiting))"

definition block_action :: "(workflow, unit) io" where
  "block_action =
     io_bind action_step (\<lambda>action.
       io_when (st_status action = St_in_progress) (transition_step (st_step_id action) St_blocked None))"

definition wait_for_approval :: "string \<Rightarrow> details \<Rightarrow> (workflow, unit) io" where
  "wait_for_approval approval_id extra =
     io_then block_action
     (io_then (enter_wait_step (approval_step_id approval_id) Approval_wait
                 (details_update [(''approval_id'', FV_val (PStr approval_id))] extra) extra)
     (io_then enter_waiting (set_current (approval_step_id approval_id))))"

definition schedule_retry :: "int \<Rightarrow> string \<Rightarrow> string \<Rightarrow> bool \<Rightarrow> (workflow, unit) io" where
  "schedule_retry now error_type message retryable =
     io_bind (io_get (\<lambda>wo. rt_attempts_used (wf_retry_state wo) + 1)) (\<lambda>attempt.
     io_bind (io_get (\<lambda>wo. add_seconds now (rp_backoff_seconds (wf_retry_policy wo)))) (\<lambda>later.
     io_bind (io_lift later) (\<lambda>us.
       let next_retry_at = utc_stamp us;
           err = [(''error_type'', PStr error_type), (''message'', PStr message),
                  (''retryable'', PBool retryable)];
           details = [(''attempt'', FV_val (PInt attempt)),
                      (''next_retry_at'', FV_stamp (Some next_retry_at)),
                      (''error'', FV_val (PDict err))]
       in
       io_then (enter_wait_step (retry_step_id attempt) Retry_wait details details)
       (io_then (io_modify (\<lambda>wo. wo\<lparr>wf_retry_state :=
           \<lparr>rt_attempts_used = attempt,
            rt_retries_remaining = max (rp_max_attempts (wf_retry_policy wo) - attempt) 0,
            rt_next_retry_at = Some next_retry_at, rt_last_error = Some err\<rparr>\<rparr>))
       (io_then enter_waiting (set_current (retry_step_id attempt)))))))"

definition wait_for_retry :: "int \<Rightarrow> string \<Rightarrow> string \<Rightarrow> bool \<Rightarrow> (workflow, unit) io" where
  "wait_for_retry now error_type message retryable =
     (if \<not> retryable then io_raise (ValueError ''Cannot schedule a retry for a terminal error'')
      else
        io_bind (io_get (\<lambda>wo. wo)) (\<lambda>wo.
          if \<not> can_retry wo then
            io_raise (ValueError (''Workflow `'' @ wf_workflow_id wo @ ''` has exhausted its retry budget''))
          else io_then block_action (schedule_retry now error_type message retryable)))"

text \<open>The common end of the two resumptions: the wait step is completed, the action goes on.\<close>

definition leave_wait_step :: "workflow_step \<Rightarrow> (workflow, unit) io" where
  "leave_wait_step s =
     io_then (io_when (st_status s = St_in_progress) (transition_step (st_step_id s) St_completed None))
     (io_then (io_bind (io_get wf_status) (\<lambda>status.
                 io_when (status = Wf_waiting) (transition_workflow Wf_running)))
     (io_bind action_step (\<lambda>action.
        io_when (st_status action = St_blocked) (transition_step (st_step_id action) St_in_progress None))))"

definition goto_action :: "(workflow, unit) io" where
  "goto_action = io_bind action_step (\<lambda>action. set_current (st_step_id action))"

definition resume_from_approval :: "string \<Rightarrow> (workflow, unit) io" where
  "resume_from_approval approval_id =
     io_bind (get_step (approval_step_id approval_id)) (\<lambda>s.
     io_then (leave_wait_step s) goto_action)"

definition resume_from_retry :: "(workflow, unit) io" where
  "resume_from_retry =
     io_bind current_step (\<lambda>s.
       if st_step_type s \<noteq> Retry_wait then
         io_bind (io_get wf_workflow_id) (\<lambda>workflow_id.
           io_raise (ValueError (''Workflow `'' @ workflow_id @ ''` is not waiting on a retry step'')))
       else
         io_then (leave_wait_step s)
         (io_then (io_modify (\<lambda>wo. wo\<lparr>wf_retry_state := (wf_retry_state wo)\<lparr>rt_next_retry_at := None\<rparr>\<rparr>))
            goto_action))"

definition complete_workflow :: "(workflow, unit) io" where
  "complete_workflow = io_then mark_action_completed complete_finish_step"

definition fail_workflow :: "string \<Rightarrow> string \<Rightarrow> (workflow, unit) io" where
  "fail_workflow error_type message =
     io_bind current_step (\<lambda>s.
     io_then (io_when (st_status s \<notin> {St_completed, St_failed})
                (transition_step (st_step_id s) St_failed
                  (Some [(''error_type'', PStr error_type), (''message'', PStr message)])))
       (io_bind (io_get wf_status) (\<lambda>status.
          io_when (status \<in> {Wf_waiting, Wf_running}) (transition_workflow Wf_failed))))"

section \<open>Persistence\<close>

record workflow_world = memory_world +
  workflows :: "workflow dir"

definition step_map :: "workflow \<Rightarrow> (string \<times> workflow_step) list" where
  "step_map wo = fold (\<lambda>s acc. dir_put acc (st_step_id s) s) (wf_steps wo) []"

text \<open>The entries of a list whose identifier is set and was not there before.\<close>

definition added_entries :: "string \<Rightarrow> pydict list \<Rightarrow> pydict list \<Rightarrow> pydict list" where
  "added_entries k old new =
     filter (\<lambda>d. dict_get d k \<noteq> PNone \<and> \<not> list_ex (\<lambda>e. py_eq (dict_get e k) (dict_get d k)) old) new"

definition step_events :: "stamp \<Rightarrow> workflow \<Rightarrow> workflow \<Rightarrow> workflow_event list" where
  "step_events t previous current =
     List.map_filter (\<lambda>(step_id, s).
       case map_of (step_map previous) step_id of
         None \<Rightarrow> Some (We_step_added t step_id (st_step_type s) (st_status s))
       | Some p \<Rightarrow>
           if st_status p \<noteq> st_status s
           then Some (We_step_status_changed t step_id (st_step_type s) (st_status p) (st_status s) (st_error s))
           else None) (step_map current)"

definition build_workflow_transition_history :: "workflow option \<Rightarrow> workflow \<Rightarrow> workflow_event list" where
  "build_workflow_transition_history previous current =
     (let t = wf_updated_at current
      in case previous of
        None \<Rightarrow> wf_transition_history current @
          [We_created t (wf_status current) (wf_current_step_id current) (wf_run_id current)
             (wf_latest_run_id current)]
      | Some p \<Rightarrow>
          wf_transition_history p @
          (if wf_status p \<noteq> wf_status current
           then [We_workflow_status_changed t (wf_status p) (wf_status current)] else []) @
          (if wf_current_step_id p \<noteq> wf_current_step_id current
           then [We_current_step_changed t (wf_current_step_id p) (wf_current_step_id current)] else []) @
          (if wf_latest_run_id p \<noteq> wf_latest_run_id current
           then [We_latest_run_attached t (wf_latest_run_id p) (wf_latest_run_id current)] else []) @
          step_events t p current @
          map (We_child_workflow_registered t)
            (filter (\<lambda>c. c \<notin> set (wf_child_workflow_ids p)) (wf_child_workflow_ids current)) @
          map (\<lambda>d. We_artifact_registered t (dict_get d ''artifact_id'') (dict_get d ''kind''))
            (added_entries ''artifact_id'' (wf_artifacts p) (wf_artifacts current)) @
          map (\<lambda>d. We_memory_registered t (dict_get d ''memory_id'') (dict_get d ''memory_type''))
            (added_entries ''memory_id'' (wf_memories p) (wf_memories current)) @
          (if wf_retry_state p \<noteq> wf_retry_state current
           then [We_retry_state_updated t (wf_retry_state current)] else []))"

definition write_workflow :: "workflow \<Rightarrow> ('z workflow_world_scheme, workflow) io" where
  "write_workflow wo =
     io_bind utc_now_iso (\<lambda>now.
     io_bind (io_get (\<lambda>w. dir_get (workflows w) (wf_workflow_id wo))) (\<lambda>previous.
       let snapshot = wo\<lparr>wf_updated_at := now\<rparr>;
           written = snapshot\<lparr>wf_transition_history := build_workflow_transition_history previous snapshot\<rparr>
       in io_then (io_modify (\<lambda>w. w\<lparr>workflows := dir_put (workflows w) (wf_workflow_id wo) written\<rparr>))
            (io_return written)))"

text \<open>The objects in which the file holds the typed parts.\<close>

definition opt_list :: "string list option \<Rightarrow> pyval" where
  "opt_list v = (case v of None \<Rightarrow> PNone | Some ss \<Rightarrow> PList (map PStr ss))"

definition subrun_policy_object :: "subrun_policy \<Rightarrow> pydict" where
  "subrun_policy_object p =
     [(''max_children'', PInt (sp_max_children p)), (''max_depth'', PInt (sp_max_depth p)),
      (''allowed_agents'', opt_list (sp_allowed_agents p)),
      (''allowed_capabilities'', opt_list (sp_allowed_capabilities p)),
      (''allowed_tools'', opt_list (sp_allowed_tools p))]"

definition delegation_object :: "delegation option \<Rightarrow> pydict" where
  "delegation_object dl =
     (case dl of
        None \<Rightarrow> []
      | Some d \<Rightarrow>
          [(''role'', opt_str (dl_role d)),
           (''assigned_by_workflow_id'', opt_str (dl_assigned_by_workflow_id d)),
           (''assigned_by_run_id'', opt_str (dl_assigned_by_run_id d)),
           (''allowed_capabilities'', PList (map PStr (dl_allowed_capabilities d))),
           (''allowed_tools'', PList (map PStr (dl_allowed_tools d))),
           (''task_intent'', opt_str (dl_task_intent d)),
           (''expected_output'', opt_str (dl_expected_output d)),
           (''completion_criteria'', PList (map PStr (dl_completion_criteria d)))])"

definition retry_policy_object :: "retry_policy \<Rightarrow> pydict" where
  "retry_policy_object p =
     [(''max_attempts'', PInt (rp_max_attempts p)), (''backoff_seconds'', PInt (rp_backoff_seconds p))]"

definition load_workflow :: "string \<Rightarrow> ('z workflow_world_scheme, workflow) io" where
  "load_workflow workflow_id =
     io_bind (io_get (\<lambda>w. dir_get (workflows w) workflow_id)) (\<lambda>found.
       case found of
         None \<Rightarrow> io_raise (FileNotFoundError (''Workflow not found: '' @ workflow_id))
       | Some wo \<Rightarrow>
           io_lift
             (res_bind (normalize_shared_memories (PList (map PDict (wf_shared_memories wo)))) (\<lambda>shared.
              res_bind (normalize_subrun_policy (PDict (subrun_policy_object (wf_subrun_policy wo)))) (\<lambda>subrun.
              res_bind (normalize_delegation (PDict (delegation_object (wf_delegation wo)))) (\<lambda>delegation.
              res_bind (normalize_retry_policy (PDict (retry_policy_object (wf_retry_policy wo)))) (\<lambda>retry.
                Inr (wo\<lparr>wf_shared_memories := shared, wf_subrun_policy := subrun,
                       wf_delegation := delegation, wf_retry_policy := retry\<rparr>)))))))"

end
