(* ===== verification/Worker_Loop.thy ===== *)
theory Worker_Loop
  imports Worker_Properties Workflow
begin

text \<open>
  src/runtime/worker_loop.py: the settings of a worker process and its polling loop. The environment
  variables are a function from names to values. \<open>sleep_fn\<close> is a parameter, a computation on the
  state, so that time may pass and other processes may act while the loop sleeps. Without a limit
  on jobs and idle polls the loop runs forever; the loop has fuel, one unit per iteration, and
  \<open>None\<close> is the result of a run that used it up. The theorem on termination shows how much fuel
  is enough when both limits are set.
\<close>

section \<open>Settings\<close>

definition first_env_value :: "(string \<Rightarrow> string option) \<Rightarrow> string list \<Rightarrow> string option" where
  "first_env_value env names = (case List.map_filter env names of [] \<Rightarrow> None | v # _ \<Rightarrow> Some v)"

text \<open>
  \<open>int(text)\<close> of ASCII text: an optional sign and decimal digits, single underscores between digits.
\<close>

fun digits_value :: "bool \<Rightarrow> int \<Rightarrow> string \<Rightarrow> int option" where
  "digits_value after_digit acc [] = (if after_digit then Some acc else None)"
| "digits_value after_digit acc (c # cs) =
     (if is_digit c then digits_value True (10 * acc + int (digit_value c)) cs
      else if c = CHR ''_'' \<and> after_digit then digits_value False acc cs
      else None)"

definition parse_int_text :: "string \<Rightarrow> int option" where
  "parse_int_text s =
     (case py_strip s of
        [] \<Rightarrow> None
      | c # cs \<Rightarrow>
          if c = CHR ''-'' then map_option uminus (digits_value False 0 cs)
          else if c = CHR ''+'' then digits_value False 0 cs
          else digits_value False 0 (c # cs))"

definition parse_positive_int :: "pyval \<Rightarrow> string \<Rightarrow> bool \<Rightarrow> int option res" where
  "parse_positive_int v field_name allow_zero =
     (let check = (\<lambda>n. if allow_zero
            then (if n < 0 then Inl (ValueError (''`'' @ field_name @ ''` must be zero or greater'')) else Inr (Some n))
            else (if n \<le> 0 then Inl (ValueError (''`'' @ field_name @ ''` must be greater than zero'')) else Inr (Some n)));
          no_int = Inl (ValueError (''`'' @ field_name @ ''` must be an integer''))
      in case v of
           PNone \<Rightarrow> Inr None
         | PStr s \<Rightarrow>
             if py_strip s = [] then Inr None
             else (case parse_int_text s of Some n \<Rightarrow> check n | None \<Rightarrow> no_int)
         | _ \<Rightarrow> (case py_int v of Some n \<Rightarrow> check n | None \<Rightarrow> no_int))"

definition parse_bool_env :: "string option \<Rightarrow> bool \<Rightarrow> bool res" where
  "parse_bool_env v dflt =
     (case v of
        None \<Rightarrow> Inr dflt
      | Some s \<Rightarrow>
          let n = py_lower (py_strip s)
          in if n \<in> {''1'', ''true'', ''yes'', ''on''} then Inr True
             else if n \<in> {''0'', ''false'', ''no'', ''off''} then Inr False
             else Inl (ValueError ''`CLARITYCLAW_WORKER_REPAIR_ORPHANS_ON_START` must be one of: 1, 0, true, false, yes, no, on, off''))"

section \<open>The loop\<close>

record loop_state =
  lp_processed :: nat
  lp_idle :: nat
  lp_errors :: "exc list"

record loop_limits =
  ll_poll_seconds :: int
  ll_max_jobs :: "int option"
  ll_max_idle :: "int option"

definition reached :: "int option \<Rightarrow> nat \<Rightarrow> bool" where
  "reached bound n = (case bound of None \<Rightarrow> False | Some b \<Rightarrow> int n \<ge> b)"

text \<open>\<open>try: result = run_next_job(...) except Exception\<close>\<close>

definition try_run_next ::
    "'z worker_world_scheme runner \<Rightarrow> string \<Rightarrow> ('z worker_world_scheme, exc + job option) io" where
  "try_run_next r worker_id =
     io_catch (io_bind (run_next_job r worker_id) (\<lambda>j. io_return (Inr j))) (\<lambda>e. io_return (Inl e))"

text \<open>One iteration after the check of \<open>max_jobs\<close>: the state afterwards, and whether it was the last.\<close>

definition loop_pass ::
    "'z worker_world_scheme runner \<Rightarrow> (int \<Rightarrow> ('z worker_world_scheme, unit) io) \<Rightarrow> loop_limits \<Rightarrow> string \<Rightarrow>
     loop_state \<Rightarrow> ('z worker_world_scheme, loop_state \<times> bool) io" where
  "loop_pass r sleep ll worker_id st =
     io_bind (try_run_next r worker_id) (\<lambda>outcome.
       case outcome of
         Inr (Some j) \<Rightarrow> io_return (st\<lparr>lp_processed := Suc (lp_processed st), lp_idle := 0\<rparr>, False)
       | _ \<Rightarrow>
           let failed = (case outcome of Inl e \<Rightarrow> [e] | Inr _ \<Rightarrow> []);
               st' = st\<lparr>lp_idle := Suc (lp_idle st), lp_errors := lp_errors st @ failed\<rparr>
           in
           io_then (heartbeat_worker worker_id)
             (if reached (ll_max_idle ll) (lp_idle st') then io_return (st', True)
              else
                io_then (io_when (ll_poll_seconds ll > 0) (sleep (ll_poll_seconds ll)))
                  (io_return (st', failed \<noteq> [] \<and> ll_max_idle ll = Some 0))))"

fun loop_passes ::
    "nat \<Rightarrow> 'z worker_world_scheme runner \<Rightarrow> (int \<Rightarrow> ('z worker_world_scheme, unit) io) \<Rightarrow> loop_limits \<Rightarrow> string \<Rightarrow>
     loop_state \<Rightarrow> ('z worker_world_scheme, loop_state option) io" where
  "loop_passes 0 r sleep ll worker_id st = io_return None"
| "loop_passes (Suc n) r sleep ll worker_id st =
     (if reached (ll_max_jobs ll) (lp_processed st) then io_return (Some st)
      else io_bind (loop_pass r sleep ll worker_id st) (\<lambda>(st', final).
        if final then io_return (Some st') else loop_passes n r sleep ll worker_id st'))"

record loop_args =
  la_worker_name :: "string option"
  la_lease_seconds :: pyval
  la_poll_seconds :: pyval
  la_max_jobs :: pyval
  la_max_idle_polls :: pyval
  la_repair_orphans_on_start :: bool

record loop_report =
  lr_worker :: worker
  lr_processed :: nat
  lr_idle :: nat
  lr_error_count :: nat
  lr_errors :: "exc list"
  lr_repaired :: "reset_view list"

definition DEFAULT_LEASE_SECONDS :: int where "DEFAULT_LEASE_SECONDS = 30"

text \<open>\<open>a or b\<close> of an optional number: zero counts as absent.\<close>

definition or_number :: "int option \<Rightarrow> int \<Rightarrow> int" where
  "or_number a b = (case a of None \<Rightarrow> b | Some n \<Rightarrow> if n = 0 then b else n)"

definition last_five :: "'a list \<Rightarrow> 'a list" where
  "last_five xs = drop (length xs - 5) xs"

definition run_worker_loop ::
    "nat \<Rightarrow> 'z worker_world_scheme runner \<Rightarrow> (int \<Rightarrow> ('z worker_world_scheme, unit) io) \<Rightarrow> loop_args \<Rightarrow>
     ('z worker_world_scheme, loop_report option) io" where
  "run_worker_loop fuel r sleep a =
     io_bind (io_lift (parse_positive_int (la_lease_seconds a) ''lease_seconds'' False)) (\<lambda>lease.
     io_bind (io_lift (parse_positive_int (la_poll_seconds a) ''poll_seconds'' True)) (\<lambda>poll.
     io_bind (io_lift (parse_positive_int (la_max_jobs a) ''max_jobs'' False)) (\<lambda>max_jobs.
     io_bind (io_lift (parse_positive_int (la_max_idle_polls a) ''max_idle_polls'' True)) (\<lambda>max_idle.
     io_bind (register_worker (la_worker_name a) (PInt (or_number lease DEFAULT_LEASE_SECONDS))) (\<lambda>u.
     io_bind (if la_repair_orphans_on_start a then repair_orphaned_workers PNone else io_return []) (\<lambda>repaired.
     io_bind (loop_passes fuel r sleep
                \<lparr>ll_poll_seconds = or_number poll 0, ll_max_jobs = max_jobs, ll_max_idle = max_idle\<rparr>
                (wk_worker_id u) \<lparr>lp_processed = 0, lp_idle = 0, lp_errors = []\<rparr>) (\<lambda>ended.
       case ended of
         None \<Rightarrow> io_return None
       | Some st \<Rightarrow>
           io_bind (load_worker (wk_worker_id u)) (\<lambda>final.
             io_return (Some
               \<lparr>lr_worker = final, lr_processed = lp_processed st, lr_idle = lp_idle st,
                lr_error_count = length (lp_errors st), lr_errors = last_five (lp_errors st),
                lr_repaired = repaired\<rparr>)))))))))"

section \<open>Defaults of the command line\<close>

definition worker_name_default :: "(string \<Rightarrow> string option) \<Rightarrow> string" where
  "worker_name_default env =
     or_string (first_env_value env [''CLARITYCLAW_WORKER_NAME'', ''CLARITYOS_WORKER_NAME'']) ''packaged-worker''"

definition lease_seconds_default :: "(string \<Rightarrow> string option) \<Rightarrow> int option res" where
  "lease_seconds_default env =
     parse_positive_int
       (PStr (or_string (first_env_value env [''CLARITYCLAW_WORKER_LEASE_SECONDS'', ''CLARITYOS_WORKER_LEASE_SECONDS''])
          (show_int DEFAULT_LEASE_SECONDS))) ''CLARITYCLAW_WORKER_LEASE_SECONDS'' False"

definition poll_seconds_default :: "(string \<Rightarrow> string option) \<Rightarrow> int option res" where
  "poll_seconds_default env =
     parse_positive_int
       (PStr (or_string (first_env_value env [''CLARITYCLAW_WORKER_POLL_SECONDS'', ''CLARITYOS_WORKER_POLL_SECONDS''])
          (show_int 2))) ''CLARITYCLAW_WORKER_POLL_SECONDS'' True"

definition repair_on_start :: "(string \<Rightarrow> string option) \<Rightarrow> bool \<Rightarrow> bool res" where
  "repair_on_start env no_repair =
     parse_bool_env (first_env_value env
       [''CLARITYCLAW_WORKER_REPAIR_ORPHANS_ON_START'', ''CLARITYOS_WORKER_REPAIR_ORPHANS_ON_START'']) (\<not> no_repair)"

section \<open>Termination\<close>

text \<open>
  The passes a loop may still make: each pass processes a job or is idle once more, and the idle
  count starts again with every job.
\<close>

definition idle_bound :: "int \<Rightarrow> nat" where
  "idle_bound n = nat (max n 1)"

definition passes_left :: "int \<Rightarrow> int \<Rightarrow> loop_state \<Rightarrow> nat" where
  "passes_left m n st = (nat m - lp_processed st) * idle_bound n + (idle_bound n - lp_idle st)"

definition within_limits :: "int \<Rightarrow> int \<Rightarrow> loop_state \<Rightarrow> bool" where
  "within_limits m n st \<longleftrightarrow> lp_processed st \<le> nat m \<and> lp_idle st \<le> idle_bound n"

lemma wp_loop_pass:
  assumes "within_limits m n st" and "lp_processed st < nat m" and "lp_idle st < idle_bound n"
    and "ll_max_idle ll = Some n"
  shows "wp (loop_pass r sleep ll k st)
     (\<lambda>p _. case p of (st', final) \<Rightarrow> within_limits m n st' \<and>
        (\<not> final \<longrightarrow> lp_idle st' < idle_bound n \<and> passes_left m n st' < passes_left m n st)) (\<lambda>_ _. True) w"
proof -
  let ?ok = "\<lambda>(st', final). within_limits m n st' \<and>
        (\<not> final \<longrightarrow> lp_idle st' < idle_bound n \<and> passes_left m n st' < passes_left m n st)"
  have pos: "0 < idle_bound n" by (simp add: idle_bound_def)
  have job: "?ok (st\<lparr>lp_processed := Suc (lp_processed st), lp_idle := 0\<rparr>, False)"
  proof -
    have "nat m - lp_processed st = Suc (nat m - Suc (lp_processed st))" using assms(2) by simp
    moreover have "x + b < b + x + b - i" if "i < b" for x b i :: nat using that by arith
    ultimately show ?thesis using assms pos by (simp add: within_limits_def passes_left_def)
  qed
  have inside: "within_limits m n (st\<lparr>lp_idle := Suc (lp_idle st), lp_errors := es\<rparr>)" for es
    using assms by (simp add: within_limits_def)
  have more: "Suc (lp_idle st) < idle_bound n \<and>
      passes_left m n (st\<lparr>lp_idle := Suc (lp_idle st), lp_errors := es\<rparr>) < passes_left m n st"
    if "\<not> reached (Some n) (Suc (lp_idle st))" for es
  proof -
    have "Suc (lp_idle st) < idle_bound n" using that by (auto simp: reached_def idle_bound_def)
    then show ?thesis by (simp add: passes_left_def)
  qed
  have rest: "wp (let failed = (case out of Inl e \<Rightarrow> [e] | Inr _ \<Rightarrow> []);
               st' = st\<lparr>lp_idle := Suc (lp_idle st), lp_errors := lp_errors st @ failed\<rparr>
           in io_then (heartbeat_worker k)
             (if reached (ll_max_idle ll) (lp_idle st') then io_return (st', True)
              else io_then (io_when (ll_poll_seconds ll > 0) (sleep (ll_poll_seconds ll)))
                  (io_return (st', failed \<noteq> [] \<and> ll_max_idle ll = Some 0))))
       (\<lambda>p _. ?ok p) (\<lambda>_ _. True) w'" for out :: "exc + job option" and w'
    unfolding Let_def wp_then assms(4)
    by (rule wp_any) (simp_all add: wp inside more wp_any)
  show ?thesis
    unfolding loop_pass_def wp_bind
  proof (rule wp_any)
    fix out :: "exc + job option" and w'
    show "wp (case out of Inr (Some j) \<Rightarrow> io_return (st\<lparr>lp_processed := Suc (lp_processed st), lp_idle := 0\<rparr>, False)
       | _ \<Rightarrow> (let failed = (case out of Inl e \<Rightarrow> [e] | Inr _ \<Rightarrow> []);
               st' = st\<lparr>lp_idle := Suc (lp_idle st), lp_errors := lp_errors st @ failed\<rparr>
           in io_then (heartbeat_worker k)
             (if reached (ll_max_idle ll) (lp_idle st') then io_return (st', True)
              else io_then (io_when (ll_poll_seconds ll > 0) (sleep (ll_poll_seconds ll)))
                  (io_return (st', failed \<noteq> [] \<and> ll_max_idle ll = Some 0)))))
       (\<lambda>p _. case p of (st', final) \<Rightarrow> within_limits m n st' \<and>
        (\<not> final \<longrightarrow> lp_idle st' < idle_bound n \<and> passes_left m n st' < passes_left m n st)) (\<lambda>_ _. True) w'"
      using job rest [of out w'] by (auto simp: wp split: sum.splits option.splits)
  qed simp
qed

lemma wp_loop_passes:
  assumes "within_limits m n st" and "lp_idle st < idle_bound n"
    and "ll_max_jobs ll = Some m" and "ll_max_idle ll = Some n" and "passes_left m n st < fuel"
  shows "wp (loop_passes fuel r sleep ll k st)
     (\<lambda>ended _. \<exists>st'. ended = Some st' \<and> within_limits m n st') (\<lambda>_ _. True) w"
  using assms
proof (induction fuel arbitrary: st w)
  case (Suc fuel)
  show ?case
  proof (cases "reached (Some m) (lp_processed st)")
    case True
    then show ?thesis using Suc.prems by (simp add: wp)
  next
    case False
    then have "lp_processed st < nat m" by (simp add: reached_def)
    note pass = wp_loop_pass [OF Suc.prems(1) this Suc.prems(2,4)]
    show ?thesis
      unfolding loop_passes.simps Suc.prems(3) wp_if wp_bind using False
      by (simp, intro wp_mono [OF pass]) (use Suc.prems(3-5) in \<open>auto simp: wp intro!: Suc.IH\<close>)
  qed
qed simp

text \<open>
  C20: the polling loop ends. With a limit \<open>m\<close> on the jobs and a limit \<open>n\<close> on the idle polls, and
  whatever the jobs, the sleeping and the other processes do, the worker loop makes at most
  \<open>(m + 1) * max n 1\<close> passes: with more fuel than that it never runs out, so it returns a report or
  raises; the report counts at most \<open>m\<close> jobs and at most \<open>max n 1\<close> idle polls in a row, and carries
  at most five errors.
\<close>

theorem worker_loop_ends:
  assumes "parse_positive_int (la_max_jobs a) ''max_jobs'' False = Inr (Some m)"
    and "parse_positive_int (la_max_idle_polls a) ''max_idle_polls'' True = Inr (Some n)"
    and "(nat m + 1) * nat (max n 1) < fuel"
  shows "case fst (run_worker_loop fuel r sleep a w) of
       Inl e \<Rightarrow> True
     | Inr None \<Rightarrow> False
     | Inr (Some rp) \<Rightarrow> lr_processed rp \<le> nat m \<and> lr_idle rp \<le> nat (max n 1) \<and> length (lr_errors rp) \<le> 5"
proof -
  let ?st = "\<lparr>lp_processed = 0, lp_idle = 0, lp_errors = []\<rparr>"
  let ?ok = "\<lambda>out. \<exists>rp. out = Some rp \<and> lr_processed rp \<le> nat m \<and> lr_idle rp \<le> nat (max n 1) \<and> length (lr_errors rp) \<le> 5"
  have passes: "wp (loop_passes fuel r sleep \<lparr>ll_poll_seconds = p, ll_max_jobs = Some m, ll_max_idle = Some n\<rparr> k ?st)
     (\<lambda>ended _. \<exists>st'. ended = Some st' \<and> within_limits m n st') (\<lambda>_ _. True) w'" for p k w'
    by (rule wp_loop_passes)
      (use assms(3) in \<open>simp_all add: within_limits_def idle_bound_def passes_left_def\<close>)
  have report: "wp (case ended of None \<Rightarrow> io_return None
       | Some st \<Rightarrow> io_bind (load_worker k) (\<lambda>final. io_return (Some
               \<lparr>lr_worker = final, lr_processed = lp_processed st, lr_idle = lp_idle st,
                lr_error_count = length (lp_errors st), lr_errors = last_five (lp_errors st),
                lr_repaired = repaired\<rparr>))) (\<lambda>out _. ?ok out) (\<lambda>_ _. True) w'"
    if e: "\<exists>st'. ended = Some st' \<and> within_limits m n st'" for ended k repaired w'
  proof -
    from e obtain st' where "ended = Some st'" "within_limits m n st'" by blast
    then show ?thesis
      by (simp add: wp, intro wp_any) (simp_all add: within_limits_def idle_bound_def last_five_def)
  qed
  have "wp (run_worker_loop fuel r sleep a) (\<lambda>out _. ?ok out) (\<lambda>_ _. True) w"
    unfolding run_worker_loop_def wp_bind wp_lift assms(1,2) sum.case
    by (auto split: sum.splits intro!: wp_any wp_mono [OF passes] report)
  then show ?thesis by (auto simp: wp_def split: prod.splits sum.splits)
qed

definition sample_loop :: loop_args where
  "sample_loop = \<lparr>la_worker_name = None, la_lease_seconds = PInt 60, la_poll_seconds = PInt 0,
     la_max_jobs = PInt 2, la_max_idle_polls = PInt 1, la_repair_orphans_on_start = True\<rparr>"

theorem worker_loop_ends_witness:
  "case fst (run_worker_loop 4 idle_runner (\<lambda>n. io_return ()) sample_loop empty_system) of
     Inl e \<Rightarrow> True | Inr None \<Rightarrow> False | Inr (Some rp) \<Rightarrow> lr_processed rp \<le> 2 \<and> lr_idle rp \<le> 1 \<and> length (lr_errors rp) \<le> 5"
proof -
  have 1: "parse_positive_int (la_max_jobs sample_loop) ''max_jobs'' False = Inr (Some 2)"
    and 2: "parse_positive_int (la_max_idle_polls sample_loop) ''max_idle_polls'' True = Inr (Some 1)"
    by (simp_all add: sample_loop_def parse_positive_int_def Let_def)
  from worker_loop_ends [OF 1 2, of 4 idle_runner "\<lambda>n. io_return ()" empty_system] show ?thesis
    by (simp split: sum.splits option.splits)
qed

end
