(* ===== verification/Budget.thy ===== *)
theory Budget
  imports Prelude
begin

text \<open>
  src/runtime/budget.py: token estimates and the four limits of a run. The performance counter
  is read in seconds; a reading is an exact rational number here (the \<open>float\<close> rounding of
  the subtraction is not modelled, \<open>round(_, 2)\<close> is, with ties to even). Each operation
  gets the readings it makes as arguments. \<open>json.dumps\<close> of a non-string value is the
  parameter \<open>json_len\<close>, the length of its text.
\<close>

definition ceil_div4 :: "int \<Rightarrow> int" where
  "ceil_div4 n = - ((- n) div 4)"

definition estimate_tokens :: "(pyval \<Rightarrow> int) \<Rightarrow> pyval \<Rightarrow> int" where
  "estimate_tokens json_len v =
     (if v = PNone then 0
      else (let n = (case v of PStr s \<Rightarrow> int (length s) | _ \<Rightarrow> json_len v)
            in if n = 0 then 0 else max 1 (ceil_div4 n)))"

text \<open>\<open>round(x, 2)\<close>: to the nearest hundredth, ties to the even one.\<close>

definition round2 :: "rat \<Rightarrow> rat" where
  "round2 x =
     (let y = x * 100; f = \<lfloor>y\<rfloor>; r = y - of_int f
      in of_int (if r < 1 / 2 \<or> (r = 1 / 2 \<and> even f) then f else f + 1) / 100)"

record run_budget =
  max_steps :: "int option"
  max_tool_calls :: "int option"
  max_tokens :: "int option"
  max_wall_clock_ms :: "int option"
  started_at :: rat
  steps_used :: int
  tool_calls_used :: int
  tokens_used :: int

definition elapsed_ms :: "run_budget \<Rightarrow> rat \<Rightarrow> rat" where
  "elapsed_ms b perf_counter = round2 ((perf_counter - started_at b) * 1000)"

definition over_limit :: "int option \<Rightarrow> int \<Rightarrow> bool" where
  "over_limit lmt n \<longleftrightarrow> (case lmt of None \<Rightarrow> False | Some m \<Rightarrow> n \<ge> m)"

definition ensure_wall_clock_remaining :: "rat \<Rightarrow> (run_budget, unit) io" where
  "ensure_wall_clock_remaining now =
     io_bind (io_get (\<lambda>b. case max_wall_clock_ms b of None \<Rightarrow> False
                            | Some m \<Rightarrow> elapsed_ms b now > of_int m)) (\<lambda>exceeded.
       if exceeded
       then io_raise (BudgetExceededError ''Run exceeded `max_wall_clock_ms` budget'' ''max_wall_clock_ms'')
       else io_return ())"

definition consume_step :: "rat \<Rightarrow> (run_budget, unit) io" where
  "consume_step now =
     io_then (ensure_wall_clock_remaining now)
       (io_bind (io_get (\<lambda>b. over_limit (max_steps b) (steps_used b))) (\<lambda>spent.
          if spent then io_raise (BudgetExceededError ''Run exceeded `max_steps` budget'' ''max_steps'')
          else io_modify (\<lambda>b. b\<lparr>steps_used := steps_used b + 1\<rparr>)))"

definition consume_tool_call :: "rat \<Rightarrow> (run_budget, unit) io" where
  "consume_tool_call now =
     io_then (ensure_wall_clock_remaining now)
       (io_bind (io_get (\<lambda>b. over_limit (max_tool_calls b) (tool_calls_used b))) (\<lambda>spent.
          if spent
          then io_raise (BudgetExceededError ''Run exceeded `max_tool_calls` budget'' ''max_tool_calls'')
          else io_modify (\<lambda>b. b\<lparr>tool_calls_used := tool_calls_used b + 1\<rparr>)))"

definition consume_tokens :: "rat \<Rightarrow> int \<Rightarrow> (run_budget, unit) io" where
  "consume_tokens now token_count =
     io_then (ensure_wall_clock_remaining now)
       (if token_count < 0 then io_raise (ValueError ''Token count cannot be negative'')
        else io_bind (io_get (\<lambda>b. case max_tokens b of None \<Rightarrow> False
                                   | Some m \<Rightarrow> tokens_used b + token_count > m)) (\<lambda>spent.
          if spent then io_raise (BudgetExceededError ''Run exceeded `max_tokens` budget'' ''max_tokens'')
          else io_modify (\<lambda>b. b\<lparr>tokens_used := tokens_used b + token_count\<rparr>)))"

record limits_view =
  lv_max_steps :: "int option"
  lv_max_tool_calls :: "int option"
  lv_max_tokens :: "int option"
  lv_max_wall_clock_ms :: "int option"

definition limits_snapshot :: "run_budget \<Rightarrow> limits_view" where
  "limits_snapshot b =
     \<lparr>lv_max_steps = max_steps b, lv_max_tool_calls = max_tool_calls b,
      lv_max_tokens = max_tokens b, lv_max_wall_clock_ms = max_wall_clock_ms b\<rparr>"

record usage_view =
  uv_steps_used :: int
  uv_tool_calls_used :: int
  uv_tokens_used :: int
  uv_wall_clock_ms :: rat

definition usage_snapshot :: "run_budget \<Rightarrow> rat \<Rightarrow> usage_view" where
  "usage_snapshot b now =
     \<lparr>uv_steps_used = steps_used b, uv_tool_calls_used = tool_calls_used b,
      uv_tokens_used = tokens_used b, uv_wall_clock_ms = elapsed_ms b now\<rparr>"

text \<open>\<open>load_budget\<close>: the limits of a configuration (absent ones are \<open>None\<close>), counters at zero.\<close>

definition load_budget :: "limits_view option \<Rightarrow> rat \<Rightarrow> run_budget" where
  "load_budget config now =
     (let c = (case config of
                 None \<Rightarrow> \<lparr>lv_max_steps = None, lv_max_tool_calls = None, lv_max_tokens = None,
                         lv_max_wall_clock_ms = None\<rparr>
               | Some c \<Rightarrow> c)
      in \<lparr>max_steps = lv_max_steps c, max_tool_calls = lv_max_tool_calls c,
          max_tokens = lv_max_tokens c, max_wall_clock_ms = lv_max_wall_clock_ms c,
          started_at = now, steps_used = 0, tool_calls_used = 0, tokens_used = 0\<rparr>)"

section \<open>A run as a sequence of consumptions\<close>

datatype budget_op = Consume_step rat | Consume_tool_call rat | Consume_tokens rat int | Check_clock rat

fun budget_do :: "budget_op \<Rightarrow> (run_budget, unit) io" where
  "budget_do (Consume_step now) = consume_step now"
| "budget_do (Consume_tool_call now) = consume_tool_call now"
| "budget_do (Consume_tokens now n) = consume_tokens now n"
| "budget_do (Check_clock now) = ensure_wall_clock_remaining now"

definition budget_run :: "budget_op list \<Rightarrow> (run_budget, unit list) io" where
  "budget_run ops = io_map budget_do ops"

definition in_limit :: "int option \<Rightarrow> int \<Rightarrow> bool" where
  "in_limit lmt n \<longleftrightarrow> 0 \<le> n \<and> (case lmt of None \<Rightarrow> True | Some m \<Rightarrow> n \<le> max m 0)"

definition budget_ok :: "run_budget \<Rightarrow> bool" where
  "budget_ok b \<longleftrightarrow> in_limit (max_steps b) (steps_used b) \<and>
     in_limit (max_tool_calls b) (tool_calls_used b) \<and> in_limit (max_tokens b) (tokens_used b)"

definition limits_are :: "limits_view \<Rightarrow> run_budget \<Rightarrow> bool" where
  "limits_are l b \<longleftrightarrow> limits_snapshot b = l \<and> budget_ok b"

text \<open>
  The contract of a metered resource: consuming either raises and leaves the meter as it was, or
  adds the requested amount and stays within the limit.
\<close>

locale meter =
  fixes consume :: "rat \<Rightarrow> int \<Rightarrow> ('s, unit) io"
    and used :: "'s \<Rightarrow> int"
    and allowed :: "'s \<Rightarrow> int option"
    and inv :: "'s \<Rightarrow> bool"
  assumes refuse: "consume now n s = (Inl e, s') \<Longrightarrow> s' = s"
    and accept: "consume now n s = (Inr u, s') \<Longrightarrow> used s' = used s + n \<and> allowed s' = allowed s"
    and inv_bound: "inv s \<Longrightarrow> in_limit (allowed s) (used s)"
    and inv_keeps: "inv s \<Longrightarrow> consume now n s = (Inr u, s') \<Longrightarrow> inv s'"
begin

lemma run_exact:
  assumes "io_map (\<lambda>(now, n). consume now n) xs s = (Inr us, s')"
  shows "used s' = used s + sum_list (map snd xs) \<and> allowed s' = allowed s"
  using assms
proof (induction xs arbitrary: s us)
  case Nil
  then show ?case by (simp add: io_return_def)
next
  case (Cons x xs)
  obtain now n where x: "x = (now, n)" by (cases x)
  obtain u s1 where c: "consume now n s = (Inr u, s1)"
    using Cons.prems by (auto simp: x io_bind_def split: prod.splits sum.splits)
  with Cons.prems obtain vs where "io_map (\<lambda>(now, n). consume now n) xs s1 = (Inr vs, s')"
    by (auto simp: x io_bind_def io_return_def split: prod.splits sum.splits)
  from Cons.IH [OF this] accept [OF c] show ?case by (simp add: x)
qed

lemma inv_run: "inv s \<Longrightarrow> inv (snd (io_map (\<lambda>(now, n). consume now n) xs s))"
proof (induction xs arbitrary: s)
  case Nil
  then show ?case by (simp add: io_return_def)
next
  case (Cons x xs)
  obtain now n where x: "x = (now, n)" by (cases x)
  show ?case
  proof (cases "consume now n s")
    case (Pair r s1)
    show ?thesis
    proof (cases r)
      case (Inl e)
      with Pair have "s1 = s" by (auto intro: refuse)
      with Pair Inl Cons.prems show ?thesis by (simp add: x io_bind_def)
    next
      case (Inr u)
      with Pair Cons.prems have "inv s1" by (auto intro: inv_keeps)
      from Cons.IH [OF this] Pair Inr show ?thesis
        by (auto simp: x io_bind_def io_return_def split: prod.splits sum.splits)
    qed
  qed
qed

lemma never_over:
  assumes "inv s" and "io_map (\<lambda>(now, n). consume now n) xs s = (r, s')"
  shows "in_limit (allowed s') (used s')"
  using inv_run [OF assms(1), of xs] assms(2) by (intro inv_bound) simp

end

lemma wp_ensure_wall_clock [wp]:
  "wp (ensure_wall_clock_remaining now) Q E b =
     (if (case max_wall_clock_ms b of None \<Rightarrow> False | Some m \<Rightarrow> elapsed_ms b now > of_int m)
      then E (BudgetExceededError ''Run exceeded `max_wall_clock_ms` budget'' ''max_wall_clock_ms'') b
      else Q () b)"
  by (simp add: ensure_wall_clock_remaining_def wp)

definition clock_exceeded :: "run_budget \<Rightarrow> rat \<Rightarrow> bool" where
  "clock_exceeded b now \<longleftrightarrow>
     (case max_wall_clock_ms b of None \<Rightarrow> False | Some m \<Rightarrow> elapsed_ms b now > of_int m)"

definition exceeded :: "string \<Rightarrow> exc" where
  "exceeded name = BudgetExceededError (''Run exceeded `'' @ name @ ''` budget'') name"

lemma ensure_wall_clock_eq:
  "ensure_wall_clock_remaining now b =
     (if clock_exceeded b now then (Inl (exceeded ''max_wall_clock_ms''), b) else (Inr (), b))"
  by (simp add: ensure_wall_clock_remaining_def clock_exceeded_def exceeded_def io_bind_def io_get_def
      io_raise_def io_return_def)

lemma consume_step_eq:
  "consume_step now b =
     (if clock_exceeded b now then (Inl (exceeded ''max_wall_clock_ms''), b)
      else if over_limit (max_steps b) (steps_used b) then (Inl (exceeded ''max_steps''), b)
      else (Inr (), b\<lparr>steps_used := steps_used b + 1\<rparr>))"
  by (simp add: consume_step_def ensure_wall_clock_eq exceeded_def io_then_def io_bind_def io_get_def
      io_raise_def io_modify_def)

lemma consume_tool_call_eq:
  "consume_tool_call now b =
     (if clock_exceeded b now then (Inl (exceeded ''max_wall_clock_ms''), b)
      else if over_limit (max_tool_calls b) (tool_calls_used b) then (Inl (exceeded ''max_tool_calls''), b)
      else (Inr (), b\<lparr>tool_calls_used := tool_calls_used b + 1\<rparr>))"
  by (simp add: consume_tool_call_def ensure_wall_clock_eq exceeded_def io_then_def io_bind_def io_get_def
      io_raise_def io_modify_def)

definition tokens_spent :: "run_budget \<Rightarrow> int \<Rightarrow> bool" where
  "tokens_spent b n \<longleftrightarrow> (case max_tokens b of None \<Rightarrow> False | Some m \<Rightarrow> tokens_used b + n > m)"

lemma consume_tokens_eq:
  "consume_tokens now n b =
     (if clock_exceeded b now then (Inl (exceeded ''max_wall_clock_ms''), b)
      else if n < 0 then (Inl (ValueError ''Token count cannot be negative''), b)
      else if tokens_spent b n then (Inl (exceeded ''max_tokens''), b)
      else (Inr (), b\<lparr>tokens_used := tokens_used b + n\<rparr>))"
  by (simp add: consume_tokens_def ensure_wall_clock_eq exceeded_def tokens_spent_def io_then_def
      io_bind_def io_get_def io_raise_def io_modify_def)

lemmas budget_eqs = ensure_wall_clock_eq consume_step_eq consume_tool_call_eq consume_tokens_eq

lemma in_limit_step: "in_limit m n \<Longrightarrow> \<not> over_limit m n \<Longrightarrow> in_limit m (n + 1)"
  by (auto simp: in_limit_def over_limit_def split: option.splits)

lemma in_limit_tokens:
  "in_limit (max_tokens b) (tokens_used b) \<Longrightarrow> 0 \<le> n \<Longrightarrow> \<not> tokens_spent b n \<Longrightarrow>
   in_limit (max_tokens b) (tokens_used b + n)"
  by (auto simp: in_limit_def tokens_spent_def split: option.splits)

text \<open>
  The three counters are meters. A step and a tool call consume one unit; asking the meter for
  another amount is outside the code's interface and is refused.
\<close>

definition consume_unit :: "(rat \<Rightarrow> (run_budget, unit) io) \<Rightarrow> rat \<Rightarrow> int \<Rightarrow> (run_budget, unit) io" where
  "consume_unit c now n = (if n = 1 then c now else io_raise (ValueError ''one unit at a time''))"

interpretation step_meter: meter "consume_unit consume_step" steps_used max_steps budget_ok
  by unfold_locales
    (auto simp: consume_unit_def io_raise_def consume_step_eq budget_ok_def in_limit_step split: if_splits)

interpretation tool_call_meter: meter "consume_unit consume_tool_call" tool_calls_used max_tool_calls budget_ok
  by unfold_locales
    (auto simp: consume_unit_def io_raise_def consume_tool_call_eq budget_ok_def in_limit_step split: if_splits)

interpretation token_meter: meter consume_tokens tokens_used max_tokens budget_ok
  by unfold_locales
    (auto simp: consume_tokens_eq budget_ok_def in_limit_tokens split: if_splits)

lemma budget_do_keeps:
  assumes "limits_are l b"
  shows "limits_are l (snd (budget_do op b))"
  using assms
  by (cases op)
    (auto simp: limits_are_def limits_snapshot_def budget_eqs budget_ok_def in_limit_step in_limit_tokens)

lemma keeps_budget_run: "keeps (limits_are l) (budget_run ops)"
  unfolding budget_run_def by (intro keeps_map) (simp add: keeps_def budget_do_keeps)

text \<open>
  C27: however a run interleaves steps, tool calls, token charges and clock checks, and whether
  they succeed or raise, a budget loaded from a configuration never exceeds its step, tool-call
  or token limits and never changes its limits.
\<close>

theorem budget_never_exceeded:
  "budget_ok (snd (budget_run ops (load_budget config now))) \<and>
   limits_snapshot (snd (budget_run ops (load_budget config now))) =
     limits_snapshot (load_budget config now)"
proof -
  have "limits_are (limits_snapshot (load_budget config now)) (load_budget config now)"
    by (auto simp: limits_are_def load_budget_def budget_ok_def in_limit_def Let_def split: option.splits)
  from keeps_budget_run [unfolded keeps_def, rule_format, OF this, of ops] show ?thesis
    by (simp add: limits_are_def)
qed

text \<open>
  When a sequence of token charges is accepted, the counter has grown by exactly their sum
  and is within the limit; a charge that is refused (for the clock, the sign or the limit)
  leaves the budget as it was.
\<close>

theorem token_charges_exact:
  assumes "budget_ok b"
  shows "(io_map (\<lambda>(now, n). consume_tokens now n) charges b = (Inr us, b') \<longrightarrow>
      tokens_used b' = tokens_used b + sum_list (map snd charges) \<and> in_limit (max_tokens b') (tokens_used b')) \<and>
    (consume_tokens now n b = (Inl e, b'') \<longrightarrow> b'' = b)"
  using token_meter.run_exact [of charges b us b'] token_meter.never_over [OF assms, of charges]
    token_meter.refuse [of now n b e b'']
  by blast

theorem token_charges_exact_witness:
  "tokens_used (snd (io_map (\<lambda>(now, n). consume_tokens now n) [(0, 3), (0, 4)]
     (load_budget (Some \<lparr>lv_max_steps = None, lv_max_tool_calls = None, lv_max_tokens = Some 10,
        lv_max_wall_clock_ms = None\<rparr>) 0))) = 7"
proof -
  let ?b = "load_budget (Some \<lparr>lv_max_steps = None, lv_max_tool_calls = None, lv_max_tokens = Some 10,
        lv_max_wall_clock_ms = None\<rparr>) 0"
  have ok: "budget_ok ?b" by (simp add: budget_ok_def load_budget_def in_limit_def)
  have run: "io_map (\<lambda>(now, n). consume_tokens now n) [(0, 3), (0, 4)] ?b =
      (Inr [(), ()], ?b\<lparr>tokens_used := 7\<rparr>)"
    by (simp add: io_bind_def io_return_def consume_tokens_eq clock_exceeded_def tokens_spent_def load_budget_def)
  from token_charges_exact [OF ok, of "[(0, 3), (0, 4)]" "[(), ()]" "?b\<lparr>tokens_used := 7\<rparr>"] run
  show ?thesis by (simp add: load_budget_def)
qed

end
