(* ===== verification/Contracts.thy ===== *)
theory Contracts
  imports State_Files
begin

text \<open>
  src/runtime/contracts.py: the result objects of tools and the classification of errors, and
  src/runtime/errors.py (the exceptions themselves are the datatype \<open>exc\<close> of the prelude;
  none of the classes of errors.py descends from the three classes tested here). \<open>OtherError\<close>
  stands for classes that descend from none of the three.
\<close>

definition classify_error :: "exc \<Rightarrow> string" where
  "classify_error e =
     (case e of
        FileNotFoundError m \<Rightarrow> ''not_found''
      | TimeoutError m \<Rightarrow> ''timeout''
      | ValueError m \<Rightarrow> ''validation_error''
      | _ \<Rightarrow> ''tool_error'')"

definition build_error_envelope :: "exc \<Rightarrow> pydict" where
  "build_error_envelope e =
     (let failure_type = classify_error e
      in [(''failure_type'', PStr failure_type), (''error_type'', PStr (exc_type e)),
          (''message'', PStr (exc_str e)), (''retryable'', PBool (failure_type = ''timeout''))])"

definition build_tool_success :: "string \<Rightarrow> pydict \<Rightarrow> pyval \<Rightarrow> pydict option \<Rightarrow> pydict" where
  "build_tool_success name args output metadata =
     [(''name'', PStr name), (''ok'', PBool True), (''input'', PDict [(''args'', PDict args)]),
      (''output'', PDict [(''value'', output)]), (''error'', PNone),
      (''metadata'', PDict (case metadata of None \<Rightarrow> [] | Some m \<Rightarrow> m))]"

definition build_tool_failure :: "string \<Rightarrow> pydict \<Rightarrow> exc \<Rightarrow> pydict option \<Rightarrow> pydict" where
  "build_tool_failure name args e metadata =
     [(''name'', PStr name), (''ok'', PBool False), (''input'', PDict [(''args'', PDict args)]),
      (''output'', PNone), (''error'', PDict (build_error_envelope e)),
      (''metadata'', PDict (case metadata of None \<Rightarrow> [] | Some m \<Rightarrow> m))]"

text \<open>
  \<open>result.get("error") or {}\<close>: an error that is neither absent nor an object has no
  \<open>get\<close>; the outer \<open>Inl\<close> is that attribute error, the inner value the exception built.
\<close>

definition exception_from_tool_result :: "pydict \<Rightarrow> exc res" where
  "exception_from_tool_result result =
     (let error = dict_get result ''error''
      in if py_truthy error \<and> \<not> is_dict error
         then Inl (OtherError ''AttributeError'' ''object has no attribute get'')
         else
           (let d = (case error of PDict d \<Rightarrow> d | _ \<Rightarrow> []);
                failure_type = dict_get d ''failure_type'';
                message = py_str (dict_get_or d ''message'' (PStr ''Tool failed''))
            in if py_eq failure_type (PStr ''not_found'') then Inr (FileNotFoundError message)
               else if py_eq failure_type (PStr ''validation_error'') then Inr (ValueError message)
               else if py_eq failure_type (PStr ''timeout'') then Inr (TimeoutError message)
               else Inr (RuntimeError message)))"

lemma py_str_str [simp]: "py_str (PStr s) = s"
  by (simp add: py_str.simps)



end
