(* ===== verification/Workflow_Invariants.thy ===== *)
theory Workflow_Invariants
  imports Workflow
begin

text \<open>
  Invariants of the workflow state machine. The operations change a workflow through a few
  primitive mutations only: a guarded change of a step's status, a change of its details, a
  guarded change of the workflow's status, a move of the current step to an existing step, the
  insertion of a new wait step before the last one, and changes of fields that play no role in
  the machine. The locale \<open>workflow_invariant\<close> asks that a predicate be kept by each of these;
  every operation then keeps it, whether it returns or raises.
\<close>

section \<open>Lists of steps\<close>

definition has_step :: "string \<Rightarrow> workflow \<Rightarrow> bool" where
  "has_step step_id wo \<longleftrightarrow> find_step wo step_id \<noteq> None"

lemma find_modify_first:
  assumes "\<And>s. st_step_id (f s) = st_step_id s"
  shows "find (\<lambda>s. st_step_id s = k) (modify_first step_id f ss) =
    (if k = step_id then map_option f (find (\<lambda>s. st_step_id s = k) ss)
     else find (\<lambda>s. st_step_id s = k) ss)"
  using assms by (induction ss) auto

lemma find_step_id: "find_step wo k = Some s \<Longrightarrow> st_step_id s = k"
  unfolding find_step_def by (metis (mono_tags, lifting) find_Some_iff)

lemma find_append:
  "find P (xs @ ys) = (case find P xs of None \<Rightarrow> find P ys | Some x \<Rightarrow> Some x)"
  by (induction xs) auto

lemma find_insert_before_last:
  assumes "find (\<lambda>s. st_step_id s = st_step_id x) ss = None"
  shows "find (\<lambda>s. st_step_id s = k) (insert_before_last x ss) =
    (if k = st_step_id x then Some x else find (\<lambda>s. st_step_id s = k) ss)"
proof -
  let ?n = "length ss - 1"
  have split: "find P ss = (case find P (take ?n ss) of None \<Rightarrow> find P (drop ?n ss) | Some x \<Rightarrow> Some x)" for P
    by (metis append_take_drop_id find_append)
  have "find (\<lambda>s. st_step_id s = st_step_id x) (take ?n ss) = None"
    using assms split [of "\<lambda>s. st_step_id s = st_step_id x"] by (simp split: option.splits)
  then show ?thesis
    unfolding insert_before_last_def find_append
    by (auto simp: split [of "\<lambda>s. st_step_id s = k"] split: option.split)
qed

section \<open>Primitive mutations\<close>

definition with_status :: "string \<Rightarrow> step_status \<Rightarrow> pydict option \<Rightarrow> workflow \<Rightarrow> workflow" where
  "with_status step_id next_status err wo =
     wo\<lparr>wf_steps := modify_first step_id (\<lambda>s. s\<lparr>st_status := next_status,
        st_error := (case err of None \<Rightarrow> st_error s | Some e \<Rightarrow> Some e)\<rparr>) (wf_steps wo)\<rparr>"

definition with_details :: "string \<Rightarrow> (details \<Rightarrow> details) \<Rightarrow> workflow \<Rightarrow> workflow" where
  "with_details step_id f wo =
     wo\<lparr>wf_steps := modify_first step_id (\<lambda>s. s\<lparr>st_details := f (st_details s)\<rparr>) (wf_steps wo)\<rparr>"

definition with_wait_step :: "workflow_step \<Rightarrow> workflow \<Rightarrow> workflow" where
  "with_wait_step s wo = wo\<lparr>wf_steps := insert_before_last s (wf_steps wo)\<rparr>"

definition machine_part :: "workflow \<Rightarrow> step_type \<times> workflow_status \<times> string \<times> workflow_step list" where
  "machine_part wo = (wf_run_type wo, wf_status wo, wf_current_step_id wo, wf_steps wo)"

definition finish_done :: "workflow \<Rightarrow> bool" where
  "finish_done wo \<longleftrightarrow> (\<exists>s. find_step wo finish_step_id = Some s \<and> st_status s = St_completed)"

definition is_wait_step :: "workflow_step \<Rightarrow> bool" where
  "is_wait_step s \<longleftrightarrow> st_status s = St_in_progress \<and> st_error s = None \<and>
     (st_step_type s = Approval_wait \<and> (\<exists>a. st_step_id s = approval_step_id a) \<or>
      st_step_type s = Retry_wait \<and> (\<exists>n. st_step_id s = retry_step_id n))"

locale workflow_invariant =
  fixes I :: "workflow \<Rightarrow> bool"
  assumes step_change: "I wo \<Longrightarrow> find_step wo k = Some s \<Longrightarrow>
      nxt \<in> set (STEP_STATUS_TRANSITIONS (st_status s)) \<Longrightarrow> I (with_status k nxt err wo)"
    and details_change: "I wo \<Longrightarrow> I (with_details k f wo)"
    and status_change: "I wo \<Longrightarrow> nst \<in> set (WORKFLOW_STATUS_TRANSITIONS (wf_status wo)) \<Longrightarrow>
      (nst = Wf_succeeded \<Longrightarrow> finish_done wo) \<Longrightarrow> I (wo\<lparr>wf_status := nst\<rparr>)"
    and current_change: "I wo \<Longrightarrow> has_step k wo \<Longrightarrow> I (wo\<lparr>wf_current_step_id := k\<rparr>)"
    and wait_added: "I wo \<Longrightarrow> is_wait_step s \<Longrightarrow> find_step wo (st_step_id s) = None \<Longrightarrow>
      I (with_wait_step s wo)"
    and other_change: "I wo \<Longrightarrow> machine_part wo' = machine_part wo \<Longrightarrow> I wo'"

lemma find_step_with_status:
  "find_step (with_status k st err wo) j =
     (if j = k then map_option (\<lambda>s. s\<lparr>st_status := st,
        st_error := (case err of None \<Rightarrow> st_error s | Some e \<Rightarrow> Some e)\<rparr>) (find_step wo j)
      else find_step wo j)"
  by (simp add: find_step_def with_status_def find_modify_first)

lemma find_step_with_details:
  "find_step (with_details k f wo) j =
     (if j = k then map_option (\<lambda>s. s\<lparr>st_details := f (st_details s)\<rparr>) (find_step wo j)
      else find_step wo j)"
  by (simp add: find_step_def with_details_def find_modify_first)

lemma find_step_with_wait:
  "find_step wo (st_step_id s) = None \<Longrightarrow>
   find_step (with_wait_step s wo) j = (if j = st_step_id s then Some s else find_step wo j)"
  by (simp add: find_step_def with_wait_step_def find_insert_before_last)

lemma find_step_update [simp]:
  "find_step (wo\<lparr>wf_status := st\<rparr>) j = find_step wo j"
  "find_step (wo\<lparr>wf_current_step_id := k\<rparr>) j = find_step wo j"
  by (simp_all add: find_step_def)

lemma find_step_part: "machine_part wo' = machine_part wo \<Longrightarrow> find_step wo' j = find_step wo j"
  by (simp add: machine_part_def find_step_def)

lemmas find_step_changes = find_step_with_status find_step_with_details find_step_with_wait

text \<open>Two invariants every proof below uses: a step once there stays, a completed finish stays.\<close>

interpretation kept_step: workflow_invariant "has_step k"
proof
  fix wo wo' :: workflow and j s nxt err f nst
  show "has_step k wo \<Longrightarrow> find_step wo j = Some s \<Longrightarrow> nxt \<in> set (STEP_STATUS_TRANSITIONS (st_status s)) \<Longrightarrow>
      has_step k (with_status j nxt err wo)"
    by (simp add: has_step_def find_step_with_status)
  show "has_step k wo \<Longrightarrow> has_step k (with_details j f wo)"
    by (auto simp: has_step_def find_step_with_details)
  show "has_step k wo \<Longrightarrow> nst \<in> set (WORKFLOW_STATUS_TRANSITIONS (wf_status wo)) \<Longrightarrow>
      (nst = Wf_succeeded \<Longrightarrow> finish_done wo) \<Longrightarrow> has_step k (wo\<lparr>wf_status := nst\<rparr>)"
    and "has_step k wo \<Longrightarrow> has_step j wo \<Longrightarrow> has_step k (wo\<lparr>wf_current_step_id := j\<rparr>)"
    by (simp_all add: has_step_def)
  show "has_step k wo \<Longrightarrow> is_wait_step s \<Longrightarrow> find_step wo (st_step_id s) = None \<Longrightarrow> has_step k (with_wait_step s wo)"
    by (simp add: has_step_def find_step_with_wait)
  show "has_step k wo \<Longrightarrow> machine_part wo' = machine_part wo \<Longrightarrow> has_step k wo'"
    by (simp add: has_step_def find_step_def machine_part_def)
qed

interpretation kept_finish: workflow_invariant finish_done
proof
  fix wo wo' :: workflow and j s nxt err f nst
  show "finish_done wo \<Longrightarrow> find_step wo j = Some s \<Longrightarrow> nxt \<in> set (STEP_STATUS_TRANSITIONS (st_status s)) \<Longrightarrow>
      finish_done (with_status j nxt err wo)"
    by (auto simp: finish_done_def find_step_with_status)
  show "finish_done wo \<Longrightarrow> finish_done (with_details j f wo)"
    by (auto simp: finish_done_def find_step_with_details)
  show "finish_done wo \<Longrightarrow> nst \<in> set (WORKFLOW_STATUS_TRANSITIONS (wf_status wo)) \<Longrightarrow>
      (nst = Wf_succeeded \<Longrightarrow> finish_done wo) \<Longrightarrow> finish_done (wo\<lparr>wf_status := nst\<rparr>)"
    and "finish_done wo \<Longrightarrow> has_step j wo \<Longrightarrow> finish_done (wo\<lparr>wf_current_step_id := j\<rparr>)"
    by (simp_all add: finish_done_def)
  show "finish_done wo \<Longrightarrow> is_wait_step s \<Longrightarrow> find_step wo (st_step_id s) = None \<Longrightarrow> finish_done (with_wait_step s wo)"
    by (auto simp: finish_done_def find_step_with_wait)
  show "finish_done wo \<Longrightarrow> machine_part wo' = machine_part wo \<Longrightarrow> finish_done wo'"
    by (simp add: finish_done_def find_step_def machine_part_def)
qed

lemma workflow_invariant_conj:
  assumes I: "workflow_invariant I" and J: "workflow_invariant J"
  shows "workflow_invariant (\<lambda>wo. I wo \<and> J wo)"
proof
  fix wo wo' :: workflow and k s nxt err f nst
  assume w: "I wo \<and> J wo"
  show "find_step wo k = Some s \<Longrightarrow> nxt \<in> set (STEP_STATUS_TRANSITIONS (st_status s)) \<Longrightarrow>
      I (with_status k nxt err wo) \<and> J (with_status k nxt err wo)"
    using w by (blast intro: workflow_invariant.step_change [OF I] workflow_invariant.step_change [OF J])
  show "I (with_details k f wo) \<and> J (with_details k f wo)"
    using w by (blast intro: workflow_invariant.details_change [OF I] workflow_invariant.details_change [OF J])
  show "nst \<in> set (WORKFLOW_STATUS_TRANSITIONS (wf_status wo)) \<Longrightarrow>
      (nst = Wf_succeeded \<Longrightarrow> finish_done wo) \<Longrightarrow> I (wo\<lparr>wf_status := nst\<rparr>) \<and> J (wo\<lparr>wf_status := nst\<rparr>)"
    using w by (blast intro: workflow_invariant.status_change [OF I] workflow_invariant.status_change [OF J])
  show "has_step k wo \<Longrightarrow> I (wo\<lparr>wf_current_step_id := k\<rparr>) \<and> J (wo\<lparr>wf_current_step_id := k\<rparr>)"
    using w by (blast intro: workflow_invariant.current_change [OF I] workflow_invariant.current_change [OF J])
  show "is_wait_step s \<Longrightarrow> find_step wo (st_step_id s) = None \<Longrightarrow> I (with_wait_step s wo) \<and> J (with_wait_step s wo)"
    using w by (blast intro: workflow_invariant.wait_added [OF I] workflow_invariant.wait_added [OF J])
  show "machine_part wo' = machine_part wo \<Longrightarrow> I wo' \<and> J wo'"
    using w workflow_invariant.other_change [OF I] workflow_invariant.other_change [OF J] by blast
qed

section \<open>Every operation keeps an invariant\<close>

lemma keeps_get_step:
  assumes "\<And>s. st_step_id s = k \<Longrightarrow> keeps (\<lambda>wo. I wo \<and> has_step k wo) (f s)"
  shows "keeps I (io_bind (get_step k) f)"
  unfolding keeps_def
proof (intro allI impI)
  fix wo assume wo: "I wo"
  show "I (snd (io_bind (get_step k) f wo))"
  proof (cases "find_step wo k")
    case None
    with wo show ?thesis by (simp add: get_step_def io_bind_def io_get_def io_raise_def)
  next
    case (Some s)
    have "I (snd (f s wo))"
      using assms [OF find_step_id [OF Some]] wo Some by (simp add: keeps_def has_step_def)
    with Some show ?thesis by (simp add: get_step_def io_bind_def io_get_def io_return_def)
  qed
qed

lemma keeps_get_step_plain [keeps_intro]: "keeps I (get_step k)"
  unfolding get_step_def by (intro keeps_intro)

lemma keeps_action_step:
  assumes "\<And>s. keeps (\<lambda>wo. I wo \<and> has_step (st_step_id s) wo) (f s)"
  shows "keeps I (io_bind action_step f)"
proof -
  have "keeps I (io_bind (get_step k) f)" for k
    by (rule keeps_get_step) (use assms in auto)
  then show ?thesis
    unfolding action_step_def keeps_def by (auto simp: io_bind_def io_get_def)
qed

lemma keeps_current_step:
  assumes "\<And>s. keeps (\<lambda>wo. I wo \<and> has_step (st_step_id s) wo) (f s)"
  shows "keeps I (io_bind current_step f)"
proof -
  have "keeps I (io_bind (get_step k) f)" for k
    by (rule keeps_get_step) (use assms in auto)
  then show ?thesis
    unfolding current_step_def keeps_def by (auto simp: io_bind_def io_get_def)
qed

text \<open>A first part that establishes more on return.\<close>

lemma keeps_then_stronger:
  assumes "\<And>s. I s \<Longrightarrow> wp m (\<lambda>_ s'. I s' \<and> J s') (\<lambda>_. I) s"
    and "keeps (\<lambda>s. I s \<and> J s) k"
  shows "keeps I (io_then m k)"
  unfolding keeps_wp wp_then
proof (intro allI impI)
  fix s assume "I s"
  from assms(1) [OF this] show "wp m (\<lambda>_. wp k (\<lambda>_. I) (\<lambda>_. I)) (\<lambda>_. I) s"
    by (rule wp_mono) (use assms(2) in \<open>auto simp: keeps_wp elim!: wp_mono dest!: spec\<close>)
qed

definition any_details :: "(workflow_step \<Rightarrow> workflow_step) \<Rightarrow> bool" where
  "any_details g \<longleftrightarrow> (\<exists>f. g = (\<lambda>s. s\<lparr>st_details := f (st_details s)\<rparr>))"

context workflow_invariant
begin

lemma keeps_transition_step: "keeps I (transition_step k nxt err)"
proof -
  have "wp (transition_step k nxt err) (\<lambda>_. I) (\<lambda>_. I) wo" if "I wo" for wo
    using that
    by (auto simp: transition_step_def get_step_def modify_step_def wp
        step_change [unfolded with_status_def] split: option.splits)
  then show ?thesis by (simp add: keeps_wp)
qed

lemma keeps_details: "keeps I (modify_step k (\<lambda>s. s\<lparr>st_details := f (st_details s)\<rparr>))"
  unfolding modify_step_def
  by (rule keeps_modify) (rule details_change [unfolded with_details_def])

lemma keeps_set_current: "keeps (\<lambda>wo. I wo \<and> has_step k wo) (set_current k)"
  unfolding set_current_def
  by (rule keeps_modify) (auto intro: current_change simp: has_step_def)

lemma keeps_other:
  "(\<And>wo. machine_part (f wo) = machine_part wo) \<Longrightarrow> keeps I (io_modify f)"
  by (rule keeps_modify) (rule other_change)

lemma keeps_transition_workflow:
  assumes "nst \<noteq> Wf_succeeded"
  shows "keeps I (transition_workflow nst)"
proof -
  have "wp (transition_workflow nst) (\<lambda>_. I) (\<lambda>_. I) wo" if "I wo" for wo
    using that assms by (auto simp: transition_workflow_def wp intro: status_change)
  then show ?thesis by (simp add: keeps_wp)
qed

lemma keeps_succeed: "keeps (\<lambda>wo. I wo \<and> finish_done wo) (transition_workflow Wf_succeeded)"
proof -
  have "wp (transition_workflow Wf_succeeded) (\<lambda>_ wo. I wo \<and> finish_done wo) (\<lambda>_ wo. I wo \<and> finish_done wo) wo"
    if "I wo" "finish_done wo" for wo
    using that by (auto simp: transition_workflow_def wp finish_done_def intro: status_change)
  then show ?thesis by (simp add: keeps_wp)
qed

end

lemma invariant_with_step:
  "workflow_invariant I \<Longrightarrow> workflow_invariant (\<lambda>wo. I wo \<and> has_step k wo)"
  by (intro workflow_invariant_conj kept_step.workflow_invariant_axioms)

lemma invariant_with_finish:
  "workflow_invariant I \<Longrightarrow> workflow_invariant (\<lambda>wo. I wo \<and> finish_done wo)"
  by (intro workflow_invariant_conj kept_finish.workflow_invariant_axioms)

context workflow_invariant
begin

lemma keeps_set_current_has:
  assumes "\<And>wo. I wo \<Longrightarrow> has_step k wo"
  shows "keeps I (set_current k)"
  unfolding set_current_def by (rule keeps_modify) (rule current_change, assumption, rule assms)

lemma keeps_action_step_plain: "keeps I action_step" "keeps I current_step"
  unfolding action_step_def current_step_def by (intro keeps_intro)+

lemma keeps_start_step: "keeps I (start_step k)"
  unfolding start_step_def by (intro keeps_intro keeps_transition_step)

lemma keeps_block_action: "keeps I block_action"
  unfolding block_action_def
  by (intro keeps_intro keeps_transition_step keeps_action_step_plain)

lemma keeps_enter_waiting: "keeps I enter_waiting"
  unfolding enter_waiting_def by (intro keeps_intro keeps_transition_workflow) simp

lemma keeps_leave_wait_step: "keeps I (leave_wait_step s)"
  unfolding leave_wait_step_def
  by (intro keeps_intro keeps_transition_step keeps_action_step_plain keeps_transition_workflow) simp

lemma wp_enter_wait_step:
  assumes "I wo"
    and "step_type = Approval_wait \<and> (\<exists>a. k = approval_step_id a) \<or>
         step_type = Retry_wait \<and> (\<exists>n. k = retry_step_id n)"
  shows "wp (enter_wait_step k step_type d extra) (\<lambda>_ wo. I wo \<and> has_step k wo) (\<lambda>_. I) wo"
proof (cases "find_step wo k")
  case None
  let ?s = "\<lparr>st_step_id = k, st_step_type = step_type, st_status = St_in_progress,
      st_details = d, st_error = None\<rparr>"
  have "is_wait_step ?s" using assms(2) by (auto simp: is_wait_step_def)
  then have "I (with_wait_step ?s wo)" using assms(1) None by (intro wait_added) simp_all
  moreover have "has_step k (with_wait_step ?s wo)"
    using None by (simp add: has_step_def find_step_with_wait)
  ultimately show ?thesis
    using None by (simp add: enter_wait_step_def wp with_wait_step_def)
next
  case (Some s)
  have "I (with_details k (\<lambda>d. details_update d extra) wo)" using assms(1) by (rule details_change)
  moreover have "has_step k (with_details k (\<lambda>d. details_update d extra) wo)"
    using Some by (simp add: has_step_def find_step_with_details)
  ultimately show ?thesis
    using Some by (simp add: enter_wait_step_def wp with_details_def modify_step_def)
qed

end

text \<open>The same facts for an invariant strengthened by the presence of a step.\<close>

lemma keeps_goto_action:
  assumes "workflow_invariant I"
  shows "keeps I goto_action"
  unfolding goto_action_def
  by (rule keeps_action_step)
    (rule workflow_invariant.keeps_set_current_has [OF invariant_with_step [OF assms]], blast)

lemma keeps_mark_action_completed:
  assumes "workflow_invariant I"
  shows "keeps I mark_action_completed"
proof -
  have fin: "keeps I (io_bind (get_step finish_step_id) (\<lambda>finish.
        io_then (start_step (st_step_id finish)) (set_current (st_step_id finish))))"
  proof (rule keeps_get_step)
    fix s :: workflow_step
    assume "st_step_id s = finish_step_id"
    then show "keeps (\<lambda>wo. I wo \<and> has_step finish_step_id wo)
        (io_then (start_step (st_step_id s)) (set_current (st_step_id s)))"
      by (intro keeps_then workflow_invariant.keeps_start_step
          workflow_invariant.keeps_set_current_has invariant_with_step assms) simp
  qed
  show ?thesis
    unfolding mark_action_completed_def
    by (intro keeps_bind keeps_then keeps_when fin workflow_invariant.keeps_transition_step
        workflow_invariant.keeps_action_step_plain assms)
qed

lemma keeps_complete_finish_step:
  assumes "workflow_invariant I"
  shows "keeps I complete_finish_step"
  unfolding complete_finish_step_def
proof (rule keeps_get_step)
  fix s :: workflow_step
  assume s: "st_step_id s = finish_step_id"
  let ?C = "\<lambda>wo. I wo \<and> has_step finish_step_id wo"
  have C: "workflow_invariant ?C" by (rule invariant_with_step [OF assms])
  have compl: "wp (io_bind (get_step finish_step_id) (\<lambda>f.
        io_when (st_status f \<noteq> St_completed) (transition_step finish_step_id St_completed None)))
      (\<lambda>_ wo. ?C wo \<and> finish_done wo) (\<lambda>_. ?C) wo" if "?C wo" for wo
  proof -
    obtain f where f: "find_step wo finish_step_id = Some f" using \<open>?C wo\<close> by (auto simp: has_step_def)
    show ?thesis
    proof (cases "st_status f = St_completed")
      case True
      then show ?thesis using f that by (auto simp: get_step_def wp io_when_def finish_done_def)
    next
      case False
      have "?C (with_status finish_step_id St_completed None wo)"
        if "St_completed \<in> set (STEP_STATUS_TRANSITIONS (st_status f))"
        by (rule workflow_invariant.step_change [OF C \<open>?C wo\<close> f that])
      moreover have "finish_done (with_status finish_step_id St_completed None wo)"
        using f by (simp add: finish_done_def find_step_with_status)
      ultimately show ?thesis
        using False f that
        by (auto simp: get_step_def wp io_when_def transition_step_def modify_step_def with_status_def)
    qed
  qed
  have rest: "keeps (\<lambda>wo. ?C wo \<and> finish_done wo)
      (io_then (io_bind (io_get wf_status) (\<lambda>status.
          io_when (status \<noteq> Wf_succeeded) (transition_workflow Wf_succeeded)))
        (set_current finish_step_id))"
    by (intro keeps_then keeps_bind keeps_get keeps_when workflow_invariant.keeps_succeed [OF C]
        workflow_invariant.keeps_set_current_has [OF invariant_with_finish [OF C]]) blast
  show "keeps ?C (io_then (start_step (st_step_id s))
     (io_then (io_bind (get_step (st_step_id s)) (\<lambda>f.
                 io_when (st_status f \<noteq> St_completed) (transition_step (st_step_id s) St_completed None)))
     (io_then (io_bind (io_get wf_status) (\<lambda>status.
                 io_when (status \<noteq> Wf_succeeded) (transition_workflow Wf_succeeded)))
        (set_current (st_step_id s)))))"
    unfolding s
    by (intro keeps_then [OF workflow_invariant.keeps_start_step [OF C]] keeps_then_stronger [OF compl rest])
qed

lemma keeps_enter_and_go:
  assumes "workflow_invariant I"
    and "step_type = Approval_wait \<and> (\<exists>a. k = approval_step_id a) \<or>
         step_type = Retry_wait \<and> (\<exists>n. k = retry_step_id n)"
    and "\<And>J. workflow_invariant J \<Longrightarrow> keeps J between"
  shows "keeps I (io_then (enter_wait_step k step_type d extra)
      (io_then between (io_then enter_waiting (set_current k))))"
proof (rule keeps_then_stronger)
  show "wp (enter_wait_step k step_type d extra) (\<lambda>_ wo. I wo \<and> has_step k wo) (\<lambda>_. I) wo" if "I wo" for wo
    by (rule workflow_invariant.wp_enter_wait_step [OF assms(1) that assms(2)])
  show "keeps (\<lambda>wo. I wo \<and> has_step k wo) (io_then between (io_then enter_waiting (set_current k)))"
    by (intro keeps_then assms(3) workflow_invariant.keeps_enter_waiting
        workflow_invariant.keeps_set_current_has invariant_with_step assms(1)) blast
qed

lemma keeps_wait_for_approval:
  assumes "workflow_invariant I"
  shows "keeps I (wait_for_approval a d)"
proof -
  let ?k = "approval_step_id a"
  have "keeps I (io_then (enter_wait_step ?k Approval_wait e d)
      (io_then (io_return ()) (io_then enter_waiting (set_current ?k))))" for e
    by (rule keeps_enter_and_go [OF assms]) (auto intro: keeps_return)
  then have go: "keeps I (io_then (enter_wait_step ?k Approval_wait e d) (io_then enter_waiting (set_current ?k)))" for e
    by (simp add: io_then_def io_bind_def io_return_def)
  show ?thesis
    unfolding wait_for_approval_def
    by (rule keeps_then [OF workflow_invariant.keeps_block_action [OF assms] go])
qed

lemma keeps_wait_for_retry:
  assumes "workflow_invariant I"
  shows "keeps I (wait_for_retry now t m r)"
proof -
  have upd: "keeps J (io_modify (\<lambda>wo. wo\<lparr>wf_retry_state := g wo\<rparr>))" if "workflow_invariant J" for J g
    by (rule workflow_invariant.keeps_other [OF that]) (simp add: machine_part_def)
  show ?thesis
    unfolding wait_for_retry_def schedule_retry_def Let_def
    by (intro keeps_if keeps_raise keeps_bind keeps_get keeps_lift
        keeps_then [OF workflow_invariant.keeps_block_action [OF assms]]
        keeps_enter_and_go [OF assms] upd) auto
qed

lemma keeps_resume_from_approval:
  assumes "workflow_invariant I"
  shows "keeps I (resume_from_approval a)"
  unfolding resume_from_approval_def
  by (intro keeps_bind keeps_get_step_plain keeps_then workflow_invariant.keeps_leave_wait_step
      keeps_goto_action assms)

lemma keeps_resume_from_retry:
  assumes "workflow_invariant I"
  shows "keeps I resume_from_retry"
  unfolding resume_from_retry_def
  by (intro keeps_bind keeps_if keeps_get keeps_raise keeps_then workflow_invariant.keeps_leave_wait_step
      workflow_invariant.keeps_other workflow_invariant.keeps_action_step_plain keeps_goto_action assms)
    (simp add: machine_part_def)

lemma keeps_complete_workflow:
  assumes "workflow_invariant I"
  shows "keeps I complete_workflow"
  unfolding complete_workflow_def
  by (intro keeps_then keeps_mark_action_completed keeps_complete_finish_step assms)

lemma keeps_fail_workflow:
  assumes "workflow_invariant I"
  shows "keeps I (fail_workflow t m)"
  unfolding fail_workflow_def
  by (intro keeps_bind keeps_then keeps_when keeps_get workflow_invariant.keeps_transition_step
      workflow_invariant.keeps_transition_workflow workflow_invariant.keeps_action_step_plain assms) simp

lemma keeps_set_action_details:
  assumes "workflow_invariant I"
  shows "keeps I (set_action_details d)"
  unfolding set_action_details_def
  by (intro keeps_bind workflow_invariant.keeps_action_step_plain workflow_invariant.keeps_details assms)

lemma keeps_configuration:
  assumes "workflow_invariant I"
  shows "keeps I (attach_run_to_workflow r)" "keeps I (configure_retry_policy v)"
    "keeps I (configure_subrun_policy v)" "keeps I (register_artifact a)" "keeps I (register_memory a)"
    "keeps I (register_child_workflow c)"
  unfolding attach_run_to_workflow_def configure_retry_policy_def configure_subrun_policy_def
    register_artifact_def register_memory_def register_child_workflow_def
  by (intro keeps_intro workflow_invariant.keeps_other [OF assms]; simp add: machine_part_def)+

section \<open>Sequences of operations\<close>

datatype workflow_op =
    W_attach string
  | W_details details
  | W_retry_policy pyval
  | W_subrun_policy pyval
  | W_artifact pydict
  | W_memory pydict
  | W_child string
  | W_wait_approval string details
  | W_wait_retry int string string bool
  | W_resume_approval string
  | W_resume_retry
  | W_mark_action
  | W_finish
  | W_complete
  | W_fail string string

fun workflow_do :: "workflow_op \<Rightarrow> (workflow, unit) io" where
  "workflow_do (W_attach r) = attach_run_to_workflow r"
| "workflow_do (W_details d) = set_action_details d"
| "workflow_do (W_retry_policy v) = configure_retry_policy v"
| "workflow_do (W_subrun_policy v) = configure_subrun_policy v"
| "workflow_do (W_artifact a) = register_artifact a"
| "workflow_do (W_memory m) = register_memory m"
| "workflow_do (W_child c) = register_child_workflow c"
| "workflow_do (W_wait_approval a d) = wait_for_approval a d"
| "workflow_do (W_wait_retry now t m r) = wait_for_retry now t m r"
| "workflow_do (W_resume_approval a) = resume_from_approval a"
| "workflow_do W_resume_retry = resume_from_retry"
| "workflow_do W_mark_action = mark_action_completed"
| "workflow_do W_finish = complete_finish_step"
| "workflow_do W_complete = complete_workflow"
| "workflow_do (W_fail t m) = fail_workflow t m"

text \<open>Each operation may raise; the object keeps what it did before raising.\<close>

fun workflow_run :: "workflow_op list \<Rightarrow> workflow \<Rightarrow> workflow" where
  "workflow_run [] wo = wo"
| "workflow_run (x # xs) wo = workflow_run xs (snd (workflow_do x wo))"

lemma keeps_workflow_do:
  assumes "workflow_invariant I"
  shows "keeps I (workflow_do x)"
  using assms
  by (cases x)
    (simp_all add: keeps_configuration keeps_set_action_details keeps_wait_for_approval
      keeps_wait_for_retry keeps_resume_from_approval keeps_resume_from_retry
      keeps_mark_action_completed keeps_complete_finish_step keeps_complete_workflow keeps_fail_workflow)

lemma workflow_run_keeps:
  assumes "workflow_invariant I" and "I wo"
  shows "I (workflow_run ops wo)"
  using assms(2)
proof (induction ops arbitrary: wo)
  case (Cons x xs)
  have "I (snd (workflow_do x wo))"
    using keeps_workflow_do [OF assms(1), of x] Cons.prems by (simp add: keeps_def)
  with Cons.IH show ?case by simp
qed simp

end
