(* ===== verification/Workflow_Properties.thy ===== *)
theory Workflow_Properties
  imports Workflow_Invariants
begin

text \<open>
  What the workflow state machine guarantees: the shape of its steps, the finality of terminal
  statuses, waiting and resuming, the retry budget, delegation, and reading a workflow back.
\<close>

section \<open>Terminal statuses\<close>

definition workflow_terminal :: "workflow_status \<Rightarrow> bool" where
  "workflow_terminal s \<longleftrightarrow> s = Wf_succeeded \<or> s = Wf_failed"

definition step_terminal :: "step_status \<Rightarrow> bool" where
  "step_terminal s \<longleftrightarrow> s = St_completed \<or> s = St_failed"

interpretation workflow_machine: status_machine WORKFLOW_STATUS_TRANSITIONS workflow_terminal
proof
  show "workflow_terminal s \<longleftrightarrow> WORKFLOW_STATUS_TRANSITIONS s = []" for s
    by (cases s) (simp_all add: workflow_terminal_def)
qed

interpretation step_machine: status_machine STEP_STATUS_TRANSITIONS step_terminal
proof
  show "step_terminal s \<longleftrightarrow> STEP_STATUS_TRANSITIONS s = []" for s
    by (cases s) (simp_all add: step_terminal_def)
qed

text \<open>A workflow as it is, seen from an earlier moment.\<close>

definition frozen_since :: "workflow \<Rightarrow> workflow \<Rightarrow> bool" where
  "frozen_since old wo \<longleftrightarrow>
     (workflow_terminal (wf_status old) \<longrightarrow> wf_status wo = wf_status old) \<and>
     (\<forall>k s. find_step old k = Some s \<and> step_terminal (st_status s) \<longrightarrow>
        (\<exists>s'. find_step wo k = Some s' \<and> st_status s' = st_status s \<and> st_error s' = st_error s))"

lemma frozen_since_refl: "frozen_since wo wo"
  by (simp add: frozen_since_def)

interpretation frozen: workflow_invariant "frozen_since old"
proof
  fix wo wo' :: workflow and j s nxt err f nst
  assume fz: "frozen_since old wo"
  note status = fz [unfolded frozen_since_def, THEN conjunct1]
  note steps = fz [unfolded frozen_since_def, THEN conjunct2, rule_format, OF conjI]
  show "frozen_since old (with_status j nxt err wo)"
    if s: "find_step wo j = Some s" and nxt: "nxt \<in> set (STEP_STATUS_TRANSITIONS (st_status s))"
    unfolding frozen_since_def
  proof (intro conjI allI impI)
    show "wf_status (with_status j nxt err wo) = wf_status old" if "workflow_terminal (wf_status old)"
      using status that by (simp add: with_status_def)
    fix k t assume t: "find_step old k = Some t \<and> step_terminal (st_status t)"
    then obtain t' where t': "find_step wo k = Some t'" "st_status t' = st_status t" "st_error t' = st_error t"
      using steps by blast
    have "k \<noteq> j" using t t' s nxt by (auto simp: step_machine.terminal_iff)
    then show "\<exists>s'. find_step (with_status j nxt err wo) k = Some s' \<and> st_status s' = st_status t \<and>
        st_error s' = st_error t"
      using t' by (simp add: find_step_with_status)
  qed
  show "frozen_since old (with_details j f wo)"
    unfolding frozen_since_def
  proof (intro conjI allI impI)
    show "wf_status (with_details j f wo) = wf_status old" if "workflow_terminal (wf_status old)"
      using status that by (simp add: with_details_def)
    fix k t assume "find_step old k = Some t \<and> step_terminal (st_status t)"
    then obtain t' where "find_step wo k = Some t'" "st_status t' = st_status t" "st_error t' = st_error t"
      using steps by blast
    then show "\<exists>s'. find_step (with_details j f wo) k = Some s' \<and> st_status s' = st_status t \<and>
        st_error s' = st_error t"
      by (cases "k = j") (auto simp: find_step_with_details)
  qed
  show "frozen_since old (wo\<lparr>wf_status := nst\<rparr>)"
    if "nst \<in> set (WORKFLOW_STATUS_TRANSITIONS (wf_status wo))"
  proof -
    have "\<not> workflow_terminal (wf_status wo)" using that by (auto simp: workflow_machine.terminal_iff)
    then have "\<not> workflow_terminal (wf_status old)" using status by auto
    then show ?thesis using fz by (simp add: frozen_since_def)
  qed
  show "frozen_since old (wo\<lparr>wf_current_step_id := j\<rparr>)"
    using fz by (simp add: frozen_since_def)
  show "frozen_since old (with_wait_step s wo)" if new: "find_step wo (st_step_id s) = None"
    unfolding frozen_since_def
  proof (intro conjI allI impI)
    show "wf_status (with_wait_step s wo) = wf_status old" if "workflow_terminal (wf_status old)"
      using status that by (simp add: with_wait_step_def)
    fix k t assume "find_step old k = Some t \<and> step_terminal (st_status t)"
    then obtain t' where "find_step wo k = Some t'" "st_status t' = st_status t" "st_error t' = st_error t"
      using steps by blast
    then show "\<exists>s'. find_step (with_wait_step s wo) k = Some s' \<and> st_status s' = st_status t \<and>
        st_error s' = st_error t"
      using new by (cases "k = st_step_id s") (auto simp: find_step_with_wait)
  qed
  show "frozen_since old wo'" if "machine_part wo' = machine_part wo"
    using fz that by (simp add: frozen_since_def find_step_def machine_part_def)
qed

text \<open>
  C28: whatever operations are applied to a workflow, and whether they return or raise, a
  succeeded or failed workflow keeps its status, and a completed or failed step keeps its status
  and its recorded error.
\<close>

theorem workflow_terminal_frozen:
  "frozen_since wo (workflow_run ops wo)"
  by (rule workflow_run_keeps [OF frozen.workflow_invariant_axioms frozen_since_refl])

section \<open>The shape of the steps\<close>

definition skeleton :: "workflow \<Rightarrow> (string \<times> step_type) list" where
  "skeleton wo = map (\<lambda>s. (st_step_id s, st_step_type s)) (wf_steps wo)"

definition is_wait_entry :: "string \<times> step_type \<Rightarrow> bool" where
  "is_wait_entry e \<longleftrightarrow>
     (case e of (k, t) \<Rightarrow> t = Approval_wait \<and> (\<exists>a. k = approval_step_id a) \<or>
                          t = Retry_wait \<and> (\<exists>n. k = retry_step_id n))"

definition workflow_shape :: "workflow \<Rightarrow> bool" where
  "workflow_shape wo \<longleftrightarrow>
     wf_run_type wo \<in> {Model_step, Tool_step} \<and>
     (\<exists>waits. skeleton wo = (action_step_id (wf_run_type wo), wf_run_type wo) # waits @ [(finish_step_id, Finish)] \<and>
        (\<forall>e\<in>set waits. is_wait_entry e)) \<and>
     distinct (map fst (skeleton wo)) \<and>
     has_step (wf_current_step_id wo) wo \<and>
     (wf_status wo = Wf_succeeded \<longrightarrow> finish_done wo)"

lemma skeleton_modify_first:
  assumes "\<And>s. st_step_id (f s) = st_step_id s" and "\<And>s. st_step_type (f s) = st_step_type s"
  shows "map (\<lambda>s. (st_step_id s, st_step_type s)) (modify_first k f ss) =
    map (\<lambda>s. (st_step_id s, st_step_type s)) ss"
  using assms by (induction ss) auto

lemma skeleton_with [simp]:
  "skeleton (with_status k st err wo) = skeleton wo"
  "skeleton (with_details k f wo) = skeleton wo"
  "skeleton (wo\<lparr>wf_status := nst\<rparr>) = skeleton wo"
  "skeleton (wo\<lparr>wf_current_step_id := k\<rparr>) = skeleton wo"
  by (simp_all add: skeleton_def with_status_def with_details_def skeleton_modify_first)

lemma skeleton_with_wait:
  assumes "skeleton wo = a # waits @ [z]"
  shows "skeleton (with_wait_step s wo) = a # (waits @ [(st_step_id s, st_step_type s)]) @ [z]"
proof -
  let ?f = "\<lambda>s. (st_step_id s, st_step_type s)"
  have n: "length (wf_steps wo) - 1 = Suc (length waits)"
    using assms by (metis length_append_singleton length_map length_Cons skeleton_def diff_Suc_1)
  have "skeleton (with_wait_step s wo) =
      take (Suc (length waits)) (map ?f (wf_steps wo)) @ [?f s] @ drop (Suc (length waits)) (map ?f (wf_steps wo))"
    by (simp add: skeleton_def with_wait_step_def insert_before_last_def n [simplified] take_map drop_map)
  also have "map ?f (wf_steps wo) = a # waits @ [z]" using assms by (simp add: skeleton_def)
  finally show ?thesis by simp
qed

lemma find_step_skeleton: "find_step wo k = None \<longleftrightarrow> k \<notin> fst ` set (skeleton wo)"
  by (force simp: find_step_def skeleton_def find_None_iff)

interpretation shape: workflow_invariant workflow_shape
proof
  fix wo wo' :: workflow and j s nxt err f nst
  assume sh: "workflow_shape wo"
  have part [simp]: "wf_run_type (with_status k st e wo) = wf_run_type wo"
    "wf_status (with_status k st e wo) = wf_status wo"
    "wf_current_step_id (with_status k st e wo) = wf_current_step_id wo"
    "wf_run_type (with_details k g wo) = wf_run_type wo" "wf_status (with_details k g wo) = wf_status wo"
    "wf_current_step_id (with_details k g wo) = wf_current_step_id wo"
    "wf_run_type (with_wait_step s wo) = wf_run_type wo" "wf_status (with_wait_step s wo) = wf_status wo"
    "wf_current_step_id (with_wait_step s wo) = wf_current_step_id wo" for k st e g s
    by (simp_all add: with_status_def with_details_def with_wait_step_def)
  show "workflow_shape (with_status j nxt err wo)"
    if "find_step wo j = Some s" "nxt \<in> set (STEP_STATUS_TRANSITIONS (st_status s))"
    using sh kept_step.step_change [OF _ that] kept_finish.step_change [OF _ that]
    by (simp add: workflow_shape_def)
  show "workflow_shape (with_details j f wo)"
    using sh kept_step.details_change kept_finish.details_change by (simp add: workflow_shape_def)
  show "workflow_shape (wo\<lparr>wf_status := nst\<rparr>)"
    if "nst \<in> set (WORKFLOW_STATUS_TRANSITIONS (wf_status wo))" "nst = Wf_succeeded \<Longrightarrow> finish_done wo"
    using sh that(2) by (auto simp: workflow_shape_def has_step_def finish_done_def)
  show "workflow_shape (wo\<lparr>wf_current_step_id := j\<rparr>)" if "has_step j wo"
    using sh that by (auto simp: workflow_shape_def has_step_def finish_done_def)
  show "workflow_shape (with_wait_step s wo)"
    if w: "is_wait_step s" and new: "find_step wo (st_step_id s) = None"
  proof -
    obtain waits where sk: "skeleton wo =
        (action_step_id (wf_run_type wo), wf_run_type wo) # waits @ [(finish_step_id, Finish)]"
      and ws: "\<forall>e\<in>set waits. is_wait_entry e"
      using sh by (auto simp: workflow_shape_def)
    have "is_wait_entry (st_step_id s, st_step_type s)"
      using w by (auto simp: is_wait_step_def is_wait_entry_def)
    moreover have "st_step_id s \<notin> set (map fst (skeleton wo))"
      using new by (simp add: find_step_skeleton)
    ultimately show ?thesis
      using sh sk ws skeleton_with_wait [OF sk, of s] kept_step.wait_added [OF _ w new]
        kept_finish.wait_added [OF _ w new]
      by (auto simp: workflow_shape_def)
  qed
  show "workflow_shape wo'" if "machine_part wo' = machine_part wo"
    using sh that by (simp add: workflow_shape_def machine_part_def skeleton_def has_step_def
        finish_done_def find_step_def)
qed

lemma check_step_type_name: "check_step_type (step_type_name t) = Inr t"
  by (cases t) (simp_all add: check_step_type_def WORKFLOW_STEP_TYPES_def)

lemma check_step_type_Inr: "check_step_type s = Inr t \<Longrightarrow> s = step_type_name t"
  by (auto simp: check_step_type_def WORKFLOW_STEP_TYPES_def split: if_splits option.splits)

lemma created_shape:
  assumes "create_workflow_state ca t = Inr wo" and "ca_run_type ca \<in> {''model'', ''tool''}"
  shows "workflow_shape wo"
proof -
  obtain rt where rt: "check_step_type (ca_run_type ca) = Inr rt" and f: "wf_run_type wo = rt"
    "wf_steps wo = initial_steps rt" "wf_current_step_id wo = action_step_id rt" "wf_status wo = Wf_running"
    using assms(1) by (auto simp: create_workflow_state_def)
  have "rt \<in> {Model_step, Tool_step}"
    using check_step_type_Inr [OF rt] assms(2) by (cases rt) auto
  moreover have "has_step (action_step_id rt) wo"
    by (simp add: has_step_def find_step_def f initial_steps_def)
  ultimately show ?thesis
    by (auto simp: workflow_shape_def f skeleton_def initial_steps_def finish_step_id_def action_step_id_def)
qed

text \<open>
  C9: a workflow created for a model or a tool run, whatever operations follow, consists of its
  action step, then approval and retry waits with their own identifiers, then its finish step;
  no identifier occurs twice; its current step exists; and it is succeeded only with its finish
  step completed. This holds also after operations that raised half way.
\<close>

theorem workflow_shape_kept:
  assumes "create_workflow_state ca t = Inr wo" and "ca_run_type ca \<in> {''model'', ''tool''}"
  shows "workflow_shape (workflow_run ops wo)"
  by (rule workflow_run_keeps [OF shape.workflow_invariant_axioms created_shape [OF assms]])

definition sample_args :: create_args where
  "sample_args = \<lparr>ca_run_id = ''r1'', ca_agent = ''a'', ca_run_type = ''tool'', ca_request = None,
     ca_parent_workflow_id = None, ca_root_workflow_id = None, ca_depth = PInt 0,
     ca_delegation = PNone, ca_shared_memories = PNone\<rparr>"

lemma sample_created: "\<exists>wo. create_workflow_state sample_args (utc_stamp 0) = Inr wo"
proof -
  have "case create_workflow_state sample_args (utc_stamp 0) of Inr wo \<Rightarrow> True | Inl e \<Rightarrow> False"
    by code_simp
  then show ?thesis by (auto split: sum.splits)
qed

theorem workflow_shape_kept_witness:
  "\<exists>wo. create_workflow_state sample_args (utc_stamp 0) = Inr wo \<and>
     workflow_shape (workflow_run
       [W_wait_approval ''ap1'' [], W_complete, W_resume_approval ''ap1'', W_complete, W_fail ''E'' ''m''] wo)"
proof -
  obtain wo where wo: "create_workflow_state sample_args (utc_stamp 0) = Inr wo"
    using sample_created by blast
  have "ca_run_type sample_args \<in> {''model'', ''tool''}" by (simp add: sample_args_def)
  from workflow_shape_kept [OF wo this] wo show ?thesis by blast
qed

section \<open>Waiting for an approval and resuming\<close>

lemma get_step_Some: "find_step wo k = Some s \<Longrightarrow> get_step k wo = (Inr s, wo)"
  by (simp add: get_step_def io_bind_def io_get_def io_return_def)

lemma transition_step_ok:
  "find_step wo k = Some s \<Longrightarrow> nxt \<in> set (STEP_STATUS_TRANSITIONS (st_status s)) \<Longrightarrow>
   transition_step k nxt err wo = (Inr (), with_status k nxt err wo)"
  by (simp add: transition_step_def io_bind_def get_step_Some modify_step_def io_modify_def with_status_def)

lemma transition_workflow_ok:
  "nst \<in> set (WORKFLOW_STATUS_TRANSITIONS (wf_status wo)) \<Longrightarrow>
   transition_workflow nst wo = (Inr (), wo\<lparr>wf_status := nst\<rparr>)"
  by (simp add: transition_workflow_def io_bind_def io_get_def io_modify_def)

lemma action_step_eq: "action_step wo = get_step (action_step_id (wf_run_type wo)) wo"
  by (simp add: action_step_def io_bind_def io_get_def)

lemma with_simps [simp]:
  "wf_run_type (with_status k st err wo) = wf_run_type wo"
  "wf_status (with_status k st err wo) = wf_status wo"
  "wf_run_type (with_wait_step s wo) = wf_run_type wo"
  "wf_status (with_wait_step s wo) = wf_status wo"
  by (simp_all add: with_status_def with_wait_step_def)

lemma io_bind_run: "io_bind m f w = (case m w of (Inl e, w') \<Rightarrow> (Inl e, w') | (Inr x, w') \<Rightarrow> f x w')"
  by (simp add: io_bind_def)

lemma io_then_run: "io_then m k w = (case m w of (Inl e, w') \<Rightarrow> (Inl e, w') | (Inr x, w') \<Rightarrow> k w')"
  by (simp add: io_then_def io_bind_def)

lemma io_basic_run:
  "io_get g w = (Inr (g w), w)" "io_modify h w = (Inr (), h w)" "io_return x w = (Inr x, w)"
  by (simp_all add: io_get_def io_modify_def io_return_def)

lemma io_when_run: "io_when b m w = (if b then m w else (Inr (), w))"
  by (simp add: io_when_def io_return_def)

lemmas io_run = io_bind_run io_then_run io_basic_run io_when_run

definition approval_wait_step :: "string \<Rightarrow> details \<Rightarrow> step_status \<Rightarrow> workflow_step" where
  "approval_wait_step ap d status =
     \<lparr>st_step_id = approval_step_id ap, st_step_type = Approval_wait, st_status = status,
      st_details = details_update [(''approval_id'', FV_val (PStr ap))] d, st_error = None\<rparr>"

definition waiting_for :: "string \<Rightarrow> details \<Rightarrow> workflow \<Rightarrow> workflow" where
  "waiting_for ap d wo =
     (with_wait_step (approval_wait_step ap d St_in_progress)
       (with_status (action_step_id (wf_run_type wo)) St_blocked None wo))
     \<lparr>wf_status := Wf_waiting, wf_current_step_id := approval_step_id ap\<rparr>"

lemma wait_for_approval_eq:
  assumes "wf_status wo = Wf_running" and "find_step wo (action_step_id (wf_run_type wo)) = Some a"
    and "st_status a = St_in_progress" and "find_step wo (approval_step_id ap) = None"
  shows "wait_for_approval ap d wo = (Inr (), waiting_for ap d wo)"
proof -
  let ?k = "action_step_id (wf_run_type wo)" and ?s = "approval_wait_step ap d St_in_progress"
  have a_id: "st_step_id a = ?k" by (rule find_step_id [OF assms(2)])
  have blocked: "block_action wo = (Inr (), with_status ?k St_blocked None wo)"
    by (simp add: block_action_def io_run action_step_eq get_step_Some [OF assms(2)] assms(3) a_id
        transition_step_ok [OF assms(2)])
  have new: "find_step (with_status ?k St_blocked None wo) (approval_step_id ap) = None"
    using assms(2,4) by (auto simp: find_step_with_status)
  have entered: "enter_wait_step (approval_step_id ap) Approval_wait
      (details_update [(''approval_id'', FV_val (PStr ap))] d) d (with_status ?k St_blocked None wo) =
      (Inr (), with_wait_step ?s (with_status ?k St_blocked None wo))"
    by (simp add: enter_wait_step_def io_run new with_wait_step_def approval_wait_step_def)
  show ?thesis
    by (simp add: wait_for_approval_def io_run blocked entered enter_waiting_def assms(1)
        transition_workflow_ok set_current_def waiting_for_def)
qed

lemma modify_first_insert_new:
  assumes "find (\<lambda>s. st_step_id s = st_step_id x) ss = None"
  shows "modify_first (st_step_id x) f (insert_before_last x ss) = insert_before_last (f x) ss"
proof -
  have miss: "modify_first k f (xs @ ys) = xs @ modify_first k f ys"
    if "\<forall>s\<in>set xs. st_step_id s \<noteq> k" for k xs ys
    using that by (induction xs) auto
  have "\<forall>s\<in>set (take (length ss - 1) ss). st_step_id s \<noteq> st_step_id x"
    using assms by (auto simp: find_None_iff dest: in_set_takeD)
  then show ?thesis by (simp add: insert_before_last_def miss)
qed

lemma modify_first_append:
  "modify_first k f (xs @ ys) =
    (if find (\<lambda>s. st_step_id s = k) xs = None then xs @ modify_first k f ys else modify_first k f xs @ ys)"
  by (induction xs) auto

lemma length_modify_first [simp]: "length (modify_first k f ss) = length ss"
  by (induction ss) auto

lemma modify_first_same:
  "(\<And>s. find (\<lambda>s. st_step_id s = k) ss = Some s \<Longrightarrow> f s = s) \<Longrightarrow> modify_first k f ss = ss"
  by (induction ss) auto

lemma modify_first_twice:
  "(\<And>s. st_step_id (f s) = st_step_id s) \<Longrightarrow>
   modify_first k g (modify_first k f ss) = modify_first k (\<lambda>s. g (f s)) ss"
  by (induction ss) auto

lemma modify_first_insert_other:
  assumes "k \<noteq> st_step_id x"
  shows "modify_first k f (insert_before_last x ss) = insert_before_last x (modify_first k f ss)"
proof -
  let ?n = "length ss - 1"
  let ?here = "find (\<lambda>s. st_step_id s = k) (take ?n ss) = None"
  have split: "modify_first k f ss =
      (if ?here then take ?n ss @ modify_first k f (drop ?n ss) else modify_first k f (take ?n ss) @ drop ?n ss)"
    by (metis append_take_drop_id modify_first_append)
  have "take ?n (modify_first k f ss) = (if ?here then take ?n ss else modify_first k f (take ?n ss))"
    and "drop ?n (modify_first k f ss) = (if ?here then modify_first k f (drop ?n ss) else drop ?n ss)"
    by (simp_all add: split)
  then show ?thesis
    using assms by (simp add: insert_before_last_def modify_first_append)
qed

text \<open>
  C35: a running workflow whose action is in progress, made to wait for a new approval, is waiting
  at the approval's step with its action blocked; resuming from that approval gives back the
  workflow as it was, running at its action step, with the completed approval step inserted
  before the finish step and nothing else changed.
\<close>

theorem approval_wait_and_resume:
  assumes "wf_status wo = Wf_running" and "find_step wo (action_step_id (wf_run_type wo)) = Some a"
    and "st_status a = St_in_progress" and "find_step wo (approval_step_id ap) = None"
  shows "\<exists>wo1. wait_for_approval ap d wo = (Inr (), wo1) \<and> wf_status wo1 = Wf_waiting \<and>
     wf_current_step_id wo1 = approval_step_id ap \<and>
     find_step wo1 (action_step_id (wf_run_type wo)) = Some (a\<lparr>st_status := St_blocked\<rparr>) \<and>
     resume_from_approval ap wo1 =
       (Inr (), wo\<lparr>wf_steps := insert_before_last (approval_wait_step ap d St_completed) (wf_steps wo),
                   wf_current_step_id := action_step_id (wf_run_type wo)\<rparr>)"
proof -
  let ?k = "action_step_id (wf_run_type wo)" and ?j = "approval_step_id ap"
  let ?s = "approval_wait_step ap d St_in_progress"
  let ?blocked = "with_status ?k St_blocked None wo"
  have ne: "?k \<noteq> ?j" using assms(2,4) by auto
  have sid: "st_step_id ?s = ?j" by (simp add: approval_wait_step_def)
  have new: "find_step ?blocked (st_step_id ?s) = None"
    using assms(4) ne by (simp add: sid find_step_with_status)
  have find1: "find_step (waiting_for ap d wo) ?k = Some (a\<lparr>st_status := St_blocked\<rparr>)"
    using assms(2) ne by (simp add: waiting_for_def find_step_with_wait [OF new] sid find_step_with_status)
  have find2: "find_step (waiting_for ap d wo) ?j = Some ?s"
    by (simp add: waiting_for_def find_step_with_wait [OF new] sid)
  define wo2 where "wo2 = with_status ?k St_in_progress None
      ((with_status ?j St_completed None (waiting_for ap d wo))\<lparr>wf_status := Wf_running\<rparr>)"
  have find3: "find_step ((with_status ?j St_completed None (waiting_for ap d wo))\<lparr>wf_status := Wf_running\<rparr>) ?k =
      Some (a\<lparr>st_status := St_blocked\<rparr>)"
    using find1 ne by (simp add: find_step_with_status)
  have rt: "wf_run_type (waiting_for ap d wo) = wf_run_type wo"
    and stat: "wf_status (waiting_for ap d wo) = Wf_waiting"
    by (simp_all add: waiting_for_def)
  have a_id: "st_step_id a = ?k" by (rule find_step_id [OF assms(2)])
  have find4: "find_step wo2 ?k \<noteq> None" using find3 by (simp add: wo2_def find_step_with_status)
  have left: "leave_wait_step ?s (waiting_for ap d wo) = (Inr (), wo2)"
    using find3
    by (simp add: leave_wait_step_def io_run sid transition_step_ok [OF find2] approval_wait_step_def
        rt stat transition_workflow_ok action_step_eq get_step_Some [OF find3] a_id
        transition_step_ok [OF find3] wo2_def)
  have "wf_steps wo2 = insert_before_last (approval_wait_step ap d St_completed) (wf_steps wo)"
  proof -
    have "find (\<lambda>s. st_step_id s = st_step_id ?s) (modify_first ?k (\<lambda>s. s\<lparr>st_status := St_blocked, st_error := st_error s\<rparr>) (wf_steps wo)) = None"
      using new by (simp add: find_step_def with_status_def)
    moreover have "modify_first ?k (\<lambda>s. s\<lparr>st_status := St_in_progress\<rparr>)
        (modify_first ?k (\<lambda>s. s\<lparr>st_status := St_blocked\<rparr>) (wf_steps wo)) = wf_steps wo"
      using assms(2,3) by (subst modify_first_twice) (auto intro!: modify_first_same simp: find_step_def)
    ultimately show ?thesis
      using ne modify_first_insert_new [of ?s]
      by (simp add: wo2_def with_status_def waiting_for_def with_wait_step_def modify_first_insert_other
          sid approval_wait_step_def)
  qed
  then have "wo2\<lparr>wf_current_step_id := ?k\<rparr> =
      wo\<lparr>wf_steps := insert_before_last (approval_wait_step ap d St_completed) (wf_steps wo),
         wf_current_step_id := ?k\<rparr>"
    using assms(1) by (simp add: wo2_def with_status_def waiting_for_def with_wait_step_def)
  moreover have "goto_action wo2 = (Inr (), wo2\<lparr>wf_current_step_id := ?k\<rparr>)"
  proof -
    obtain b where b: "find_step wo2 ?k = Some b" using find4 by blast
    have "wf_run_type wo2 = wf_run_type wo" by (simp add: wo2_def rt)
    then show ?thesis
      using find_step_id [OF b]
      by (simp add: goto_action_def io_run action_step_eq get_step_Some [OF b] set_current_def)
  qed
  ultimately have "resume_from_approval ap (waiting_for ap d wo) =
       (Inr (), wo\<lparr>wf_steps := insert_before_last (approval_wait_step ap d St_completed) (wf_steps wo),
                   wf_current_step_id := ?k\<rparr>)"
    by (simp add: resume_from_approval_def io_run get_step_Some [OF find2] left)
  then show ?thesis
    using wait_for_approval_eq [OF assms] find1 stat by (auto simp: waiting_for_def)
qed

lemma created_ready:
  assumes "create_workflow_state ca t = Inr wo" and "ca_run_type ca \<in> {''model'', ''tool''}"
  shows "wf_status wo = Wf_running"
    and "\<exists>a. find_step wo (action_step_id (wf_run_type wo)) = Some a \<and> st_status a = St_in_progress"
    and "find_step wo (approval_step_id ap) = None"
proof -
  obtain rt where rt: "check_step_type (ca_run_type ca) = Inr rt" and f: "wf_run_type wo = rt"
    "wf_steps wo = initial_steps rt" "wf_status wo = Wf_running"
    using assms(1) by (auto simp: create_workflow_state_def)
  have m: "rt \<in> {Model_step, Tool_step}"
    using check_step_type_Inr [OF rt] assms(2) by (cases rt) auto
  show "wf_status wo = Wf_running" by (rule f)
  show "\<exists>a. find_step wo (action_step_id (wf_run_type wo)) = Some a \<and> st_status a = St_in_progress"
    by (simp add: find_step_def f initial_steps_def)
  show "find_step wo (approval_step_id ap) = None"
    using m by (auto simp: find_step_def f initial_steps_def action_step_id_def approval_step_id_def finish_step_id_def)
qed

theorem approval_wait_and_resume_witness:
  "\<exists>wo wo1. create_workflow_state sample_args (utc_stamp 0) = Inr wo \<and>
     wait_for_approval ''ap1'' [] wo = (Inr (), wo1) \<and> wf_status wo1 = Wf_waiting \<and>
     wf_status (snd (resume_from_approval ''ap1'' wo1)) = Wf_running"
proof -
  obtain wo where wo: "create_workflow_state sample_args (utc_stamp 0) = Inr wo"
    using sample_created by blast
  have "ca_run_type sample_args \<in> {''model'', ''tool''}" by (simp add: sample_args_def)
  note ready = created_ready [OF wo this]
  obtain a where a: "find_step wo (action_step_id (wf_run_type wo)) = Some a" "st_status a = St_in_progress"
    using ready(2) by blast
  from approval_wait_and_resume [OF ready(1) a ready(3), of "''ap1''" "[]"] wo ready(1)
  show ?thesis by (elim exE conjE) (intro exI conjI, assumption+, simp)
qed

section \<open>The retry budget\<close>

definition retry_part :: "workflow \<Rightarrow> retry_policy \<times> int" where
  "retry_part wo = (wf_retry_policy wo, rt_attempts_used (wf_retry_state wo))"

fun is_retry_op :: "workflow_op \<Rightarrow> bool" where
  "is_retry_op (W_wait_retry now t m r) = True"
| "is_retry_op (W_retry_policy v) = True"
| "is_retry_op _ = False"

lemmas machine_ops = transition_step_def transition_workflow_def modify_step_def set_current_def
  start_step_def block_action_def enter_wait_step_def enter_waiting_def leave_wait_step_def
  goto_action_def mark_action_completed_def complete_finish_step_def complete_workflow_def
  fail_workflow_def set_action_details_def wait_for_approval_def resume_from_approval_def
  resume_from_retry_def attach_run_to_workflow_def configure_subrun_policy_def
  register_artifact_def register_memory_def register_child_workflow_def action_step_def
  current_step_def

lemma keeps_retry_part:
  assumes "\<not> is_retry_op x"
  shows "keeps (\<lambda>wo. retry_part wo = r) (workflow_do x)"
  using assms
  by (cases x)
    (simp_all add: machine_ops; intro keeps_intro keeps_get_step_plain keeps_modify;
      simp add: retry_part_def)+

lemma keeps_retry_transition:
  "keeps (\<lambda>wo. retry_part wo = r) (transition_step k nxt err)"
  unfolding transition_step_def modify_step_def
  by (intro keeps_intro keeps_get_step_plain keeps_modify) (simp add: retry_part_def)

lemma keeps_retry_block: "keeps (\<lambda>wo. retry_part wo = r) block_action"
  unfolding block_action_def action_step_def
  by (intro keeps_intro keeps_get_step_plain keeps_retry_transition)

lemma keeps_retry_enter: "keeps (\<lambda>wo. retry_part wo = r) (enter_wait_step k ty d e)"
  unfolding enter_wait_step_def modify_step_def
  by (intro keeps_intro keeps_modify; simp add: retry_part_def)

lemma keeps_retry_go: "keeps (\<lambda>wo. retry_part wo = r) (io_then enter_waiting (set_current k))"
  unfolding enter_waiting_def transition_workflow_def set_current_def
  by (intro keeps_intro keeps_modify; simp add: retry_part_def)

lemma wp_keeps_part:
  assumes "\<And>r. keeps (\<lambda>wo. p wo = r) m" and "\<And>x wo'. p wo' = p wo \<Longrightarrow> Q x wo'"
    and "\<And>e wo'. p wo' = p wo \<Longrightarrow> E e wo'"
  shows "wp m Q E wo"
proof -
  have "p (snd (m wo)) = p wo" using assms(1) [of "p wo"] by (simp add: keeps_def)
  then show ?thesis using assms(2,3) by (auto simp: wp_def split: prod.splits sum.splits)
qed

text \<open>A retry that is scheduled uses one attempt; one that is refused uses at most one.\<close>

definition one_attempt :: "retry_policy \<Rightarrow> int \<Rightarrow> workflow \<Rightarrow> bool" where
  "one_attempt p n wo \<longleftrightarrow> retry_part wo = (p, n + 1) \<and> n < rp_max_attempts p"

lemma wp_wait_for_retry:
  assumes "retry_part wo = (p, n)"
  shows "wp (wait_for_retry now t m b) (\<lambda>_. one_attempt p n)
     (\<lambda>_ wo'. retry_part wo' = (p, n) \<or> one_attempt p n wo') wo"
proof (cases "b \<and> can_retry wo")
  case False
  then show ?thesis
    using assms by (auto simp: wait_for_retry_def wp)
next
  case True
  then have lt: "n < rp_max_attempts p"
    using assms by (auto simp: can_retry_def retry_part_def)
  let ?E = "\<lambda>_ wo'. retry_part wo' = (p, n) \<or> one_attempt p n wo'"
  have after: "wp (io_then enter_waiting (set_current k)) (\<lambda>_. one_attempt p n) ?E wo'"
    if "retry_part wo' = (p, n + 1)" for wo' k
    by (rule wp_keeps_part [OF keeps_retry_go]) (use that lt in \<open>auto simp: one_attempt_def\<close>)
  have enter: "wp (enter_wait_step k Retry_wait d e)
      (\<lambda>_. wp (io_then (io_modify (\<lambda>wo. wo\<lparr>wf_retry_state := \<lparr>rt_attempts_used = n + 1,
          rt_retries_remaining = rest wo, rt_next_retry_at = at', rt_last_error = er\<rparr>\<rparr>))
        (io_then enter_waiting (set_current k))) (\<lambda>_. one_attempt p n) ?E) ?E wo'"
    if "retry_part wo' = (p, n)" for wo' k d e rest at' er
    by (rule wp_keeps_part [OF keeps_retry_enter], subst wp_then, subst wp_modify, rule after)
      (use that in \<open>auto simp: retry_part_def\<close>)
  have schedule: "wp (schedule_retry now t m b) (\<lambda>_. one_attempt p n) ?E wo'"
    if part: "retry_part wo' = (p, n)" for wo'
  proof -
    have used: "rt_attempts_used (wf_retry_state wo') + 1 = n + 1"
      using part by (simp add: retry_part_def)
    show ?thesis
    proof (cases "add_seconds now (rp_backoff_seconds (wf_retry_policy wo'))")
      case (Inl e)
      then show ?thesis using part by (simp add: schedule_retry_def wp_bind wp_get wp_lift)
    next
      case (Inr us)
      show ?thesis
        unfolding schedule_retry_def wp_bind wp_get wp_lift Inr sum.case Let_def used
        by (subst wp_then, rule enter [OF part])
    qed
  qed
  have "wp (io_then block_action (schedule_retry now t m b)) (\<lambda>_. one_attempt p n) ?E wo"
    by (subst wp_then, rule wp_keeps_part [OF keeps_retry_block]) (simp_all add: schedule assms)
  then show ?thesis
    using True by (simp add: wait_for_retry_def wp_bind wp_get)
qed

fun scheduled :: "workflow_op \<Rightarrow> workflow \<Rightarrow> int" where
  "scheduled (W_wait_retry now t m r) wo = (case fst (wait_for_retry now t m r wo) of Inr _ \<Rightarrow> 1 | Inl _ \<Rightarrow> 0)"
| "scheduled _ wo = 0"

text \<open>How many retries a sequence of operations scheduled without an error.\<close>

fun retries_scheduled :: "workflow_op list \<Rightarrow> workflow \<Rightarrow> int" where
  "retries_scheduled [] wo = 0"
| "retries_scheduled (x # xs) wo = scheduled x wo + retries_scheduled xs (snd (workflow_do x wo))"

fun sets_retry_policy :: "workflow_op \<Rightarrow> bool" where
  "sets_retry_policy (W_retry_policy v) = True"
| "sets_retry_policy _ = False"

abbreviation attempts :: "workflow \<Rightarrow> int" where
  "attempts wo \<equiv> rt_attempts_used (wf_retry_state wo)"

lemma one_op_attempts:
  assumes "\<not> sets_retry_policy x"
  shows "wf_retry_policy (snd (workflow_do x wo)) = wf_retry_policy wo \<and>
     attempts wo + scheduled x wo \<le> attempts (snd (workflow_do x wo)) \<and>
     attempts (snd (workflow_do x wo)) \<le> max (attempts wo) (rp_max_attempts (wf_retry_policy wo))"
proof (cases "is_retry_op x")
  case False
  have "retry_part (snd (workflow_do x wo)) = retry_part wo"
    using keeps_retry_part [OF False, of "retry_part wo"] by (simp add: keeps_def)
  moreover have "scheduled x wo = 0" using False by (cases x) simp_all
  ultimately show ?thesis by (simp add: retry_part_def)
next
  case True
  with assms obtain now t m r where x: "x = W_wait_retry now t m r" by (cases x) simp_all
  let ?p = "wf_retry_policy wo" and ?n = "attempts wo"
  have "retry_part wo = (?p, ?n)" by (simp add: retry_part_def)
  note w = wp_wait_for_retry [OF this, of now t m r]
  show ?thesis
  proof (cases "wait_for_retry now t m r wo")
    case (Pair res wo')
    then show ?thesis
      using w by (cases res) (auto simp: x wp_def one_attempt_def retry_part_def)
  qed
qed

text \<open>
  C19: The retry budget. Over any sequence of operations that does not configure a new retry policy,
  each retry scheduled without an error uses up at least one attempt, and the attempts used never
  exceed the configured maximum (nor, where more were used already, their number at the start). So
  no more than \<open>max_attempts - attempts_used\<close> retries can be scheduled.
\<close>

theorem retry_budget:
  assumes "\<not> list_ex sets_retry_policy ops"
  shows "attempts wo + retries_scheduled ops wo \<le> attempts (workflow_run ops wo) \<and>
     attempts (workflow_run ops wo) \<le> max (attempts wo) (rp_max_attempts (wf_retry_policy wo))"
  using assms
proof (induction ops arbitrary: wo)
  case (Cons x xs)
  let ?wo = "snd (workflow_do x wo)"
  have "attempts ?wo + retries_scheduled xs ?wo \<le> attempts (workflow_run xs ?wo) \<and>
     attempts (workflow_run xs ?wo) \<le> max (attempts ?wo) (rp_max_attempts (wf_retry_policy ?wo))"
    using Cons by simp
  moreover have "\<not> sets_retry_policy x" using Cons.prems by simp
  note one_op_attempts [OF this, of wo]
  ultimately show ?case by auto
qed simp

theorem retry_budget_witness:
  "\<exists>wo. create_workflow_state sample_args (utc_stamp 0) = Inr wo \<and>
     retries_scheduled [W_wait_retry 0 ''TransientToolError'' ''timeout'' True, W_resume_retry] wo
       \<le> max (attempts wo) (rp_max_attempts (wf_retry_policy wo)) - attempts wo"
proof -
  obtain wo where "create_workflow_state sample_args (utc_stamp 0) = Inr wo"
    using sample_created by blast
  then show ?thesis
    using retry_budget [of "[W_wait_retry 0 ''TransientToolError'' ''timeout'' True, W_resume_retry]" wo]
    by auto
qed

section \<open>Child workflows\<close>

definition child_part :: "workflow \<Rightarrow> subrun_policy \<times> int \<times> string list" where
  "child_part wo = (wf_subrun_policy wo, wf_depth wo, wf_child_workflow_ids wo)"

fun is_child_op :: "workflow_op \<Rightarrow> bool" where
  "is_child_op (W_child c) = True"
| "is_child_op (W_subrun_policy v) = True"
| "is_child_op _ = False"

fun sets_subrun_policy :: "workflow_op \<Rightarrow> bool" where
  "sets_subrun_policy (W_subrun_policy v) = True"
| "sets_subrun_policy _ = False"

lemma keeps_child_retry: "keeps (\<lambda>wo. child_part wo = r) (wait_for_retry now t m b)"
  unfolding wait_for_retry_def schedule_retry_def Let_def machine_ops
  by (intro keeps_intro keeps_get_step_plain keeps_modify; simp add: child_part_def)

lemma keeps_child_part:
  assumes "\<not> is_child_op x"
  shows "keeps (\<lambda>wo. child_part wo = r) (workflow_do x)"
  using assms
  by (cases x)
    (simp_all add: machine_ops configure_retry_policy_def keeps_child_retry;
      intro keeps_intro keeps_get_step_plain keeps_modify; simp add: child_part_def)+

definition children_grow :: "workflow \<Rightarrow> workflow \<Rightarrow> bool" where
  "children_grow old wo \<longleftrightarrow>
     (\<exists>new. wf_child_workflow_ids wo = wf_child_workflow_ids old @ new \<and>
        (distinct (wf_child_workflow_ids old) \<longrightarrow> distinct (wf_child_workflow_ids wo)) \<and>
        (new \<noteq> [] \<longrightarrow> wf_depth old < sp_max_depth (wf_subrun_policy old) \<and>
           int (length (wf_child_workflow_ids wo)) \<le> sp_max_children (wf_subrun_policy old)))"

lemma one_op_children:
  assumes "\<not> sets_subrun_policy x" and "wf_subrun_policy wo = wf_subrun_policy old"
    and "wf_depth wo = wf_depth old" and "children_grow old wo"
  shows "wf_subrun_policy (snd (workflow_do x wo)) = wf_subrun_policy old \<and>
     wf_depth (snd (workflow_do x wo)) = wf_depth old \<and> children_grow old (snd (workflow_do x wo))"
proof (cases "is_child_op x")
  case False
  have "child_part (snd (workflow_do x wo)) = child_part wo"
    using keeps_child_part [OF False, of "child_part wo"] by (simp add: keeps_def)
  then show ?thesis using assms by (simp add: child_part_def children_grow_def)
next
  case True
  with assms(1) obtain c where x: "x = W_child c" by (cases x) simp_all
  show ?thesis
    using assms(2-4)
    by (auto simp: x register_child_workflow_def can_spawn_child_workflow_def children_grow_def
        io_bind_def io_get_def io_return_def io_raise_def io_modify_def)
qed

text \<open>
  C36: Child workflows are registered within the limits of the workflow's policy: over any sequence
  of operations that does not configure a new policy, the children registered before stay, no child
  is registered twice, their number stays within \<open>max_children\<close> (or does not grow), and a workflow
  at its maximal depth registers none.
\<close>

theorem child_workflows_within_policy:
  assumes "\<not> list_ex sets_subrun_policy ops"
  shows "children_grow wo (workflow_run ops wo)"
proof -
  have "children_grow old (workflow_run ops wo)"
    if "wf_subrun_policy wo = wf_subrun_policy old" "wf_depth wo = wf_depth old"
      "children_grow old wo" "\<not> list_ex sets_subrun_policy ops" for old wo ops
    using that
  proof (induction ops arbitrary: wo)
    case (Cons x xs)
    then show ?case using one_op_children [of x wo old] by simp
  qed simp
  then show ?thesis using assms by (simp add: children_grow_def)
qed

theorem child_workflows_within_policy_witness:
  "\<exists>wo. create_workflow_state sample_args (utc_stamp 0) = Inr wo \<and>
     children_grow wo (workflow_run [W_child ''run-1'', W_child ''run-1'', W_complete] wo)"
proof -
  obtain wo where "create_workflow_state sample_args (utc_stamp 0) = Inr wo"
    using sample_created by blast
  moreover have "children_grow wo (workflow_run [W_child ''run-1'', W_child ''run-1'', W_complete] wo)"
    by (rule child_workflows_within_policy) simp
  ultimately show ?thesis by blast
qed

end
