(* ===== verification/Workflow_Store.thy ===== *)
theory Workflow_Store
  imports Workflow_Properties
begin

text \<open>
  Reading a workflow back. The file holds a workflow's shared memories, policies and delegation as
  plain objects, which loading normalises again. Normalised values are fixed points of the
  normalisation, every operation keeps them normalised, and so a workflow that was created and
  changed by the operations of the module is read back as it was written.
\<close>

section \<open>Normalisation is idempotent\<close>

lemma non_negative_Inr: "non_negative v msg = Inr i \<longleftrightarrow> py_int v = Some i \<and> 0 \<le> i"
  by (auto simp: non_negative_def split: option.splits)

lemma normalize_retry_policy_again:
  "normalize_retry_policy v = Inr p \<Longrightarrow> normalize_retry_policy (PDict (retry_policy_object p)) = Inr p"
  by (auto simp: normalize_retry_policy_def retry_policy_object_def res_bind_Inr non_negative_Inr
      or_empty_def dict_get_or_def)

lemma res_map_again:
  assumes "res_map f xs = Inr ys" and "\<And>x y. f x = Inr y \<Longrightarrow> h (g y) = Inr y"
  shows "\<forall>y \<in> set ys. h (g y) = Inr y"
  using assms(1)
proof (induction xs arbitrary: ys)
  case (Cons x xs)
  then show ?case using assms(2) by (auto simp: res_bind_Inr)
qed simp

lemma res_map_fixed: "\<forall>y \<in> set ys. f (g y) = Inr y \<Longrightarrow> res_map f (map g ys) = Inr ys"
  by (induction ys) (simp_all add: res_bind_def)

lemma non_empty_text_again: "non_empty_text v = Some s \<Longrightarrow> non_empty_text (PStr s) = Some s"
  by (cases v) (auto split: if_splits)

lemma text_item_again: "text_item f v = Inr s \<Longrightarrow> text_item g (PStr s) = Inr s"
  unfolding text_item_def
  by (cases "non_empty_text v") (auto dest: non_empty_text_again simp del: non_empty_text.simps)

lemma shared_entry_again: "shared_entry v = Inr d \<Longrightarrow> shared_entry (PDict d) = Inr d"
  by (cases v) (simp_all add: shared_entry_def split: if_splits)

lemma normalize_string_list_again:
  assumes "normalize_string_list v f = Inr ss"
  shows "normalize_string_list (PList (map PStr ss)) g = Inr ss"
proof (cases v)
  case (PList items)
  with assms obtain ts where ts: "res_map (text_item f) items = Inr ts" "ss = dedupe [] ts"
    by (auto simp: normalize_string_list_def res_bind_Inr)
  have "\<forall>s \<in> set ss. text_item g (PStr s) = Inr s"
    using res_map_again [where g = PStr and h = "text_item g", OF ts(1) text_item_again] ts(2)
    by (simp add: set_dedupe)
  then have "res_map (text_item g) (map PStr ss) = Inr ss" by (rule res_map_fixed)
  then show ?thesis by (simp add: normalize_string_list_def res_bind_def ts(2))
qed (use assms in \<open>auto simp: normalize_string_list_def res_bind_def\<close>)

lemma normalize_optional_string_list_again:
  assumes "normalize_optional_string_list v f = Inr o'"
  shows "normalize_optional_string_list (opt_list o') f = Inr o'"
  using assms
  by (auto simp: normalize_optional_string_list_def opt_list_def res_bind_Inr
      dest: normalize_string_list_again split: if_splits)

lemma normalize_optional_string_again:
  assumes "normalize_optional_string v f = Inr o'"
  shows "normalize_optional_string (opt_str o') g = Inr o'"
proof (cases "non_empty_text v")
  case None
  then show ?thesis using assms by (simp add: normalize_optional_string_def split: if_splits)
next
  case (Some s)
  then have "v \<noteq> PNone" by auto
  then have "o' = Some s" using assms Some by (simp add: normalize_optional_string_def del: non_empty_text.simps)
  then show ?thesis
    using non_empty_text_again [OF Some] by (simp add: normalize_optional_string_def del: non_empty_text.simps)
qed

lemma normalize_subrun_policy_again:
  assumes "normalize_subrun_policy v = Inr p"
  shows "normalize_subrun_policy (PDict (subrun_policy_object p)) = Inr p"
  using assms
  by (auto simp: normalize_subrun_policy_def subrun_policy_object_def res_bind_Inr non_negative_Inr
      or_empty_def dict_get_or_def dict_get_def normalize_optional_string_list_again)

lemma delegation_object_again:
  assumes "dl_allowed_capabilities d \<noteq> []" and "check_capabilities (dl_allowed_capabilities d) = Inr ()"
    and "\<And>f. normalize_string_list (PList (map PStr (dl_allowed_capabilities d))) f = Inr (dl_allowed_capabilities d)"
    and "\<And>f. normalize_string_list (PList (map PStr (dl_allowed_tools d))) f = Inr (dl_allowed_tools d)"
    and "\<And>f. normalize_string_list (PList (map PStr (dl_completion_criteria d))) f = Inr (dl_completion_criteria d)"
    and "\<And>f. normalize_optional_string (opt_str (dl_role d)) f = Inr (dl_role d)"
    and "\<And>f. normalize_optional_string (opt_str (dl_assigned_by_workflow_id d)) f = Inr (dl_assigned_by_workflow_id d)"
    and "\<And>f. normalize_optional_string (opt_str (dl_assigned_by_run_id d)) f = Inr (dl_assigned_by_run_id d)"
    and "\<And>f. normalize_optional_string (opt_str (dl_task_intent d)) f = Inr (dl_task_intent d)"
    and "\<And>f. normalize_optional_string (opt_str (dl_expected_output d)) f = Inr (dl_expected_output d)"
  shows "normalize_delegation (PDict (delegation_object (Some d))) = Inr (Some d)"
  using assms
  by (simp add: normalize_delegation_def normalize_delegation_object_def delegation_object_def
      dict_get_def res_bind_def)

lemma normalize_delegation_again:
  assumes "normalize_delegation v = Inr dl"
  shows "normalize_delegation (PDict (delegation_object dl)) = Inr dl"
proof (cases dl)
  case None
  then show ?thesis by (simp add: normalize_delegation_def delegation_object_def)
next
  case (Some d)
  obtain c where "normalize_delegation_object c = Inr d"
    using assms Some by (cases v) (auto simp: normalize_delegation_def res_bind_Inr split: if_splits)
  then show ?thesis
    unfolding Some
    by (intro delegation_object_again)
      (auto simp: normalize_delegation_object_def res_bind_Inr split: if_splits
        intro: normalize_string_list_again normalize_optional_string_again)
qed

lemma normalize_shared_again:
  assumes "normalize_shared_memories v = Inr ds"
  shows "normalize_shared_memories (PList (map PDict ds)) = Inr ds"
proof (cases v)
  case (PList items)
  with assms have "res_map shared_entry items = Inr ds" by (simp add: normalize_shared_memories_def)
  from res_map_again [where g = PDict and h = shared_entry, OF this shared_entry_again]
  have "res_map shared_entry (map PDict ds) = Inr ds" by (rule res_map_fixed)
  then show ?thesis by (simp add: normalize_shared_memories_def)
qed (use assms in \<open>auto simp: normalize_shared_memories_def\<close>)

section \<open>Reading a workflow back\<close>

definition config_normal :: "workflow \<Rightarrow> bool" where
  "config_normal wo \<longleftrightarrow>
     normalize_shared_memories (PList (map PDict (wf_shared_memories wo))) = Inr (wf_shared_memories wo) \<and>
     normalize_subrun_policy (PDict (subrun_policy_object (wf_subrun_policy wo))) = Inr (wf_subrun_policy wo) \<and>
     normalize_delegation (PDict (delegation_object (wf_delegation wo))) = Inr (wf_delegation wo) \<and>
     normalize_retry_policy (PDict (retry_policy_object (wf_retry_policy wo))) = Inr (wf_retry_policy wo)"

lemma created_normal:
  assumes "create_workflow_state ca t = Inr wo"
  shows "config_normal wo"
  using assms
  by (auto simp: create_workflow_state_def config_normal_def res_bind_Inr
      normalize_shared_again normalize_subrun_policy_again normalize_delegation_again
      normalize_retry_policy_again)

definition config_part where
  "config_part wo = (wf_shared_memories wo, wf_subrun_policy wo, wf_delegation wo, wf_retry_policy wo)"

fun is_config_op :: "workflow_op \<Rightarrow> bool" where
  "is_config_op (W_retry_policy v) = True"
| "is_config_op (W_subrun_policy v) = True"
| "is_config_op _ = False"

lemma keeps_config_retry: "keeps (\<lambda>wo. config_part wo = r) (wait_for_retry now t m b)"
  unfolding wait_for_retry_def schedule_retry_def Let_def machine_ops
  by (intro keeps_intro keeps_get_step_plain keeps_modify; simp add: config_part_def)

lemma keeps_config_part:
  assumes "\<not> is_config_op x"
  shows "keeps (\<lambda>wo. config_part wo = r) (workflow_do x)"
  using assms
  by (cases x)
    (simp_all add: machine_ops keeps_config_retry;
      intro keeps_intro keeps_get_step_plain keeps_modify; simp add: config_part_def)+

lemma config_normal_part: "config_part wo' = config_part wo \<Longrightarrow> config_normal wo \<Longrightarrow> config_normal wo'"
  by (simp add: config_part_def config_normal_def)

lemma normal_do: 
  assumes "config_normal wo"
  shows "config_normal (snd (workflow_do x wo))"
proof (cases "is_config_op x")
  case False
  have "config_part (snd (workflow_do x wo)) = config_part wo"
    using keeps_config_part [OF False, of "config_part wo"] by (simp add: keeps_def)
  then show ?thesis using assms by (rule config_normal_part)
next
  case True
  then show ?thesis
    using assms
    by (cases x) (auto simp: configure_retry_policy_def configure_subrun_policy_def io_bind_def
        io_lift_def io_modify_def config_normal_def normalize_retry_policy_again
        normalize_subrun_policy_again split: sum.splits)
qed

lemma normal_run: "config_normal wo \<Longrightarrow> config_normal (workflow_run ops wo)"
  by (induction ops arbitrary: wo) (simp_all add: normal_do)

lemma load_normal:
  assumes "dir_get (workflows w) k = Some wo" and "config_normal wo"
  shows "load_workflow k w = (Inr wo, w)"
  using assms
  by (simp add: load_workflow_def io_bind_def io_get_def io_lift_def config_normal_def res_bind_def)

lemma wp_write_workflow:
  "\<exists>t hist. let wo' = wo\<lparr>wf_updated_at := t, wf_transition_history := hist\<rparr>
     in wp (write_workflow wo) (\<lambda>r w'. r = wo' \<and> dir_get (workflows w') (wf_workflow_id wo) = Some wo')
          (\<lambda>_ _. False) w"
  unfolding write_workflow_def wp Let_def by (intro exI conjI) (rule refl, simp add: files.get_put)

lemma load_after_write:
  assumes "config_normal wo"
  shows "wp (write_workflow wo)
     (\<lambda>r w'. load_workflow (wf_workflow_id wo) w' = (Inr r, w')) (\<lambda>_ _. False) w"
proof -
  obtain t hist where "let wo' = wo\<lparr>wf_updated_at := t, wf_transition_history := hist\<rparr>
     in wp (write_workflow wo) (\<lambda>r w'. r = wo' \<and> dir_get (workflows w') (wf_workflow_id wo) = Some wo')
          (\<lambda>_ _. False) w"
    using wp_write_workflow by blast
  moreover have "config_normal (wo\<lparr>wf_updated_at := t, wf_transition_history := hist\<rparr>)"
    using assms by (simp add: config_normal_def)
  ultimately show ?thesis
    unfolding Let_def by (auto elim!: wp_mono intro: load_normal)
qed


definition empty_workflow_world :: workflow_world where
  "empty_workflow_world = \<lparr>clk = (\<lambda>n. int n), ticks = 0, uuids = (\<lambda>n. show_int (int n)), uuid_n = 0, approvals = [],
     memories = [], workflows = []\<rparr>"


end
