(* ===== verification/State_Refinement.thy ===== *)
theory State_Refinement
  imports State_Files
begin

text \<open>
  src/runtime/state.py as its callers see it: a map from paths to payloads. The envelopes, the
  versions, the legacy files and the migrations are not visible through the operations. A locale
  holds the simulation argument; it is interpreted on the operations of State_Files.
\<close>

section \<open>Simulation\<close>

text \<open>A client runs one operation after the other and sees the reply of each.\<close>

fun run_all :: "('c \<Rightarrow> 's \<Rightarrow> 'r \<times> 's) \<Rightarrow> 'c list \<Rightarrow> 's \<Rightarrow> 'r list \<times> 's" where
  "run_all step [] s = ([], s)"
| "run_all step (c # cs) s =
     (let (r, s') = step c s; (rs, t) = run_all step cs s' in (r # rs, t))"

locale simulation =
  fixes step :: "'c \<Rightarrow> 's \<Rightarrow> 'r \<times> 's"
    and spec :: "'c \<Rightarrow> 'a \<Rightarrow> 'r \<times> 'a"
    and view :: "'s \<Rightarrow> 'a"
    and inv :: "'s \<Rightarrow> bool"
  assumes simulates: "inv s \<Longrightarrow> step c s = (r, s') \<Longrightarrow> inv s' \<and> spec c (view s) = (r, view s')"
begin

lemma run_simulates:
  "inv s \<Longrightarrow> run_all step cs s = (rs, s') \<Longrightarrow> inv s' \<and> run_all spec cs (view s) = (rs, view s')"
proof (induction cs arbitrary: s rs)
  case Nil
  then show ?case by simp
next
  case (Cons c cs)
  obtain r s1 where st: "step c s = (r, s1)" by fastforce
  with Cons.prems(2) obtain rs' where rest: "run_all step cs s1 = (rs', s')" "rs = r # rs'"
    by (auto split: prod.splits)
  from simulates [OF Cons.prems(1) st] Cons.IH [OF _ rest(1)] rest(2) show ?case by simp
qed

end

section \<open>The operations and what they promise\<close>

datatype state_command =
    Write_Payload string pydict
  | Load_Payload string
  | Inspect_Payload string
  | Migrate_Payload string
  | Migrate_All pyval

text \<open>
  The operations of the module at one schema and the current version. A reply is the error, or
  the payload the call returns, where it returns one.
\<close>

definition exec_state ::
    "string \<Rightarrow> state_command \<Rightarrow> 'z state_dir_scheme \<Rightarrow> pydict option res \<times> 'z state_dir_scheme" where
  "exec_state sc c =
     (case c of
        Write_Payload k p \<Rightarrow>
          io_bind (write_state_payload k p sc PERSISTED_STATE_VERSION) (\<lambda>q. io_return (Some q))
      | Load_Payload k \<Rightarrow> io_bind (load_state_payload k sc) (\<lambda>q. io_return (Some q))
      | Inspect_Payload k \<Rightarrow> io_bind (inspect_state_payload k sc True) (\<lambda>i. io_return (in_payload i))
      | Migrate_Payload k \<Rightarrow>
          io_bind (migrate_state_payload k sc PERSISTED_STATE_VERSION) (\<lambda>_. io_return None)
      | Migrate_All limit \<Rightarrow>
          io_bind (migrate_state_directory sc PERSISTED_STATE_VERSION limit True) (\<lambda>_. io_return None))"

definition missing_file :: "string \<Rightarrow> exc" where
  "missing_file k = FileNotFoundError (''No such file or directory: '' @ k)"

text \<open>The specification: a map of payloads; a migration does not change it.\<close>

fun spec_state ::
    "state_command \<Rightarrow> (string \<rightharpoonup> pydict) \<Rightarrow> pydict option res \<times> (string \<rightharpoonup> pydict)" where
  "spec_state (Write_Payload k p) m = (Inr (Some p), m(k \<mapsto> p))"
| "spec_state (Load_Payload k) m =
     ((case m k of None \<Rightarrow> Inl (missing_file k) | Some p \<Rightarrow> Inr (Some p)), m)"
| "spec_state (Inspect_Payload k) m =
     ((case m k of None \<Rightarrow> Inl (missing_file k) | Some p \<Rightarrow> Inr (Some p)), m)"
| "spec_state (Migrate_Payload k) m =
     ((case m k of None \<Rightarrow> Inl (missing_file k) | Some p \<Rightarrow> Inr None), m)"
| "spec_state (Migrate_All limit) m = (res_bind (normalize_migration_limit limit) (\<lambda>_. Inr None), m)"

text \<open>The payloads a directory holds, and the directories whose every file loads.\<close>

definition stored_payloads :: "string \<Rightarrow> 'z state_dir_scheme \<Rightarrow> (string \<rightharpoonup> pydict)" where
  "stored_payloads sc fs k = (case loaded fs sc k of Inl e \<Rightarrow> None | Inr p \<Rightarrow> Some p)"

definition loadable_dir :: "string \<Rightarrow> 'z state_dir_scheme \<Rightarrow> bool" where
  "loadable_dir sc fs \<longleftrightarrow> dir_ok (docs fs) \<and>
     (\<forall>k\<in>set (dir_ids (docs fs)). \<exists>p. loaded fs sc k = Inr p)"

section \<open>Each operation against the specification\<close>

lemma loadable_iff: "loadable_dir sc fs \<longleftrightarrow> dir_ok (docs fs) \<and>
     (\<forall>k v. dir_get (docs fs) k = Some v \<longrightarrow> (\<exists>p. loaded fs sc k = Inr p))"
  by (auto simp: loadable_dir_def in_dir_ids)

lemma stored_cases:
  assumes "loadable_dir sc fs"
  obtains (missing) "dir_get (docs fs) k = None" "stored_payloads sc fs k = None"
  | (present) p where "loaded fs sc k = Inr p" "stored_payloads sc fs k = Some p"
proof (cases "dir_get (docs fs) k")
  case None
  with missing show thesis by (simp add: stored_payloads_def loaded_def load_state_payload_eq)
next
  case (Some v)
  with assms present show thesis by (auto simp: loadable_iff stored_payloads_def)
qed

text \<open>An operation that leaves what every file loads as it was.\<close>

lemma same_payloads:
  assumes "loadable_dir sc fs" and "dir_ok (docs fs')" and "\<forall>k. loaded fs' sc k = loaded fs sc k"
    and "\<forall>k. dir_get (docs fs) k = None \<longrightarrow> dir_get (docs fs') k = None"
  shows "loadable_dir sc fs' \<and> stored_payloads sc fs' = stored_payloads sc fs"
  using assms by (fastforce simp: loadable_iff stored_payloads_def fun_eq_iff)

lemma keeps_dir_ok_migrate:
  "keeps (\<lambda>fs. dir_ok (docs fs)) (migrate_state_payload k sc ve)"
  unfolding migrate_state_payload_def write_state_payload_def inspect_state_payload_def read_doc_def
  by (intro keeps_intro keeps_modify) (simp add: files.ok_put)

lemma write_refines:
  assumes "schema_name_ok sc" and "loadable_dir sc fs"
  shows "\<exists>fs'. write_state_payload k p sc PERSISTED_STATE_VERSION fs = (Inr p, fs') \<and>
     loadable_dir sc fs' \<and> stored_payloads sc fs' = (stored_payloads sc fs)(k \<mapsto> p)"
proof -
  let ?fs = "fs\<lparr>docs := dir_put (docs fs) k (enveloped p sc PERSISTED_STATE_VERSION)\<rparr>"
  have at: "loaded ?fs sc k = Inr p"
    by (simp add: loaded_Inr dir_simps unwrap_enveloped [OF version_current])
  have other: "loaded ?fs sc k' = loaded fs sc k'" if "k' \<noteq> k" for k'
    using that by (intro loaded_cong) (simp add: dir_simps)
  have "loadable_dir sc ?fs"
    using assms(2) at other by (fastforce simp: loadable_iff files.ok_put dir_simps split: if_splits)
  moreover have "stored_payloads sc ?fs = (stored_payloads sc fs)(k \<mapsto> p)"
    using at other by (auto simp: stored_payloads_def fun_eq_iff)
  ultimately show ?thesis
    using write_state_payload_ok [OF assms(1) version_current] by blast
qed

lemma inspect_loaded:
  assumes "loaded fs sc k = Inr p"
  shows "\<exists>i. inspect_state_payload k sc True fs = (Inr i, fs) \<and> in_payload i = Some p"
proof -
  from assms obtain v where v: "dir_get (docs fs) k = Some v" "unwrap_state_payload v sc = Inr p"
    by (auto simp: loaded_Inr)
  from v(2) show ?thesis
  proof (cases rule: unwrap_Inr_cases)
    case legacy
    with v(1) show ?thesis by (simp add: inspect_state_payload_eq inspect_value_def)
  next
    case (envelope d)
    then obtain ve where "parse_state_version (dict_get d ''version'') = Inr ve"
      by (auto simp: is_supported_state_version_def)
    with envelope v(1) show ?thesis by (auto simp: inspect_state_payload_eq inspect_value_def)
  qed
qed

lemma missing_everywhere:
  assumes "dir_get (docs fs) k = None"
  shows "load_state_payload k sc fs = (Inl (missing_file k), fs)"
    and "inspect_state_payload k sc b fs = (Inl (missing_file k), fs)"
    and "migrate_state_payload k sc ve fs = (Inl (missing_file k), fs)"
  using assms
  by (simp_all add: load_state_payload_eq inspect_state_payload_eq migrate_state_payload_def
      io_bind_def missing_file_def)

lemma migrate_refines:
  assumes "schema_name_ok sc" and "loadable_dir sc fs" and p: "loaded fs sc k = Inr p"
  shows "\<exists>m fs'. migrate_state_payload k sc PERSISTED_STATE_VERSION fs = (Inr m, fs') \<and>
     loadable_dir sc fs' \<and> stored_payloads sc fs' = stored_payloads sc fs"
proof -
  obtain m fs' where m: "migrate_state_payload k sc PERSISTED_STATE_VERSION fs = (Inr m, fs')"
      "loaded fs' sc k = Inr p" "\<forall>k'. k' \<noteq> k \<longrightarrow> dir_get (docs fs') k' = dir_get (docs fs) k'"
    using migrate_step [OF p assms(1)] by blast
  have "loadable_dir sc fs' \<and> stored_payloads sc fs' = stored_payloads sc fs"
  proof (rule same_payloads [OF assms(2)])
    show "dir_ok (docs fs')"
      using keepsD [OF keeps_dir_ok_migrate _ m(1)] assms(2) by (simp add: loadable_iff)
    show "\<forall>k'. loaded fs' sc k' = loaded fs sc k'"
      using m(2,3) p loaded_cong by metis
    show "\<forall>k'. dir_get (docs fs) k' = None \<longrightarrow> dir_get (docs fs') k' = None"
      using m(3) p by (metis loaded_Inr option.distinct(1))
  qed
  with m(1) show ?thesis by blast
qed

lemma migrate_all_refines:
  assumes "schema_name_ok sc" and "loadable_dir sc fs" and lmt: "normalize_migration_limit limit = Inr lmt"
  shows "\<exists>rep fs'. migrate_state_directory sc PERSISTED_STATE_VERSION limit incl fs = (Inr rep, fs') \<and>
     loadable_dir sc fs' \<and> stored_payloads sc fs' = stored_payloads sc fs"
proof -
  define paths where "paths = take_limit lmt (sorted_ids (docs fs))"
  have ok: "dir_ok (docs fs)" and ld: "\<forall>k\<in>set (dir_ids (docs fs)). \<exists>p. loaded fs sc k = Inr p"
    using assms(2) by (simp_all add: loadable_dir_def)
  have sub: "set paths \<subseteq> set (dir_ids (docs fs))"
    by (auto simp: paths_def take_limit_def split: option.splits dest: in_set_takeD)
  have "distinct paths"
    using ok by (auto simp: paths_def take_limit_def distinct_sorted_ids split: option.splits)
  then obtain ms fs' where
      ms: "io_map (\<lambda>k. migrate_state_payload k sc PERSISTED_STATE_VERSION) paths fs = (Inr ms, fs')"
      "\<forall>k. loaded fs' sc k = loaded fs sc k"
      "\<forall>k. k \<notin> set paths \<longrightarrow> dir_get (docs fs') k = dir_get (docs fs) k"
    using migrate_paths [OF assms(1), of paths fs] sub ld by blast
  have "loadable_dir sc fs' \<and> stored_payloads sc fs' = stored_payloads sc fs"
  proof (rule same_payloads [OF assms(2) _ ms(2)])
    show "dir_ok (docs fs')"
      using keepsD [OF keeps_map [OF keeps_dir_ok_migrate] ok ms(1)] by simp
    show "\<forall>k. dir_get (docs fs) k = None \<longrightarrow> dir_get (docs fs') k = None"
      using ms(3) sub by (metis in_dir_ids option.distinct(1) subsetD)
  qed
  with ms(1) lmt assms(2) show ?thesis
    by (auto simp: migrate_state_directory_def io_bind_def io_lift_def io_get_def io_return_def
        paths_def)
qed

lemma limit_error:
  "normalize_migration_limit limit = Inl e \<Longrightarrow>
   migrate_state_directory sc ve limit incl fs = (Inl e, fs)"
  by (simp add: migrate_state_directory_def io_bind_def io_lift_def)

lemma exec_write:
  assumes "schema_name_ok sc" and "loadable_dir sc fs"
    and "exec_state sc (Write_Payload k p) fs = (r, fs')"
  shows "loadable_dir sc fs' \<and>
    spec_state (Write_Payload k p) (stored_payloads sc fs) = (r, stored_payloads sc fs')"
  using write_refines [OF assms(1,2), of k p] assms(3)
  by (auto simp: exec_state_def io_bind_def io_return_def)

lemma exec_read:
  assumes "loadable_dir sc fs" and "c = Load_Payload k \<or> c = Inspect_Payload k"
    and "exec_state sc c fs = (r, fs')"
  shows "loadable_dir sc fs' \<and> spec_state c (stored_payloads sc fs) = (r, stored_payloads sc fs')"
  using assms(1)
proof (cases rule: stored_cases [where k = k])
  case missing
  with assms show ?thesis
    by (auto simp: exec_state_def io_bind_def missing_everywhere)
next
  case (present p)
  then have "load_state_payload k sc fs = (Inr p, fs)"
    by (auto simp: loaded_Inr load_state_payload_eq)
  moreover obtain i where "inspect_state_payload k sc True fs = (Inr i, fs)" "in_payload i = Some p"
    using inspect_loaded [OF present(1)] by blast
  ultimately show ?thesis
    using assms present by (auto simp: exec_state_def io_bind_def io_return_def)
qed

lemma exec_migrate:
  assumes "schema_name_ok sc" and "loadable_dir sc fs"
    and "exec_state sc (Migrate_Payload k) fs = (r, fs')"
  shows "loadable_dir sc fs' \<and>
    spec_state (Migrate_Payload k) (stored_payloads sc fs) = (r, stored_payloads sc fs')"
  using assms(2)
proof (cases rule: stored_cases [where k = k])
  case missing
  with assms show ?thesis by (auto simp: exec_state_def io_bind_def missing_everywhere)
next
  case (present p)
  with migrate_refines [OF assms(1,2) present(1)] assms(3) show ?thesis
    by (auto simp: exec_state_def io_bind_def io_return_def)
qed

lemma exec_migrate_all:
  assumes "schema_name_ok sc" and "loadable_dir sc fs"
    and "exec_state sc (Migrate_All limit) fs = (r, fs')"
  shows "loadable_dir sc fs' \<and>
    spec_state (Migrate_All limit) (stored_payloads sc fs) = (r, stored_payloads sc fs')"
proof (cases "normalize_migration_limit limit")
  case (Inl e)
  with assms(2,3) show ?thesis by (auto simp: exec_state_def io_bind_def limit_error)
next
  case (Inr lmt)
  with migrate_all_refines [OF assms(1,2) Inr, of True] assms(3) show ?thesis
    by (auto simp: exec_state_def io_bind_def io_return_def)
qed

lemma exec_refines:
  assumes "schema_name_ok sc \<and> loadable_dir sc fs" and "exec_state sc c fs = (r, fs')"
  shows "(schema_name_ok sc \<and> loadable_dir sc fs') \<and>
    spec_state c (stored_payloads sc fs) = (r, stored_payloads sc fs')"
proof -
  note ok = assms(1) [THEN conjunct1] assms(1) [THEN conjunct2]
  have "loadable_dir sc fs' \<and> spec_state c (stored_payloads sc fs) = (r, stored_payloads sc fs')"
  proof (cases c)
    case (Write_Payload k p)
    with exec_write [OF ok] assms(2) show ?thesis by blast
  next
    case (Load_Payload k)
    with exec_read [OF ok(2) _ assms(2)] show ?thesis by blast
  next
    case (Inspect_Payload k)
    with exec_read [OF ok(2) _ assms(2)] show ?thesis by blast
  next
    case (Migrate_Payload k)
    with exec_migrate [OF ok] assms(2) show ?thesis by blast
  next
    case (Migrate_All limit)
    with exec_migrate_all [OF ok] assms(2) show ?thesis by blast
  qed
  with ok show ?thesis by blast
qed

interpretation state_files: simulation "exec_state sc" spec_state "stored_payloads sc"
    "\<lambda>fs. schema_name_ok sc \<and> loadable_dir sc fs"
  for sc
  by unfold_locales (rule exec_refines)

section \<open>Any sequence of operations\<close>

text \<open>
  C3: the state files refine a map from paths to payloads. On a directory whose files all load,
  any sequence of writes, loads, inspections and migrations of single files or of the directory
  returns, operation by operation, the reply of the map (a load gives the payload last written,
  a migration changes nothing a load can see, a missing file raises, a bad migration limit is
  refused), and the directory ends with exactly the payloads of the map, all still loadable.
\<close>

theorem state_files_refine_map:
  assumes "schema_name_ok sc" and "loadable_dir sc fs"
    and "run_all (exec_state sc) cs fs = (replies, fs')"
  shows "run_all spec_state cs (stored_payloads sc fs) = (replies, stored_payloads sc fs') \<and>
    loadable_dir sc fs'"
  using state_files.run_simulates [OF _ assms(3)] assms(1,2) by blast

text \<open>A legacy file is migrated, a new file is written and read, a third one is missing.\<close>

definition sample_commands :: "state_command list" where
  "sample_commands = [Migrate_All PNone, Write_Payload ''b'' [(''x'', PInt 2)], Migrate_Payload ''a'',
     Load_Payload ''a'', Inspect_Payload ''b'', Load_Payload ''c'', Migrate_All (PInt 0)]"

definition sample_files :: state_dir where
  "sample_files = \<lparr>dir_exists = True, docs = [(''a'', PDict [(''x'', PInt 1)])]\<rparr>"

theorem state_files_refine_map_witness:
  "fst (run_all (exec_state ''job.v1'') sample_commands sample_files) =
     [Inr None, Inr (Some [(''x'', PInt 2)]), Inr None, Inr (Some [(''x'', PInt 1)]),
      Inr (Some [(''x'', PInt 2)]), Inl (missing_file ''c''),
      Inl (ValueError ''State migration `limit` must be a positive integer'')]"
proof -
  have sc: "schema_name_ok ''job.v1''" by code_simp
  have a: "loaded sample_files ''job.v1'' ''a'' = Inr [(''x'', PInt 1)]" by code_simp
  then have ld: "loadable_dir ''job.v1'' sample_files"
    by (simp add: loadable_dir_def sample_files_def dir_ok_def dir_ids_def)
  have c: "stored_payloads ''job.v1'' sample_files ''c'' = None" by code_simp
  obtain rs fs' where run: "run_all (exec_state ''job.v1'') sample_commands sample_files = (rs, fs')"
    by fastforce
  have "stored_payloads ''job.v1'' sample_files ''a'' = Some [(''x'', PInt 1)]"
    using a by (simp add: stored_payloads_def)
  with c state_files_refine_map [OF sc ld run]
  have "rs = [Inr None, Inr (Some [(''x'', PInt 2)]), Inr None, Inr (Some [(''x'', PInt 1)]),
      Inr (Some [(''x'', PInt 2)]), Inl (missing_file ''c''),
      Inl (ValueError ''State migration `limit` must be a positive integer'')]"
    by (simp add: sample_commands_def normalize_migration_limit_def)
  then show ?thesis by (simp add: run)
qed

end
