(* ===== verification/Workflow_Json.thy ===== *)
theory Workflow_Json
  imports Workflow_Store
begin

text \<open>
  The JSON objects of typed state: \<open>workflow_snapshot\<close> of src/runtime/workflow.py with the entries of
  a history (\<open>transition_entry\<close>), \<open>approval_summary\<close> of src/runtime/approval.py, and the snapshots of
  budget and policy, as the traces and the results of runs contain them. Timestamps are text here.
\<close>

definition stamp_value :: "stamp option \<Rightarrow> pyval" where
  "stamp_value t = (case t of None \<Rightarrow> PNone | Some u \<Rightarrow> PStr (isoformat u))"

fun field_value_object :: "field_value \<Rightarrow> pyval" where
  "field_value_object (FV_stamp t) = stamp_value t"
| "field_value_object (FV_val v) = v"

definition dict_value :: "pydict option \<Rightarrow> pyval" where
  "dict_value d = (case d of None \<Rightarrow> PNone | Some e \<Rightarrow> PDict e)"

definition int_value :: "int option \<Rightarrow> pyval" where
  "int_value n = (case n of None \<Rightarrow> PNone | Some i \<Rightarrow> PInt i)"

definition retry_state_object :: "retry_state \<Rightarrow> pydict" where
  "retry_state_object r =
     [(''attempts_used'', PInt (rt_attempts_used r)), (''retries_remaining'', PInt (rt_retries_remaining r)),
      (''next_retry_at'', stamp_value (rt_next_retry_at r)), (''last_error'', dict_value (rt_last_error r))]"

definition transition_entry :: "string \<Rightarrow> stamp \<Rightarrow> pydict \<Rightarrow> pydict" where
  "transition_entry event_type t details =
     [(''event_type'', PStr event_type), (''timestamp'', PStr (isoformat t))] @ details"

fun workflow_event_object :: "workflow_event \<Rightarrow> pydict" where
  "workflow_event_object (We_created t status step run latest) =
     transition_entry ''created'' t
       [(''status'', PStr (workflow_status_name status)), (''current_step_id'', PStr step),
        (''run_id'', PStr run), (''latest_run_id'', PStr latest)]"
| "workflow_event_object (We_workflow_status_changed t a b) =
     transition_entry ''workflow_status_changed'' t
       [(''from_status'', PStr (workflow_status_name a)), (''to_status'', PStr (workflow_status_name b))]"
| "workflow_event_object (We_current_step_changed t a b) =
     transition_entry ''current_step_changed'' t [(''from_step_id'', PStr a), (''to_step_id'', PStr b)]"
| "workflow_event_object (We_latest_run_attached t a b) =
     transition_entry ''latest_run_attached'' t [(''from_run_id'', PStr a), (''to_run_id'', PStr b)]"
| "workflow_event_object (We_step_added t s ty status) =
     transition_entry ''step_added'' t
       [(''step_id'', PStr s), (''step_type'', PStr (step_type_name ty)), (''status'', PStr (step_status_name status))]"
| "workflow_event_object (We_step_status_changed t s ty a b err) =
     transition_entry ''step_status_changed'' t
       [(''step_id'', PStr s), (''step_type'', PStr (step_type_name ty)),
        (''from_status'', PStr (step_status_name a)), (''to_status'', PStr (step_status_name b)),
        (''error'', dict_value err)]"
| "workflow_event_object (We_child_workflow_registered t c) =
     transition_entry ''child_workflow_registered'' t [(''child_workflow_id'', PStr c)]"
| "workflow_event_object (We_artifact_registered t i k) =
     transition_entry ''artifact_registered'' t [(''artifact_id'', i), (''kind'', k)]"
| "workflow_event_object (We_memory_registered t i k) =
     transition_entry ''memory_registered'' t [(''memory_id'', i), (''memory_type'', k)]"
| "workflow_event_object (We_retry_state_updated t r) =
     transition_entry ''retry_state_updated'' t [(''retry_state'', PDict (retry_state_object r))]"

definition step_object :: "workflow_step \<Rightarrow> pydict" where
  "step_object s =
     [(''step_id'', PStr (st_step_id s)), (''step_type'', PStr (step_type_name (st_step_type s))),
      (''status'', PStr (step_status_name (st_status s))),
      (''details'', PDict (map (\<lambda>(k, v). (k, field_value_object v)) (st_details s))),
      (''error'', dict_value (st_error s))]"

definition str_list :: "string list \<Rightarrow> pyval" where
  "str_list ss = PList (map PStr ss)"

definition dict_list :: "pydict list \<Rightarrow> pyval" where
  "dict_list ds = PList (map PDict ds)"

definition workflow_snapshot :: "workflow \<Rightarrow> pydict" where
  "workflow_snapshot wo =
     [(''workflow_id'', PStr (wf_workflow_id wo)), (''run_id'', PStr (wf_run_id wo)),
      (''latest_run_id'', PStr (wf_latest_run_id wo)), (''root_workflow_id'', PStr (wf_root_workflow_id wo)),
      (''parent_workflow_id'', opt_str (wf_parent_workflow_id wo)), (''depth'', PInt (wf_depth wo)),
      (''child_workflow_ids'', str_list (wf_child_workflow_ids wo)), (''agent'', PStr (wf_agent wo)),
      (''run_type'', PStr (step_type_name (wf_run_type wo))), (''request'', PDict (wf_request wo)),
      (''artifacts'', dict_list (wf_artifacts wo)), (''memories'', dict_list (wf_memories wo)),
      (''shared_memories'', dict_list (wf_shared_memories wo)),
      (''subrun_policy'', PDict (subrun_policy_object (wf_subrun_policy wo))),
      (''delegation'', PDict (delegation_object (wf_delegation wo))),
      (''retry_policy'', PDict (retry_policy_object (wf_retry_policy wo))),
      (''retry_state'', PDict (retry_state_object (wf_retry_state wo))),
      (''status'', PStr (workflow_status_name (wf_status wo))),
      (''current_step_id'', PStr (wf_current_step_id wo)),
      (''transition_history'', dict_list (map workflow_event_object (wf_transition_history wo))),
      (''created_at'', PStr (isoformat (wf_created_at wo))), (''updated_at'', PStr (isoformat (wf_updated_at wo))),
      (''steps'', dict_list (map step_object (wf_steps wo)))]"

definition approval_summary_object :: "approval \<Rightarrow> pydict" where
  "approval_summary_object a =
     (let v = approval_summary a
      in [(''approval_id'', PStr (av_approval_id v)), (''status'', PStr (approval_status_name (av_status v))),
          (''agent'', PStr (av_agent v)), (''policy'', PStr (av_policy v)), (''action'', PDict (av_action v)),
          (''reason'', PStr (av_reason v)), (''requested_run_id'', PStr (av_requested_run_id v)),
          (''workflow_id'', PStr (av_workflow_id v)), (''resumed_run_id'', opt_str (av_resumed_run_id v)),
          (''created_at'', PStr (isoformat (av_created_at v))), (''updated_at'', PStr (isoformat (av_updated_at v)))])"

end
