(* ===== verification/Artifact.thy ===== *)
theory Artifact
  imports Workflow_Json
begin

text \<open>
  src/runtime/artifact.py: the artifacts of runs, one file each, and src/runtime/trace.py: the log
  of runs, one file per trace named by its time, with the summaries the operator reads. A trace
  written in the same microsecond as another replaces it, as the file does. The state
  \<open>agent_world\<close> adds to the stores below the two directories and the performance counter, a stream
  of readings like the clock.
\<close>

section \<open>Artifacts\<close>

record artifact =
  ar_artifact_id :: string
  ar_workflow_id :: string
  ar_run_id :: string
  ar_name :: string
  ar_kind :: string
  ar_value :: pyval
  ar_metadata :: pydict
  ar_created_at :: stamp
  ar_updated_at :: stamp

record agent_world = workflow_world +
  artifacts :: "artifact dir"
  logs :: "pydict dir"
  perf :: "nat \<Rightarrow> rat"
  perf_n :: nat

definition artifact_summary :: "artifact \<Rightarrow> pydict" where
  "artifact_summary a =
     [(''artifact_id'', PStr (ar_artifact_id a)), (''workflow_id'', PStr (ar_workflow_id a)),
      (''run_id'', PStr (ar_run_id a)), (''name'', PStr (ar_name a)), (''kind'', PStr (ar_kind a)),
      (''created_at'', PStr (isoformat (ar_created_at a))), (''updated_at'', PStr (isoformat (ar_updated_at a))),
      (''metadata'', PDict (ar_metadata a))]"

definition write_artifact :: "artifact \<Rightarrow> ('z agent_world_scheme, artifact) io" where
  "write_artifact a =
     io_then (io_modify (\<lambda>w. w\<lparr>artifacts := dir_put (artifacts w) (ar_artifact_id a) a\<rparr>)) (io_return a)"

definition create_artifact ::
    "string \<Rightarrow> string \<Rightarrow> string \<Rightarrow> string \<Rightarrow> pyval \<Rightarrow> pydict option \<Rightarrow> ('z agent_world_scheme, artifact) io" where
  "create_artifact workflow_id run_id name kind v metadata =
     io_bind utc_now_iso (\<lambda>timestamp.
     io_bind uuid4 (\<lambda>artifact_id.
       write_artifact
         \<lparr>ar_artifact_id = artifact_id, ar_workflow_id = workflow_id, ar_run_id = run_id, ar_name = name,
          ar_kind = kind, ar_value = v, ar_metadata = (case metadata of None \<Rightarrow> [] | Some d \<Rightarrow> d),
          ar_created_at = timestamp, ar_updated_at = timestamp\<rparr>))"

definition load_artifact :: "string \<Rightarrow> ('z agent_world_scheme, artifact) io" where
  "load_artifact artifact_id =
     io_bind (io_get (\<lambda>w. dir_get (artifacts w) artifact_id)) (\<lambda>found.
       case found of
         None \<Rightarrow> io_raise (FileNotFoundError (''Artifact not found: '' @ artifact_id))
       | Some a \<Rightarrow> io_return a)"

definition list_artifacts_for_workflow :: "string \<Rightarrow> ('z agent_world_scheme, artifact list) io" where
  "list_artifacts_for_workflow workflow_id =
     io_get (\<lambda>w. filter (\<lambda>a. ar_workflow_id a = workflow_id)
       (List.map_filter (dir_get (artifacts w)) (sorted_ids (artifacts w))))"

section \<open>Traces\<close>

definition TRACE_VERSION :: string where "TRACE_VERSION = ''v0.8''"
definition TRACE_SCHEMA :: string where "TRACE_SCHEMA = ''trace.v2''"

definition trace_name :: "stamp \<Rightarrow> string" where
  "trace_name t = ''run_'' @ map (\<lambda>c. if c = CHR '':'' then CHR ''-'' else c) (isoformat t)"

definition trace_run :: "pydict \<Rightarrow> ('z agent_world_scheme, string) io" where
  "trace_run data =
     io_bind utc_now_iso (\<lambda>timestamp.
       let payload = dict_update
             [(''version'', PStr TRACE_VERSION), (''schema'', PStr TRACE_SCHEMA),
              (''timestamp'', PStr (isoformat timestamp))] data
       in io_then (io_modify (\<lambda>w. w\<lparr>logs := dir_put (logs w) (trace_name timestamp) payload\<rparr>))
            (io_return (trace_name timestamp)))"

definition truthy_list :: "pyval list \<Rightarrow> pyval" where
  "truthy_list vs = PList (filter py_truthy vs)"

definition trace_failure_classification :: "pyval \<Rightarrow> pyval \<Rightarrow> string option res" where
  "trace_failure_classification status err =
     (if py_eq status (PStr ''retry_wait'') then Inr (Some ''retry_wait'')
      else case err of
        PNone \<Rightarrow> Inr None
      | PDict d \<Rightarrow>
          let error_type = (if py_truthy (dict_get d ''error_type'') then dict_get d ''error_type'' else dict_get d ''type'');
              failure_type = dict_get d ''failure_type'';
              message = py_lower (py_str (dict_get_or d ''message'' (PStr [])));
              is_type = (\<lambda>n. py_eq error_type (PStr n))
          in Inr (Some
               (if is_type ''PolicyDeniedError'' then ''policy_denied''
                else if is_type ''DelegationDeniedError'' then ''delegation_denied''
                else if is_type ''BudgetExceededError'' then ''budget_exhausted''
                else if is_type ''ApprovalStateError'' \<or> py_contains message ''approval'' then ''approval_blocked''
                else if py_eq failure_type (PStr ''tool_error'') then ''tool_error''
                else if is_type ''TimeoutError'' \<or> is_type ''ConnectionError'' then ''transient_runtime''
                else ''runtime_error''))
      | _ \<Rightarrow> Inl attribute_error)"

definition trace_correlation_default :: "pydict \<Rightarrow> pydict \<Rightarrow> pydict" where
  "trace_correlation_default trace workflow =
     [(''run_ids'', truthy_list [dict_get trace ''run_id'', dict_get trace ''parent_run_id'',
         dict_get workflow ''latest_run_id'']),
      (''workflow_ids'', truthy_list [dict_get workflow ''workflow_id'']),
      (''job_ids'', PList []), (''worker_ids'', PList []), (''approval_ids'', PList []),
      (''artifact_ids'', PList []), (''memory_ids'', PList []), (''shared_memory_ids'', PList []),
      (''child_workflow_ids'', PList []), (''delegation'', PDict [])]"

text \<open>The path, where it is given, is the directory of the logs and the name of the file.\<close>

definition trace_summary :: "pydict \<Rightarrow> (string \<times> string) option \<Rightarrow> pydict res" where
  "trace_summary trace path =
     res_bind (or_empty (dict_get trace ''workflow'')) (\<lambda>workflow.
     res_bind (or_empty (dict_get trace ''result'')) (\<lambda>result.
       let err = (if dict_get result ''error'' = PNone then dict_get trace ''error'' else dict_get result ''error'');
           correlation_ids =
             (case dict_get trace ''correlation_ids'' of
                PDict d \<Rightarrow> d | _ \<Rightarrow> trace_correlation_default trace workflow)
       in res_bind (trace_failure_classification (dict_get trace ''status'') err) (\<lambda>classification.
         Inr
           [(''trace_id'', case path of None \<Rightarrow> PNone | Some (d, n) \<Rightarrow> PStr n),
            (''path'', case path of None \<Rightarrow> PNone | Some (d, n) \<Rightarrow> PStr (d @ ''/'' @ n)),
            (''timestamp'', dict_get trace ''timestamp''), (''status'', dict_get trace ''status''),
            (''run_id'', dict_get trace ''run_id''), (''parent_run_id'', dict_get trace ''parent_run_id''),
            (''agent'', dict_get trace ''agent''), (''workflow_id'', dict_get workflow ''workflow_id''),
            (''latest_run_id'', dict_get workflow ''latest_run_id''),
            (''workflow_status'', dict_get workflow ''status''),
            (''correlation_ids'', PDict correlation_ids), (''error'', err),
            (''failure_classification'', opt_str classification)])))"

definition trace_timeline_event :: "pydict \<Rightarrow> pydict" where
  "trace_timeline_event trace =
     [(''source'', PStr ''trace''), (''entity_id'', dict_get trace ''trace_id''),
      (''event_id'', dict_get trace ''trace_id''), (''event_type'', PStr ''trace_recorded''),
      (''timestamp'', dict_get trace ''timestamp''), (''status'', dict_get trace ''status''),
      (''run_id'', dict_get trace ''run_id''), (''workflow_id'', dict_get trace ''workflow_id''),
      (''latest_run_id'', dict_get trace ''latest_run_id''),
      (''failure_classification'', dict_get trace ''failure_classification''),
      (''message'', case dict_get trace ''error'' of PDict d \<Rightarrow> dict_get d ''message'' | _ \<Rightarrow> PNone),
      (''correlation_ids'', dict_get_or trace ''correlation_ids'' (PDict []))]"

definition trace_timeline :: "pydict list \<Rightarrow> pydict list" where
  "trace_timeline traces = map trace_timeline_event traces"

text \<open>The newest traces first; only as many files are read as the limit asks for.\<close>

definition list_traces :: "string \<Rightarrow> pyval \<Rightarrow> ('z agent_world_scheme, pydict list) io" where
  "list_traces log_dir bound =
     (let bad = io_raise (ValueError ''Trace `limit` must be a positive integer'');
          newest = io_get (\<lambda>w. rev (sorted_ids (logs w)));
          summary = (\<lambda>n. io_bind (io_get (\<lambda>w. dir_get (logs w) n)) (\<lambda>found.
            io_lift (trace_summary (case found of None \<Rightarrow> [] | Some d \<Rightarrow> d) (Some (log_dir, n @ ''.json'')))))
      in if bound = PNone then io_bind newest (io_map summary)
         else case py_int bound of
                None \<Rightarrow> bad
              | Some n \<Rightarrow> if n \<le> 0 then bad else io_bind newest (\<lambda>ns. io_map summary (take (nat n) ns)))"

section \<open>Readings of the performance counter\<close>

definition perf_counter :: "('z agent_world_scheme, rat) io" where
  "perf_counter = (\<lambda>w. (Inr (perf w (perf_n w)), w\<lparr>perf_n := Suc (perf_n w)\<rparr>))"

lemma wp_perf_counter [wp]: "wp perf_counter Q E w = Q (perf w (perf_n w)) (w\<lparr>perf_n := Suc (perf_n w)\<rparr>)"
  by (simp add: wp_def perf_counter_def)

end
