(* ===== verification/Tools.thy ===== *)
theory Tools
  imports Artifact Contracts
begin

text \<open>
  src/runtime/tools.py: the registry of tools and \<open>call_tool\<close>; tools_memory.py and tools_utility.py:
  the handlers over the memory store, echo and the time; model.py: the choice of a model service and
  the reading of its answer; prompt_builder.py. What lies outside of the repository, and the handlers
  of the other tools, are a parameter (\<open>host\<close>), computations on the whole state that may do anything.
  The flag \<open>CLARITY_DEBUG\<close>, which adds the raw answer to a result, is off.
\<close>

section \<open>The host\<close>

datatype http_reply = Http_body pyval | Http_failed int string | Http_unreachable

record 'w host =
  h_policy_env :: policy_env
  h_json_len :: "pyval \<Rightarrow> int"
  h_tool :: "string \<Rightarrow> pydict \<Rightarrow> ('w, pyval) io"
  h_openai :: "string \<Rightarrow> string \<Rightarrow> ('w, string) io"
  h_ollama :: "string \<Rightarrow> pydict \<Rightarrow> ('w, http_reply) io"

section \<open>Configuration files\<close>

text \<open>The first of two environment variables that is not blank, or the default path.\<close>

definition configured_path :: "policy_env \<Rightarrow> string list \<Rightarrow> string \<Rightarrow> string" where
  "configured_path pe names dflt =
     (case List.map_filter (\<lambda>n. case getenv pe n of
                None \<Rightarrow> None | Some v \<Rightarrow> if py_strip v = [] then None else Some (py_strip v)) names of
        [] \<Rightarrow> dflt | p # _ \<Rightarrow> p)"

text \<open>An entry of a section of a file: \<open>data.get(section, {})[name]\<close>, or the error of an unknown name.\<close>

definition config_entry :: "policy_env \<Rightarrow> string \<Rightarrow> string \<Rightarrow> string \<Rightarrow> exc \<Rightarrow> pyval res" where
  "config_entry pe path key name unknown =
     res_bind (read_yaml pe path) (\<lambda>data.
     res_bind (or_empty data) (\<lambda>d.
       case dict_get_or d key (PDict []) of
         PDict entries \<Rightarrow> (case map_of entries name of None \<Rightarrow> Inl unknown | Some v \<Rightarrow> Inr v)
       | _ \<Rightarrow> Inl (TypeError ''argument is not iterable'')))"

section \<open>Domains of addresses\<close>

definition scheme_char :: "char \<Rightarrow> bool" where
  "scheme_char c \<longleftrightarrow>
     (let n = (of_char c :: nat)
      in 97 \<le> n \<and> n \<le> 122 \<or> 65 \<le> n \<and> n \<le> 90 \<or> 48 \<le> n \<and> n \<le> 57 \<or> c \<in> set ''+-.'')"

definition ascii_letter :: "char \<Rightarrow> bool" where
  "ascii_letter c \<longleftrightarrow> (let n = (of_char c :: nat) in 97 \<le> n \<and> n \<le> 122 \<or> 65 \<le> n \<and> n \<le> 90)"

text \<open>\<open>s.partition(c)\<close> without the separator itself; \<open>rpartition('@')[2]\<close> is \<open>after_last\<close>.\<close>

definition before_first :: "char \<Rightarrow> string \<Rightarrow> string" where
  "before_first c s = takeWhile (\<lambda>d. d \<noteq> c) s"

definition after_first :: "char \<Rightarrow> string \<Rightarrow> string" where
  "after_first c s = drop 1 (dropWhile (\<lambda>d. d \<noteq> c) s)"

definition after_last :: "char \<Rightarrow> string \<Rightarrow> string" where
  "after_last c s = rev (takeWhile (\<lambda>d. d \<noteq> c) (rev s))"

text \<open>The network location of \<open>urlparse(url)\<close>.\<close>

definition url_netloc :: "string \<Rightarrow> string res" where
  "url_netloc raw =
     (let url = filter (\<lambda>c. c \<notin> {CHR 0x09, CHR 0x0A, CHR 0x0D}) (dropWhile (\<lambda>c. (of_char c :: nat) \<le> 32) raw);
          scheme = before_first (CHR '':'') url;
          rest = (if scheme \<noteq> [] \<and> length scheme < length url \<and> ascii_letter (hd scheme) \<and> list_all scheme_char scheme
                  then after_first (CHR '':'') url else url);
          netloc = (if take 2 rest = ''//'' then takeWhile (\<lambda>c. c \<notin> set ''/?#'') (drop 2 rest) else [])
      in if (CHR ''['' \<in> set netloc) \<noteq> (CHR '']'' \<in> set netloc) then Inl (ValueError ''Invalid IPv6 URL'')
         else Inr netloc)"

text \<open>\<open>parsed.hostname\<close>: without user and port, in lower case up to a zone identifier.\<close>

definition netloc_hostname :: "string \<Rightarrow> string option" where
  "netloc_hostname netloc =
     (let hostinfo = after_last (CHR ''@'') netloc;
          host = (if CHR ''['' \<in> set hostinfo then before_first (CHR '']'') (after_first (CHR ''['') hostinfo)
                  else before_first (CHR '':'') hostinfo);
          zone = dropWhile (\<lambda>c. c \<noteq> CHR ''%'') host
      in if host = [] then None else Some (py_lower (before_first (CHR ''%'') host) @ zone))"

section \<open>The registry\<close>

record tool_definition =
  td_capability :: string
  td_command :: "string option"
  td_path_arg :: "string option"
  td_domain_arg :: "string option"

definition tool_of :: "string \<Rightarrow> string option \<Rightarrow> string option \<Rightarrow> string option \<Rightarrow> tool_definition" where
  "tool_of capability cmd path domain =
     \<lparr>td_capability = capability, td_command = cmd, td_path_arg = path, td_domain_arg = domain\<rparr>"

definition command_tool :: "string \<Rightarrow> string \<Rightarrow> string \<times> tool_definition" where
  "command_tool capability name = (name, tool_of capability (Some name) None None)"

definition file_tool :: "string \<Rightarrow> string \<times> tool_definition" where
  "file_tool name = (name, tool_of ''file_read'' None (Some ''path'') None)"

definition plain_tool :: "string \<Rightarrow> string \<Rightarrow> string \<times> tool_definition" where
  "plain_tool capability name = (name, tool_of capability None None None)"

definition TOOLS :: "(string \<times> tool_definition) list" where
  "TOOLS =
     map (command_tool ''exec'') [''echo'', ''get_time''] @
     map file_tool [''read_file'', ''list_files'', ''list_directory'', ''read_file_range'', ''search_files''] @
     [(''fetch_url'', tool_of ''http'' None None (Some ''url''))] @
     map (plain_tool ''runtime_read'') [''inspect_session'', ''inspect_workflow'', ''inspect_queue'', ''inspect_worker''] @
     map (command_tool ''runtime_write'') [''archive_session'', ''prune_sessions'', ''promote_ready_jobs'',
       ''repair_stale_jobs'', ''repair_orphaned_workers'', ''safe_resume_workflow'', ''replay_workflow'',
       ''recover_workflow''] @
     [plain_tool ''memory_write'' ''memory_write'', plain_tool ''memory_read'' ''memory_query'']"

definition list_tools :: "string list" where
  "list_tools = sort (map fst TOOLS)"

definition get_tool_definition :: "string \<Rightarrow> tool_definition res" where
  "get_tool_definition name =
     (case map_of TOOLS name of
        None \<Rightarrow> Inl (ValueError (''Unknown tool: '' @ name)) | Some d \<Rightarrow> Inr d)"

section \<open>Handlers\<close>

definition memory_object :: "memory \<Rightarrow> pydict" where
  "memory_object m =
     [(''memory_id'', PStr (mm_memory_id m)), (''memory_type'', PStr (memory_type_name (mm_memory_type m))),
      (''scope'', scope_object m), (''agent'', opt_str (mm_agent m)),
      (''workflow_id'', opt_str (mm_workflow_id m)), (''run_id'', opt_str (mm_run_id m)),
      (''payload'', PDict (mm_payload m)), (''tags'', str_list (mm_tags m)), (''metadata'', PDict (mm_metadata m)),
      (''created_at'', PStr (isoformat (mm_created_at m))), (''updated_at'', PStr (isoformat (mm_updated_at m)))]"

text \<open>
  The names of a type and of a scope are texts; another value prints as no known name and is refused
  like an unknown name.
\<close>

definition memory_write_tool :: "pydict \<Rightarrow> ('z memory_world_scheme, pyval) io" where
  "memory_write_tool args =
     io_bind (create_memory
       \<lparr>mr_memory_type = py_str (dict_get args ''memory_type''), mr_payload = dict_get args ''payload'',
        mr_scope_kind = py_str (dict_get_or args ''scope_kind'' (PStr ''agent'')),
        mr_agent = dict_get args ''agent'', mr_workflow_id = dict_get args ''workflow_id'',
        mr_run_id = dict_get args ''run_id'', mr_tags = dict_get args ''tags'',
        mr_metadata = dict_get args ''metadata''\<rparr>) (\<lambda>m. io_return (PDict (memory_object m)))"

definition hit_object :: "memory_hit \<Rightarrow> pydict" where
  "hit_object h =
     [(''memory_id'', PStr (mh_memory_id h)), (''memory_type'', PStr (memory_type_name (mh_memory_type h))),
      (''scope'', mh_scope h), (''agent'', opt_str (mh_agent h)), (''workflow_id'', opt_str (mh_workflow_id h)),
      (''run_id'', opt_str (mh_run_id h)), (''tags'', str_list (mh_tags h)),
      (''created_at'', PStr (isoformat (mh_created_at h))), (''score'', PFloat (mh_score h)),
      (''matched_terms'', str_list (mh_matched_terms h)), (''summary'', PStr (mh_summary h))]"

definition query_result_object :: "pydict \<Rightarrow> query_result \<Rightarrow> pydict" where
  "query_result_object filters r =
     [(''query'', PStr (qr_query r)),
      (''filters'', PDict (filters @ [(''tags'', str_list (qr_filter_tags r))])),
      (''limit'', PInt (ql_limit (qr_limits r))), (''max_chars'', PInt (ql_max_chars (qr_limits r))),
      (''max_summary_chars'', PInt (ql_max_summary_chars (qr_limits r))),
      (''result_count'', PInt (int (length (qr_results r)))), (''used_chars'', PInt (qr_used_chars r)),
      (''truncated'', PBool (qr_truncated r)), (''results'', dict_list (map hit_object (qr_results r)))]"

definition memory_query_tool :: "pydict \<Rightarrow> ('z memory_world_scheme, pyval) io" where
  "memory_query_tool args =
     (case non_empty_text (dict_get args ''scope_kind'') of
        None \<Rightarrow> io_raise (ValueError ''Tool `memory_query` requires `scope_kind` to be a non-empty string'')
      | Some _ \<Rightarrow>
          let memory_type = dict_get args ''memory_type'';
              f = \<lparr>mf_memory_type = (if memory_type = PNone then None else Some (py_str memory_type)),
                   mf_scope_kind = Some (py_str (dict_get args ''scope_kind'')),
                   mf_agent = dict_get args ''agent'', mf_workflow_id = dict_get args ''workflow_id'',
                   mf_run_id = dict_get args ''run_id'', mf_tags = dict_get args ''tags''\<rparr>
          in io_bind (query_memories (dict_get_or args ''query'' (PStr [])) f (dict_get_or args ''limit'' (PInt 5))
                 (dict_get_or args ''max_chars'' (PInt 1200)) (dict_get_or args ''max_summary_chars'' (PInt 240)))
               (\<lambda>r. io_return (PDict (query_result_object
                  [(''memory_type'', memory_type), (''scope_kind'', dict_get args ''scope_kind''),
                   (''agent'', dict_get args ''agent''), (''workflow_id'', dict_get args ''workflow_id''),
                   (''run_id'', dict_get args ''run_id'')] r))))"

definition echo_tool :: "pydict \<Rightarrow> ('w, pyval) io" where
  "echo_tool args =
     (case dict_get_or args ''text'' (PStr []) of
        PStr s \<Rightarrow> io_return (PStr s)
      | _ \<Rightarrow> io_raise (ValueError ''Tool `echo` requires `text` to be a string''))"

definition get_time_tool :: "pydict \<Rightarrow> ('z env_scheme, pyval) io" where
  "get_time_tool args = io_bind utc_now_iso (\<lambda>t. io_return (PDict [(''utc'', PStr (isoformat t))]))"

definition tool_handler :: "'z agent_world_scheme host \<Rightarrow> string \<Rightarrow> pydict \<Rightarrow> ('z agent_world_scheme, pyval) io" where
  "tool_handler h name args =
     (if name = ''memory_write'' then memory_write_tool args
      else if name = ''memory_query'' then memory_query_tool args
      else if name = ''echo'' then echo_tool args
      else if name = ''get_time'' then get_time_tool args
      else h_tool h name args)"

text \<open>A handler that raises gives a failure result; only the name and the arguments are checked before.\<close>

definition call_tool :: "'z agent_world_scheme host \<Rightarrow> string \<Rightarrow> pyval \<Rightarrow> ('z agent_world_scheme, pydict) io" where
  "call_tool h name args =
     io_bind (io_lift (get_tool_definition name)) (\<lambda>_.
       let run = (\<lambda>d. io_catch
             (io_bind (tool_handler h name d) (\<lambda>v. io_return (build_tool_success name d v None)))
             (\<lambda>e. io_return (build_tool_failure name d e None)))
       in case args of
            PNone \<Rightarrow> run []
          | PDict d \<Rightarrow> run d
          | _ \<Rightarrow> io_raise (ValueError ''Tool arguments must be an object''))"

section \<open>Models\<close>

definition models_config_path :: "policy_env \<Rightarrow> string" where
  "models_config_path pe =
     configured_path pe [''CLARITYCLAW_MODELS_CONFIG'', ''CLARITYOS_MODELS_CONFIG''] ''config/models.yaml''"

definition load_model_config :: "policy_env \<Rightarrow> string \<Rightarrow> pyval res" where
  "load_model_config pe name =
     config_entry pe (models_config_path pe) ''models'' name (ValueError (''Unknown model: '' @ name))"

definition model_result :: "string \<Rightarrow> string \<Rightarrow> pyval \<Rightarrow> pydict" where
  "model_result provider model output =
     [(''provider'', PStr provider), (''model'', PStr model), (''output'', output)]"

definition call_openai_model :: "'w host \<Rightarrow> string \<Rightarrow> string \<Rightarrow> ('w, pydict) io" where
  "call_openai_model h provider_id prompt =
     io_bind (h_openai h provider_id prompt) (\<lambda>t. io_return (model_result ''openai'' provider_id (PStr t)))"

definition call_ollama_model :: "'w host \<Rightarrow> string \<Rightarrow> string \<Rightarrow> ('w, pydict) io" where
  "call_ollama_model h provider_id prompt =
     (let base_url = (case getenv (h_policy_env h) ''OLLAMA_BASE_URL'' of
              None \<Rightarrow> ''http://127.0.0.1:11434'' | Some u \<Rightarrow> u);
          endpoint = base_url @ ''/api/generate''
      in io_bind (h_ollama h endpoint
           [(''model'', PStr provider_id), (''prompt'', PStr prompt), (''stream'', PBool False)]) (\<lambda>reply.
         case reply of
           Http_failed status message \<Rightarrow>
             io_raise (RuntimeError (''Ollama HTTP error ('' @ show_int status @ '') at '' @ endpoint @ '': '' @ message))
         | Http_unreachable \<Rightarrow>
             io_raise (RuntimeError (''Could not reach Ollama at '' @ base_url @ ''. Is `ollama serve` running?''))
         | Http_body body \<Rightarrow>
             (case body of
                PDict d \<Rightarrow>
                  let output = dict_get_or d ''response'' (PStr [])
                  in if \<not> py_truthy output
                     then io_raise (RuntimeError (''Ollama returned empty response: '' @ py_str body))
                     else io_return (model_result ''ollama'' provider_id output)
              | _ \<Rightarrow> io_raise attribute_error)))"

definition call_model :: "'w host \<Rightarrow> string \<Rightarrow> string \<Rightarrow> ('w, pydict) io" where
  "call_model h model_name prompt =
     io_bind (io_lift (load_model_config (h_policy_env h) model_name)) (\<lambda>config.
     io_bind (io_lift (case config of PDict d \<Rightarrow> Inr d | _ \<Rightarrow> Inl (TypeError ''object is not subscriptable''))) (\<lambda>d.
     io_bind (io_lift (dict_item d ''provider'')) (\<lambda>provider.
     io_bind (io_lift (dict_item d ''provider_id'')) (\<lambda>provider_id.
       if py_eq provider (PStr ''openai'') then call_openai_model h (py_str provider_id) prompt
       else if py_eq provider (PStr ''ollama'') then call_ollama_model h (py_str provider_id) prompt
       else io_raise (ValueError (''Unsupported provider: '' @ py_str provider))))))"

section \<open>Prompts\<close>

definition memory_line :: "pydict \<Rightarrow> string res" where
  "memory_line memory =
     (case dict_get_or memory ''scope'' (PDict []) of
        PDict scope \<Rightarrow>
          let kind = dict_get_or scope ''kind'' (PStr ''unknown''); scope_value = dict_get scope ''value'';
              label = (if py_truthy scope_value then py_str kind @ '':'' @ py_str scope_value else py_str kind)
          in res_bind (dict_item memory ''memory_id'') (\<lambda>memory_id.
               Inr (''- ['' @ py_str memory_id @ ''] '' @ py_str (dict_get_or memory ''memory_type'' (PStr ''memory''))
                 @ '' ('' @ label @ ''): '' @ py_str (dict_get_or memory ''payload_summary'' (PStr []))))
      | _ \<Rightarrow> Inl attribute_error)"

definition context_block :: "pydict \<Rightarrow> string option" where
  "context_block entry =
     (let raw_title = py_strip (py_str (dict_get_or entry ''title'' (PStr ''Context'')));
          title = (if raw_title = [] then ''Context'' else raw_title);
          source = py_strip (py_str (dict_get_or entry ''source'' (PStr [])));
          content = py_strip (py_str (dict_get_or entry ''content'' (PStr [])))
      in if content = [] then None
         else Some ((if source = [] then title else title @ '' ['' @ source @ '']'') @ '':'' @ [CHR 0x0A] @ content))"

definition build_prompt :: "string \<Rightarrow> pydict \<Rightarrow> pydict list \<Rightarrow> pydict list \<Rightarrow> string res" where
  "build_prompt user_input config shared_memories prompt_context =
     res_bind (res_map memory_line shared_memories) (\<lambda>lines.
       let nl = [CHR 0x0A];
           shared = (if lines = [] then [] else nl @ ''SHARED MEMORY:'' @ nl @ py_join nl lines);
           blocks = List.map_filter context_block prompt_context;
           project = (if blocks = [] then [] else nl @ ''PROJECT CONTEXT:'' @ nl @ py_join (nl @ nl) blocks)
       in Inr (''SYSTEM:'' @ nl @ py_str (dict_get_or config ''system'' (PStr [])) @ nl @ shared @ nl @ project @ nl
            @ nl @ ''USER:'' @ nl @ user_input @ nl))"

end
