(* ===== verification/Agent.thy ===== *)
theory Agent
  imports Tools Budget
begin

text \<open>
  src/runtime/agent.py: one run of an agent. A run creates or continues a workflow, checks delegation
  and policy, calls one tool or one model within the budget, asks for approvals, schedules retries,
  and writes its result and its trace. The \<open>RunState\<close> object of the code is \<open>run_state\<close>; a computation
  of a run has the state \<open>run_state \<times> world\<close>, and the operations of the other modules are lifted to
  it. The local variable \<open>budget\<close> is a field that is set when the code assigns the variable, so that
  the test \<open>"budget" in locals()\<close> reads it. A consumption of the budget always takes a reading of the
  performance counter, also where no time limit is set and the code takes none. Limits in a
  configuration are integers or absent; the paths, domains and names that a policy looks at are
  strings or absent.
\<close>

section \<open>State of a run\<close>

record decision =
  dn_stage :: string
  dn_capability :: "string option"
  dn_allowed :: bool
  dn_requires_approval :: bool
  dn_reason :: string
  dn_matched_scope :: "string option"
  dn_approval_id :: "string option"
  dn_target :: pydict

record run_state =
  rs_run_id :: string
  rs_run_type :: step_type
  rs_started_at :: rat
  rs_parent_run_id :: "string option"
  rs_job_id :: "string option"
  rs_worker_id :: "string option"
  rs_prompt :: "string option"
  rs_model_alias :: "string option"
  rs_model_result :: "pydict option"
  rs_tool_output :: pyval
  rs_tool_result :: "pydict option"
  rs_policy_name :: "string option"
  rs_policy_snapshot :: "policy_snapshot option"
  rs_budget :: "run_budget option"
  rs_budget_limits :: "limits_view option"
  rs_budget_used :: "usage_view option"
  rs_approval :: "approval option"
  rs_workflow :: "workflow option"
  rs_prompt_context :: "pydict list"
  rs_decisions :: "decision list"
  rs_input_sources :: "pydict list"
  rs_context_sources :: "pydict list"
  rs_output_source :: "pydict option"
  rs_input_tokens :: int
  rs_context_tokens :: int
  rs_output_tokens :: int
  rs_total_tokens :: int
  rs_model_calls :: int
  rs_tool_calls :: int
  rs_approvals_requested :: int
  rs_approvals_resumed :: int

definition new_run :: "string \<Rightarrow> step_type \<Rightarrow> rat \<Rightarrow> string option \<Rightarrow> string option \<Rightarrow> run_state" where
  "new_run run_id run_type now job_id worker_id =
     \<lparr>rs_run_id = run_id, rs_run_type = run_type, rs_started_at = now, rs_parent_run_id = None,
      rs_job_id = job_id, rs_worker_id = worker_id, rs_prompt = None, rs_model_alias = None,
      rs_model_result = None, rs_tool_output = PNone, rs_tool_result = None, rs_policy_name = None,
      rs_policy_snapshot = None, rs_budget = None, rs_budget_limits = None, rs_budget_used = None,
      rs_approval = None, rs_workflow = None, rs_prompt_context = [], rs_decisions = [],
      rs_input_sources = [], rs_context_sources = [], rs_output_source = None, rs_input_tokens = 0,
      rs_context_tokens = 0, rs_output_tokens = 0, rs_total_tokens = 0, rs_model_calls = 0,
      rs_tool_calls = 0, rs_approvals_requested = 0, rs_approvals_resumed = 0\<rparr>"

text \<open>What \<open>run_agent\<close> is called with.\<close>

record run_args =
  ra_user_input :: string
  ra_agent_name :: string
  ra_tool_name :: "string option"
  ra_tool_args :: pyval
  ra_approval_id :: "string option"
  ra_run_id :: "string option"
  ra_parent_run_id :: "string option"
  ra_parent_workflow_id :: "string option"
  ra_root_workflow_id :: "string option"
  ra_workflow_depth :: pyval
  ra_job_id :: "string option"
  ra_worker_id :: "string option"
  ra_delegation :: pyval
  ra_shared_memories :: pyval
  ra_prompt_context :: pyval

section \<open>Computations of a run\<close>

type_synonym ('z, 'a) run_io = "(run_state \<times> 'z agent_world_scheme, 'a) io"

definition on_world :: "('w, 'a) io \<Rightarrow> (run_state \<times> 'w, 'a) io" where
  "on_world m = (\<lambda>(st, w). case m w of (r, w') \<Rightarrow> (r, (st, w')))"

definition get_run :: "(run_state \<Rightarrow> 'a) \<Rightarrow> (run_state \<times> 'w, 'a) io" where
  "get_run f = io_get (\<lambda>(st, w). f st)"

definition set_run :: "(run_state \<Rightarrow> run_state) \<Rightarrow> (run_state \<times> 'w, unit) io" where
  "set_run f = io_modify (\<lambda>(st, w). (f st, w))"

text \<open>An attribute of \<open>None\<close>.\<close>

definition none_error :: exc where
  "none_error = OtherError ''AttributeError'' ''NoneType object has no attribute''"

definition on_workflow :: "(workflow, 'a) io \<Rightarrow> (run_state \<times> 'w, 'a) io" where
  "on_workflow m =
     (\<lambda>(st, w). case rs_workflow st of
        None \<Rightarrow> (Inl none_error, (st, w))
      | Some wo \<Rightarrow> (case m wo of (r, wo') \<Rightarrow> (r, (st\<lparr>rs_workflow := Some wo'\<rparr>, w))))"

definition on_budget :: "(run_budget, 'a) io \<Rightarrow> (run_state \<times> 'w, 'a) io" where
  "on_budget m =
     (\<lambda>(st, w). case rs_budget st of
        None \<Rightarrow> (Inl none_error, (st, w))
      | Some b \<Rightarrow> (case m b of (r, b') \<Rightarrow> (r, (st\<lparr>rs_budget := Some b'\<rparr>, w))))"

definition timed_budget :: "(rat \<Rightarrow> (run_budget, 'a) io) \<Rightarrow> ('z, 'a) run_io" where
  "timed_budget m = io_bind (on_world perf_counter) (\<lambda>now. on_budget (m now))"

text \<open>\<open>state.workflow\<close> and \<open>state.approval_record\<close> where the code takes their attributes.\<close>

definition the_workflow :: "(run_state \<times> 'w, workflow) io" where
  "the_workflow = on_workflow (io_get (\<lambda>wo. wo))"

definition the_approval :: "(run_state \<times> 'w, approval) io" where
  "the_approval =
     io_bind (get_run rs_approval) (\<lambda>a. case a of None \<Rightarrow> io_raise none_error | Some ap \<Rightarrow> io_return ap)"

definition persist_workflow :: "('z, unit) run_io" where
  "persist_workflow =
     io_bind (get_run rs_workflow) (\<lambda>wo.
       case wo of
         None \<Rightarrow> io_return ()
       | Some x \<Rightarrow> io_bind (on_world (write_workflow x)) (\<lambda>written. set_run (\<lambda>st. st\<lparr>rs_workflow := Some written\<rparr>)))"

definition update_budget_used :: "('z, unit) run_io" where
  "update_budget_used =
     io_bind (on_world perf_counter) (\<lambda>now.
     io_bind (on_budget (io_get (\<lambda>b. usage_snapshot b now))) (\<lambda>u.
       set_run (\<lambda>st. st\<lparr>rs_budget_used := Some u\<rparr>)))"

section \<open>Configuration\<close>

definition agents_config_path :: "policy_env \<Rightarrow> string" where
  "agents_config_path pe =
     configured_path pe [''CLARITYCLAW_AGENTS_CONFIG'', ''CLARITYOS_AGENTS_CONFIG''] ''config/agents.yaml''"

definition load_agent :: "policy_env \<Rightarrow> string \<Rightarrow> pydict res" where
  "load_agent pe agent_name =
     res_bind (config_entry pe (agents_config_path pe) ''agents'' agent_name
                 (ValueError (''Unknown agent: '' @ agent_name)))
       (\<lambda>v. case v of PDict d \<Rightarrow> Inr d | _ \<Rightarrow> Inl none_error)"

definition limit_of :: "pydict \<Rightarrow> string \<Rightarrow> int option res" where
  "limit_of d k =
     (case dict_get d k of
        PNone \<Rightarrow> Inr None
      | v \<Rightarrow> (case py_int v of Some n \<Rightarrow> Inr (Some n) | None \<Rightarrow> Inl (TypeError ''limit is no integer'')))"

definition budget_config :: "pyval \<Rightarrow> limits_view option res" where
  "budget_config v =
     res_bind (or_empty v) (\<lambda>d.
     res_bind (limit_of d ''max_steps'') (\<lambda>steps.
     res_bind (limit_of d ''max_tool_calls'') (\<lambda>calls.
     res_bind (limit_of d ''max_tokens'') (\<lambda>tokens.
     res_bind (limit_of d ''max_wall_clock_ms'') (\<lambda>ms.
       Inr (Some \<lparr>lv_max_steps = steps, lv_max_tool_calls = calls, lv_max_tokens = tokens,
                  lv_max_wall_clock_ms = ms\<rparr>))))))"

section \<open>Attribution and accounting\<close>

definition total_tokens :: "run_state \<Rightarrow> run_state" where
  "total_tokens st = st\<lparr>rs_total_tokens := rs_input_tokens st + rs_context_tokens st + rs_output_tokens st\<rparr>"

definition source_entry :: "string \<Rightarrow> int \<Rightarrow> pydict \<Rightarrow> pydict" where
  "source_entry source_type token_estimate details =
     [(''type'', PStr source_type), (''token_estimate'', PInt token_estimate)] @ details"

definition append_input_source :: "string \<Rightarrow> int \<Rightarrow> pydict \<Rightarrow> (run_state \<times> 'w, unit) io" where
  "append_input_source source_type token_estimate details =
     set_run (\<lambda>st. total_tokens (st\<lparr>
       rs_input_sources := rs_input_sources st @ [source_entry source_type token_estimate details],
       rs_input_tokens := rs_input_tokens st + token_estimate\<rparr>))"

definition append_context_source :: "string \<Rightarrow> int \<Rightarrow> pydict \<Rightarrow> (run_state \<times> 'w, unit) io" where
  "append_context_source source_type token_estimate details =
     set_run (\<lambda>st. total_tokens (st\<lparr>
       rs_context_sources := rs_context_sources st @ [source_entry source_type token_estimate details],
       rs_context_tokens := rs_context_tokens st + token_estimate\<rparr>))"

definition set_output_source :: "string \<Rightarrow> int \<Rightarrow> pydict \<Rightarrow> (run_state \<times> 'w, unit) io" where
  "set_output_source source_type token_estimate details =
     set_run (\<lambda>st. total_tokens (st\<lparr>
       rs_output_source := Some (source_entry source_type token_estimate details),
       rs_output_tokens := token_estimate\<rparr>))"

definition append_decision :: "decision \<Rightarrow> (run_state \<times> 'w, unit) io" where
  "append_decision d = set_run (\<lambda>st. st\<lparr>rs_decisions := rs_decisions st @ [d]\<rparr>)"

definition decision_of :: "string \<Rightarrow> bool \<Rightarrow> bool \<Rightarrow> string \<Rightarrow> pydict \<Rightarrow> decision" where
  "decision_of stage allowed requires_approval reason target =
     \<lparr>dn_stage = stage, dn_capability = None, dn_allowed = allowed, dn_requires_approval = requires_approval,
      dn_reason = reason, dn_matched_scope = None, dn_approval_id = None, dn_target = target\<rparr>"

definition tokens :: "'w host \<Rightarrow> pyval \<Rightarrow> int" where
  "tokens h v = estimate_tokens (h_json_len h) v"

section \<open>Traces\<close>

definition opt_field :: "string \<Rightarrow> string option \<Rightarrow> pydict" where
  "opt_field k v = (case v of None \<Rightarrow> [] | Some s \<Rightarrow> [(k, PStr s)])"

definition decision_object :: "decision \<Rightarrow> pydict" where
  "decision_object d =
     [(''stage'', PStr (dn_stage d)), (''allowed'', PBool (dn_allowed d)),
      (''requires_approval'', PBool (dn_requires_approval d)), (''reason'', PStr (dn_reason d)),
      (''target'', PDict (dn_target d))] @
     opt_field ''capability'' (dn_capability d) @ opt_field ''matched_scope'' (dn_matched_scope d) @
     opt_field ''approval_id'' (dn_approval_id d)"

definition limits_object :: "limits_view option \<Rightarrow> pyval" where
  "limits_object l =
     (case l of None \<Rightarrow> PNone
      | Some v \<Rightarrow> PDict [(''max_steps'', int_value (lv_max_steps v)), (''max_tool_calls'', int_value (lv_max_tool_calls v)),
          (''max_tokens'', int_value (lv_max_tokens v)), (''max_wall_clock_ms'', int_value (lv_max_wall_clock_ms v))])"

definition usage_object :: "usage_view option \<Rightarrow> pyval" where
  "usage_object u =
     (case u of None \<Rightarrow> PNone
      | Some v \<Rightarrow> PDict [(''steps_used'', PInt (uv_steps_used v)), (''tool_calls_used'', PInt (uv_tool_calls_used v)),
          (''tokens_used'', PInt (uv_tokens_used v)), (''wall_clock_ms'', PFloat (uv_wall_clock_ms v))])"

definition policy_snapshot_object :: "policy_snapshot option \<Rightarrow> pyval" where
  "policy_snapshot_object s =
     (case s of None \<Rightarrow> PNone
      | Some p \<Rightarrow> PDict [(''name'', PStr (pol_name (ps_policy p))), (''allow'', dict_list (pol_allow (ps_policy p))),
          (''approval'', dict_list (pol_approval (ps_policy p))), (''deny'', dict_list (pol_deny (ps_policy p))),
          (''runtime_environment'', PStr (ps_runtime_environment p)),
          (''production_mode'', PBool (ps_production_mode p)),
          (''agent_policy_overrides_allowed'', PBool (ps_agent_policy_overrides_allowed p))])"

definition unique_ids :: "pyval list \<Rightarrow> string list" where
  "unique_ids vs = dedupe [] (List.map_filter non_empty_text vs)"

definition delegation_links :: "run_state \<Rightarrow> pydict" where
  "delegation_links st =
     (case rs_workflow st of None \<Rightarrow> []
      | Some wo \<Rightarrow> (case wf_delegation wo of None \<Rightarrow> []
        | Some dl \<Rightarrow> filter (\<lambda>(k, v). non_empty_text v \<noteq> None)
            [(''assigned_by_workflow_id'', opt_str (dl_assigned_by_workflow_id dl)),
             (''assigned_by_run_id'', opt_str (dl_assigned_by_run_id dl))]))"

definition trace_correlation_ids :: "run_state \<Rightarrow> pydict" where
  "trace_correlation_ids st =
     (let wos = (case rs_workflow st of None \<Rightarrow> [] | Some wo \<Rightarrow> [wo]);
          aps = (case rs_approval st of None \<Rightarrow> [] | Some a \<Rightarrow> [a]);
          of_workflow = (\<lambda>f. concat (map f wos));
          of_approval = (\<lambda>f. concat (map f aps));
          ids = (\<lambda>k ds. map (\<lambda>d. dict_get d k) ds)
      in [(''run_ids'', str_list (unique_ids
             ([PStr (rs_run_id st), opt_str (rs_parent_run_id st)] @
              of_workflow (\<lambda>wo. [PStr (wf_run_id wo), PStr (wf_latest_run_id wo)]) @
              of_approval (\<lambda>a. [PStr (ap_requested_run_id a), opt_str (ap_resumed_run_id a)])))),
          (''workflow_ids'', str_list (unique_ids
             (of_workflow (\<lambda>wo. [PStr (wf_workflow_id wo), PStr (wf_root_workflow_id wo), opt_str (wf_parent_workflow_id wo)]) @
              of_approval (\<lambda>a. [PStr (ap_workflow_id a)])))),
          (''job_ids'', str_list (unique_ids [opt_str (rs_job_id st)])),
          (''worker_ids'', str_list (unique_ids [opt_str (rs_worker_id st)])),
          (''approval_ids'', str_list (unique_ids (of_approval (\<lambda>a. [PStr (ap_approval_id a)])))),
          (''artifact_ids'', str_list (unique_ids (of_workflow (\<lambda>wo. ids ''artifact_id'' (wf_artifacts wo))))),
          (''memory_ids'', str_list (unique_ids (of_workflow (\<lambda>wo. ids ''memory_id'' (wf_memories wo))))),
          (''shared_memory_ids'', str_list (unique_ids (of_workflow (\<lambda>wo. ids ''memory_id'' (wf_shared_memories wo))))),
          (''child_workflow_ids'', str_list (unique_ids (of_workflow (\<lambda>wo. map PStr (wf_child_workflow_ids wo))))),
          (''delegation'', PDict (delegation_links st))])"

definition workflow_value :: "run_state \<Rightarrow> pyval" where
  "workflow_value st = (case rs_workflow st of None \<Rightarrow> PNone | Some wo \<Rightarrow> PDict (workflow_snapshot wo))"

definition accounting_object :: "run_state \<Rightarrow> pydict" where
  "accounting_object st =
     [(''estimated_tokens'', PDict [(''input'', PInt (rs_input_tokens st)), (''context'', PInt (rs_context_tokens st)),
        (''output'', PInt (rs_output_tokens st)), (''total'', PInt (rs_total_tokens st))]),
      (''operations'', PDict [(''model_calls'', PInt (rs_model_calls st)), (''tool_calls'', PInt (rs_tool_calls st)),
        (''approvals_requested'', PInt (rs_approvals_requested st)),
        (''approvals_resumed'', PInt (rs_approvals_resumed st))])]"

definition trace_payload_base :: "run_state \<Rightarrow> rat \<Rightarrow> run_args \<Rightarrow> string \<Rightarrow> pydict" where
  "trace_payload_base st now ra status =
     [(''run_id'', PStr (rs_run_id st)), (''parent_run_id'', opt_str (rs_parent_run_id st)),
      (''run_type'', PStr (step_type_name (rs_run_type st))), (''status'', PStr status),
      (''duration_ms'', PFloat (round2 ((now - rs_started_at st) * 1000))),
      (''agent'', PStr (ra_agent_name ra)), (''correlation_ids'', PDict (trace_correlation_ids st)),
      (''policy_snapshot'', policy_snapshot_object (rs_policy_snapshot st)),
      (''budget'', PDict [(''limits'', limits_object (rs_budget_limits st)), (''used'', usage_object (rs_budget_used st))]),
      (''decision_log'', dict_list (map decision_object (rs_decisions st))),
      (''workflow'', workflow_value st),
      (''source_attribution'', PDict [(''input'', dict_list (rs_input_sources st)),
         (''context'', dict_list (rs_context_sources st)), (''output'', dict_value (rs_output_source st))]),
      (''cost_accounting'', PDict (accounting_object st)),
      (''context'', PDict [(''input'', PStr (ra_user_input ra)), (''prompt'', opt_str (rs_prompt st)),
         (''model_alias'', opt_str (rs_model_alias st))])]"

definition write_trace :: "run_args \<Rightarrow> string \<Rightarrow> (run_state \<Rightarrow> pydict) \<Rightarrow> ('z, unit) run_io" where
  "write_trace ra status result =
     io_bind (on_world perf_counter) (\<lambda>now.
     io_bind (get_run (\<lambda>st. trace_payload_base st now ra status @ [(''result'', PDict (result st))])) (\<lambda>payload.
     io_then (on_world (trace_run payload)) (io_return ())))"

section \<open>Responses\<close>

definition artifacts_value :: "run_state \<Rightarrow> pyval" where
  "artifacts_value st = (case rs_workflow st of None \<Rightarrow> PList [] | Some wo \<Rightarrow> dict_list (wf_artifacts wo))"

definition approval_value :: "run_state \<Rightarrow> pyval" where
  "approval_value st = (case rs_approval st of None \<Rightarrow> PNone | Some a \<Rightarrow> PDict (approval_summary_object a))"

text \<open>The fields all responses share, with the workflow and its artifacts.\<close>

definition response_head :: "run_state \<Rightarrow> string \<Rightarrow> run_args \<Rightarrow> pydict" where
  "response_head st status ra =
     [(''status'', PStr status), (''run_type'', PStr (step_type_name (rs_run_type st))),
      (''agent'', PStr (ra_agent_name ra)), (''policy'', opt_str (rs_policy_name st)),
      (''budget_limits'', limits_object (rs_budget_limits st)),
      (''budget_used'', usage_object (rs_budget_used st)), (''prompt'', opt_str (rs_prompt st))]"

definition response_workflow :: "run_state \<Rightarrow> pydict" where
  "response_workflow st = [(''workflow'', workflow_value st), (''artifacts'', artifacts_value st)]"

definition waiting_model :: "run_state \<Rightarrow> pydict" where
  "waiting_model st =
     [(''provider'', PNone), (''model'', if rs_run_type st = Model_step then opt_str (rs_model_alias st) else PNone)]"

definition waiting_tool :: "string option \<Rightarrow> pyval \<Rightarrow> pyval \<Rightarrow> pydict" where
  "waiting_tool tool_name tool_args tool_result =
     [(''tool'', opt_str tool_name), (''tool_args'', tool_args), (''tool_output'', PNone), (''tool_result'', tool_result)]"

definition approval_response :: "run_state \<Rightarrow> run_args \<Rightarrow> string option \<Rightarrow> pyval \<Rightarrow> pydict" where
  "approval_response st ra tool_name tool_args =
     response_head st ''pending'' ra @ waiting_model st @ waiting_tool tool_name tool_args PNone @
     [(''approval'', approval_value st)] @ response_workflow st @ [(''output'', PNone)]"

definition error_object :: "exc \<Rightarrow> pydict" where
  "error_object e = [(''error_type'', PStr (exc_type e)), (''message'', PStr (exc_str e))]"

definition retry_response :: "run_state \<Rightarrow> run_args \<Rightarrow> string option \<Rightarrow> pyval \<Rightarrow> exc \<Rightarrow> pydict" where
  "retry_response st ra tool_name tool_args e =
     response_head st ''retry_wait'' ra @ waiting_model st @
     waiting_tool tool_name tool_args (if rs_run_type st = Tool_step then dict_value (rs_tool_result st) else PNone) @
     [(''approval'', approval_value st)] @ response_workflow st @
     [(''retry'', case rs_workflow st of None \<Rightarrow> PNone | Some wo \<Rightarrow> PDict (retry_state_object (wf_retry_state wo))),
      (''error'', PDict (error_object e)), (''output'', PNone)]"

text \<open>\<open>state.tool_result["input"]["args"]\<close>\<close>

definition result_args :: "pydict \<Rightarrow> pyval" where
  "result_args result = (case dict_get result ''input'' of PDict d \<Rightarrow> dict_get d ''args'' | _ \<Rightarrow> PNone)"

definition success_response :: "run_state \<Rightarrow> run_args \<Rightarrow> pydict res" where
  "success_response st ra =
     (if rs_run_type st = Tool_step then
        (case rs_tool_result st of
           None \<Rightarrow> Inl (TypeError ''NoneType object is not subscriptable'')
         | Some result \<Rightarrow> Inr
             (response_head st ''success'' ra @ [(''provider'', PNone), (''model'', PNone),
                (''tool'', dict_get result ''name''), (''tool_args'', result_args result),
                (''tool_output'', rs_tool_output st), (''tool_result'', PDict result),
                (''approval'', approval_value st)] @ response_workflow st @ [(''output'', rs_tool_output st)]))
      else
        (case rs_model_result st of
           None \<Rightarrow> Inl (TypeError ''NoneType object is not subscriptable'')
         | Some result \<Rightarrow> Inr
             (response_head st ''success'' ra @ [(''provider'', dict_get result ''provider''),
                (''model'', dict_get result ''model'')] @ waiting_tool None PNone PNone @
              [(''approval'', approval_value st)] @ response_workflow st @
              [(''output'', dict_get result ''output'')])))"

definition tool_error_result :: "run_state \<Rightarrow> string \<Rightarrow> pyval \<Rightarrow> exc \<Rightarrow> pydict" where
  "tool_error_result st tool_name tool_args e =
     (let result = (case rs_tool_result st of None \<Rightarrow> [] | Some r \<Rightarrow> r);
          input = (case rs_tool_result st of None \<Rightarrow> PDict [(''args'', tool_args)] | Some r \<Rightarrow> dict_get r ''input'');
          err = (if dict_get result ''error'' \<noteq> PNone then dict_get result ''error''
                 else PDict [(''failure_type'', PStr ''tool_error''), (''error_type'', PStr (exc_type e)),
                             (''message'', PStr (exc_str e)), (''retryable'', PBool False)]);
          metadata = (if dict_get result ''metadata'' \<noteq> PNone then dict_get result ''metadata'' else PDict [])
      in [(''tool'', PDict (dict_update result
             [(''name'', PStr tool_name), (''ok'', PBool False), (''input'', input), (''output'', PNone),
              (''error'', err), (''metadata'', metadata)])),
          (''output'', rs_tool_output st), (''error'', PDict (error_object e))])"

section \<open>Opening a run\<close>

definition prompt_context_of :: "pyval \<Rightarrow> pydict list res" where
  "prompt_context_of v =
     (if \<not> py_truthy v then Inr []
      else res_bind (iter_values v) (\<lambda>vs. Inr (List.map_filter (\<lambda>e. case e of PDict d \<Rightarrow> Some d | _ \<Rightarrow> None) vs)))"

definition context_reference :: "pydict \<Rightarrow> pydict" where
  "context_reference entry =
     [(''title'', PStr (py_strip (py_str (dict_get_or entry ''title'' (PStr []))))),
      (''source'', PStr (py_strip (py_str (dict_get_or entry ''source'' (PStr [])))))]"

definition run_request :: "run_args \<Rightarrow> pydict list \<Rightarrow> pydict" where
  "run_request ra context_entries =
     [(''input'', PStr (ra_user_input ra)), (''agent'', PStr (ra_agent_name ra)),
      (''tool'', opt_str (ra_tool_name ra)), (''tool_args'', ra_tool_args ra),
      (''prompt_context'', dict_list (map context_reference context_entries))]"

definition open_workflow :: "run_args \<Rightarrow> ('z, unit) run_io" where
  "open_workflow ra =
     io_then (set_run (\<lambda>st. st\<lparr>rs_parent_run_id := ra_parent_run_id ra\<rparr>))
     (io_bind (on_world utc_now_iso) (\<lambda>now.
      io_bind (get_run (\<lambda>st. st)) (\<lambda>st.
      io_bind (io_lift (create_workflow_state
         \<lparr>ca_run_id = rs_run_id st, ca_agent = ra_agent_name ra, ca_run_type = step_type_name (rs_run_type st),
          ca_request = Some (run_request ra (rs_prompt_context st)),
          ca_parent_workflow_id = ra_parent_workflow_id ra, ca_root_workflow_id = ra_root_workflow_id ra,
          ca_depth = ra_workflow_depth ra, ca_delegation = ra_delegation ra,
          ca_shared_memories = ra_shared_memories ra\<rparr> now)) (\<lambda>wo.
      io_then (set_run (\<lambda>st. st\<lparr>rs_workflow := Some wo\<rparr>)) persist_workflow))))"

definition reopen_workflow :: "run_args \<Rightarrow> string \<Rightarrow> ('z, unit) run_io" where
  "reopen_workflow ra approval_id =
     io_bind (on_world (get_approval approval_id)) (\<lambda>a.
     io_then (set_run (\<lambda>st. st\<lparr>rs_approval := Some a\<rparr>))
     (if \<not> approval_matches_request a (ra_user_input ra) (ra_agent_name ra) (ra_tool_name ra) (ra_tool_args ra)
      then io_raise (ValueError (''Approval `'' @ approval_id @ ''` does not match the current request''))
      else
        io_bind (on_world (load_workflow (ap_workflow_id a))) (\<lambda>wo.
        io_then (set_run (\<lambda>st. st\<lparr>rs_workflow := Some wo\<rparr>))
        (io_bind (get_run (\<lambda>st. st)) (\<lambda>st.
          if wf_agent wo \<noteq> ra_agent_name ra then
            io_raise (ValueError (''Workflow `'' @ wf_workflow_id wo @ ''` does not belong to agent `'' @ ra_agent_name ra @ ''`''))
          else if wf_run_type wo \<noteq> rs_run_type st then
            io_raise (ValueError (''Workflow `'' @ wf_workflow_id wo @ ''` run type `'' @ step_type_name (wf_run_type wo)
              @ ''` does not match `'' @ step_type_name (rs_run_type st) @ ''`''))
          else io_then (on_workflow (attach_run_to_workflow (rs_run_id st))) persist_workflow)))))"

definition initialize_workflow :: "run_args \<Rightarrow> ('z, unit) run_io" where
  "initialize_workflow ra =
     io_bind (io_lift (prompt_context_of (ra_prompt_context ra))) (\<lambda>entries.
     io_then (set_run (\<lambda>st. st\<lparr>rs_prompt_context := entries\<rparr>))
       (case ra_approval_id ra of None \<Rightarrow> open_workflow ra | Some k \<Rightarrow> reopen_workflow ra k))"

definition configure_workflow_for_agent :: "pydict \<Rightarrow> ('z, unit) run_io" where
  "configure_workflow_for_agent config =
     io_then (on_workflow (configure_retry_policy (dict_get config ''retries'')))
     (io_then (on_workflow (configure_subrun_policy (dict_get config ''subruns''))) persist_workflow)"

section \<open>Delegation, approvals, retries\<close>

definition append_shared_memory_sources :: "'z agent_world_scheme host \<Rightarrow> ('z, unit) run_io" where
  "append_shared_memory_sources h =
     io_bind (get_run rs_workflow) (\<lambda>wo.
       io_bind (io_map (\<lambda>m.
           io_bind (io_lift (dict_item m ''memory_id'')) (\<lambda>memory_id.
             append_context_source ''shared_memory'' (tokens h (dict_get_or m ''payload_summary'' (PStr [])))
               [(''memory_id'', memory_id), (''scope'', dict_get m ''scope''),
                (''workflow_id'', dict_get m ''workflow_id''), (''agent'', dict_get m ''agent'')]))
         (case wo of None \<Rightarrow> [] | Some x \<Rightarrow> wf_shared_memories x)) (\<lambda>_. io_return ()))"

definition enforce_workflow_delegation :: "string \<Rightarrow> string option \<Rightarrow> pydict \<Rightarrow> ('z, unit) run_io" where
  "enforce_workflow_delegation capability tool_name target =
     io_bind (get_run rs_workflow) (\<lambda>found.
       case found of
         None \<Rightarrow> io_return ()
       | Some wo \<Rightarrow>
           if wf_delegation wo = None then io_return ()
           else
             let denial = delegation_denial_reason wo capability tool_name;
                 reason = (case denial of
                     Some r \<Rightarrow> r
                   | None \<Rightarrow> ''Allowed by workflow `'' @ wf_workflow_id wo @ ''` delegation'')
             in io_then (append_decision ((decision_of ''delegation_check'' (denial = None) False reason target)
                           \<lparr>dn_capability := Some capability\<rparr>))
                  (case denial of
                     None \<Rightarrow> io_return ()
                   | Some r \<Rightarrow> io_raise (DelegationDeniedError r capability (wf_workflow_id wo))))"

definition request_approval ::
    "run_args \<Rightarrow> string option \<Rightarrow> pyval \<Rightarrow> pydict \<Rightarrow> string \<Rightarrow> ('z, unit) run_io" where
  "request_approval ra tool_name tool_args action reason =
     io_bind (get_run (\<lambda>st. st)) (\<lambda>st.
     io_bind the_workflow (\<lambda>wo.
     io_bind (on_world (create_approval (rs_run_id st) (wf_workflow_id wo) (ra_agent_name ra)
                (or_string (rs_policy_name st) []) action reason
                [(''input'', PStr (ra_user_input ra)), (''agent'', PStr (ra_agent_name ra)),
                 (''tool'', opt_str tool_name), (''tool_args'', tool_args)])) (\<lambda>a.
     io_then (set_run (\<lambda>st. st\<lparr>rs_approval := Some a\<rparr>))
     (io_then (append_decision ((decision_of ''approval_requested'' False True reason action)
                 \<lparr>dn_approval_id := Some (ap_approval_id a)\<rparr>))
     (io_then (on_workflow (wait_for_approval (ap_approval_id a) [(''reason'', FV_val (PStr reason))]))
     (io_then persist_workflow
       (set_run (\<lambda>st. st\<lparr>rs_approvals_requested := rs_approvals_requested st + 1\<rparr>))))))))"

definition approved_action_matches_request :: "run_state \<Rightarrow> pydict \<Rightarrow> bool" where
  "approved_action_matches_request st action =
     (case rs_approval st of
        None \<Rightarrow> False
      | Some a \<Rightarrow> ap_status a \<in> {Approved, Resumed} \<and>
          list_all (\<lambda>(k, v). v = PNone \<or> py_eq (dict_get (ap_action a) k) v) action)"

definition approval_resumed_already_logged :: "run_state \<Rightarrow> bool" where
  "approval_resumed_already_logged st = list_ex (\<lambda>d. dn_stage d = ''approval_resumed'') (rs_decisions st)"

record retry_error =
  re_failure_type :: string
  re_error_type :: string
  re_error_message :: string
  re_retryable :: bool

definition retry_error_details :: "run_state \<Rightarrow> exc \<Rightarrow> retry_error" where
  "retry_error_details st e =
     (let from_tool = (case rs_tool_result st of
              None \<Rightarrow> None
            | Some r \<Rightarrow> if py_truthy (dict_get_or r ''ok'' (PBool False)) then None
                        else Some (case dict_get r ''error'' of PDict d \<Rightarrow> d | _ \<Rightarrow> []))
      in case from_tool of
           Some d \<Rightarrow>
             \<lparr>re_failure_type = py_str (dict_get_or d ''failure_type'' (PStr ''tool_error'')),
              re_error_type = py_str (dict_get_or d ''error_type'' (PStr (exc_type e))),
              re_error_message = py_str (dict_get_or d ''message'' (PStr (exc_str e))),
              re_retryable = py_truthy (dict_get_or d ''retryable'' (PBool False))\<rparr>
         | None \<Rightarrow>
             \<lparr>re_failure_type = ''runtime_error'', re_error_type = exc_type e, re_error_message = exc_str e,
              re_retryable = (case e of TimeoutError m \<Rightarrow> True | ConnectionError m \<Rightarrow> True
                                      | RuntimeError m \<Rightarrow> True | _ \<Rightarrow> False)\<rparr>)"

definition can_schedule_retry :: "run_state \<Rightarrow> exc \<Rightarrow> bool" where
  "can_schedule_retry st e =
     (case rs_workflow st of
        None \<Rightarrow> False
      | Some wo \<Rightarrow> re_retryable (retry_error_details st e) \<and> rp_max_attempts (wf_retry_policy wo) > 0 \<and>
          rt_retries_remaining (wf_retry_state wo) > 0)"

definition finalize_retry_wait :: "'z agent_world_scheme host \<Rightarrow> run_args \<Rightarrow> exc \<Rightarrow> ('z, pydict) run_io" where
  "finalize_retry_wait h ra e =
     io_then update_budget_used
     (io_bind the_workflow (\<lambda>wo.
        let retry_state = retry_state_object (wf_retry_state wo)
        in io_then (set_output_source ''retry'' (tokens h (PDict retry_state))
             [(''attempts_used'', dict_get retry_state ''attempts_used''),
              (''next_retry_at'', dict_get retry_state ''next_retry_at'')])
           (io_then (write_trace ra ''retry_wait'' (\<lambda>st.
               [(''retry'', PDict retry_state), (''error'', PDict (error_object e))] @
               (case ra_tool_name ra of
                  None \<Rightarrow> []
                | Some tool \<Rightarrow> [(''tool'', case rs_tool_result st of
                      Some r \<Rightarrow> PDict r
                    | None \<Rightarrow> dict_get (tool_error_result st tool (ra_tool_args ra) e) ''tool'')])))
           (get_run (\<lambda>st. retry_response st ra (ra_tool_name ra) (ra_tool_args ra) e)))))"

definition finalize_pending_approval :: "'z agent_world_scheme host \<Rightarrow> run_args \<Rightarrow> ('z, pydict) run_io" where
  "finalize_pending_approval h ra =
     io_then update_budget_used
     (io_bind the_approval (\<lambda>a.
       io_then (set_output_source ''approval'' (tokens h (PDict (approval_summary_object a)))
          [(''approval_id'', PStr (ap_approval_id a)), (''status'', PStr (approval_status_name (ap_status a)))])
       (io_then (write_trace ra ''pending'' (\<lambda>st.
          [(''approval'', PDict (approval_summary_object a)), (''output'', PNone)]))
       (get_run (\<lambda>st. approval_response st ra (ra_tool_name ra) (ra_tool_args ra))))))"

section \<open>Waiting steps\<close>

definition detail :: "workflow_step \<Rightarrow> string \<Rightarrow> field_value res" where
  "detail s k = (case map_of (st_details s) k of None \<Rightarrow> Inl (KeyError k) | Some v \<Rightarrow> Inr v)"

definition detail_value :: "workflow_step \<Rightarrow> string \<Rightarrow> pyval res" where
  "detail_value s k = res_bind (detail s k) (\<lambda>v. Inr (field_value_object v))"

text \<open>\<open>now < fromisoformat(details["next_retry_at"])\<close>, false where the entry is \<open>None\<close>.\<close>

definition too_early :: "field_value \<Rightarrow> ('z env_scheme, bool) io" where
  "too_early v =
     (case v of
        FV_stamp None \<Rightarrow> io_return False
      | FV_val PNone \<Rightarrow> io_return False
      | FV_stamp (Some t) \<Rightarrow> io_bind utc_now (\<lambda>now. io_lift (stamp_gt t now))
      | FV_val _ \<Rightarrow> io_bind utc_now (\<lambda>now. io_raise (TypeError ''fromisoformat: argument must be str'')))"

definition execute_approval_wait_step :: "'z agent_world_scheme host \<Rightarrow> run_args \<Rightarrow> ('z, pydict option) run_io" where
  "execute_approval_wait_step h ra =
     io_bind (on_workflow current_step) (\<lambda>s.
     io_bind (io_lift (detail_value s ''approval_id'')) (\<lambda>raw_id.
     let approval_id = py_str raw_id;
         decision = (\<lambda>stage allowed asks text action.
           (decision_of stage allowed asks (''Approval `'' @ approval_id @ text) action)\<lparr>dn_approval_id := Some approval_id\<rparr>)
     in io_bind (on_world (get_approval approval_id)) (\<lambda>found.
        io_then (set_run (\<lambda>st. st\<lparr>rs_approval := Some found\<rparr>))
        (if ap_status found = Pending then
           io_then (append_decision (decision ''approval_pending'' False True ''` is still pending'' (ap_action found)))
             (io_bind (finalize_pending_approval h ra) (\<lambda>r. io_return (Some r)))
         else
           io_then (io_when (ap_status found = Approved)
             (io_bind (get_run rs_run_id) (\<lambda>run_id.
              io_bind (on_world (mark_approval_resumed approval_id run_id)) (\<lambda>resumed.
                set_run (\<lambda>st. st\<lparr>rs_approval := Some resumed\<rparr>)))))
           (io_bind the_approval (\<lambda>a.
              if ap_status a = Resumed then
                io_then (set_run (\<lambda>st. st\<lparr>rs_parent_run_id := Some (ap_requested_run_id a)\<rparr>))
                (io_then (on_workflow (resume_from_approval approval_id))
                (io_then persist_workflow
                (io_then (append_decision (decision ''approval_resumed'' True False ''` was resumed'' (ap_action found)))
                (io_then (set_run (\<lambda>st. st\<lparr>rs_approvals_resumed := rs_approvals_resumed st + 1\<rparr>))
                   (io_return None)))))
              else if ap_status a = Denied then
                io_bind (io_lift (dict_item (ap_action found) ''capability'')) (\<lambda>capability.
                io_bind (get_run rs_policy_name) (\<lambda>name.
                  io_raise (PolicyDeniedError (''Approval `'' @ approval_id @ ''` was denied'')
                    (py_str capability) (or_string name []))))
              else
                io_raise (ApprovalStateError (''Approval `'' @ approval_id @ ''` is `''
                  @ approval_status_name (ap_status a) @ ''` and cannot be resumed'') approval_id)))))))"

definition execute_retry_wait_step :: "'z agent_world_scheme host \<Rightarrow> run_args \<Rightarrow> ('z, pydict option) run_io" where
  "execute_retry_wait_step h ra =
     io_bind (on_workflow current_step) (\<lambda>s.
     io_bind (io_lift (detail s ''next_retry_at'')) (\<lambda>next_retry_at.
     io_bind (on_world (too_early next_retry_at)) (\<lambda>early.
       if early then
         io_bind (io_lift (detail_value s ''error'')) (\<lambda>err.
         io_then update_budget_used
         (io_bind (io_lift (detail_value s ''attempt'')) (\<lambda>attempt.
          io_then (set_output_source ''retry'' (tokens h err)
            [(''next_retry_at'', field_value_object next_retry_at), (''attempt'', attempt)])
          (io_bind the_workflow (\<lambda>wo.
           io_then (write_trace ra ''retry_wait'' (\<lambda>st.
             [(''retry'', PDict (retry_state_object (wf_retry_state wo))), (''error'', err)]))
           (io_bind (io_lift (case err of PDict d \<Rightarrow> dict_item d ''message''
                                        | _ \<Rightarrow> Inl (TypeError ''object is not subscriptable''))) (\<lambda>message.
             get_run (\<lambda>st. Some (retry_response st ra (ra_tool_name ra) (ra_tool_args ra)
                                  (RuntimeError (py_str message)))))))))))
       else
         io_bind (io_lift (detail_value s ''attempt'')) (\<lambda>attempt.
         io_then (append_decision (decision_of ''retry_resumed'' True False
            (''Retry attempt '' @ py_str attempt @ '' is resuming'') [(''attempt'', attempt)]))
         (io_then (on_workflow resume_from_retry) (io_then persist_workflow (io_return None)))))))"

section \<open>The decision on an action\<close>

text \<open>
  \<open>load_agent(...)["tools"]\<close> may be any value with \<open>in\<close>: a list, an object, or a text, where it is a
  test for a substring.
\<close>

definition tool_allowed :: "string \<Rightarrow> pyval \<Rightarrow> bool res" where
  "tool_allowed tool_name tools =
     (if \<not> py_truthy tools then Inr False
      else case tools of
             PList vs \<Rightarrow> Inr (list_ex (\<lambda>v. py_eq v (PStr tool_name)) vs)
           | PDict d \<Rightarrow> Inr (dict_has d tool_name)
           | PStr s \<Rightarrow> Inr (py_contains s tool_name)
           | _ \<Rightarrow> Inl (TypeError ''argument is not iterable''))"

definition set_default :: "pydict \<Rightarrow> string \<Rightarrow> pyval \<Rightarrow> pydict" where
  "set_default d k v = (if dict_has d k then d else dict_put d k v)"

definition memory_write_args :: "run_state \<Rightarrow> string \<Rightarrow> pydict \<Rightarrow> pydict" where
  "memory_write_args st agent_name d =
     (let named = set_default d ''agent'' (PStr agent_name);
          placed = (case rs_workflow st of
                      None \<Rightarrow> named
                    | Some wo \<Rightarrow> set_default named ''workflow_id'' (PStr (wf_workflow_id wo)))
      in set_default placed ''run_id'' (PStr (rs_run_id st)))"

definition tool_domain :: "tool_definition \<Rightarrow> pydict \<Rightarrow> string option res" where
  "tool_domain td args =
     (case td_domain_arg td of
        None \<Rightarrow> Inr None
      | Some k \<Rightarrow>
          (case dict_get args k of
             PStr raw \<Rightarrow>
               if k = [] \<or> py_strip raw = [] then Inr None
               else res_bind (url_netloc (py_strip raw)) (\<lambda>netloc.
                 Inr (case netloc_hostname netloc of
                        Some hostname \<Rightarrow> Some hostname
                      | None \<Rightarrow> if netloc = [] then None else Some netloc))
           | _ \<Rightarrow> Inr None))"

definition text_arg :: "pyval \<Rightarrow> string option res" where
  "text_arg v =
     (case v of PNone \<Rightarrow> Inr None | PStr s \<Rightarrow> Inr (Some s)
      | _ \<Rightarrow> Inl (TypeError ''expected string or bytes-like object''))"

definition tool_action :: "tool_definition \<Rightarrow> pydict \<Rightarrow> policy_action res" where
  "tool_action td args =
     res_bind (text_arg (dict_get args (case td_path_arg td of None \<Rightarrow> [] | Some k \<Rightarrow> k))) (\<lambda>path.
     res_bind (tool_domain td args) (\<lambda>domain.
     res_bind (text_arg (dict_get args ''memory_type'')) (\<lambda>memory_type.
     res_bind (text_arg (dict_get args ''scope_kind'')) (\<lambda>scope.
       Inr \<lparr>pa_capability = td_capability td, pa_path = path, pa_domain = domain, pa_command = td_command td,
            pa_memory_type = memory_type, pa_scope_kind = scope\<rparr>))))"

definition model_action :: "string \<Rightarrow> policy_action" where
  "model_action model_alias =
     \<lparr>pa_capability = ''model_call'', pa_path = None, pa_domain = None, pa_command = Some model_alias,
      pa_memory_type = None, pa_scope_kind = None\<rparr>"

text \<open>The approval of the run covers the action.\<close>

definition use_approval :: "pydict \<Rightarrow> ('z, unit) run_io" where
  "use_approval action =
     io_bind the_approval (\<lambda>a.
     io_then (io_when (ap_status a = Approved)
       (io_bind (get_run rs_run_id) (\<lambda>run_id.
        io_bind (on_world (mark_approval_resumed (ap_approval_id a) run_id)) (\<lambda>resumed.
          set_run (\<lambda>st. st\<lparr>rs_approval := Some resumed\<rparr>)))))
     (io_then (set_run (\<lambda>st. if rs_parent_run_id st = None
          then st\<lparr>rs_parent_run_id := Some (ap_requested_run_id a)\<rparr> else st))
       (io_bind (get_run approval_resumed_already_logged) (\<lambda>logged.
          if logged then io_return ()
          else
            io_then (append_decision ((decision_of ''approval_resumed'' True False
                       (''Approval `'' @ ap_approval_id a @ ''` satisfies the action'') action)
                     \<lparr>dn_approval_id := Some (ap_approval_id a)\<rparr>))
              (set_run (\<lambda>st. st\<lparr>rs_approvals_resumed := rs_approvals_resumed st + 1\<rparr>))))))"

text \<open>
  What the steps for tools and models share: the decision of the policy is logged; \<open>True\<close> is the
  permission to act, \<open>False\<close> that an approval was requested.
\<close>

definition authorise ::
    "'w host \<Rightarrow> policy \<Rightarrow> run_args \<Rightarrow> string \<Rightarrow> pydict \<Rightarrow> policy_action \<Rightarrow> pydict \<Rightarrow> string option \<Rightarrow> pyval
      \<Rightarrow> ('z, bool) run_io" where
  "authorise h policy ra stage target action approval_action tool_name tool_args =
     io_bind (io_lift (evaluate_policy (h_policy_env h) policy action)) (\<lambda>decision.
     io_then (append_decision ((decision_of stage (pd_allowed decision) (pd_requires_approval decision)
                (pd_reason decision) target)
              \<lparr>dn_capability := Some (pa_capability action), dn_matched_scope := pd_matched_scope decision\<rparr>))
     (if pd_allowed decision then io_return True
      else if pd_requires_approval decision then
        io_bind (get_run (\<lambda>st. approved_action_matches_request st approval_action)) (\<lambda>matches.
          if matches then io_then (use_approval approval_action) (io_return True)
          else io_then (request_approval ra tool_name tool_args approval_action (pd_reason decision))
                 (io_return False))
      else
        io_bind (get_run rs_policy_name) (\<lambda>name.
          io_raise (PolicyDeniedError (pd_reason decision) (pa_capability action) (or_string name [])))))"

section \<open>Tools\<close>

text \<open>\<open>memory_summary\<close> of an object, as it is applied to the output of a tool.\<close>

definition payload_fields :: "pyval \<Rightarrow> string list" where
  "payload_fields t =
     (if py_eq t (PStr ''fact'') then ordered_fields Fact
      else if py_eq t (PStr ''summary'') then ordered_fields Summary
      else if py_eq t (PStr ''observation'') then ordered_fields Observation
      else if py_eq t (PStr ''artifact_ref'') then ordered_fields Artifact_ref
      else [])"

definition object_payload_text :: "pydict \<Rightarrow> string res" where
  "object_payload_text memory =
     res_bind (dict_item memory ''memory_type'') (\<lambda>t.
       case dict_get_or memory ''payload'' (PDict []) of
         PDict payload \<Rightarrow>
           let fields = payload_fields t;
               values = map (dict_get payload) fields @ map snd (filter (\<lambda>(f, _). f \<notin> set fields) payload)
           in Inr (py_join '' | '' (List.map_filter non_empty_text values))
       | _ \<Rightarrow> Inl attribute_error)"

definition object_of :: "pyval \<Rightarrow> pydict res" where
  "object_of v = (case v of PDict d \<Rightarrow> Inr d | _ \<Rightarrow> Inl (TypeError ''object is not a mapping''))"

definition object_summary :: "pydict \<Rightarrow> pydict res" where
  "object_summary memory =
     res_bind (dict_item memory ''memory_id'') (\<lambda>memory_id.
     res_bind (dict_item memory ''memory_type'') (\<lambda>memory_type.
     res_bind (res_bind (dict_item memory ''scope'') object_of) (\<lambda>scope.
     res_bind (iter_values (dict_get_or memory ''tags'' (PList []))) (\<lambda>tags.
     res_bind (dict_item memory ''created_at'') (\<lambda>created_at.
     res_bind (dict_item memory ''updated_at'') (\<lambda>updated_at.
     res_bind (object_of (dict_get_or memory ''metadata'' (PDict []))) (\<lambda>metadata.
     res_bind (object_payload_text memory) (\<lambda>text.
     res_bind (if py_truthy (dict_get memory ''artifact_id'') then Inr (dict_get memory ''artifact_id'')
               else res_bind (object_of (dict_get_or memory ''payload'' (PDict [])))
                      (\<lambda>payload. Inr (dict_get payload ''artifact_id''))) (\<lambda>artifact_id.
       Inr ([(''memory_id'', memory_id), (''memory_type'', memory_type), (''scope'', PDict scope),
             (''agent'', dict_get memory ''agent''), (''workflow_id'', dict_get memory ''workflow_id''),
             (''run_id'', dict_get memory ''run_id''), (''tags'', PList tags), (''created_at'', created_at),
             (''updated_at'', updated_at), (''metadata'', PDict metadata),
             (''payload_summary'', dict_get_or memory ''payload_summary'' (PStr text))] @
            (case non_empty_text artifact_id of None \<Rightarrow> [] | Some s \<Rightarrow> [(''artifact_id'', PStr s)])))))))))))"

definition register_written_memory :: "string \<Rightarrow> pyval \<Rightarrow> ('z, unit) run_io" where
  "register_written_memory tool_name output =
     io_bind (get_run rs_workflow) (\<lambda>wo.
       case output of
         PDict d \<Rightarrow>
           io_when (tool_name = ''memory_write'' \<and> wo \<noteq> None)
             (io_bind (io_lift (object_summary d)) (\<lambda>summary. on_workflow (register_memory summary)))
       | _ \<Rightarrow> io_return ())"

definition output_value :: "pydict \<Rightarrow> pyval res" where
  "output_value result =
     res_bind (dict_item result ''output'') (\<lambda>v. res_bind (object_of v) (\<lambda>d. dict_item d ''value''))"

text \<open>From the permission to the completed step.\<close>

definition perform_tool :: "'z agent_world_scheme host \<Rightarrow> string \<Rightarrow> pyval \<Rightarrow> ('z, unit) run_io" where
  "perform_tool h tool_name tool_args =
     io_bind (on_world (call_tool h tool_name tool_args)) (\<lambda>result.
     io_then (set_run (\<lambda>st. st\<lparr>rs_tool_result := Some result\<rparr>))
     (io_then (set_run (\<lambda>st. st\<lparr>rs_tool_calls := rs_tool_calls st + 1\<rparr>))
     (io_bind (io_lift (dict_item result ''ok'')) (\<lambda>ok.
      if \<not> py_truthy ok then io_bind (io_lift (exception_from_tool_result result)) io_raise
      else
        io_bind (io_lift (output_value result)) (\<lambda>output.
        io_then (set_run (\<lambda>st. st\<lparr>rs_tool_output := output\<rparr>))
        (io_then (register_written_memory tool_name output)
        (io_then (timed_budget (\<lambda>now. consume_tokens now (tokens h output)))
        (io_then (timed_budget ensure_wall_clock_remaining)
        (io_then update_budget_used
        (io_then (set_output_source ''tool'' (tokens h output) [(''tool'', dict_get result ''name'')])
        (io_then (on_workflow mark_action_completed) persist_workflow)))))))))))"

definition execute_tool_step ::
    "'z agent_world_scheme host \<Rightarrow> policy \<Rightarrow> pydict \<Rightarrow> run_args \<Rightarrow> string \<Rightarrow> ('z, pydict option) run_io" where
  "execute_tool_step h policy config ra tool_name =
     (if ra_tool_args ra \<noteq> PNone \<and> \<not> is_dict (ra_tool_args ra)
      then io_raise (ValueError ''Tool arguments must be an object'')
      else
        let given = (case ra_tool_args ra of PDict d \<Rightarrow> d | _ \<Rightarrow> [])
        in io_then (append_input_source ''tool_args'' (tokens h (PDict given)) [(''tool'', PStr tool_name)])
          (io_then (timed_budget consume_step)
          (io_then (timed_budget consume_tool_call)
          (io_bind (io_lift (tool_allowed tool_name (dict_get_or config ''tools'' (PList [])))) (\<lambda>listed.
           if \<not> listed then
             io_raise (ValueError (''Tool not allowed for agent `'' @ ra_agent_name ra @ ''`: '' @ tool_name))
           else
             io_bind (get_run (\<lambda>st. if tool_name = ''memory_write'' then memory_write_args st (ra_agent_name ra) given
                                   else given)) (\<lambda>args.
             let tool_args = (if tool_name = ''memory_write'' then PDict args else ra_tool_args ra);
                 target = [(''tool'', PStr tool_name), (''args'', PDict args)]
             in io_bind (io_lift (get_tool_definition tool_name)) (\<lambda>td.
                io_bind (io_lift (tool_action td args)) (\<lambda>action.
                io_then (on_workflow (set_action_details
                  [(''tool'', FV_val (PStr tool_name)), (''args'', FV_val (PDict args)),
                   (''capability'', FV_val (PStr (pa_capability action)))]))
                (io_then persist_workflow
                (io_then (enforce_workflow_delegation (pa_capability action) (Some tool_name) target)
                (io_bind (authorise h policy ra ''tool_policy_check'' target action
                   [(''capability'', PStr (pa_capability action)), (''tool'', PStr tool_name),
                    (''path'', opt_str (pa_path action)), (''command'', opt_str (pa_command action))]
                   (Some tool_name) tool_args) (\<lambda>permitted.
                  io_then (io_when permitted (perform_tool h tool_name tool_args)) (io_return None)))))))))))))"

section \<open>Models\<close>

definition model_alias_of :: "pydict \<Rightarrow> string res" where
  "model_alias_of config =
     res_bind (dict_item config ''model'') (\<lambda>v.
       case v of PStr s \<Rightarrow> Inr s | _ \<Rightarrow> Inl (TypeError ''expected string or bytes-like object''))"

definition compose_prompt ::
    "'z agent_world_scheme host \<Rightarrow> pydict \<Rightarrow> run_args \<Rightarrow> ('z, string \<times> string) run_io" where
  "compose_prompt h config ra =
     io_then (append_shared_memory_sources h)
     (io_bind (get_run (\<lambda>st. st)) (\<lambda>st.
      io_bind (io_lift (build_prompt (ra_user_input ra) config
                 (case rs_workflow st of None \<Rightarrow> [] | Some wo \<Rightarrow> wf_shared_memories wo)
                 (rs_prompt_context st))) (\<lambda>prompt.
      io_then (set_run (\<lambda>st. st\<lparr>rs_prompt := Some prompt\<rparr>))
      (io_bind (io_lift (model_alias_of config)) (\<lambda>model_alias.
       io_then (set_run (\<lambda>st. st\<lparr>rs_model_alias := Some model_alias\<rparr>))
       (io_then (append_context_source ''system_prompt'' (tokens h (dict_get_or config ''system'' (PStr []))) [])
       (io_then (io_map (\<lambda>entry.
           append_context_source ''prompt_context'' (tokens h (dict_get_or entry ''content'' (PStr [])))
             [(''title'', dict_get entry ''title''), (''source'', dict_get entry ''source'')]) (rs_prompt_context st))
       (io_then (append_context_source ''composed_prompt'' (tokens h (PStr prompt)) [(''model_alias'', PStr model_alias)])
          (io_return (model_alias, prompt))))))))))"

definition perform_model :: "'z agent_world_scheme host \<Rightarrow> string \<Rightarrow> string \<Rightarrow> ('z, unit) run_io" where
  "perform_model h model_alias prompt =
     io_then (timed_budget (\<lambda>now. consume_tokens now (tokens h (PStr prompt))))
     (io_bind (on_world (call_model h model_alias prompt)) (\<lambda>result.
      io_then (set_run (\<lambda>st. st\<lparr>rs_model_result := Some result\<rparr>))
      (io_then (set_run (\<lambda>st. st\<lparr>rs_model_calls := rs_model_calls st + 1\<rparr>))
      (io_bind (io_lift (dict_item result ''output'')) (\<lambda>output.
       io_then (timed_budget (\<lambda>now. consume_tokens now (tokens h output)))
       (io_then (timed_budget ensure_wall_clock_remaining)
       (io_then update_budget_used
       (io_then (set_output_source ''model'' (tokens h output)
          [(''provider'', dict_get result ''provider''), (''model'', dict_get result ''model'')])
       (io_then (on_workflow mark_action_completed) persist_workflow)))))))))"

definition execute_model_step ::
    "'z agent_world_scheme host \<Rightarrow> policy \<Rightarrow> pydict \<Rightarrow> run_args \<Rightarrow> ('z, pydict option) run_io" where
  "execute_model_step h policy config ra =
     io_then (timed_budget consume_step)
     (io_bind (compose_prompt h config ra) (\<lambda>(model_alias, prompt).
      let target = [(''model_alias'', PStr model_alias)]
      in io_then (on_workflow (set_action_details
           [(''model_alias'', FV_val (PStr model_alias)), (''capability'', FV_val (PStr ''model_call''))]))
         (io_then persist_workflow
         (io_then (enforce_workflow_delegation ''model_call'' None target)
         (io_bind (authorise h policy ra ''model_policy_check'' target (model_action model_alias)
            [(''capability'', PStr ''model_call''), (''model_alias'', PStr model_alias), (''command'', PStr model_alias)]
            None PNone) (\<lambda>permitted.
           io_then (io_when permitted (perform_model h model_alias prompt)) (io_return None)))))))"

section \<open>The end of a run\<close>

definition not_subscriptable :: exc where
  "not_subscriptable = TypeError ''NoneType object is not subscriptable''"

definition create_result_artifact :: "('z, artifact) run_io" where
  "create_result_artifact =
     io_bind (get_run (\<lambda>st. st)) (\<lambda>st.
     io_bind the_workflow (\<lambda>wo.
       if rs_run_type st = Tool_step then
         (case rs_tool_result st of
            None \<Rightarrow> io_raise not_subscriptable
          | Some result \<Rightarrow> on_world (create_artifact (wf_workflow_id wo) (rs_run_id st) ''result'' ''tool_output''
              (rs_tool_output st)
              (Some [(''tool'', dict_get result ''name''), (''tool_args'', result_args result)])))
       else
         (case rs_model_result st of
            None \<Rightarrow> io_raise not_subscriptable
          | Some result \<Rightarrow> on_world (create_artifact (wf_workflow_id wo) (rs_run_id st) ''result'' ''model_output''
              (dict_get result ''output'')
              (Some [(''provider'', dict_get result ''provider''), (''model'', dict_get result ''model'')])))))"

definition success_result :: "run_state \<Rightarrow> pydict" where
  "success_result st =
     (if rs_run_type st = Tool_step
      then [(''tool'', dict_value (rs_tool_result st)), (''output'', rs_tool_output st)]
      else (let result = (case rs_model_result st of None \<Rightarrow> [] | Some r \<Rightarrow> r)
            in [(''model'', PDict [(''provider'', dict_get result ''provider''), (''model'', dict_get result ''model'')]),
                (''output'', dict_get result ''output'')]))"

definition execute_finish_step :: "run_args \<Rightarrow> ('z, pydict) run_io" where
  "execute_finish_step ra =
     io_bind create_result_artifact (\<lambda>artifact.
     io_then (on_workflow (register_artifact (artifact_summary artifact)))
     (io_then (on_workflow complete_finish_step)
     (io_then persist_workflow
     (io_then (write_trace ra ''success'' success_result)
     (io_bind (get_run (\<lambda>st. success_response st ra)) io_lift)))))"

section \<open>The loop\<close>

text \<open>
  The \<open>while True\<close> of the code with a bound on its passes; \<open>None\<close> says that the bound was reached.
  The step types are the five of \<open>step_type\<close>, so the last \<open>raise\<close> of the code is out of reach.
\<close>

definition execute_step ::
    "'z agent_world_scheme host \<Rightarrow> policy \<Rightarrow> pydict \<Rightarrow> run_args \<Rightarrow> step_type \<Rightarrow> ('z, pydict option) run_io" where
  "execute_step h policy config ra t =
     (case t of
        Retry_wait \<Rightarrow> execute_retry_wait_step h ra
      | Approval_wait \<Rightarrow> execute_approval_wait_step h ra
      | Tool_step \<Rightarrow>
          (case ra_tool_name ra of
             None \<Rightarrow> io_raise (ValueError (''Tool not allowed for agent `'' @ ra_agent_name ra @ ''`: None''))
           | Some tool_name \<Rightarrow> execute_tool_step h policy config ra tool_name)
      | Model_step \<Rightarrow> execute_model_step h policy config ra
      | Finish \<Rightarrow> io_bind (execute_finish_step ra) (\<lambda>r. io_return (Some r)))"

fun run_workflow ::
    "nat \<Rightarrow> 'z agent_world_scheme host \<Rightarrow> policy \<Rightarrow> pydict \<Rightarrow> run_args \<Rightarrow> ('z, pydict option) run_io" where
  "run_workflow 0 h policy config ra = io_return None"
| "run_workflow (Suc n) h policy config ra =
     io_bind (on_workflow current_step) (\<lambda>s.
     io_bind (execute_step h policy config ra (st_step_type s)) (\<lambda>response.
       case response of None \<Rightarrow> run_workflow n h policy config ra | Some r \<Rightarrow> io_return (Some r)))"

section \<open>run\_agent\<close>

definition run_body :: "nat \<Rightarrow> 'z agent_world_scheme host \<Rightarrow> run_args \<Rightarrow> ('z, pydict option) run_io" where
  "run_body n h ra =
     io_then (initialize_workflow ra)
     (io_bind (io_lift (load_agent (h_policy_env h) (ra_agent_name ra))) (\<lambda>config.
      io_then (configure_workflow_for_agent config)
      (io_bind (io_lift (build_agent_policy (h_policy_env h) config)) (\<lambda>policy.
       io_then (set_run (\<lambda>st. st\<lparr>rs_policy_name := Some (pol_name policy),
         rs_policy_snapshot := Some (snapshot_policy (h_policy_env h) policy)\<rparr>))
       (io_bind (io_lift (budget_config (dict_get config ''budgets''))) (\<lambda>limits.
        io_bind (on_world perf_counter) (\<lambda>now.
        io_then (set_run (\<lambda>st. st\<lparr>rs_budget := Some (load_budget limits now),
          rs_budget_limits := Some (limits_snapshot (load_budget limits now))\<rparr>))
        (io_then (append_input_source ''user_input'' (tokens h (PStr (ra_user_input ra)))
            [(''source'', PStr ''request'')])
          (run_workflow n h policy config ra)))))))))"

definition schedule_run_retry :: "'z agent_world_scheme host \<Rightarrow> run_args \<Rightarrow> exc \<Rightarrow> ('z, pydict option) run_io" where
  "schedule_run_retry h ra e =
     io_bind (get_run (\<lambda>st. retry_error_details st e)) (\<lambda>details.
     io_bind the_workflow (\<lambda>wo.
     io_then (append_decision (decision_of ''retry_scheduled'' True False
        (''Retry scheduled after '' @ re_error_type details @ '': '' @ re_error_message details)
        [(''attempt'', PInt (rt_attempts_used (wf_retry_state wo) + 1)),
         (''failure_type'', PStr (re_failure_type details))]))
     (io_bind (on_world utc_now) (\<lambda>now.
      io_then (on_workflow (wait_for_retry now (re_error_type details) (re_error_message details) (re_retryable details)))
      (io_then persist_workflow
        (io_bind (finalize_retry_wait h ra e) (\<lambda>r. io_return (Some r))))))))"

definition fail_run :: "run_args \<Rightarrow> exc \<Rightarrow> ('z, pydict option) run_io" where
  "fail_run ra e =
     io_bind (get_run rs_workflow) (\<lambda>wo.
     io_then (io_when (wo \<noteq> None)
       (io_then (on_workflow (fail_workflow (exc_type e) (exc_str e))) persist_workflow))
     (io_then (write_trace ra ''error'' (\<lambda>st.
        case ra_tool_name ra of
          None \<Rightarrow> [(''error'', PDict (error_object e))]
        | Some tool_name \<Rightarrow> tool_error_result st tool_name (ra_tool_args ra) e))
       (io_raise e)))"

text \<open>The \<open>except\<close> clause; the budget is set exactly where the code has assigned its variable.\<close>

definition handle_run_error :: "'z agent_world_scheme host \<Rightarrow> run_args \<Rightarrow> exc \<Rightarrow> ('z, pydict option) run_io" where
  "handle_run_error h ra e =
     io_bind (get_run (\<lambda>st. rs_budget st \<noteq> None)) (\<lambda>budgeted.
     io_then (io_when budgeted update_budget_used)
     (io_bind (get_run (\<lambda>st. can_schedule_retry st e)) (\<lambda>retries.
        if budgeted \<and> retries then schedule_run_retry h ra e else fail_run ra e)))"

definition with_run :: "run_state \<Rightarrow> (run_state \<times> 'w, 'a) io \<Rightarrow> ('w, 'a) io" where
  "with_run st m = (\<lambda>w. case m (st, w) of (r, (st', w')) \<Rightarrow> (r, w'))"

definition run_agent ::
    "nat \<Rightarrow> 'z agent_world_scheme host \<Rightarrow> run_args \<Rightarrow> ('z agent_world_scheme, pydict option) io" where
  "run_agent n h ra =
     io_bind (case ra_run_id ra of
                None \<Rightarrow> uuid4
              | Some k \<Rightarrow> if k = [] then uuid4 else io_return k) (\<lambda>run_id.
     io_bind perf_counter (\<lambda>now.
       with_run (new_run run_id (if ra_tool_name ra = None then Model_step else Tool_step) now
                   (ra_job_id ra) (ra_worker_id ra))
         (io_catch (run_body n h ra) (handle_run_error h ra))))"

end
