(* ===== verification/Workflow_Runner.thy ===== *)
theory Workflow_Runner
  imports Agent
begin

text \<open>
  src/runtime/workflow_runner.py: starting workflows and child workflows, the delegation a child gets
  from the subrun policy of its parent, the memories handed to it, resuming and replaying. The
  stored requests hold a text as input and agent and a text or nothing as tool, as \<open>run_agent\<close> writes
  them; another value is refused. All runs have the bound of the loop as their first argument.
\<close>

section \<open>Requests\<close>

text \<open>A call of \<open>run_agent\<close> with the defaults of its other parameters.\<close>

definition agent_call ::
    "string \<Rightarrow> string \<Rightarrow> string option \<Rightarrow> pyval \<Rightarrow> string option \<Rightarrow> string option \<Rightarrow> run_args" where
  "agent_call user_input agent_name tool_name tool_args job_id worker_id =
     \<lparr>ra_user_input = user_input, ra_agent_name = agent_name, ra_tool_name = tool_name,
      ra_tool_args = tool_args, ra_approval_id = None, ra_run_id = None, ra_parent_run_id = None,
      ra_parent_workflow_id = None, ra_root_workflow_id = None, ra_workflow_depth = PInt 0,
      ra_job_id = job_id, ra_worker_id = worker_id, ra_delegation = PNone, ra_shared_memories = PNone,
      ra_prompt_context = PNone\<rparr>"

definition start_workflow ::
    "nat \<Rightarrow> 'z agent_world_scheme host \<Rightarrow> string \<Rightarrow> string \<Rightarrow> string option \<Rightarrow> pyval \<Rightarrow> string option
      \<Rightarrow> string option \<Rightarrow> string option \<Rightarrow> pyval \<Rightarrow> ('z agent_world_scheme, pydict option) io" where
  "start_workflow n h user_input agent_name tool_name tool_args approval_id job_id worker_id prompt_context =
     run_agent n h ((agent_call user_input agent_name tool_name tool_args job_id worker_id)
       \<lparr>ra_approval_id := approval_id, ra_prompt_context := prompt_context\<rparr>)"

definition runner_text :: "string \<Rightarrow> pyval \<Rightarrow> string res" where
  "runner_text field_name v =
     (case non_empty_text v of
        Some s \<Rightarrow> Inr s
      | None \<Rightarrow> Inl (ValueError (''Workflow `'' @ field_name @ ''` must contain non-empty strings'')))"

definition runner_string_list :: "pyval \<Rightarrow> string \<Rightarrow> string list res" where
  "runner_string_list v field_name =
     (case v of
        PNone \<Rightarrow> Inr []
      | PList items \<Rightarrow> res_bind (res_map (runner_text field_name) items) (\<lambda>ss. Inr (dedupe [] ss))
      | _ \<Rightarrow> Inl (ValueError (''Workflow `'' @ field_name @ ''` must be a list of strings'')))"

definition normalize_role :: "pyval \<Rightarrow> string \<Rightarrow> string res" where
  "normalize_role role agent_name =
     (if role = PNone then Inr agent_name
      else case non_empty_text role of
             Some s \<Rightarrow> Inr s | None \<Rightarrow> Inl (ValueError ''Workflow `role` must be a non-empty string''))"

definition normalize_user_input :: "pyval \<Rightarrow> string res" where
  "normalize_user_input v =
     (case v of PStr s \<Rightarrow> Inr (py_strip s) | _ \<Rightarrow> Inl (ValueError ''Workflow `input` must be a string''))"

definition normalize_memory_ids :: "pyval \<Rightarrow> string list res" where
  "normalize_memory_ids v = runner_string_list v ''shared_memory_ids''"

definition requested_capability :: "string option \<Rightarrow> string res" where
  "requested_capability tool_name =
     (case tool_name of
        None \<Rightarrow> Inr ''model_call''
      | Some tool \<Rightarrow> res_bind (get_tool_definition tool) (\<lambda>td. Inr (td_capability td)))"

section \<open>Delegation to a child\<close>

definition ensure_requested_agent_allowed :: "workflow \<Rightarrow> string \<Rightarrow> unit res" where
  "ensure_requested_agent_allowed parent agent_name =
     (case sp_allowed_agents (wf_subrun_policy parent) of
        None \<Rightarrow> Inr ()
      | Some allowed \<Rightarrow>
          if agent_name \<in> set allowed then Inr ()
          else Inl (DelegationDeniedError
            (''Workflow `'' @ wf_workflow_id parent @ ''` delegation does not allow agent `'' @ agent_name @ ''`'')
            ''workflow_subrun'' (wf_workflow_id parent)))"

definition ensure_subset :: "string list \<Rightarrow> string list option \<Rightarrow> string \<Rightarrow> string \<Rightarrow> unit res" where
  "ensure_subset vals allowed_values field_name parent_workflow_id =
     (case allowed_values of
        None \<Rightarrow> Inr ()
      | Some allowed \<Rightarrow>
          let disallowed = sorted_set (filter (\<lambda>v. v \<notin> set allowed) vals)
          in if disallowed = [] then Inr ()
             else Inl (DelegationDeniedError
               (''Workflow `'' @ parent_workflow_id @ ''` delegation does not allow '' @ field_name @ '': ''
                 @ py_join '', '' disallowed) ''workflow_subrun'' parent_workflow_id))"

text \<open>What \<open>start_child_workflow\<close> is called with.\<close>

record child_args =
  ch_user_input :: pyval
  ch_agent_name :: string
  ch_tool_name :: "string option"
  ch_tool_args :: pyval
  ch_role :: pyval
  ch_allowed_capabilities :: pyval
  ch_allowed_tools :: pyval
  ch_task_intent :: pyval
  ch_expected_output :: pyval
  ch_completion_criteria :: pyval
  ch_shared_memory_ids :: pyval
  ch_job_id :: "string option"
  ch_worker_id :: "string option"

definition child_capabilities :: "child_args \<Rightarrow> string \<Rightarrow> string list res" where
  "child_capabilities ch capability =
     res_bind (runner_string_list (ch_allowed_capabilities ch) ''allowed_capabilities'') (\<lambda>asked.
       let child_allowed = (if asked = [] then [capability] else asked)
       in res_bind (check_capabilities child_allowed) (\<lambda>_.
            if capability \<notin> set child_allowed then
              Inl (ValueError (''Workflow child delegation must allow the requested capability `'' @ capability @ ''`''))
            else Inr child_allowed))"

definition child_tools :: "child_args \<Rightarrow> string list res" where
  "child_tools ch =
     res_bind (runner_string_list (ch_allowed_tools ch) ''allowed_tools'') (\<lambda>asked.
       case ch_tool_name ch of
         None \<Rightarrow> if asked \<noteq> [] then Inl (ValueError ''Model child workflows cannot declare `allowed_tools`'')
                 else Inr asked
       | Some tool \<Rightarrow>
           let child_allowed = (if asked = [] then [tool] else asked)
           in if tool \<notin> set child_allowed then
                Inl (ValueError (''Workflow child delegation must allow the requested tool `'' @ tool @ ''`''))
              else Inr child_allowed)"

definition child_task_intent :: "child_args \<Rightarrow> string \<Rightarrow> string res" where
  "child_task_intent ch user_input =
     res_bind (normalize_optional_string (ch_task_intent ch) ''task_intent'') (\<lambda>given.
       case given of
         Some s \<Rightarrow> Inr s
       | None \<Rightarrow> if user_input \<noteq> [] then Inr user_input
                 else Inl (ValueError ''Workflow child delegation requires either `input` or `task_intent`''))"

definition child_expected_output :: "child_args \<Rightarrow> string \<Rightarrow> string res" where
  "child_expected_output ch role =
     res_bind (normalize_optional_string (ch_expected_output ch) ''expected_output'') (\<lambda>given.
       Inr (case given of
              Some s \<Rightarrow> s
            | None \<Rightarrow>
                (case ch_tool_name ch of
                   Some tool \<Rightarrow> ''Bounded tool result for `'' @ tool @ ''` plus a concise summary''
                 | None \<Rightarrow> ''Concise bounded result from the delegated `'' @ role @ ''` task'')))"

definition child_criteria :: "child_args \<Rightarrow> string list res" where
  "child_criteria ch =
     res_bind (runner_string_list (ch_completion_criteria ch) ''completion_criteria'') (\<lambda>given.
       Inr (if given = []
            then [''Stay within the delegated capabilities and tool bounds.'',
                  ''Return a bounded result that satisfies the expected output.'']
            else given))"

definition build_child_delegation :: "workflow \<Rightarrow> child_args \<Rightarrow> pydict res" where
  "build_child_delegation parent ch =
     res_bind (ensure_requested_agent_allowed parent (ch_agent_name ch)) (\<lambda>_.
     res_bind (normalize_role (ch_role ch) (ch_agent_name ch)) (\<lambda>role.
     res_bind (normalize_user_input (ch_user_input ch)) (\<lambda>user_input.
     res_bind (requested_capability (ch_tool_name ch)) (\<lambda>capability.
     res_bind (child_capabilities ch capability) (\<lambda>capabilities.
     res_bind (child_tools ch) (\<lambda>tools.
     res_bind (ensure_subset capabilities (sp_allowed_capabilities (wf_subrun_policy parent)) ''capabilities''
                (wf_workflow_id parent)) (\<lambda>_.
     res_bind (if ch_tool_name ch = None then Inr ()
               else ensure_subset tools (sp_allowed_tools (wf_subrun_policy parent)) ''tools''
                      (wf_workflow_id parent)) (\<lambda>_.
     res_bind (child_task_intent ch user_input) (\<lambda>task_intent.
     res_bind (child_expected_output ch role) (\<lambda>expected_output.
     res_bind (child_criteria ch) (\<lambda>criteria.
       Inr [(''role'', PStr role), (''assigned_by_workflow_id'', PStr (wf_workflow_id parent)),
            (''assigned_by_run_id'', PStr (wf_latest_run_id parent)),
            (''allowed_capabilities'', str_list capabilities), (''allowed_tools'', str_list tools),
            (''task_intent'', PStr task_intent), (''expected_output'', PStr expected_output),
            (''completion_criteria'', str_list criteria)])))))))))))"

section \<open>Memories of a child\<close>

text \<open>The scope of a stored memory is one of the four kinds; the values of the last three are texts.\<close>

definition memory_is_shareable_with_child :: "workflow \<Rightarrow> memory \<Rightarrow> string \<Rightarrow> bool" where
  "memory_is_shareable_with_child parent m child_agent_name =
     (case mm_scope_kind m of
        Scope_global \<Rightarrow> True
      | Scope_agent \<Rightarrow> mm_scope_value m \<in> {Some (wf_agent parent), Some child_agent_name}
      | Scope_workflow \<Rightarrow> mm_scope_value m \<in> {Some (wf_workflow_id parent), Some (wf_root_workflow_id parent)}
      | Scope_run \<Rightarrow> mm_scope_value m \<in> {Some (wf_run_id parent), Some (wf_latest_run_id parent)})"

definition materialize_shared_memories ::
    "workflow \<Rightarrow> string \<Rightarrow> pyval \<Rightarrow> ('z memory_world_scheme, pydict list) io" where
  "materialize_shared_memories parent child_agent_name shared_memory_ids =
     io_bind (io_lift (normalize_memory_ids shared_memory_ids)) (\<lambda>ids.
       io_map (\<lambda>memory_id.
         io_bind (load_memory memory_id) (\<lambda>m.
           if memory_is_shareable_with_child parent m child_agent_name then io_return (memory_summary m)
           else io_raise (DelegationDeniedError
             (''Workflow `'' @ wf_workflow_id parent @ ''` cannot hand off memory `'' @ memory_id
               @ ''` to agent `'' @ child_agent_name @ ''`'') ''memory_read'' (wf_workflow_id parent)))) ids)"

section \<open>Child workflows\<close>

definition child_call :: "workflow \<Rightarrow> child_args \<Rightarrow> string \<Rightarrow> pydict \<Rightarrow> pydict list \<Rightarrow> run_args" where
  "child_call parent ch child_id delegation shared_memories =
     (agent_call (case ch_user_input ch of PStr s \<Rightarrow> s | _ \<Rightarrow> []) (ch_agent_name ch) (ch_tool_name ch)
        (ch_tool_args ch) (ch_job_id ch) (ch_worker_id ch))
       \<lparr>ra_run_id := Some child_id, ra_parent_run_id := Some (wf_latest_run_id parent),
        ra_parent_workflow_id := Some (wf_workflow_id parent),
        ra_root_workflow_id := Some (wf_root_workflow_id parent),
        ra_workflow_depth := PInt (wf_depth parent + 1), ra_delegation := PDict delegation,
        ra_shared_memories := dict_list shared_memories\<rparr>"

text \<open>\<open>register_child_workflow(parent, ...); write_workflow(parent)\<close>\<close>

definition record_child :: "workflow \<Rightarrow> string \<Rightarrow> ('z workflow_world_scheme, unit) io" where
  "record_child parent child_id =
     (case register_child_workflow child_id parent of
        (Inl e, parent') \<Rightarrow> io_raise e
      | (Inr _, parent') \<Rightarrow> io_then (write_workflow parent') (io_return ()))"

definition start_child_workflow ::
    "nat \<Rightarrow> 'z agent_world_scheme host \<Rightarrow> string \<Rightarrow> child_args \<Rightarrow> ('z agent_world_scheme, pydict option) io" where
  "start_child_workflow n h parent_workflow_id ch =
     io_bind (load_workflow parent_workflow_id) (\<lambda>parent.
       if \<not> can_spawn_child_workflow parent then
         io_raise (ValueError (''Workflow `'' @ parent_workflow_id @ ''` cannot spawn more child workflows''))
       else
         io_bind (io_lift (build_child_delegation parent ch)) (\<lambda>delegation.
         io_bind (materialize_shared_memories parent (ch_agent_name ch) (ch_shared_memory_ids ch)) (\<lambda>shared.
         io_bind uuid4 (\<lambda>child_id.
         io_bind (io_catch (run_agent n h (child_call parent ch child_id delegation shared))
                    (\<lambda>e. io_then (record_child parent child_id) (io_raise e))) (\<lambda>result.
           io_then (record_child parent child_id) (io_return result))))))"

section \<open>Resuming and replaying\<close>

definition step_detail :: "workflow_step \<Rightarrow> string \<Rightarrow> ('s, pyval) io" where
  "step_detail s k = io_lift (detail_value s k)"

definition step_of :: "workflow \<Rightarrow> ('s, workflow_step) io" where
  "step_of wo = io_lift (fst (current_step wo))"

definition workflow_request :: "string \<Rightarrow> ('z workflow_world_scheme, pydict) io" where
  "workflow_request workflow_id =
     io_bind (load_workflow workflow_id) (\<lambda>wo.
       if wf_request wo \<noteq> [] then io_return (wf_request wo)
       else
         io_bind (step_of wo) (\<lambda>s.
           if st_step_type s = Approval_wait then
             io_bind (step_detail s ''approval_id'') (\<lambda>approval_id.
             io_bind (get_approval (py_str approval_id)) (\<lambda>a. io_return (ap_request a)))
           else io_raise (ValueError (''Workflow `'' @ workflow_id @ ''` does not have a stored request''))))"

definition request_text :: "pyval \<Rightarrow> string res" where
  "request_text v = (case v of PStr s \<Rightarrow> Inr s | _ \<Rightarrow> Inl (TypeError ''expected a text''))"

definition request_call :: "workflow \<Rightarrow> pydict \<Rightarrow> string option \<Rightarrow> string option \<Rightarrow> run_args res" where
  "request_call wo request job_id worker_id =
     res_bind (request_text (dict_get_or request ''input'' (PStr []))) (\<lambda>user_input.
     res_bind (request_text (dict_get_or request ''agent'' (PStr (wf_agent wo)))) (\<lambda>agent_name.
     res_bind (text_arg (dict_get request ''tool'')) (\<lambda>tool_name.
       Inr (agent_call user_input agent_name tool_name (dict_get request ''tool_args'') job_id worker_id))))"

definition retry_not_ready :: "string \<Rightarrow> workflow_step \<Rightarrow> ('z env_scheme, unit) io" where
  "retry_not_ready workflow_id s =
     (let next_retry_at = (case detail s ''next_retry_at'' of Inl e \<Rightarrow> FV_val PNone | Inr v \<Rightarrow> v)
      in io_bind (too_early next_retry_at) (\<lambda>early.
           io_when early (io_raise (ValueError (''Workflow `'' @ workflow_id @ ''` is not ready to retry until ''
             @ py_str (field_value_object next_retry_at))))))"

definition resume_workflow ::
    "nat \<Rightarrow> 'z agent_world_scheme host \<Rightarrow> string \<Rightarrow> string option \<Rightarrow> string option
      \<Rightarrow> ('z agent_world_scheme, pydict option) io" where
  "resume_workflow n h workflow_id job_id worker_id =
     io_bind (load_workflow workflow_id) (\<lambda>wo.
       if wf_status wo = Wf_succeeded then
         io_raise (ValueError (''Workflow `'' @ workflow_id @ ''` has already succeeded''))
       else if wf_status wo = Wf_failed then
         io_raise (ValueError (''Workflow `'' @ workflow_id @ ''` has already failed''))
       else
         io_bind (workflow_request workflow_id) (\<lambda>request.
         io_bind (step_of wo) (\<lambda>s.
         io_bind (if st_step_type s = Approval_wait
                  then io_bind (step_detail s ''approval_id'') (\<lambda>v. io_return (Some (py_str v)))
                  else io_return None) (\<lambda>approval_id.
         io_then (io_when (st_step_type s = Retry_wait) (retry_not_ready workflow_id s))
         (io_bind (io_lift (request_call wo request job_id worker_id)) (\<lambda>ra.
            run_agent n h (ra\<lparr>ra_approval_id := approval_id\<rparr>)))))))"

definition safe_resume_workflow ::
    "nat \<Rightarrow> 'z agent_world_scheme host \<Rightarrow> string \<Rightarrow> string option \<Rightarrow> string option
      \<Rightarrow> ('z agent_world_scheme, pydict option) io" where
  "safe_resume_workflow n h workflow_id job_id worker_id =
     io_bind (load_workflow workflow_id) (\<lambda>wo.
       if wf_status wo \<noteq> Wf_waiting then
         io_raise (ValueError (''Workflow `'' @ workflow_id @ ''` is not waiting and cannot be safely resumed''))
       else
         io_bind (step_of wo) (\<lambda>s.
           if st_step_type s \<notin> {Approval_wait, Retry_wait} then
             io_raise (ValueError (''Workflow `'' @ workflow_id @ ''` is waiting on unsupported step type `''
               @ step_type_name (st_step_type s) @ ''`''))
           else resume_workflow n h workflow_id job_id worker_id))"

definition replay_workflow ::
    "nat \<Rightarrow> 'z agent_world_scheme host \<Rightarrow> string \<Rightarrow> string option \<Rightarrow> string option
      \<Rightarrow> ('z agent_world_scheme, pydict option) io" where
  "replay_workflow n h workflow_id job_id worker_id =
     io_bind (load_workflow workflow_id) (\<lambda>wo.
       if wf_status wo \<noteq> Wf_failed then
         io_raise (ValueError (''Workflow `'' @ workflow_id @ ''` must be failed before it can be replayed''))
       else
         io_bind (workflow_request workflow_id) (\<lambda>request.
         io_bind (io_lift (request_call wo request job_id worker_id)) (\<lambda>ra.
         io_bind (run_agent n h ra) (\<lambda>result.
           io_return (map_option (\<lambda>r. [(''replayed_from_workflow_id'', PStr workflow_id),
             (''source_status'', PStr (workflow_status_name (wf_status wo))), (''result'', PDict r)]) result)))))"

end
