(* ===== verification/Agent_Properties.thy ===== *)
theory Agent_Properties
  imports Agent
begin

text \<open>
  Properties of a run. The state outside of the stores is the extension \<open>agent_world.more\<close> of the
  record of the world: only the handlers of the host can change it. A run without an approval calls
  them only where the configuration of the agent, the policy and the delegation permit the action,
  and its loop ends within two passes.
\<close>

section \<open>The state outside of the stores\<close>

definition outside :: "('z \<Rightarrow> bool) \<Rightarrow> 'z agent_world_scheme \<Rightarrow> bool" where
  "outside P w \<longleftrightarrow> P (agent_world.more w)"

lemma outside_env [keeps_intro]:
  "keeps (outside P) utc_now" "keeps (outside P) utc_now_iso" "keeps (outside P) uuid4"
  "keeps (outside P) perf_counter"
  by (simp_all add: keeps_wp wp outside_def)

lemma outside_stores [keeps_intro]:
  "keeps (outside P) (write_approval a)" "keeps (outside P) (write_workflow wo)"
  "keeps (outside P) (write_memory m)" "keeps (outside P) (write_artifact ar)"
  by (simp_all add: keeps_wp wp outside_def write_approval_def write_workflow_def write_memory_def
      write_artifact_def Let_def)

lemma outside_approvals [keeps_intro]:
  "keeps (outside P) (get_approval k)" "keeps (outside P) (create_approval r w a p c m q)"
  "keeps (outside P) (add_history_entry ap s actor)"
  "keeps (outside P) (update_approval_status k s actor)" "keeps (outside P) (mark_approval_resumed k r)"
  unfolding get_approval_def create_approval_def update_approval_status_def add_history_entry_def
    mark_approval_resumed_def
  by (intro keeps_intro)+

lemma outside_traces [keeps_intro]:
  "keeps (outside P) (trace_run d)" "keeps (outside P) (create_artifact wid rid n k v md)"
  "keeps (outside P) (load_workflow wid)"
  unfolding trace_run_def create_artifact_def load_workflow_def
  by (intro keeps_intro keeps_modify; simp add: outside_def)+

lemma outside_tools [keeps_intro]:
  "keeps (outside P) (memory_write_tool args)" "keeps (outside P) (memory_query_tool args)"
  "keeps (outside P) (echo_tool args)" "keeps (outside P) (get_time_tool args)"
proof -
  show "keeps (outside P) (memory_write_tool args)"
    unfolding memory_write_tool_def create_memory_def by (intro keeps_intro)
  show "keeps (outside P) (memory_query_tool args)"
    unfolding memory_query_tool_def query_memories_def list_memories_def by (intro keeps_intro)
  show "keeps (outside P) (echo_tool args)"
    unfolding echo_tool_def by (cases "dict_get_or args ''text'' (PStr [])") (simp_all add: keeps_intro)
  show "keeps (outside P) (get_time_tool args)"
    unfolding get_time_tool_def by (intro keeps_intro)
qed

section \<open>Predicates of a run\<close>

text \<open>A predicate of the outside, one of the workflow where there is one, one of the approval in hand.\<close>

definition runs ::
    "('z \<Rightarrow> bool) \<Rightarrow> (workflow \<Rightarrow> bool) \<Rightarrow> (approval option \<Rightarrow> bool) \<Rightarrow> run_state \<times> 'z agent_world_scheme \<Rightarrow> bool" where
  "runs P W A s \<longleftrightarrow>
     (case s of (st, w) \<Rightarrow> outside P w \<and> A (rs_approval st) \<and>
        (case rs_workflow st of None \<Rightarrow> True | Some wo \<Rightarrow> W wo))"

text \<open>What the write of a workflow does not change.\<close>

definition persistent :: "(workflow \<Rightarrow> bool) \<Rightarrow> bool" where
  "persistent W \<longleftrightarrow> (\<forall>wo t h. W wo \<longrightarrow> W (wo\<lparr>wf_updated_at := t, wf_transition_history := h\<rparr>))"

lemma wp_on_world [wp]: "wp (on_world m) Q E (st, w) = wp m (\<lambda>x w'. Q x (st, w')) (\<lambda>e w'. E e (st, w')) w"
  by (auto simp: wp_def on_world_def split: prod.splits sum.splits)

lemma wp_get_run [wp]: "wp (get_run f) Q E (st, w) = Q (f st) (st, w)"
  by (simp add: get_run_def wp)

lemma wp_set_run [wp]: "wp (set_run f) Q E (st, w) = Q () (f st, w)"
  by (simp add: set_run_def wp)

lemma wp_on_workflow [wp]:
  "wp (on_workflow m) Q E (st, w) =
     (case rs_workflow st of None \<Rightarrow> E none_error (st, w)
      | Some wo \<Rightarrow> wp m (\<lambda>x wo'. Q x (st\<lparr>rs_workflow := Some wo'\<rparr>, w)) (\<lambda>e wo'. E e (st\<lparr>rs_workflow := Some wo'\<rparr>, w)) wo)"
  by (auto simp: wp_def on_workflow_def split: prod.splits sum.splits option.splits)

lemma wp_on_budget [wp]:
  "wp (on_budget m) Q E (st, w) =
     (case rs_budget st of None \<Rightarrow> E none_error (st, w)
      | Some b \<Rightarrow> wp m (\<lambda>x b'. Q x (st\<lparr>rs_budget := Some b'\<rparr>, w)) (\<lambda>e b'. E e (st\<lparr>rs_budget := Some b'\<rparr>, w)) b)"
  by (auto simp: wp_def on_budget_def split: prod.splits sum.splits option.splits)

lemma runs_on_world: "keeps (outside P) m \<Longrightarrow> keeps (runs P W A) (on_world m)"
  by (auto simp: keeps_wp wp runs_def wp_same [where I = "outside P"] intro: wp_mono split: option.splits)

lemma runs_get [keeps_intro]: "keeps (runs P W A) (get_run f)"
  by (simp add: get_run_def keeps_intro)

lemma runs_set:
  "(\<And>st. rs_workflow (f st) = rs_workflow st) \<Longrightarrow> (\<And>st. rs_approval (f st) = rs_approval st) \<Longrightarrow>
   keeps (runs P W A) (set_run f)"
  by (auto simp: keeps_wp wp runs_def)

lemma runs_on_workflow: "keeps W m \<Longrightarrow> keeps (runs P W A) (on_workflow m)"
  by (auto simp: keeps_wp wp runs_def split: option.splits intro: wp_mono)

lemma runs_on_budget [keeps_intro]: "keeps (runs P W A) (on_budget m)"
  by (auto simp: keeps_def on_budget_def runs_def split: option.splits prod.splits)

lemma runs_timed_budget [keeps_intro]: "keeps (runs P W A) (timed_budget m)"
  unfolding timed_budget_def by (intro keeps_intro runs_on_world)

lemma runs_parts [keeps_intro]: "keeps (runs P W A) the_workflow" "keeps (runs P W A) the_approval"
  unfolding the_workflow_def the_approval_def by (intro keeps_intro runs_on_workflow)+

lemma wp_write_kept:
  "persistent W \<Longrightarrow> outside P w \<Longrightarrow> W wo \<Longrightarrow>
   wp (write_workflow wo) (\<lambda>wo' w'. outside P w' \<and> W wo') (\<lambda>e w'. outside P w') w"
  unfolding write_workflow_def Let_def wp by (simp add: outside_def persistent_def)

lemma runs_persist:
  assumes "persistent W"
  shows "keeps (runs P W A) persist_workflow"
  unfolding persist_workflow_def using wp_write_kept [OF assms]
  by (auto simp: keeps_wp wp runs_def split: option.splits intro: wp_mono)

lemma runs_sources [keeps_intro]:
  "keeps (runs P W A) (append_input_source k n d)" "keeps (runs P W A) (append_context_source k n d)"
  "keeps (runs P W A) (set_output_source k n d)" "keeps (runs P W A) (append_decision dn)"
  unfolding append_input_source_def append_context_source_def set_output_source_def append_decision_def
  by (rule runs_set; simp add: total_tokens_def)+

lemma runs_update_budget_used [keeps_intro]: "keeps (runs P W A) update_budget_used"
  unfolding update_budget_used_def by (intro keeps_intro runs_on_world runs_set) simp_all

lemma runs_write_trace [keeps_intro]: "keeps (runs P W A) (write_trace ra status res)"
  unfolding write_trace_def by (intro keeps_intro runs_on_world)

lemma runs_shared_memory [keeps_intro]: "keeps (runs P W A) (append_shared_memory_sources h)"
  unfolding append_shared_memory_sources_def by (intro keeps_intro)

lemma runs_delegation [keeps_intro]: "keeps (runs P W A) (enforce_workflow_delegation c t d)"
  unfolding enforce_workflow_delegation_def Let_def by (intro keeps_intro)

lemma runs_compose_prompt [keeps_intro]: "keeps (runs P W A) (compose_prompt h config ra)"
  unfolding compose_prompt_def by (intro keeps_intro runs_set) simp_all

lemma runs_finalize [keeps_intro]:
  "keeps (runs P W A) (finalize_retry_wait h ra e)" "keeps (runs P W A) (finalize_pending_approval h ra)"
  unfolding finalize_retry_wait_def finalize_pending_approval_def by (intro keeps_intro)+

section \<open>The workflow of a run\<close>

definition well_shaped :: "delegation option \<Rightarrow> workflow \<Rightarrow> bool" where
  "well_shaped dl wo \<longleftrightarrow> wf_delegation wo = dl \<and> workflow_shape wo"

text \<open>Before its action: at the action step, without a wait for an approval.\<close>

definition fresh :: "delegation option \<Rightarrow> workflow \<Rightarrow> bool" where
  "fresh dl wo \<longleftrightarrow> well_shaped dl wo \<and> (\<forall>k. find_step wo (approval_step_id k) = None) \<and>
     wf_current_step_id wo = action_step_id (wf_run_type wo)"

definition at_step :: "step_type \<Rightarrow> workflow \<Rightarrow> bool" where
  "at_step t wo \<longleftrightarrow> (\<exists>s. find_step wo (wf_current_step_id wo) = Some s \<and> st_step_type s = t)"

lemma keeps_delegation: "keeps (\<lambda>wo. wf_delegation wo = dl) (workflow_do x)"
proof (cases "is_config_op x")
  case False
  then show ?thesis using keeps_config_part [OF False] by (fastforce simp: keeps_def config_part_def)
next
  case True
  have "keeps (\<lambda>wo. wf_delegation wo = dl) (configure_retry_policy v)"
    and "keeps (\<lambda>wo. wf_delegation wo = dl) (configure_subrun_policy v)" for v
    unfolding configure_retry_policy_def configure_subrun_policy_def
    by (intro keeps_intro keeps_modify; simp)+
  with True show ?thesis by (cases x) simp_all
qed

lemma keeps_legal: "keeps (well_shaped dl) (workflow_do x)"
  using keeps_delegation [of dl x] keeps_workflow_do [OF shape.workflow_invariant_axioms, of x]
  by (simp add: keeps_def well_shaped_def)

lemmas keeps_legal_ops [keeps_intro] = keeps_legal [of _ "W_attach r" for r, simplified]
  keeps_legal [of _ "W_details d" for d, simplified] keeps_legal [of _ "W_retry_policy v" for v, simplified]
  keeps_legal [of _ "W_subrun_policy v" for v, simplified] keeps_legal [of _ "W_artifact a" for a, simplified]
  keeps_legal [of _ "W_memory m" for m, simplified] keeps_legal [of _ "W_wait_approval a d" for a d, simplified]
  keeps_legal [of _ "W_wait_retry now t m r" for now t m r, simplified]
  keeps_legal [of _ "W_resume_approval a" for a, simplified] keeps_legal [of _ W_resume_retry, simplified]
  keeps_legal [of _ W_mark_action, simplified] keeps_legal [of _ W_finish, simplified]
  keeps_legal [of _ "W_fail t m" for t m, simplified]

lemma persistent_legal [simp]: "persistent (well_shaped dl)"
  by (simp add: persistent_def well_shaped_def workflow_shape_def skeleton_def has_step_def find_step_def finish_done_def)

lemma persistent_fresh [simp]: "persistent (fresh dl)"
  using persistent_legal [of dl] by (simp add: persistent_def fresh_def find_step_def)

lemma persistent_at [simp]: "persistent (at_step t)"
  by (simp add: persistent_def at_step_def find_step_def)

lemma persistent_conj: "persistent V \<Longrightarrow> persistent W \<Longrightarrow> persistent (\<lambda>wo. V wo \<and> W wo)"
  by (simp add: persistent_def)

lemma with_details_current:
  "wf_current_step_id (with_details k f wo) = wf_current_step_id wo \<and>
   wf_run_type (with_details k f wo) = wf_run_type wo"
  by (simp add: with_details_def)

lemma no_step_with_details: "find_step wo j = None \<Longrightarrow> find_step (with_details k f wo) j = None"
  by (cases "j = k") (simp_all add: find_step_with_details)

lemma set_action_details_with:
  "set_action_details d =
     io_bind action_step (\<lambda>a. io_modify (with_details (st_step_id a) (\<lambda>e. details_update e d)))"
  by (simp add: set_action_details_def modify_step_def with_details_def [abs_def])

lemma keeps_fresh_ops [keeps_intro]:
  "keeps (fresh dl) (set_action_details d)" "keeps (fresh dl) (configure_retry_policy v)"
  "keeps (fresh dl) (configure_subrun_policy v)"
proof -
  let ?J = "\<lambda>wo. (\<forall>k. find_step wo (approval_step_id k) = None) \<and>
     wf_current_step_id wo = action_step_id (wf_run_type wo)"
  have "keeps ?J (configure_retry_policy v)" "keeps ?J (configure_subrun_policy v)"
    unfolding configure_retry_policy_def configure_subrun_policy_def
    by (intro keeps_intro keeps_modify; simp add: find_step_def)+
  moreover have "keeps ?J (set_action_details d)"
    unfolding set_action_details_with action_step_def
    by (intro keeps_intro keeps_modify) (simp add: no_step_with_details with_details_current)
  ultimately show "keeps (fresh dl) (set_action_details d)" "keeps (fresh dl) (configure_retry_policy v)"
    "keeps (fresh dl) (configure_subrun_policy v)"
    using keeps_legal_ops by (simp_all add: keeps_def fresh_def)
qed

section \<open>Requests for approval\<close>

abbreviation legal_run :: "('z \<Rightarrow> bool) \<Rightarrow> delegation option \<Rightarrow> run_state \<times> 'z agent_world_scheme \<Rightarrow> bool" where
  "legal_run P dl \<equiv> runs P (well_shaped dl) (\<lambda>_. True)"

abbreviation fresh_run :: "('z \<Rightarrow> bool) \<Rightarrow> delegation option \<Rightarrow> run_state \<times> 'z agent_world_scheme \<Rightarrow> bool" where
  "fresh_run P dl \<equiv> runs P (fresh dl) (\<lambda>a. a = None)"

text \<open>The current step waits for the approval \<open>k\<close>.\<close>

definition waits_for :: "string \<Rightarrow> workflow \<Rightarrow> bool" where
  "waits_for k wo \<longleftrightarrow> (\<exists>s. find_step wo (wf_current_step_id wo) = Some s \<and> st_step_type s = Approval_wait \<and>
     detail s ''approval_id'' = Inr (FV_val (PStr k)))"

definition pending_run :: "('z \<Rightarrow> bool) \<Rightarrow> delegation option \<Rightarrow> run_state \<times> 'z agent_world_scheme \<Rightarrow> bool" where
  "pending_run P dl s \<longleftrightarrow> legal_run P dl s \<and>
     (case s of (st, w) \<Rightarrow> \<forall>wo. rs_workflow st = Some wo \<longrightarrow>
        (\<exists>k a. waits_for k wo \<and> dir_get (approvals w) k = Some a \<and> ap_status a = Pending))"

lemma runs_mono:
  "runs P W A s \<Longrightarrow> (\<And>wo. W wo \<Longrightarrow> W' wo) \<Longrightarrow> (\<And>a. A a \<Longrightarrow> A' a) \<Longrightarrow> runs P W' A' s"
  by (auto simp: runs_def split: option.splits)

lemma fresh_legal: "fresh_run P dl s \<Longrightarrow> legal_run P dl s"
  by (erule runs_mono) (simp_all add: fresh_def)

lemma pending_legal: "pending_run P dl s \<Longrightarrow> legal_run P dl s"
  by (simp add: pending_run_def)

lemma runs_set_approval [keeps_intro]:
  "keeps (runs P W (\<lambda>_. True)) (set_run (\<lambda>st. st\<lparr>rs_approval := a\<rparr>))"
  by (auto simp: keeps_wp wp runs_def)

lemma wp_create_approval:
  "outside P w \<Longrightarrow>
   wp (create_approval r wid ag p c m q)
     (\<lambda>a w'. outside P w' \<and> ap_status a = Pending \<and> dir_get (approvals w') (ap_approval_id a) = Some a)
     (\<lambda>_ _. False) w"
  by (simp add: create_approval_def write_approval_def wp files.get_put outside_def)

lemma detail_update:
  "details_update [(''approval_id'', FV_val (PStr k))] [(''reason'', v)] =
     [(''approval_id'', FV_val (PStr k)), (''reason'', v)]"
  by (simp add: details_update_def)

lemma wp_wait_for_approval:
  assumes "find_step wo (approval_step_id k) = None"
  shows "wp (wait_for_approval k [(''reason'', v)]) (\<lambda>_. waits_for k) (\<lambda>_ _. True) wo"
proof -
  let ?j = "approval_step_id k"
  let ?new = "\<lambda>wo. \<exists>s. find_step wo ?j = Some s \<and> st_step_type s = Approval_wait \<and>
     detail s ''approval_id'' = Inr (FV_val (PStr k))"
  have blocked: "wp block_action (\<lambda>_ wo. find_step wo ?j = None) (\<lambda>_ _. True) wo"
    using assms unfolding block_action_def action_step_def transition_step_def get_step_def modify_step_def wp
    by (auto simp: wp find_step_def find_modify_first split: option.splits)
  have go: "wp enter_waiting (\<lambda>_. wp (set_current ?j) (\<lambda>_. waits_for k) (\<lambda>_ _. True)) (\<lambda>_ _. True) wo'"
    if "?new wo'" for wo'
    using that unfolding enter_waiting_def transition_workflow_def set_current_def wp
    by (auto simp: waits_for_def wp)
  have enter: "wp (enter_wait_step ?j Approval_wait [(''approval_id'', FV_val (PStr k)), (''reason'', v)] [(''reason'', v)])
      (\<lambda>_. ?new) (\<lambda>_ _. True) wo'" if "find_step wo' ?j = None" for wo'
    using that unfolding enter_wait_step_def wp
    by (simp add: wp find_step_with_wait [unfolded with_wait_step_def] detail_def)
  show ?thesis
    unfolding wait_for_approval_def detail_update wp_then
    by (rule wp_mono [OF blocked]) (auto elim!: wp_mono [OF enter] intro!: go)
qed

lemma persistent_waits [simp]: "persistent (waits_for k)"
  by (simp add: persistent_def waits_for_def find_step_def)

lemma wp_persist:
  assumes "persistent W" and "rs_workflow st = Some wo" and "W wo" and "outside P w" and "R (approvals w)"
  shows "wp persist_workflow
     (\<lambda>_ (st', w'). (\<exists>wo'. rs_workflow st' = Some wo' \<and> W wo') \<and> outside P w' \<and> R (approvals w'))
     (\<lambda>_ _. False) (st, w)"
  using assms unfolding persist_workflow_def write_workflow_def Let_def
  by (simp add: wp persistent_def outside_def)

lemma wp_persist_waiting:
  assumes "rs_workflow st = Some wo" and "well_shaped dl wo" and "waits_for k wo" and "outside P w"
    and "dir_get (approvals w) k = Some a" and "ap_status a = Pending"
    and "\<And>st. rs_workflow (f st) = rs_workflow st"
  shows "wp persist_workflow (\<lambda>_. wp (set_run f) (\<lambda>_. pending_run P dl) E) E' (st, w)"
proof -
  have store: "persistent (\<lambda>wo. well_shaped dl wo \<and> waits_for k wo)" by (simp add: persistent_conj)
  show ?thesis
    by (rule wp_mono [OF wp_persist [OF store assms(1) _ assms(4), where R = "\<lambda>x. dir_get x k = Some a"]])
      (use assms(1-3,5,6) in \<open>auto simp: wp runs_def pending_run_def assms(7) intro!: exI [of _ k]\<close>)
qed

lemma wp_request_approval:
  assumes "fresh_run P dl s"
  shows "wp (request_approval ra t v action reason) (\<lambda>_. pending_run P dl) (\<lambda>_. legal_run P dl) s"
proof (cases s)
  case (Pair st w)
  show ?thesis
  proof (cases "rs_workflow st")
    case None
    then show ?thesis
      using assms Pair unfolding request_approval_def the_workflow_def wp
      by (simp add: wp runs_def)
  next
    case (Some wo)
    have f: "fresh dl wo" "outside P w" using assms Pair Some by (simp_all add: runs_def)
    have wait: "wp (wait_for_approval k [(''reason'', FV_val (PStr reason))])
        (\<lambda>_ wo'. well_shaped dl wo' \<and> waits_for k wo') (\<lambda>_ wo'. well_shaped dl wo' \<and> True) wo" for k
      unfolding wp_conj
      using f keeps_wpD [OF keeps_legal_ops(7)] wp_wait_for_approval by (simp add: fresh_def)
    show ?thesis
      unfolding request_approval_def the_workflow_def append_decision_def Pair
      by (simp add: wp Some, rule wp_mono [OF wp_create_approval [OF f(2)]], rule wp_mono [OF wait],
          rule wp_persist_waiting) (auto simp: runs_def)
  qed
qed

section \<open>Steps of a run\<close>

lemma runs_use_approval [keeps_intro]: "keeps (runs P W (\<lambda>_. True)) (use_approval action)"
  unfolding use_approval_def by (intro keeps_intro runs_on_world runs_set_approval runs_set; simp)

lemma runs_workflow_ops [keeps_intro]:
  assumes "keeps W m" and "persistent W"
  shows "keeps (runs P W A) (io_then (on_workflow m) persist_workflow)"
  using assms by (intro keeps_intro runs_on_workflow runs_persist)

lemma runs_request_approval [keeps_intro]: "keeps (legal_run P dl) (request_approval ra t v action reason)"
  unfolding request_approval_def
  by (intro keeps_intro runs_on_world runs_on_workflow runs_persist runs_set runs_set_approval) simp_all

definition granted :: "'w host \<Rightarrow> policy \<Rightarrow> policy_action \<Rightarrow> bool" where
  "granted h policy action \<longleftrightarrow> (case evaluate_policy (h_policy_env h) policy action of Inl e \<Rightarrow> False | Inr d \<Rightarrow> pd_allowed d)"

lemma keeps_to_wp:
  assumes "keeps I m" and "I s" and "\<And>s. I s \<Longrightarrow> J s"
  shows "wp m (\<lambda>_. I) (\<lambda>_. J) s"
  using keeps_wpD [OF assms(1,2)] by (rule wp_mono) (simp_all add: assms(3))

lemma wp_authorise:
  assumes "fresh_run P dl s"
  shows "wp (authorise h policy ra stage target action approval_action t v)
     (\<lambda>b s. if b then fresh_run P dl s \<and> granted h policy action else pending_run P dl s) (\<lambda>_. legal_run P dl) s"
proof (cases "evaluate_policy (h_policy_env h) policy action")
  case (Inl e)
  then show ?thesis using assms by (simp add: authorise_def wp fresh_legal)
next
  case (Inr d)
  have no_approval: "fresh_run P dl (st, w) \<Longrightarrow> \<not> approved_action_matches_request st approval_action" for st w
    by (simp add: runs_def approved_action_matches_request_def)
  show ?thesis
    unfolding authorise_def wp Inr sum.case
    by (rule wp_mono [OF keeps_to_wp [OF runs_sources(4) assms fresh_legal]])
      (auto simp: wp granted_def Inr fresh_legal no_approval split: prod.splits
        intro!: wp_mono [OF wp_request_approval])
qed

lemma kept_bind:
  assumes "keeps I m" and "I s" and "\<And>x s. I s \<Longrightarrow> wp (f x) Q (\<lambda>_. I) s"
  shows "wp (io_bind m f) Q (\<lambda>_. I) s"
  unfolding wp_bind by (rule wp_mono [OF keeps_wpD [OF assms(1,2)]]) (simp_all add: assms(3))

lemma kept_then:
  assumes "keeps I m" and "I s" and "\<And>s. I s \<Longrightarrow> wp k Q (\<lambda>_. I) s"
  shows "wp (io_then m k) Q (\<lambda>_. I) s"
  unfolding io_then_def by (rule kept_bind) (rule assms | assumption)+

lemma wp_ifI: "(b \<Longrightarrow> wp m Q E s) \<Longrightarrow> (\<not> b \<Longrightarrow> wp k Q E s) \<Longrightarrow> wp (if b then m else k) Q E s"
  by simp

lemma wp_raise_lifted: "I s \<Longrightarrow> wp (io_bind (io_lift r) io_raise) Q (\<lambda>_. I) s"
  by (simp add: wp split: sum.split)

lemma shape_type:
  assumes "workflow_shape wo" and "(k, t) \<in> set (skeleton wo)" and "find_step wo k = Some s"
  shows "st_step_type s = t"
proof -
  have "s \<in> set (wf_steps wo)" "st_step_id s = k"
    using assms(3) by (auto simp: find_step_def find_Some_iff)
  then have "(k, st_step_type s) \<in> set (skeleton wo)" by (force simp: skeleton_def)
  moreover have "distinct (map fst (skeleton wo))" using assms(1) by (simp add: workflow_shape_def)
  ultimately show ?thesis using assms(2) by (metis eq_key_imp_eq_value)
qed

lemma shape_finish:
  assumes "workflow_shape wo" and "find_step wo finish_step_id = Some s"
  shows "st_step_type s = Finish"
  using assms(1) by (intro shape_type [OF assms(1) _ assms(2)]) (auto simp: workflow_shape_def)

lemma shape_action:
  assumes "workflow_shape wo" and "find_step wo (action_step_id (wf_run_type wo)) = Some s"
  shows "st_step_type s \<in> {Model_step, Tool_step}"
proof -
  have "st_step_type s = wf_run_type wo"
    using assms(1) by (intro shape_type [OF assms(1) _ assms(2)]) (auto simp: workflow_shape_def)
  then show ?thesis using assms(1) by (simp add: workflow_shape_def)
qed

lemma shape_at_finish:
  assumes "workflow_shape wo" and "wf_current_step_id wo = finish_step_id"
  shows "at_step Finish wo"
proof -
  obtain s where s: "find_step wo finish_step_id = Some s"
    using assms by (auto simp: workflow_shape_def has_step_def)
  show ?thesis using shape_finish [OF assms(1) s] by (simp add: at_step_def s assms(2))
qed

abbreviation finishing :: "('z \<Rightarrow> bool) \<Rightarrow> delegation option \<Rightarrow> run_state \<times> 'z agent_world_scheme \<Rightarrow> bool" where
  "finishing P dl \<equiv> runs P (\<lambda>wo. well_shaped dl wo \<and> at_step Finish wo) (\<lambda>_. True)"

lemma wp_mark_action_completed:
  assumes "well_shaped dl wo"
  shows "wp mark_action_completed (\<lambda>_ wo. well_shaped dl wo \<and> at_step Finish wo) (\<lambda>_. well_shaped dl) wo"
proof -
  have "wp mark_action_completed (\<lambda>_ wo. wf_current_step_id wo = finish_step_id) (\<lambda>_ _. True) wo"
  proof -
    have go: "wp (set_current k) (\<lambda>_ wo. wf_current_step_id wo = k) (\<lambda>_ _. True) wo" for k wo
      by (simp add: set_current_def wp)
    have rest: "wp (io_bind (get_step finish_step_id)
        (\<lambda>finish. io_then (start_step (st_step_id finish)) (set_current (st_step_id finish))))
        (\<lambda>_ wo. wf_current_step_id wo = finish_step_id) (\<lambda>_ _. True) wo" for wo
      unfolding get_step_def wp
      by (cases "find_step wo finish_step_id") (auto simp: wp go find_step_id intro: wp_any)
    show ?thesis
      unfolding mark_action_completed_def wp_bind wp_then by (intro wp_any rest [unfolded wp_bind wp_then] TrueI)
  qed
  moreover have "wp mark_action_completed (\<lambda>_. well_shaped dl) (\<lambda>_. well_shaped dl) wo"
    using keeps_wpD [OF keeps_legal_ops(11) assms] .
  ultimately have "wp mark_action_completed
      (\<lambda>_ wo. wf_current_step_id wo = finish_step_id \<and> well_shaped dl wo) (\<lambda>_ wo. True \<and> well_shaped dl wo) wo"
    by (simp only: wp_conj)
  then show ?thesis
    by (rule wp_mono) (auto simp: well_shaped_def intro: shape_at_finish)
qed

lemma wp_finish_action:
  assumes "legal_run P dl s"
  shows "wp (io_then (on_workflow mark_action_completed) persist_workflow) (\<lambda>_. finishing P dl) (\<lambda>_. legal_run P dl) s"
proof (cases s)
  case (Pair st w)
  have p: "persistent (\<lambda>wo. well_shaped dl wo \<and> at_step Finish wo)" by (simp add: persistent_conj)
  show ?thesis
    using assms unfolding Pair
    by (auto simp: wp runs_def split: option.splits intro!: wp_mono [OF wp_mark_action_completed]
        wp_mono [OF wp_persist [OF p _ _ _ TrueI]])
qed

section \<open>Permissions\<close>

text \<open>The delegation of the run, where it has one, covers the action.\<close>

definition delegated :: "run_args \<Rightarrow> string \<Rightarrow> string option \<Rightarrow> bool" where
  "delegated ra capability tool_name \<longleftrightarrow>
     (case normalize_delegation (ra_delegation ra) of
        Inl e \<Rightarrow> False
      | Inr None \<Rightarrow> True
      | Inr (Some dl) \<Rightarrow> capability \<in> set (dl_allowed_capabilities dl) \<and>
          (case tool_name of None \<Rightarrow> True | Some tool \<Rightarrow> tool \<in> set (dl_allowed_tools dl)))"

text \<open>
  The tool is the requested one, the agent lists it, the policy allows the action it stands for,
  without an approval, and the delegation covers it.
\<close>

definition agent_permits :: "'w host \<Rightarrow> string \<Rightarrow> string \<Rightarrow> pydict \<Rightarrow> bool" where
  "agent_permits h agent_name name args \<longleftrightarrow>
     (\<exists>config policy td action.
        load_agent (h_policy_env h) agent_name = Inr config \<and>
        tool_allowed name (dict_get_or config ''tools'' (PList [])) = Inr True \<and>
        build_agent_policy (h_policy_env h) config = Inr policy \<and>
        get_tool_definition name = Inr td \<and> tool_action td args = Inr action \<and> granted h policy action)"

definition tool_permitted :: "'w host \<Rightarrow> run_args \<Rightarrow> string \<Rightarrow> pydict \<Rightarrow> bool" where
  "tool_permitted h ra name args \<longleftrightarrow>
     ra_tool_name ra = Some name \<and> agent_permits h (ra_agent_name ra) name args \<and>
     (\<exists>td. get_tool_definition name = Inr td \<and> delegated ra (td_capability td) (Some name))"

definition agent_permits_model :: "'w host \<Rightarrow> string \<Rightarrow> string \<Rightarrow> bool" where
  "agent_permits_model h agent_name model_alias \<longleftrightarrow>
     (\<exists>config policy.
        load_agent (h_policy_env h) agent_name = Inr config \<and> model_alias_of config = Inr model_alias \<and>
        build_agent_policy (h_policy_env h) config = Inr policy \<and> granted h policy (model_action model_alias))"

definition model_permitted :: "'w host \<Rightarrow> run_args \<Rightarrow> string \<Rightarrow> bool" where
  "model_permitted h ra model_alias \<longleftrightarrow>
     agent_permits_model h (ra_agent_name ra) model_alias \<and> delegated ra ''model_call'' None"

lemma outside_call_tool:
  assumes "keeps (outside P) (h_tool h name d)" and "args = PDict d \<or> args = PNone \<and> d = []"
  shows "keeps (outside P) (call_tool h name args)"
proof -
  have "keeps (outside P) (tool_handler h name d)"
    unfolding tool_handler_def by (intro keeps_intro assms(1))
  then show ?thesis
    using assms(2) unfolding call_tool_def Let_def by (elim disjE) (simp_all; intro keeps_intro)+
qed

lemma wp_perform_tool:
  assumes call: "keeps (outside P) (call_tool h name args)" and "legal_run P dl s"
  shows "wp (perform_tool h name args) (\<lambda>_. finishing P dl) (\<lambda>_. legal_run P dl) s"
proof -
  have memory: "keeps (legal_run P dl) (register_written_memory name v)" for v
    unfolding register_written_memory_def
    by (cases v) (simp_all, (intro keeps_intro runs_on_workflow)+)
  have sets: "keeps (legal_run P dl) (set_run (\<lambda>st. st\<lparr>rs_tool_result := r\<rparr>))"
    "keeps (legal_run P dl) (set_run (\<lambda>st. st\<lparr>rs_tool_calls := rs_tool_calls st + 1\<rparr>))"
    "keeps (legal_run P dl) (set_run (\<lambda>st. st\<lparr>rs_tool_output := v\<rparr>))" for r v
    by (rule runs_set; simp)+
  show ?thesis
    unfolding perform_tool_def
    by (rule kept_bind [OF runs_on_world [OF call] assms(2)])
      (intro wp_finish_action wp_ifI wp_raise_lifted kept_then kept_bind memory sets keeps_intro | assumption)+
qed

lemma wp_perform_model:
  assumes call: "keeps (outside P) (call_model h model_alias prompt)" and "legal_run P dl s"
  shows "wp (perform_model h model_alias prompt) (\<lambda>_. finishing P dl) (\<lambda>_. legal_run P dl) s"
proof -
  have sets: "keeps (legal_run P dl) (set_run (\<lambda>st. st\<lparr>rs_model_result := r\<rparr>))"
    "keeps (legal_run P dl) (set_run (\<lambda>st. st\<lparr>rs_model_calls := rs_model_calls st + 1\<rparr>))" for r
    by (rule runs_set; simp)+
  show ?thesis
    unfolding perform_model_def
    by (rule kept_then [OF runs_timed_budget assms(2)], rule kept_bind [OF runs_on_world [OF call]], assumption)
      (intro wp_finish_action kept_then kept_bind sets keeps_intro | assumption)+
qed

text \<open>Steps before the action: a failure leaves a legal run.\<close>

lemma fresh_bind:
  assumes "keeps (fresh_run P dl) m" and "fresh_run P dl s"
    and "\<And>x s. fresh_run P dl s \<Longrightarrow> wp (f x) Q (\<lambda>_. legal_run P dl) s"
  shows "wp (io_bind m f) Q (\<lambda>_. legal_run P dl) s"
  unfolding wp_bind by (rule wp_mono [OF keeps_wpD [OF assms(1,2)]]) (simp_all add: assms(3) fresh_legal)

lemma fresh_then:
  assumes "keeps (fresh_run P dl) m" and "fresh_run P dl s"
    and "\<And>s. fresh_run P dl s \<Longrightarrow> wp k Q (\<lambda>_. legal_run P dl) s"
  shows "wp (io_then m k) Q (\<lambda>_. legal_run P dl) s"
  unfolding io_then_def by (rule fresh_bind) (rule assms | assumption)+

lemma fresh_get:
  assumes "fresh_run P dl s" and "\<And>st. wp (f (g st)) Q (\<lambda>_. legal_run P dl) s"
  shows "wp (io_bind (get_run g) f) Q (\<lambda>_. legal_run P dl) s"
  using assms(2) by (cases s) (simp add: wp)

lemma fresh_lift:
  assumes "fresh_run P dl s" and "\<And>x. r = Inr x \<Longrightarrow> wp (f x) Q (\<lambda>_. legal_run P dl) s"
  shows "wp (io_bind (io_lift r) f) Q (\<lambda>_. legal_run P dl) s"
  using assms by (cases r) (simp_all add: wp fresh_legal)

lemma wp_describe_action:
  assumes "fresh_run P dl s" and "normalize_delegation (ra_delegation ra) = Inr dl"
    and next_step: "\<And>s. fresh_run P dl s \<Longrightarrow> delegated ra c t \<Longrightarrow> wp k Q (\<lambda>_. legal_run P dl) s"
  shows "wp (io_then (on_workflow (set_action_details d)) (io_then persist_workflow
     (io_then (enforce_workflow_delegation c t target) k))) Q (\<lambda>_. legal_run P dl) s"
proof (cases s)
  case (Pair st w)
  let ?present = "\<lambda>s. fresh_run P dl s \<and> (\<exists>wo. rs_workflow (fst s) = Some wo \<and> fresh dl wo)"
  have details: "wp (on_workflow (set_action_details d)) (\<lambda>_. ?present) (\<lambda>_. legal_run P dl) s"
    using assms(1) unfolding Pair
    by (auto simp: wp runs_def split: option.splits
        intro!: wp_mono [OF keeps_wpD [OF keeps_fresh_ops(1)]] simp: fresh_def)
  have stored: "wp persist_workflow (\<lambda>_. ?present) (\<lambda>_. legal_run P dl) s" if present: "?present s" for s
  proof (cases s)
    case (Pair st w)
    obtain wo where wo: "rs_workflow st = Some wo" "fresh dl wo" "outside P w" "rs_approval st = None"
      using present by (auto simp: Pair runs_def)
    have a: "wp persist_workflow (\<lambda>_ s. rs_approval (fst s) = None) (\<lambda>_ _. True) (st, w)"
      using wo unfolding persist_workflow_def write_workflow_def Let_def by (simp add: wp)
    show ?thesis
      using a wp_persist [OF persistent_fresh wo(1,2,3) TrueI]
      unfolding Pair by (auto simp: wp_def runs_def split: prod.splits sum.splits)
  qed
  have check: "wp (enforce_workflow_delegation c t target) (\<lambda>_ s. fresh_run P dl s \<and> delegated ra c t)
      (\<lambda>_. legal_run P dl) s" if "?present s" for s
  proof (cases s)
    case (Pair st w)
    show ?thesis
      using that assms(2) unfolding Pair enforce_workflow_delegation_def append_decision_def Let_def
      by (auto simp: wp runs_def delegated_def delegation_denial_reason_def fresh_def well_shaped_def
          split: option.splits)
  qed
  show ?thesis
    unfolding wp_then
    by (rule wp_mono [OF details], rule wp_mono [OF stored], assumption, rule wp_mono [OF check], assumption)
      (auto intro: next_step)
qed

definition acted :: "('z \<Rightarrow> bool) \<Rightarrow> delegation option \<Rightarrow> run_state \<times> 'z agent_world_scheme \<Rightarrow> bool" where
  "acted P dl s \<longleftrightarrow> finishing P dl s \<or> pending_run P dl s"

lemma wp_act:
  assumes "fresh_run P dl s" and "granted h policy action \<Longrightarrow> (\<And>s. legal_run P dl s \<Longrightarrow>
      wp perform (\<lambda>_. finishing P dl) (\<lambda>_. legal_run P dl) s)"
  shows "wp (io_bind (authorise h policy ra stage target action approval_action t v)
       (\<lambda>permitted. io_then (io_when permitted perform) (io_return None)))
     (\<lambda>r s. r = None \<and> acted P dl s) (\<lambda>_. legal_run P dl) s"
  unfolding wp_bind
  by (rule wp_mono [OF wp_authorise [OF assms(1)]])
    (auto simp: wp acted_def intro!: wp_mono [OF assms(2)] dest: fresh_legal)

lemma wp_execute_tool_step:
  assumes tools: "\<And>d. tool_permitted h ra name d \<Longrightarrow> keeps (outside P) (h_tool h name d)"
    and requested: "ra_tool_name ra = Some name"
    and config: "load_agent (h_policy_env h) (ra_agent_name ra) = Inr config"
    and policy: "build_agent_policy (h_policy_env h) config = Inr policy"
    and dl: "normalize_delegation (ra_delegation ra) = Inr dl" and s: "fresh_run P dl s"
  shows "wp (execute_tool_step h policy config ra name) (\<lambda>r s. r = None \<and> acted P dl s) (\<lambda>_. legal_run P dl) s"
proof (cases "ra_tool_args ra \<noteq> PNone \<and> \<not> is_dict (ra_tool_args ra)")
  case True
  then show ?thesis using s by (auto simp: execute_tool_step_def wp fresh_legal)
next
  case False
  let ?given = "case ra_tool_args ra of PDict d \<Rightarrow> d | _ \<Rightarrow> []"
  have act: "wp (perform_tool h name v) (\<lambda>_. finishing P dl) (\<lambda>_. legal_run P dl) s"
    if "get_tool_definition name = Inr td" "tool_action td args = Inr action"
      "tool_allowed name (dict_get_or config ''tools'' (PList [])) = Inr True" "granted h policy action" "delegated ra (pa_capability action) (Some name)"
      "legal_run P dl s" "v = PDict args \<or> v = PNone \<and> args = []" for td action args v s
  proof -
    have "pa_capability action = td_capability td" using that(2) by (auto simp: tool_action_def)
    then have "tool_permitted h ra name args"
      using that config policy requested by (auto simp: tool_permitted_def agent_permits_def)
    then show ?thesis using that by (intro wp_perform_tool outside_call_tool tools)
  qed
  have given: "ra_tool_args ra = PDict ?given \<or> ra_tool_args ra = PNone \<and> ?given = []"
    using False by (cases "ra_tool_args ra") auto
  show ?thesis
    unfolding execute_tool_step_def Let_def if_not_P [OF False]
    by (rule fresh_then [OF runs_sources(1) s], rule fresh_then [OF runs_timed_budget], assumption,
        rule fresh_then [OF runs_timed_budget], assumption, rule fresh_lift, assumption, rule wp_ifI,
        simp add: wp fresh_legal, rule fresh_get, assumption, rule fresh_lift, assumption, rule fresh_lift,
        assumption, rule wp_describe_action [OF _ dl], assumption, rule wp_act, assumption, rule act,
        assumption, assumption)
      (use given in \<open>auto split: if_splits\<close>)
qed

lemma wp_compose_prompt:
  assumes "fresh_run P dl s"
  shows "wp (compose_prompt h config ra)
     (\<lambda>r s. fresh_run P dl s \<and> model_alias_of config = Inr (fst r)) (\<lambda>_. legal_run P dl) s"
proof -
  have sets: "keeps (fresh_run P dl) (set_run (\<lambda>st. st\<lparr>rs_prompt := p\<rparr>))"
    "keeps (fresh_run P dl) (set_run (\<lambda>st. st\<lparr>rs_model_alias := a\<rparr>))" for p a
    by (rule runs_set; simp)+
  show ?thesis
    unfolding compose_prompt_def
    by (rule fresh_then [OF runs_shared_memory assms], rule fresh_get, assumption, rule fresh_lift, assumption,
        rule fresh_then [OF sets(1)], assumption, rule fresh_lift, assumption, rule fresh_then [OF sets(2)], assumption,
        rule fresh_then [OF runs_sources(2)], assumption, rule fresh_then [OF keeps_map [OF runs_sources(2)]], assumption,
        rule fresh_then [OF runs_sources(2)], assumption)
      (simp add: wp)
qed

lemma wp_execute_model_step:
  assumes models: "\<And>a prompt. model_permitted h ra a \<Longrightarrow> keeps (outside P) (call_model h a prompt)"
    and config: "load_agent (h_policy_env h) (ra_agent_name ra) = Inr config"
    and policy: "build_agent_policy (h_policy_env h) config = Inr policy"
    and dl: "normalize_delegation (ra_delegation ra) = Inr dl" and s: "fresh_run P dl s"
  shows "wp (execute_model_step h policy config ra) (\<lambda>r s. r = None \<and> acted P dl s) (\<lambda>_. legal_run P dl) s"
proof -
  have act: "wp (perform_model h a prompt) (\<lambda>_. finishing P dl) (\<lambda>_. legal_run P dl) s"
    if "model_alias_of config = Inr a" "granted h policy (model_action a)" "delegated ra ''model_call'' None"
      "legal_run P dl s" for a prompt s
  proof -
    have "model_permitted h ra a" using that config policy by (auto simp: model_permitted_def agent_permits_model_def)
    then show ?thesis using that by (intro wp_perform_model models)
  qed
  have described: "wp (io_then (on_workflow (set_action_details d)) (io_then persist_workflow
      (io_then (enforce_workflow_delegation ''model_call'' None target)
        (io_bind (authorise h policy ra stage target (model_action a) action None PNone)
          (\<lambda>permitted. io_then (io_when permitted (perform_model h a prompt)) (io_return None))))))
      (\<lambda>r s. r = None \<and> acted P dl s) (\<lambda>_. legal_run P dl) s"
    if "model_alias_of config = Inr a" "fresh_run P dl s" for a prompt d target action stage s
    by (rule wp_describe_action [OF that(2) dl], rule wp_act, assumption, rule act [OF that(1)])
  show ?thesis
    unfolding execute_model_step_def Let_def
    by (rule fresh_then [OF runs_timed_budget s], unfold wp_bind, rule wp_mono [OF wp_compose_prompt], assumption)
      (auto split: prod.splits intro!: described)
qed

lemma wp_execute_finish_step:
  assumes "legal_run P dl s"
  shows "wp (execute_finish_step ra) (\<lambda>_. legal_run P dl) (\<lambda>_. legal_run P dl) s"
proof -
  have artifact: "keeps (legal_run P dl) create_result_artifact"
    unfolding create_result_artifact_def by (intro keeps_intro runs_on_world)
  have "keeps (legal_run P dl) (execute_finish_step ra)"
    unfolding execute_finish_step_def by (intro keeps_intro runs_on_workflow runs_persist artifact persistent_legal)
  then show ?thesis using assms by (rule keeps_wpD)
qed

lemma wp_execute_approval_wait:
  assumes "pending_run P dl s"
  shows "wp (execute_approval_wait_step h ra) (\<lambda>r s. r \<noteq> None \<and> legal_run P dl s) (\<lambda>_. legal_run P dl) s"
proof (cases s)
  case (Pair st w)
  show ?thesis
  proof (cases "rs_workflow st")
    case None
    then show ?thesis
      using pending_legal [OF assms] unfolding execute_approval_wait_step_def Pair by (simp add: wp)
  next
    case (Some wo)
    obtain k a where k: "waits_for k wo" "dir_get (approvals w) k = Some a" "ap_status a = Pending"
      using assms Some by (auto simp: pending_run_def Pair)
    have ends: "wp (append_decision d) (\<lambda>_. wp (io_bind (finalize_pending_approval h ra) (\<lambda>r. io_return (Some r)))
        (\<lambda>r s. (\<exists>y. r = Some y) \<and> legal_run P dl s) (\<lambda>_. legal_run P dl)) (\<lambda>_. legal_run P dl) s"
      if "legal_run P dl s" for d s
      unfolding wp_then [symmetric]
      by (rule kept_then [OF runs_sources(4) that], rule kept_bind [OF runs_finalize(2)]) (simp_all add: wp)
    have found: "legal_run P dl (st\<lparr>rs_workflow := Some wo, rs_approval := Some a\<rparr>, w)"
      using pending_legal [OF assms] Some by (simp add: Pair runs_def)
    show ?thesis
      using k Some found unfolding execute_approval_wait_step_def Pair Let_def
      by (auto simp: wp waits_for_def current_step_def get_step_def detail_value_def get_approval_def Some
          split: option.splits intro!: ends)
  qed
qed

section \<open>The loop\<close>

lemma wp_current_step:
  assumes "runs P W A s" and "\<And>wo. W wo \<Longrightarrow> \<exists>x. find_step wo (wf_current_step_id wo) = Some x \<and> R x"
    and "\<And>s. runs P W A s \<Longrightarrow> J s" and "\<And>x. R x \<Longrightarrow> wp (f x) Q (\<lambda>_. J) s"
  shows "wp (io_bind (on_workflow current_step) f) Q (\<lambda>_. J) s"
proof (cases s)
  case (Pair st w)
  have same: "st\<lparr>rs_workflow := Some wo\<rparr> = st" if "rs_workflow st = Some wo" for wo
    using that by (cases st) simp
  show ?thesis
  proof (cases "rs_workflow st")
    case None
    then show ?thesis using assms(3) [OF assms(1)] by (simp add: Pair wp)
  next
    case (Some wo)
    obtain x where "find_step wo (wf_current_step_id wo) = Some x" "R x"
      using assms(1,2) by (auto simp: Pair runs_def Some)
    then show ?thesis
      using assms(4) by (simp add: Pair wp Some current_step_def get_step_def same [OF Some])
  qed
qed

definition answered :: "('z \<Rightarrow> bool) \<Rightarrow> delegation option \<Rightarrow> pydict option \<Rightarrow> run_state \<times> 'z agent_world_scheme \<Rightarrow> bool" where
  "answered P dl r s \<longleftrightarrow> r \<noteq> None \<and> legal_run P dl s"

lemma wp_second_pass:
  assumes "acted P dl s"
  shows "wp (run_workflow (Suc n) h policy config ra) (answered P dl) (\<lambda>_. legal_run P dl) s"
  using assms unfolding acted_def
proof
  assume f: "finishing P dl s"
  then have l: "legal_run P dl s" by (rule runs_mono) simp_all
  show ?thesis
    unfolding run_workflow.simps
    by (rule wp_current_step [OF f, where R = "\<lambda>x. st_step_type x = Finish"])
      (auto simp: at_step_def execute_step_def wp answered_def intro: runs_mono [OF f]
        intro!: wp_mono [OF wp_execute_finish_step [OF l]] elim: runs_mono)
next
  assume p: "pending_run P dl s"
  have w: "runs P (\<lambda>wo. well_shaped dl wo \<and> at_step Approval_wait wo) (\<lambda>_. True) s"
    using p by (fastforce simp: pending_run_def runs_def waits_for_def at_step_def split: option.splits prod.splits)
  show ?thesis
    unfolding run_workflow.simps
    by (rule wp_current_step [OF w, where R = "\<lambda>x. st_step_type x = Approval_wait"])
      (auto simp: at_step_def execute_step_def wp answered_def
        intro!: wp_mono [OF wp_execute_approval_wait [OF p]] elim: runs_mono)
qed

lemma fresh_at_action:
  assumes "fresh dl wo"
  shows "\<exists>x. find_step wo (wf_current_step_id wo) = Some x \<and> (st_step_type x = Model_step \<or> st_step_type x = Tool_step)"
proof -
  have sh: "workflow_shape wo" and c: "wf_current_step_id wo = action_step_id (wf_run_type wo)"
    using assms by (simp_all add: fresh_def well_shaped_def)
  obtain x where x: "find_step wo (action_step_id (wf_run_type wo)) = Some x"
    using sh c by (auto simp: workflow_shape_def has_step_def)
  show ?thesis using shape_action [OF sh x] by (simp add: c x)
qed

lemma wp_run_workflow:
  assumes "\<And>name d. tool_permitted h ra name d \<Longrightarrow> keeps (outside P) (h_tool h name d)"
    and "\<And>a prompt. model_permitted h ra a \<Longrightarrow> keeps (outside P) (call_model h a prompt)"
    and "load_agent (h_policy_env h) (ra_agent_name ra) = Inr config"
    and "build_agent_policy (h_policy_env h) config = Inr policy"
    and "normalize_delegation (ra_delegation ra) = Inr dl" and "fresh_run P dl s"
  shows "wp (run_workflow n h policy config ra) (\<lambda>r s. (2 \<le> n \<longrightarrow> r \<noteq> None) \<and> legal_run P dl s)
     (\<lambda>_. legal_run P dl) s"
proof (cases n)
  case 0
  then show ?thesis using fresh_legal [OF assms(6)] by (simp add: wp)
next
  case (Suc m)
  have step: "wp (execute_step h policy config ra t) (\<lambda>r s. r = None \<and> acted P dl s) (\<lambda>_. legal_run P dl) s"
    if "t \<in> {Model_step, Tool_step}" for t
    using that assms fresh_legal [OF assms(6)]
    by (auto simp: execute_step_def wp split: option.splits
        intro!: wp_execute_tool_step wp_execute_model_step)
  have rest: "wp (run_workflow m h policy config ra) (\<lambda>r s. (2 \<le> n \<longrightarrow> (\<exists>y. r = Some y)) \<and> legal_run P dl s)
      (\<lambda>_. legal_run P dl) s" if "acted P dl s" for s
  proof (cases m)
    case 0
    then show ?thesis
      using that Suc by (auto simp: wp acted_def dest: pending_legal elim: runs_mono)
  next
    case (Suc k)
    show ?thesis unfolding Suc by (rule wp_mono [OF wp_second_pass [OF that]]) (simp_all add: answered_def)
  qed
  show ?thesis
    unfolding Suc run_workflow.simps
    by (rule wp_current_step [OF assms(6), where R = "\<lambda>x. st_step_type x \<in> {Model_step, Tool_step}"])
      (auto simp: fresh_legal wp Suc [symmetric] intro!: wp_mono [OF step] rest dest: fresh_at_action)
qed

section \<open>The whole run\<close>

definition given_delegation :: "run_args \<Rightarrow> delegation option" where
  "given_delegation ra = (case normalize_delegation (ra_delegation ra) of Inl e \<Rightarrow> None | Inr dl \<Rightarrow> dl)"

lemma created_fresh:
  assumes "create_workflow_state ca t = Inr wo" and "ca_run_type ca \<in> {''model'', ''tool''}"
  shows "normalize_delegation (ca_delegation ca) = Inr (wf_delegation wo)" and "fresh (wf_delegation wo) wo"
proof -
  show "normalize_delegation (ca_delegation ca) = Inr (wf_delegation wo)"
    using assms(1) by (auto simp: create_workflow_state_def)
  have "wf_current_step_id wo = action_step_id (wf_run_type wo)"
    using assms(1) by (auto simp: create_workflow_state_def)
  then show "fresh (wf_delegation wo) wo"
    using created_shape [OF assms] created_ready(3) [OF assms] by (simp add: fresh_def well_shaped_def)
qed

definition starting :: "('z \<Rightarrow> bool) \<Rightarrow> run_state \<times> 'z agent_world_scheme \<Rightarrow> bool" where
  "starting P s \<longleftrightarrow> (case s of (st, w) \<Rightarrow> rs_workflow st = None \<and> rs_approval st = None \<and> rs_budget st = None \<and>
     rs_run_type st \<in> {Model_step, Tool_step} \<and> outside P w)"

lemma runs_pair:
  "runs P W A (st, w) \<longleftrightarrow> outside P w \<and> A (rs_approval st) \<and>
     (case rs_workflow st of None \<Rightarrow> True | Some wo \<Rightarrow> W wo)"
  by (simp add: runs_def)

lemma outside_ticks: "outside P (w\<lparr>ticks := n\<rparr>) = outside P w"
  by (simp add: outside_def)

lemma starting_legal: "starting P s \<Longrightarrow> legal_run P dl s"
  by (auto simp: starting_def runs_def)

lemma wp_initialize_workflow:
  assumes "ra_approval_id ra = None" and "starting P s"
  shows "wp (initialize_workflow ra)
     (\<lambda>_ s. fresh_run P (given_delegation ra) s \<and> normalize_delegation (ra_delegation ra) = Inr (given_delegation ra))
     (\<lambda>_. legal_run P (given_delegation ra)) s"
proof (cases s)
  case (Pair st w)
  let ?dl = "given_delegation ra"
  have persist: "wp persist_workflow (\<lambda>_ s. fresh_run P ?dl s \<and> normalize_delegation (ra_delegation ra) = Inr ?dl)
      (\<lambda>_. legal_run P ?dl) (st', w')"
    if c: "create_workflow_state ca t = Inr wo" and ca: "ca_run_type ca = step_type_name (rs_run_type st)"
      "ca_delegation ca = ra_delegation ra" and st': "rs_workflow st' = Some wo" "rs_approval st' = None"
      and w': "outside P w'" for ca t wo st' and w' :: "'a agent_world_scheme"
  proof -
    have "ca_run_type ca \<in> {''model'', ''tool''}"
      using assms(2) ca(1) by (auto simp: Pair starting_def)
    note f = created_fresh [OF c this]
    have dl: "wf_delegation wo = ?dl" using f(1) by (simp add: given_delegation_def ca(2))
    have "fresh_run P ?dl (st', w')" using f(2) st' w' by (simp add: runs_def dl)
    then show ?thesis
      using f(1) keeps_to_wp [OF runs_persist [OF persistent_fresh] _ fresh_legal]
      by (simp add: dl ca(2))
  qed
  show ?thesis
    using assms starting_legal [OF assms(2)] unfolding Pair initialize_workflow_def open_workflow_def
    by (auto simp: wp starting_def runs_pair outside_ticks split: sum.split intro!: persist)
qed

definition permits_only :: "'z agent_world_scheme host \<Rightarrow> run_args \<Rightarrow> ('z \<Rightarrow> bool) \<Rightarrow> bool" where
  "permits_only h ra P \<longleftrightarrow>
     (\<forall>name args. tool_permitted h ra name args \<longrightarrow> keeps (\<lambda>w. P (agent_world.more w)) (h_tool h name args)) \<and>
     (\<forall>model prompt. model_permitted h ra model \<longrightarrow> keeps (\<lambda>w. P (agent_world.more w)) (call_model h model prompt))"

lemma keeps_outside: "keeps (\<lambda>w. P (agent_world.more w)) m \<longleftrightarrow> keeps (outside P) m"
  by (simp add: keeps_def outside_def)

lemma wp_run_body:
  assumes "permits_only h ra P" and "ra_approval_id ra = None" and "starting P s"
  shows "wp (run_body n h ra) (\<lambda>r s. (2 \<le> n \<longrightarrow> r \<noteq> None) \<and> legal_run P (given_delegation ra) s)
     (\<lambda>_. legal_run P (given_delegation ra)) s"
proof -
  let ?dl = "given_delegation ra"
  have tools: "tool_permitted h ra name d \<Longrightarrow> keeps (outside P) (h_tool h name d)"
    and models: "model_permitted h ra a \<Longrightarrow> keeps (outside P) (call_model h a prompt)" for name d a prompt
    using assms(1) by (simp_all add: permits_only_def keeps_outside)
  have configure: "keeps (fresh_run P ?dl) (configure_workflow_for_agent config)" for config
    unfolding configure_workflow_for_agent_def by (intro keeps_intro runs_on_workflow runs_persist) simp
  have sets: "keeps (fresh_run P ?dl) (set_run (\<lambda>st. st\<lparr>rs_policy_name := a, rs_policy_snapshot := b\<rparr>))"
    "keeps (fresh_run P ?dl) (set_run (\<lambda>st. st\<lparr>rs_budget := c, rs_budget_limits := d\<rparr>))" for a b c d
    by (rule runs_set; simp)+
  have clock: "keeps (fresh_run P ?dl) (on_world perf_counter)" by (rule runs_on_world [OF outside_env(4)])
  show ?thesis
    unfolding run_body_def wp_then [of "initialize_workflow ra"]
    by (rule wp_mono [OF wp_initialize_workflow [OF assms(2,3)]], elim conjE, rule fresh_lift, assumption,
        rule fresh_then [OF configure], assumption, rule fresh_lift, assumption, rule fresh_then [OF sets(1)],
        assumption, rule fresh_lift, assumption, rule fresh_bind [OF clock], assumption,
        rule fresh_then [OF sets(2)], assumption, rule fresh_then [OF runs_sources(1)], assumption,
        rule wp_run_workflow [OF tools models])
qed

lemma keeps_handler:
  "keeps (legal_run P dl) (schedule_run_retry h ra e)" "keeps (legal_run P dl) (fail_run ra e)"
  unfolding schedule_run_retry_def fail_run_def
  by (intro keeps_intro runs_on_world runs_on_workflow runs_persist persistent_legal)+

lemma wp_handle_run_error:
  assumes "legal_run P dl s"
  shows "wp (handle_run_error h ra e) (\<lambda>r s. r \<noteq> None \<and> legal_run P dl s) (\<lambda>_. legal_run P dl) s"
proof -
  have "keeps (legal_run P dl) (handle_run_error h ra e)"
    unfolding handle_run_error_def by (intro keeps_intro keeps_handler)
  note kept = keeps_wpD [OF this assms]
  have "wp (handle_run_error h ra e) (\<lambda>r _. r \<noteq> None) (\<lambda>_ _. True) s"
    unfolding handle_run_error_def schedule_run_retry_def fail_run_def wp by (intro wp_any TrueI) (simp add: wp; intro conjI impI wp_any TrueI)+
  then show ?thesis using kept by (auto simp: wp_def split: prod.splits sum.splits)
qed

lemma wp_run_agent:
  assumes "permits_only h ra P" and "ra_approval_id ra = None" and "outside P w"
  shows "wp (run_agent n h ra) (\<lambda>r w. (2 \<le> n \<longrightarrow> r \<noteq> None) \<and> outside P w) (\<lambda>_. outside P) w"
proof -
  let ?dl = "given_delegation ra" and ?t = "if ra_tool_name ra = None then Model_step else Tool_step"
  have body: "wp (io_catch (run_body n h ra) (handle_run_error h ra))
      (\<lambda>r s. (2 \<le> n \<longrightarrow> r \<noteq> None) \<and> legal_run P ?dl s) (\<lambda>_. legal_run P ?dl)
      (new_run run_id ?t now (ra_job_id ra) (ra_worker_id ra), w')" if "outside P w'" for run_id now w'
  proof -
    have "starting P (new_run run_id ?t now (ra_job_id ra) (ra_worker_id ra), w')"
      using that by (simp add: starting_def new_run_def)
    from wp_run_body [OF assms(1,2) this, of n] show ?thesis
      unfolding wp_catch by (rule wp_mono) (auto intro!: wp_mono [OF wp_handle_run_error])
  qed
  have inner: "wp (with_run st m) (\<lambda>r w. Q r \<and> outside P w) (\<lambda>_. outside P) w'"
    if "wp m (\<lambda>r s. Q r \<and> legal_run P ?dl s) (\<lambda>_. legal_run P ?dl) (st, w')" for st Q w'
      and m :: "(run_state \<times> 'a agent_world_scheme, pydict option) io"
    using that by (auto simp: with_run_def wp_def runs_def split: prod.splits sum.splits)
  have ids: "keeps (outside P) (case ra_run_id ra of None \<Rightarrow> uuid4 | Some k \<Rightarrow> if k = [] then uuid4 else io_return k)"
    by (intro keeps_intro)
  show ?thesis
    unfolding run_agent_def
    by (rule kept_bind [OF ids assms(3)], rule kept_bind [OF outside_env(4)], assumption, rule inner, rule body)
qed

text \<open>
  C1: nothing outside of the stores is reached past the checks. Let \<open>P\<close> be any property of the
  outside state which every permitted use of the requested tool keeps (the agent lists the tool, its
  policy allows the action, the delegation of the run covers capability and tool) and every
  permitted call of a model. Then a whole run without an approval keeps it, however it ends: no
  handler is called that the checks did not let through. In particular, where nothing is permitted
  the outside is not touched.
\<close>

theorem run_agent_stays_permitted:
  assumes "permits_only h ra P" and "ra_approval_id ra = None" and "P (agent_world.more w)"
  shows "P (agent_world.more (snd (run_agent n h ra w)))"
proof -
  have "wp (run_agent n h ra) (\<lambda>_. outside P) (\<lambda>_. outside P) w"
    by (rule wp_mono [OF wp_run_agent [OF assms(1,2)]]) (simp_all add: outside_def assms(3))
  then show ?thesis by (simp add: wp_same outside_def)
qed

text \<open>
  C13: a run without an approval ends. Whatever the handlers of the host and the files hold, two
  passes of the loop are enough: the action and then the finish, or the action and then the wait
  for the approval it asked for. \<open>run_agent\<close> then returns a response or raises.
\<close>

theorem run_agent_returns:
  assumes "ra_approval_id ra = None" and "2 \<le> n"
  shows "(\<exists>response. fst (run_agent n h ra w) = Inr (Some response)) \<or> (\<exists>e. fst (run_agent n h ra w) = Inl e)"
proof -
  have "permits_only h ra (\<lambda>_. True)" by (simp add: permits_only_def keeps_def)
  from wp_run_agent [OF this assms(1), of w n] assms(2) show ?thesis
    by (auto simp: outside_def wp_def split: prod.splits sum.splits)
qed

section \<open>A run at concrete inputs\<close>

text \<open>An agent \<open>a\<close> with the tool \<open>fetch_url\<close>, whose policy allows one capability; the outside is a log.\<close>

definition sample_config :: pydict where
  "sample_config = [(''policy'', PStr ''p''), (''model'', PStr ''m''), (''tools'', PList [PStr ''fetch_url''])]"

definition sample_policies :: "string \<Rightarrow> policy_env" where
  "sample_policies capability =
     (sample_env ''development'' [])\<lparr>read_yaml := (\<lambda>f. Inr (PDict
        [(''agents'', PDict [(''a'', PDict sample_config)]),
         (''policies'', PDict [(''p'', PDict [(''allow'', PList [rule_for capability []])])])]))\<rparr>"

definition sample_host :: "string \<Rightarrow> string list agent_world_scheme host" where
  "sample_host capability =
     \<lparr>h_policy_env = sample_policies capability, h_json_len = (\<lambda>v. 10),
      h_tool = (\<lambda>name args w. (Inr (PStr ''body''), agent_world.more_update (\<lambda>l. name # l) w)),
      h_openai = (\<lambda>m p w. (Inr ''text'', agent_world.more_update (\<lambda>l. m # l) w)),
      h_ollama = (\<lambda>u b w. (Inr Http_unreachable, agent_world.more_update (\<lambda>l. u # l) w))\<rparr>"

definition sample_world :: "string list agent_world_scheme" where
  "sample_world = \<lparr>clk = (\<lambda>n. int n), ticks = 0, uuids = (\<lambda>n. replicate n CHR ''u''), uuid_n = 0, approvals = [],
     memories = [], workflows = [], artifacts = [], logs = [], perf = (\<lambda>n. of_nat n), perf_n = 0, \<dots> = []\<rparr>"

definition sample_run :: run_args where
  "sample_run =
     \<lparr>ra_user_input = ''go'', ra_agent_name = ''a'', ra_tool_name = Some ''fetch_url'',
      ra_tool_args = PDict [(''url'', PStr ''http://x/'')], ra_approval_id = None, ra_run_id = Some ''r'',
      ra_parent_run_id = None, ra_parent_workflow_id = None, ra_root_workflow_id = None,
      ra_workflow_depth = PInt 0, ra_job_id = None, ra_worker_id = None, ra_delegation = PNone,
      ra_shared_memories = PNone, ra_prompt_context = PNone\<rparr>"

lemma sample_policy_built:
  "load_agent (sample_policies ''exec'') ''a'' = Inr sample_config"
  "build_agent_policy (sample_policies ''exec'') sample_config =
     Inr \<lparr>pol_name = ''p'', pol_allow = [[(''capability'', PStr ''exec'')]], pol_approval = [], pol_deny = []\<rparr>"
  by code_simp+

lemma sample_not_granted:
  assumes "pa_capability action \<noteq> ''exec''"
  shows "\<not> granted (sample_host ''exec'')
     \<lparr>pol_name = ''p'', pol_allow = [[(''capability'', PStr ''exec'')]], pol_approval = [], pol_deny = []\<rparr> action"
  using assms
  by (auto simp: granted_def evaluate_policy_def rule_matches_def assert_valid_capability_def dict_get_def
      split: sum.splits option.splits if_splits)

lemma sample_permits_nothing: "permits_only (sample_host ''exec'') sample_run (\<lambda>l. l = [])"
proof -
  have "\<not> tool_permitted (sample_host ''exec'') sample_run name args" for name args
  proof
    assume "tool_permitted (sample_host ''exec'') sample_run name args"
    then obtain td action where t: "name = ''fetch_url''" "get_tool_definition name = Inr td"
      "tool_action td args = Inr action" and g: "granted (sample_host ''exec'')
        \<lparr>pol_name = ''p'', pol_allow = [[(''capability'', PStr ''exec'')]], pol_approval = [], pol_deny = []\<rparr> action"
      by (auto simp: tool_permitted_def agent_permits_def sample_run_def sample_host_def sample_policy_built)
    have "get_tool_definition ''fetch_url'' = Inr (tool_of ''http'' None None (Some ''url''))" by code_simp
    with t have "pa_capability action = ''http''" by (auto simp: tool_action_def tool_of_def)
    with g sample_not_granted show False by simp
  qed
  moreover have "\<not> model_permitted (sample_host ''exec'') sample_run model" for model
    using sample_not_granted [of "model_action model"]
    by (auto simp: model_permitted_def agent_permits_model_def sample_run_def sample_host_def sample_policy_built model_action_def)
  ultimately show ?thesis by (simp add: permits_only_def)
qed

theorem run_agent_stays_permitted_witness:
  "agent_world.more sample_world = [] \<and> agent_world.more (snd (run_agent 3 (sample_host ''exec'') sample_run sample_world)) = []"
proof -
  have "agent_world.more sample_world = []" by (simp add: sample_world_def)
  moreover have "ra_approval_id sample_run = None" by (simp add: sample_run_def)
  ultimately show ?thesis
    using run_agent_stays_permitted [OF sample_permits_nothing, of sample_world 3] by simp
qed

theorem run_agent_returns_witness:
  "fst (run_agent 2 (sample_host ''exec'') sample_run sample_world) \<noteq> Inr None"
proof -
  have "ra_approval_id sample_run = None" by (simp add: sample_run_def)
  from run_agent_returns [OF this, of 2 "sample_host ''exec''" sample_world] show ?thesis by auto
qed

end
