(* ===== verification/Runner_Properties.thy ===== *)
theory Runner_Properties
  imports Workflow_Runner Agent_Properties Memory_Properties
begin

text \<open>
  Properties of the workflow runner and of what the runs leave in the stores: child workflows stay
  within the subrun policy of their parent, a memory that a run writes is registered as the store
  describes it, and where resuming and replaying do not give back what was stored.
\<close>

section \<open>Memories written by a run\<close>

lemma payload_fields_name: "payload_fields (PStr (memory_type_name t)) = ordered_fields t"
  by (cases t) (simp_all add: payload_fields_def)

lemma object_payload_text_of: "object_payload_text (memory_object m) = Inr (memory_payload_text m)"
  by (simp add: object_payload_text_def memory_object_def dict_item_def dict_get_or_def payload_fields_name
      memory_payload_text_def Let_def)

lemma object_summary_of: "object_summary (memory_object m) = Inr (memory_summary m)"
  by (simp add: object_summary_def object_payload_text_of object_of_def)
    (simp add: memory_object_def dict_item_def dict_get_or_def dict_get_def scope_object_def str_list_def memory_summary_def
      split: option.split)

section \<open>The delegation of a child\<close>

text \<open>The runner has a copy of the list normalisation of the workflow module.\<close>

lemma runner_string_list_same: "runner_string_list = normalize_string_list"
proof -
  have "runner_text f = text_item f" for f by (rule ext) (simp add: runner_text_def text_item_def)
  then show ?thesis by (intro ext) (simp add: runner_string_list_def normalize_string_list_def split: pyval.split)
qed

definition clean :: "string \<Rightarrow> bool" where
  "clean s \<longleftrightarrow> non_empty_text (PStr s) = Some s"

lemma clean_list:
  assumes "normalize_string_list v f = Inr ss" and "s \<in> set ss"
  shows "clean s"
proof (cases v)
  case (PList items)
  with assms(1) obtain ts where ts: "res_map (text_item f) items = Inr ts" "ss = dedupe [] ts"
    by (auto simp: normalize_string_list_def res_bind_Inr)
  have "\<forall>s \<in> set ts. text_item f (PStr s) = Inr s"
    using res_map_again [where g = PStr and h = "text_item f", OF ts(1) text_item_again] .
  then show ?thesis
    using assms(2) ts(2) by (auto simp: set_dedupe text_item_def clean_def simp del: non_empty_text.simps split: option.splits)
qed (use assms in \<open>auto simp: normalize_string_list_def\<close>)

lemma normalize_clean:
  assumes "\<And>s. s \<in> set ss \<Longrightarrow> clean s"
  shows "normalize_string_list (str_list ss) f = Inr (dedupe [] ss)"
proof -
  have "res_map (text_item f) (map PStr ss) = Inr ss"
    by (rule res_map_fixed) (use assms in \<open>simp add: clean_def text_item_def del: non_empty_text.simps\<close>)
  then show ?thesis by (simp add: normalize_string_list_def str_list_def)
qed

lemma tools_clean:
  assumes "get_tool_definition name = Inr td"
  shows "clean name" and "td_capability td \<in> set CAPABILITY_CLASSES"
proof -
  have all: "list_all (\<lambda>(n, td). clean n \<and> td_capability td \<in> set CAPABILITY_CLASSES) TOOLS" by code_simp
  have "(name, td) \<in> set TOOLS"
    using assms by (auto simp: get_tool_definition_def split: option.splits dest: map_of_SomeD)
  then show "clean name" "td_capability td \<in> set CAPABILITY_CLASSES" using all by (auto simp: list_all_iff)
qed

lemma capability_clean: "c \<in> set CAPABILITY_CLASSES \<Longrightarrow> clean c"
proof -
  have "list_all clean CAPABILITY_CLASSES" by code_simp
  then show "c \<in> set CAPABILITY_CLASSES \<Longrightarrow> clean c" by (simp add: list_all_iff)
qed

definition within_list :: "string list option \<Rightarrow> string \<Rightarrow> bool" where
  "within_list allowed x \<longleftrightarrow> (case allowed of None \<Rightarrow> True | Some xs \<Rightarrow> x \<in> set xs)"

lemma ensure_subset_Inr: "ensure_subset vals allowed f k = Inr () \<longleftrightarrow> (\<forall>v \<in> set vals. within_list allowed v)"
proof (cases allowed)
  case (Some xs)
  have "sorted_set ys = [] \<longleftrightarrow> ys = []" for ys
    using set_sorted_set [of ys] by (cases "sorted_set ys"; cases ys) auto
  then show ?thesis
    by (simp add: ensure_subset_def within_list_def Let_def Some filter_empty_conv)
qed (simp add: ensure_subset_def within_list_def)

text \<open>What the built delegation gives the child when its run normalises it.\<close>

lemma built_delegation:
  assumes b: "build_child_delegation parent ch = Inr d" and n: "normalize_delegation (PDict d) = Inr dl"
  shows "\<exists>x. dl = Some x \<and> within_list (sp_allowed_agents (wf_subrun_policy parent)) (ch_agent_name ch) \<and>
     (\<forall>c \<in> set (dl_allowed_capabilities x). within_list (sp_allowed_capabilities (wf_subrun_policy parent)) c) \<and>
     (ch_tool_name ch \<noteq> None \<longrightarrow>
       (\<forall>t \<in> set (dl_allowed_tools x). within_list (sp_allowed_tools (wf_subrun_policy parent)) t))"
proof -
  obtain caps tools capability where agent: "ensure_requested_agent_allowed parent (ch_agent_name ch) = Inr ()"
    and cap: "requested_capability (ch_tool_name ch) = Inr capability"
    and caps: "child_capabilities ch capability = Inr caps" and tools: "child_tools ch = Inr tools"
    and sub: "ensure_subset caps (sp_allowed_capabilities (wf_subrun_policy parent)) ''capabilities'' (wf_workflow_id parent) = Inr ()"
      "ch_tool_name ch \<noteq> None \<longrightarrow> ensure_subset tools (sp_allowed_tools (wf_subrun_policy parent)) ''tools'' (wf_workflow_id parent) = Inr ()"
    and d: "dict_get d ''allowed_capabilities'' = str_list caps" "dict_get d ''allowed_tools'' = str_list tools" "d \<noteq> []"
    using b unfolding build_child_delegation_def
    by (auto simp: dict_get_def split: if_splits)
  have cc: "clean c" if "c \<in> set caps" for c
  proof -
    have "check_capabilities caps = Inr ()"
      using caps by (auto simp: child_capabilities_def Let_def split: if_splits)
    then have "c \<in> set CAPABILITY_CLASSES"
      using that by (induction caps) (auto simp: assert_valid_capability_def split: if_splits)
    then show ?thesis by (rule capability_clean)
  qed
  have ct: "clean t" if "t \<in> set tools" for t
  proof (cases "ch_tool_name ch")
    case None
    then show ?thesis using that tools by (auto simp: child_tools_def split: if_splits)
  next
    case (Some tool)
    then have "clean tool" using cap by (auto simp: requested_capability_def dest: tools_clean)
    then show ?thesis
      using that tools Some
      by (auto simp: child_tools_def Let_def runner_string_list_same split: if_splits dest: clean_list)
  qed
  obtain x where "dl = Some x" "dl_allowed_capabilities x = dedupe [] caps" "dl_allowed_tools x = dedupe [] tools"
    using n d normalize_clean [OF cc] normalize_clean [OF ct]
    by (auto simp: normalize_delegation_def normalize_delegation_object_def split: if_splits)
  moreover have "within_list (sp_allowed_agents (wf_subrun_policy parent)) (ch_agent_name ch)"
    using agent by (auto simp: ensure_requested_agent_allowed_def within_list_def split: option.splits if_splits)
  ultimately show ?thesis using sub by (auto simp: ensure_subset_Inr set_dedupe)
qed

section \<open>A child stays within the policy of its parent\<close>

text \<open>
  What a child may do to the outside: only what its own agent permits and the subrun policy of the
  parent covers (agent, capability, tool).
\<close>

definition child_permits_only ::
    "'z agent_world_scheme host \<Rightarrow> subrun_policy \<Rightarrow> child_args \<Rightarrow> ('z \<Rightarrow> bool) \<Rightarrow> bool" where
  "child_permits_only h sp ch P \<longleftrightarrow>
     (\<forall>name td args. ch_tool_name ch = Some name \<and> get_tool_definition name = Inr td \<and>
        agent_permits h (ch_agent_name ch) name args \<and> within_list (sp_allowed_agents sp) (ch_agent_name ch) \<and>
        within_list (sp_allowed_capabilities sp) (td_capability td) \<and> within_list (sp_allowed_tools sp) name \<longrightarrow>
        keeps (\<lambda>w. P (agent_world.more w)) (h_tool h name args)) \<and>
     (\<forall>model prompt. agent_permits_model h (ch_agent_name ch) model \<and>
        within_list (sp_allowed_agents sp) (ch_agent_name ch) \<and> within_list (sp_allowed_capabilities sp) ''model_call'' \<longrightarrow>
        keeps (\<lambda>w. P (agent_world.more w)) (call_model h model prompt))"

lemma delegatedD:
  assumes "delegated ra c t"
  obtains dl where "normalize_delegation (ra_delegation ra) = Inr dl"
    and "\<And>x. dl = Some x \<Longrightarrow> c \<in> set (dl_allowed_capabilities x) \<and>
      (case t of None \<Rightarrow> True | Some tool \<Rightarrow> tool \<in> set (dl_allowed_tools x))"
  using assms by (cases "normalize_delegation (ra_delegation ra)") (auto simp: delegated_def split: option.splits)

lemma child_permits:
  assumes "child_permits_only h (wf_subrun_policy parent) ch P" and b: "build_child_delegation parent ch = Inr d"
  shows "permits_only h (child_call parent ch child_id d shared) P"
proof -
  let ?ra = "child_call parent ch child_id d shared"
  have ra: "ra_agent_name ?ra = ch_agent_name ch" "ra_tool_name ?ra = ch_tool_name ch"
    "ra_delegation ?ra = PDict d"
    by (simp_all add: child_call_def agent_call_def)
  show ?thesis
    unfolding permits_only_def
  proof (intro conjI allI impI)
    fix name args assume "tool_permitted h ?ra name args"
    then obtain td where t: "ch_tool_name ch = Some name" "agent_permits h (ch_agent_name ch) name args"
      "get_tool_definition name = Inr td" and del: "delegated ?ra (td_capability td) (Some name)"
      by (auto simp: tool_permitted_def ra)
    obtain dl where n: "normalize_delegation (PDict d) = Inr dl"
      and dl: "\<And>x. dl = Some x \<Longrightarrow> td_capability td \<in> set (dl_allowed_capabilities x) \<and> name \<in> set (dl_allowed_tools x)"
      using del by (rule delegatedD) (simp add: ra)
    show "keeps (\<lambda>w. P (agent_world.more w)) (h_tool h name args)"
      using assms(1) t dl built_delegation [OF b n] unfolding child_permits_only_def by blast
  next
    fix model prompt assume "model_permitted h ?ra model"
    then have t: "agent_permits_model h (ch_agent_name ch) model" and del: "delegated ?ra ''model_call'' None"
      by (simp_all add: model_permitted_def ra)
    obtain dl where n: "normalize_delegation (PDict d) = Inr dl"
      and dl: "\<And>x. dl = Some x \<Longrightarrow> ''model_call'' \<in> set (dl_allowed_capabilities x)"
      using del by (rule delegatedD) (simp add: ra)
    show "keeps (\<lambda>w. P (agent_world.more w)) (call_model h model prompt)"
      using assms(1) t dl built_delegation [OF b n] unfolding child_permits_only_def by blast
  qed
qed

lemma outside_runner [keeps_intro]:
  "keeps (outside P) (materialize_shared_memories parent agent ids)" "keeps (outside P) (record_child parent k)"
proof -
  show "keeps (outside P) (materialize_shared_memories parent agent ids)"
    unfolding materialize_shared_memories_def load_memory_def by (intro keeps_intro)
  show "keeps (outside P) (record_child parent k)"
    unfolding record_child_def by (auto split: prod.splits sum.splits intro: keeps_intro)
qed

text \<open>
  C2: delegation never widens. Starting a child of a stored workflow reaches the outside only through
  uses of the requested tool, or of the model, that the agent of the child permits and that the
  subrun policy of the parent covers: its allowed agents, capabilities and tools, where it lists
  any. This holds for every way the request may word the delegation, and however the run ends.
\<close>

theorem child_run_within_parent_policy:
  assumes "load_workflow parent_id w = (Inr parent, w)"
    and "child_permits_only h (wf_subrun_policy parent) ch P" and "P (agent_world.more w)"
  shows "P (agent_world.more (snd (start_child_workflow n h parent_id ch w)))"
proof -
  have run: "keeps (outside P) (run_agent n h (child_call parent ch child_id d shared))"
    if "build_child_delegation parent ch = Inr d" for child_id d shared
    unfolding keeps_wp
  proof (intro allI impI)
    fix s :: "'a agent_world_scheme" assume "outside P s"
    then show "wp (run_agent n h (child_call parent ch child_id d shared)) (\<lambda>_. outside P) (\<lambda>_. outside P) s"
      by (intro wp_mono [OF wp_run_agent [OF child_permits [OF assms(2) that]]])
        (simp_all add: child_call_def agent_call_def)
  qed
  have "wp (start_child_workflow n h parent_id ch) (\<lambda>_. outside P) (\<lambda>_. outside P) w"
  proof -
    have loaded: "wp (load_workflow parent_id) Q E w = Q parent w" for Q E
      by (simp add: wp_def assms(1))
    have rest: "keeps (outside P)
        (if \<not> can_spawn_child_workflow parent then io_raise e
         else io_bind (io_lift (build_child_delegation parent ch)) f)"
      if "\<And>d. build_child_delegation parent ch = Inr d \<Longrightarrow> keeps (outside P) (f d)" for e f
      using that by (cases "build_child_delegation parent ch") (auto simp: keeps_def io_raise_def io_bind_def io_lift_def)
    show ?thesis
      unfolding start_child_workflow_def wp_bind [of "load_workflow parent_id"] loaded
      by (rule keeps_wpD [OF rest], (intro keeps_intro run, assumption)+) (simp add: outside_def assms(3))
  qed
  then show ?thesis by (simp add: wp_same outside_def)
qed

section \<open>Retries and replays\<close>

lemma request_call_of:
  "request_call wo (run_request ra entries) job worker =
     Inr (agent_call (ra_user_input ra) (ra_agent_name ra) (ra_tool_name ra) (ra_tool_args ra) job worker)"
proof -
  have "text_arg (opt_str t) = Inr t" for t by (cases t) (simp_all add: text_arg_def)
  then show ?thesis
    by (simp add: request_call_def run_request_def dict_get_def dict_get_or_def request_text_def)
qed

lemma start_workflow_plain:
  "start_workflow n h u a t v None job worker PNone = run_agent n h (agent_call u a t v job worker)"
  by (simp add: start_workflow_def agent_call_def)

lemma retry_due:
  assumes "detail s ''next_retry_at'' = Inr (FV_stamp (Some (utc_stamp t)))" and "t \<le> clk w (ticks w)"
  shows "retry_not_ready k s w = (Inr (), w\<lparr>ticks := Suc (ticks w)\<rparr>)"
  using assms by (simp add: retry_not_ready_def too_early_def io_run io_lift_def utc_now_def)

text \<open>
  C14: a retry and a replay are new workflows. Let a stored workflow hold the request its run was
  opened with. If it waits for a retry that is due, \<open>resume_workflow\<close> does exactly what
  \<open>start_workflow\<close> does with the input, agent, tool and arguments of that request: nothing else of
  the stored workflow takes part, neither its identity, its parent and its retry count nor its
  delegation, its shared memories and its prompt context. The same holds for \<open>replay_workflow\<close> of
  a failed one, up to the wrapping of the result. So the retry of a delegated child runs without
  the delegation, and the workflow that waited stays where it is.
\<close>

theorem retry_and_replay_start_over:
  assumes "load_workflow k w = (Inr wo, w)" and "wf_request wo = run_request ra entries"
  shows "(wf_status wo = Wf_waiting \<longrightarrow> (\<forall>s t. find_step wo (wf_current_step_id wo) = Some s \<longrightarrow>
       st_step_type s = Retry_wait \<longrightarrow> detail s ''next_retry_at'' = Inr (FV_stamp (Some (utc_stamp t))) \<longrightarrow>
       t \<le> clk w (ticks w) \<longrightarrow>
       resume_workflow n h k job worker w =
         start_workflow n h (ra_user_input ra) (ra_agent_name ra) (ra_tool_name ra) (ra_tool_args ra) None job worker
           PNone (w\<lparr>ticks := Suc (ticks w)\<rparr>))) \<and>
     (wf_status wo = Wf_failed \<longrightarrow>
       replay_workflow n h k job worker w =
         io_bind (start_workflow n h (ra_user_input ra) (ra_agent_name ra) (ra_tool_name ra) (ra_tool_args ra) None job
             worker PNone)
           (\<lambda>r. io_return (map_option (\<lambda>d. [(''replayed_from_workflow_id'', PStr k), (''source_status'', PStr ''failed''),
              (''result'', PDict d)]) r)) w)"
proof -
  have request: "workflow_request k w = (Inr (run_request ra entries), w)"
    using assms by (simp add: workflow_request_def io_run run_request_def)
  have same: "agent_call u a t v j x\<lparr>ra_approval_id := None\<rparr> = agent_call u a t v j x" for u a t v j x
    by (simp add: agent_call_def)
  show ?thesis
    using assms(1)
    by (auto simp: resume_workflow_def replay_workflow_def io_run request step_of_def current_step_def get_step_def
        request_call_of start_workflow_plain retry_due io_lift_def same)
qed

section \<open>Approvals of memory writes\<close>

lemma dict_has_map_of: "dict_has d k \<longleftrightarrow> map_of d k \<noteq> None"
  by (simp add: dict_has_def map_of_eq_None_iff)

lemma sub_dict_has: "py_sub_dict d e \<Longrightarrow> dict_has d k \<Longrightarrow> dict_has e k"
  by (induction d) (auto simp: dict_has_map_of split: option.splits if_splits)

lemma dict_has_put: "dict_has (dict_put d k v) k"
  by (induction d) (auto simp: dict_has_map_of)

lemma memory_write_args_has: "dict_has (memory_write_args st agent d) ''run_id''"
  by (simp add: memory_write_args_def Let_def set_default_def dict_has_put)

text \<open>The request an approval is asked for with.\<close>

definition asked_request :: "run_args \<Rightarrow> string option \<Rightarrow> pyval \<Rightarrow> pydict" where
  "asked_request ra tool_name tool_args =
     [(''input'', PStr (ra_user_input ra)), (''agent'', PStr (ra_agent_name ra)), (''tool'', opt_str tool_name),
      (''tool_args'', tool_args)]"

lemma request_approval_asks:
  assumes "request_approval ra t v action reason s = (Inr (), (st, w))" and "rs_approval st = Some a"
  shows "ap_request a = asked_request ra t v"
proof -
  let ?A = "\<lambda>x. \<forall>a. x = Some a \<longrightarrow> ap_request a = asked_request ra t v"
  let ?I = "runs (\<lambda>_. True) (\<lambda>_. True) ?A"
  have create: "wp (create_approval r wid ag p c m (asked_request ra t v))
      (\<lambda>a _. ap_request a = asked_request ra t v) (\<lambda>_ _. False) w" for r wid ag p c m and w :: "'a agent_world_scheme"
    by (simp add: create_approval_def write_approval_def wp)
  have true: "persistent (\<lambda>_. True)" by (simp add: persistent_def)
  have rest: "wp (append_decision d) (\<lambda>_. wp (io_then (on_workflow m) (io_then persist_workflow
      (set_run (\<lambda>st. st\<lparr>rs_approvals_requested := rs_approvals_requested st + 1\<rparr>)))) (\<lambda>_. ?I) (\<lambda>_ _. True))
      (\<lambda>_ _. True) s"
    if "?I s" for d m s
  proof -
    have "keeps ?I (io_then (append_decision d) (io_then (on_workflow m) (io_then persist_workflow
        (set_run (\<lambda>st. st\<lparr>rs_approvals_requested := rs_approvals_requested st + 1\<rparr>)))))"
      by (intro keeps_intro runs_on_workflow runs_persist true runs_set) (simp_all add: keeps_def)
    from keeps_wpD [OF this that] show ?thesis
      unfolding wp_then [of "append_decision d", symmetric] by (rule wp_mono) simp_all
  qed
  have "wp (request_approval ra t v action reason) (\<lambda>_. ?I) (\<lambda>_ _. True) s"
  proof (cases s)
    case (Pair st w)
    show ?thesis
      unfolding request_approval_def asked_request_def [symmetric] the_workflow_def Pair wp_bind wp_get_run wp_on_workflow
      by (auto simp: wp runs_def outside_def split: option.splits
          intro!: wp_mono [OF create] rest)
  qed
  then show ?thesis using assms by (simp add: wp_def runs_def)
qed

lemma mismatch_raises:
  assumes "dir_get (approvals w) k = Some a" and "ra_approval_id ra = Some k"
    and "prompt_context_of (ra_prompt_context ra) = Inr entries"
    and "\<not> approval_matches_request a (ra_user_input ra) (ra_agent_name ra) (ra_tool_name ra) (ra_tool_args ra)"
  shows "fst (run_agent n h ra w) = Inl (ValueError (''Approval `'' @ k @ ''` does not match the current request''))"
proof -
  define err where "err = ValueError (''Approval `'' @ k @ ''` does not match the current request'')"
  have body: "wp (run_body n h ra) (\<lambda>_ _. False) (\<lambda>e (st, w). e = err \<and> rs_budget st = None \<and> rs_workflow st = None) (st, w')"
    if "rs_workflow st = None" "rs_budget st = None" "approvals w' = approvals w" for st w'
    using assms that unfolding run_body_def initialize_workflow_def reopen_workflow_def get_approval_def
    by (simp add: wp err_def)
  have handler: "wp (handle_run_error h ra e) (\<lambda>_ _. False) (\<lambda>e' _. e' = e) (st, w')"
    if "rs_workflow st = None" "rs_budget st = None" for e st w'
    using that unfolding handle_run_error_def fail_run_def write_trace_def trace_run_def Let_def
    by (simp add: wp can_schedule_retry_def)
  have run: "wp (with_run (new_run i t now j x) (io_catch (run_body n h ra) (handle_run_error h ra)))
      (\<lambda>_ _. False) (\<lambda>e _. e = err) w'" if "approvals w' = approvals w" for i t now j x w'
  proof -
    have "wp (io_catch (run_body n h ra) (handle_run_error h ra)) (\<lambda>_ _. False) (\<lambda>e _. e = err) (new_run i t now j x, w')"
      unfolding wp_catch
      by (rule wp_mono [OF body]) (auto simp: new_run_def that intro!: wp_mono [OF handler])
    then show ?thesis by (auto simp: with_run_def wp_def split: prod.splits sum.splits)
  qed
  have "wp (run_agent n h ra) (\<lambda>_ _. False) (\<lambda>e _. e = err) w"
    unfolding run_agent_def by (auto simp: wp run split: option.split)
  then show ?thesis unfolding err_def by (auto simp: wp_def split: prod.splits sum.splits)
qed


section \<open>Concrete workflows\<close>

definition stored_workflow :: "workflow \<Rightarrow> string list agent_world_scheme" where
  "stored_workflow wo = sample_world\<lparr>workflows := [(wf_workflow_id wo, wo)]\<rparr>"

definition sample_workflow :: workflow where
  "sample_workflow = projr (create_workflow_state
     \<lparr>ca_run_id = ''w'', ca_agent = ''a'', ca_run_type = ''tool'', ca_request = Some (run_request sample_run []),
      ca_parent_workflow_id = None, ca_root_workflow_id = None, ca_depth = PInt 0, ca_delegation = PNone,
      ca_shared_memories = PNone\<rparr> (utc_stamp 0))"

lemma load_stored:
  assumes "config_normal wo"
  shows "load_workflow (wf_workflow_id wo) (stored_workflow wo) = (Inr wo, stored_workflow wo)"
  by (rule load_normal [OF _ assms]) (simp add: stored_workflow_def dir_get_def)

text \<open>A parent that may delegate web requests only, and a child that asks for a web page.\<close>

definition sample_parent :: workflow where
  "sample_parent = sample_workflow\<lparr>wf_subrun_policy :=
     \<lparr>sp_max_children = 3, sp_max_depth = 2, sp_allowed_agents = None,
      sp_allowed_capabilities = Some [''http''], sp_allowed_tools = None\<rparr>\<rparr>"

definition sample_child :: child_args where
  "sample_child =
     \<lparr>ch_user_input = PStr ''read'', ch_agent_name = ''a'', ch_tool_name = Some ''fetch_url'',
      ch_tool_args = PDict [(''url'', PStr ''http://x/'')], ch_role = PNone, ch_allowed_capabilities = PNone,
      ch_allowed_tools = PNone, ch_task_intent = PNone, ch_expected_output = PNone,
      ch_completion_criteria = PNone, ch_shared_memory_ids = PNone, ch_job_id = None, ch_worker_id = None\<rparr>"

theorem child_run_within_parent_policy_witness:
  "list_all (\<lambda>name. name = ''fetch_url'')
     (agent_world.more (snd (start_child_workflow 3 (sample_host ''http'') ''w'' sample_child (stored_workflow sample_parent))))"
proof -
  have "config_normal sample_parent" and id: "wf_workflow_id sample_parent = ''w''" by code_simp+
  then have "load_workflow ''w'' (stored_workflow sample_parent) = (Inr sample_parent, stored_workflow sample_parent)"
    using load_stored [of sample_parent] by simp
  moreover have "child_permits_only (sample_host ''http'') (wf_subrun_policy sample_parent) sample_child
      (list_all (\<lambda>name. name = ''fetch_url''))"
    by (auto simp: child_permits_only_def sample_parent_def sample_child_def within_list_def sample_host_def keeps_def)
  moreover have "list_all (\<lambda>name. name = ''fetch_url'') (agent_world.more (stored_workflow sample_parent))"
    by (simp add: stored_workflow_def sample_world_def)
  ultimately show ?thesis
    by (rule child_run_within_parent_policy)
qed

text \<open>A workflow that waits for its first retry at time 0, and the same workflow failed.\<close>

definition sample_retrying :: workflow where
  "sample_retrying = snd (io_then (configure_retry_policy (PDict [(''max_attempts'', PInt 2)]))
     (wait_for_retry 0 ''TimeoutError'' ''slow'' True) sample_workflow)"

theorem retry_and_replay_start_over_witness:
  "resume_workflow 3 (sample_host ''http'') ''w'' None None (stored_workflow sample_retrying) =
     start_workflow 3 (sample_host ''http'') ''go'' ''a'' (Some ''fetch_url'') (PDict [(''url'', PStr ''http://x/'')])
       None None None PNone ((stored_workflow sample_retrying)\<lparr>ticks := 1\<rparr>)"
proof -
  have "config_normal sample_retrying" and id: "wf_workflow_id sample_retrying = ''w''" by code_simp+
  then have load: "load_workflow ''w'' (stored_workflow sample_retrying) = (Inr sample_retrying, stored_workflow sample_retrying)"
    using load_stored [of sample_retrying] by simp
  have request: "wf_request sample_retrying = run_request sample_run []"
    and waits: "wf_status sample_retrying = Wf_waiting" by code_simp+
  have "case find_step sample_retrying (wf_current_step_id sample_retrying) of None \<Rightarrow> False
      | Some s \<Rightarrow> st_step_type s = Retry_wait \<and> detail s ''next_retry_at'' = Inr (FV_stamp (Some (utc_stamp 0)))"
    by code_simp
  then obtain s where s: "find_step sample_retrying (wf_current_step_id sample_retrying) = Some s"
    "st_step_type s = Retry_wait" "detail s ''next_retry_at'' = Inr (FV_stamp (Some (utc_stamp 0)))"
    by (auto split: option.splits)
  have t: "0 \<le> clk (stored_workflow sample_retrying) (ticks (stored_workflow sample_retrying))"
    "ticks (stored_workflow sample_retrying) = 0"
    by (simp_all add: stored_workflow_def sample_world_def)
  have ra: "ra_user_input sample_run = ''go''" "ra_agent_name sample_run = ''a''"
    "ra_tool_name sample_run = Some ''fetch_url''" "ra_tool_args sample_run = PDict [(''url'', PStr ''http://x/'')]"
    by (simp_all add: sample_run_def)
  show ?thesis
    using retry_and_replay_start_over [OF load request, of 3 "sample_host ''http''" None None] waits s t
    by (simp add: ra)
qed

text \<open>A run of \<open>memory_write\<close> that asks for an approval.\<close>

definition sample_memory_run :: run_args where
  "sample_memory_run = sample_run\<lparr>ra_tool_name := Some ''memory_write'',
     ra_tool_args := PDict [(''scope_kind'', PStr ''agent'')]\<rparr>"

definition sample_asking :: "run_state \<times> string list agent_world_scheme" where
  "sample_asking = ((new_run ''w'' Tool_step 0 None None)\<lparr>rs_workflow := Some sample_workflow\<rparr>, sample_world)"

definition sample_asked :: "(unit res) \<times> run_state \<times> string list agent_world_scheme" where
  "sample_asked = request_approval sample_memory_run (Some ''memory_write'')
     (PDict (memory_write_args (fst sample_asking) ''a'' [(''scope_kind'', PStr ''agent'')])) [] ''asked'' sample_asking"




end
