(* ===== verification/Grounding.thy ===== *)
theory Grounding
  imports Agent
begin

text \<open>
  src/runtime/assistant_grounding.py: the context that the assistant surfaces add to a prompt. It
  consists of sections of the documents of the repository, of what tools report (each call is
  guarded by the policy of the agent), and of texts chosen by keywords of the question. The files
  under docs/ and README.md are a parameter (\<open>as_docs\<close>), and so is the order in which Python traverses
  the set \<open>PROJECT_KEYWORDS\<close> (\<open>as_keywords\<close>), which decides between keywords of equal length.
\<close>

record 'w assistant =
  as_host :: "'w host"
  as_docs :: "string \<Rightarrow> string option"
  as_keywords :: "string list"

section \<open>Lines and regular expressions\<close>

text \<open>\<open>s.splitlines()\<close>\<close>

definition line_break :: "char \<Rightarrow> bool" where
  "line_break c \<longleftrightarrow> (let n = (of_char c :: nat) in 10 \<le> n \<and> n \<le> 13 \<or> 28 \<le> n \<and> n \<le> 30 \<or> n = 133)"

fun split_from :: "string \<Rightarrow> string \<Rightarrow> string list" where
  "split_from line [] = (if line = [] then [] else [line])"
| "split_from line (c # cs) =
     (if c = CHR 0x0D \<and> cs \<noteq> [] \<and> hd cs = CHR 0x0A then line # split_from [] (tl cs)
      else if line_break c then line # split_from [] cs
      else split_from (line @ [c]) cs)"

definition splitlines :: "string \<Rightarrow> string list" where
  "splitlines s = split_from [] s"

definition nl :: string where
  "nl = [CHR 0x0A]"

text \<open>
  \<open>re.findall\<close>: a matcher gives the length of the match at a position, of which it sees the character
  before and the text from there on; 0 is no match.
\<close>

function find_all :: "(char option \<Rightarrow> string \<Rightarrow> nat) \<Rightarrow> char option \<Rightarrow> string \<Rightarrow> string list" where
  "find_all m before [] = []"
| "find_all m before (c # cs) =
     (let n = m before (c # cs)
      in if n = 0 then find_all m (Some c) cs
         else take n (c # cs) # find_all m (Some (last (take n (c # cs)))) (drop n (c # cs)))"
  by pat_completeness auto
termination by (relation "measure (\<lambda>(m, before, s). length s)") auto

text \<open>The word characters of \<open>\w\<close> and the boundary \<open>\b\<close> next to a word.\<close>

definition word_char :: "char \<Rightarrow> bool" where
  "word_char c \<longleftrightarrow>
     (let n = (of_char c :: nat)
      in 48 \<le> n \<and> n \<le> 57 \<or> 65 \<le> n \<and> n \<le> 90 \<or> n = 95 \<or> 97 \<le> n \<and> n \<le> 122 \<or>
         n \<in> {170, 178, 179, 181, 185, 186, 188, 189, 190} \<or> 192 \<le> n \<and> n \<noteq> 215 \<and> n \<noteq> 247)"

definition boundary_before :: "char option \<Rightarrow> bool" where
  "boundary_before before \<longleftrightarrow> (case before of None \<Rightarrow> True | Some c \<Rightarrow> \<not> word_char c)"

definition boundary_after :: "string \<Rightarrow> bool" where
  "boundary_after rest \<longleftrightarrow> rest = [] \<or> \<not> word_char (hd rest)"

definition hex_digit :: "char \<Rightarrow> bool" where
  "hex_digit c \<longleftrightarrow>
     (let n = (of_char c :: nat) in 48 \<le> n \<and> n \<le> 57 \<or> 65 \<le> n \<and> n \<le> 70 \<or> 97 \<le> n \<and> n \<le> 102)"

text \<open>Eight, four, four, four and twelve hexadecimal digits with hyphens between them.\<close>

definition uuid_at :: "char option \<Rightarrow> string \<Rightarrow> nat" where
  "uuid_at before s =
     (let t = take 36 s
      in if boundary_before before \<and> length t = 36 \<and>
            list_all (\<lambda>i. if i \<in> {8, 13, 18, 23} then t ! i = CHR ''-'' else hex_digit (t ! i)) [0..<36] \<and>
            boundary_after (drop 36 s)
         then 36 else 0)"

text \<open>\<open>\bv\d+\.\d+(?:\.\d+)?\b\<close>, in either case of the letter.\<close>

definition version_at :: "char option \<Rightarrow> string \<Rightarrow> nat" where
  "version_at before s =
     (let major = takeWhile is_digit (drop 1 s);
          r1 = dropWhile is_digit (drop 1 s);
          minor = takeWhile is_digit (drop 1 r1);
          r2 = dropWhile is_digit (drop 1 r1);
          patch = takeWhile is_digit (drop 1 r2);
          r3 = dropWhile is_digit (drop 1 r2);
          short = 2 + length major + length minor
      in if \<not> (boundary_before before \<and> s \<noteq> [] \<and> hd s \<in> {CHR ''v'', CHR ''V''} \<and> major \<noteq> [] \<and>
               r1 \<noteq> [] \<and> hd r1 = CHR ''.'' \<and> minor \<noteq> []) then 0
         else if r2 \<noteq> [] \<and> hd r2 = CHR ''.'' \<and> patch \<noteq> [] \<and> boundary_after r3 then short + 1 + length patch
         else if boundary_after r2 then short
         else 0)"

text \<open>\<open>[a-zA-Z0-9_.-]+\<close>\<close>

definition query_char :: "char \<Rightarrow> bool" where
  "query_char c \<longleftrightarrow>
     (let n = (of_char c :: nat)
      in 48 \<le> n \<and> n \<le> 57 \<or> 65 \<le> n \<and> n \<le> 90 \<or> 97 \<le> n \<and> n \<le> 122 \<or> c \<in> set ''_.-'')"

definition query_word_at :: "char option \<Rightarrow> string \<Rightarrow> nat" where
  "query_word_at before s = length (takeWhile query_char s)"

text \<open>
  The items of the roadmap, \<open>^\d+\.\s+`(v1\.[3-9])`\s+-\s+(.+)$\<close> at the start of a line. White space may
  contain line ends; \<open>.+\<close> ends with its line, and where nothing but white space is left it takes
  the last character of it that is not a line end.
\<close>

definition rest_of_item :: "string \<Rightarrow> (string \<times> nat) option" where
  "rest_of_item s =
     (let ws = takeWhile py_space s; r = dropWhile py_space s
      in if ws = [] then None
         else if r \<noteq> [] then
           (let t = takeWhile (\<lambda>c. c \<noteq> CHR 0x0A) r in Some (t, length ws + length t))
         else case filter (\<lambda>i. ws ! i \<noteq> CHR 0x0A) (rev [1..<length ws]) of
                [] \<Rightarrow> None
              | i # _ \<Rightarrow> (let t = takeWhile (\<lambda>c. c \<noteq> CHR 0x0A) (drop i ws) in Some (t, i + length t)))"

definition match_item :: "string \<Rightarrow> (string \<times> string \<times> nat) option" where
  "match_item s =
     (let number = takeWhile is_digit s;
          r1 = drop (length number) s;
          ws1 = takeWhile py_space (drop 1 r1);
          r2 = drop (1 + length ws1) r1;
          version = take 4 (drop 1 r2);
          r3 = drop 6 r2;
          ws2 = takeWhile py_space r3;
          r4 = drop (length ws2) r3
      in if number \<noteq> [] \<and> take 1 r1 = ''.'' \<and> ws1 \<noteq> [] \<and> take 5 r2 = ''`v1.'' @ drop 3 version \<and>
            version \<noteq> [] \<and> last version \<in> set ''3456789'' \<and> length version = 4 \<and>
            take 1 (drop 5 r2) = ''`'' \<and> ws2 \<noteq> [] \<and> take 1 r4 = ''-''
         then (case rest_of_item (drop 1 r4) of
                 None \<Rightarrow> None
               | Some (t, n) \<Rightarrow>
                   Some (version, t, length number + 1 + length ws1 + 6 + length ws2 + 1 + n))
         else None)"

definition item_at :: "char option \<Rightarrow> string \<Rightarrow> nat" where
  "item_at before s =
     (if before = None \<or> before = Some (CHR 0x0A)
      then (case match_item s of None \<Rightarrow> 0 | Some (_, _, n) \<Rightarrow> n) else 0)"

section \<open>Keywords\<close>

definition GROUNDING_SURFACES :: "string list" where
  "GROUNDING_SURFACES =
    [''assistant_web'', ''embed_widget'']"

definition PROJECT_KEYWORDS :: "string list" where
  "PROJECT_KEYWORDS =
    [''clarityclaw'', ''clarityos'', ''roadmap'', ''milestone'', ''version'', ''workflow'',
     ''workflows'', ''session'', ''sessions'', ''operator'', ''widget'', ''assistant'', ''openclaw'',
     ''crewai'', ''react'', ''multi-agent'', ''multi agent'', ''runtime'', ''deployment'', ''release'',
     ''tool'', ''tools'', ''memory'', ''queue'', ''worker'', ''objective'', ''goal'', ''gaps'',
     ''gap'', ''compare'', ''comparison'', ''architecture'', ''where are we'',
     ''what'' @ [CHR 0x27] @ ''s next'', ''whats next'']"

definition STRUCTURED_KEYWORDS :: "string list" where
  "STRUCTURED_KEYWORDS =
    [''compare'', ''comparison'', ''gap'', ''gaps'', ''roadmap'', ''plan'', ''next'', ''objective'',
     ''goal'', ''where are we'', ''what is the objective'', ''openclaw'', ''crewai'', ''react'',
     ''architecture'', ''version'', ''milestone'']"

definition COMPARISON_KEYWORDS :: "string list" where
  "COMPARISON_KEYWORDS =
    [''compare'', ''comparison'', ''gap'', ''gaps'', ''versus'', ''vs'', ''better'', ''similar'',
     ''equal'', ''difference'', ''openclaw'', ''crewai'', ''react'']"

definition PLANNING_KEYWORDS :: "string list" where
  "PLANNING_KEYWORDS =
    [''plan'', ''roadmap'', ''next'', ''milestone'', ''priority'', ''prioritize'', ''slice'',
     ''release'', ''v1.'']"

definition SUMMARY_KEYWORDS :: "string list" where
  "SUMMARY_KEYWORDS =
    [''summarize'', ''summary'', ''summarise'', ''briefly'', ''improved'', ''what did'',
     ''what changed'', ''what improved'', ''what was accomplished'']"

definition STATUS_KEYWORDS :: "string list" where
  "STATUS_KEYWORDS =
    [''where are we'', ''current'', ''status'', ''objective'', ''goal'',
     ''what'' @ [CHR 0x27] @ ''s next'', ''whats next'']"

definition RUNTIME_KEYWORDS :: "string list" where
  "RUNTIME_KEYWORDS =
    [''workflow'', ''workflows'', ''session'', ''sessions'', ''queue'', ''worker'', ''workers'',
     ''tool'', ''tools'', ''runtime'', ''operator'', ''memory'', ''trace'']"

definition UI_KEYWORDS :: "string list" where
  "UI_KEYWORDS =
    [''assistant'', ''widget'', ''operator'', ''ui'', ''webui'', ''web'', ''embed'']"

definition STOP_WORDS :: "string list" where
  "STOP_WORDS =
    [''what'', ''which'', ''where'', ''when'', ''why'', ''how'', ''does'', ''is'', ''are'', ''the'',
     ''this'', ''that'', ''with'', ''from'', ''into'', ''about'', ''would'', ''could'', ''should'',
     ''have'', ''has'', ''been'', ''like'', ''system'', ''project'']"

definition EXTERNAL_FETCH_KEYWORDS :: "(string \<times> string) list" where
  "EXTERNAL_FETCH_KEYWORDS =
    [(''openclaw'', ''https://docs.openclaw.ai/''), (''openai'', ''https://platform.openai.com/docs/overview''),
     (''crewai'', ''https://docs.crewai.com/'')]"

definition MAX_GROUNDED_EXCERPTS :: nat where
  "MAX_GROUNDED_EXCERPTS = 4"

definition QUERY_TERM_ALIASES :: "string \<Rightarrow> string list" where
  "QUERY_TERM_ALIASES keyword =
     (if keyword = ''clarityclaw'' then [''clarityos''] else if keyword = ''clarityos'' then [''clarityclaw''] else [])"

text \<open>\<open>any(keyword in lowered for keyword in keywords)\<close>\<close>

definition mentions :: "string list \<Rightarrow> string \<Rightarrow> bool" where
  "mentions keywords text \<longleftrightarrow> list_ex (py_contains text) keywords"

definition assistant_surface_grounding_enabled :: "pyval \<Rightarrow> bool" where
  "assistant_surface_grounding_enabled surface =
     (case surface of PStr s \<Rightarrow> s \<in> set GROUNDING_SURFACES | _ \<Rightarrow> False)"

definition looks_like_project_question :: "string \<Rightarrow> bool" where
  "looks_like_project_question user_input = mentions PROJECT_KEYWORDS (py_lower user_input)"

text \<open>The modes form a set; here a list with at most one of each.\<close>

definition question_modes :: "string \<Rightarrow> string list" where
  "question_modes user_input =
     (let lowered = py_lower user_input;
          modes = (if mentions SUMMARY_KEYWORDS lowered then [''summary''] else []) @
                  (if mentions COMPARISON_KEYWORDS lowered then [''comparison''] else []) @
                  (if mentions PLANNING_KEYWORDS lowered then [''plan''] else []) @
                  (if mentions STATUS_KEYWORDS lowered then [''status''] else [])
      in if modes = [] \<and> mentions STRUCTURED_KEYWORDS lowered then [''structured''] else modes)"

section \<open>Sections of the documents\<close>

definition context_entry :: "string \<Rightarrow> string \<Rightarrow> string \<Rightarrow> pydict" where
  "context_entry title source content =
     [(''title'', PStr title), (''source'', PStr source), (''content'', PStr content)]"

definition read_text :: "'w assistant \<Rightarrow> string \<Rightarrow> string res" where
  "read_text a path =
     (case as_docs a path of
        None \<Rightarrow> Inl (FileNotFoundError (''No such file or directory: '' @ path)) | Some s \<Rightarrow> Inr s)"

definition non_blank :: "string \<Rightarrow> bool" where
  "non_blank line \<longleftrightarrow> py_strip line \<noteq> []"

definition extract_readme_status_section :: "'w assistant \<Rightarrow> string res" where
  "extract_readme_status_section a =
     res_bind (read_text a ''README.md'') (\<lambda>text.
       let lines = takeWhile (\<lambda>line. \<not> py_startswith line ''## Historical Docs'') (splitlines text)
       in Inr (py_strip (py_join nl (filter non_blank lines))))"

text \<open>
  The non-blank lines of the sections whose heading starts with a text, up to the next heading of the
  second level, after which the loop ends. A further heading with that start only restarts it.
\<close>

fun section_lines :: "string \<Rightarrow> bool \<Rightarrow> string list \<Rightarrow> string list" where
  "section_lines heading inside [] = []"
| "section_lines heading inside (line # ls) =
     (if py_startswith line heading then section_lines heading True ls
      else if inside \<and> py_startswith line ''## '' then []
      else if inside \<and> non_blank line then line # section_lines heading inside ls
      else section_lines heading inside ls)"

definition roadmap_item_line :: "string \<Rightarrow> string" where
  "roadmap_item_line item =
     (case match_item item of None \<Rightarrow> [] | Some (version, t, _) \<Rightarrow> ''- '' @ version @ '': '' @ t)"

definition extract_roadmap_summary :: "'w assistant \<Rightarrow> string res" where
  "extract_roadmap_summary a =
     res_bind (read_text a ''docs/roadmap.md'') (\<lambda>text.
       let current_status = section_lines ''## Current Status'' False (splitlines text);
           proposed = map roadmap_item_line (find_all item_at None text);
           sections =
             (if current_status = [] then [] else [''Current roadmap status:'' @ nl @ py_join nl current_status]) @
             (if proposed = [] then [] else [''Proposed next roadmap:'' @ nl @ py_join nl proposed])
       in Inr (py_strip (py_join (nl @ nl) sections)))"

definition repo_grounding_context :: "'w assistant \<Rightarrow> pydict list res" where
  "repo_grounding_context a =
     res_bind (extract_readme_status_section a) (\<lambda>status.
     res_bind (extract_roadmap_summary a) (\<lambda>roadmap.
       Inr [context_entry ''ClarityClaw repository status'' ''README.md'' status,
            context_entry ''ClarityClaw roadmap summary'' ''docs/roadmap.md'' roadmap]))"

definition extract_markdown_section :: "string \<Rightarrow> string \<Rightarrow> string" where
  "extract_markdown_section text heading =
     py_strip (py_join nl (section_lines (''## '' @ heading) False (splitlines text)))"

definition mentioned_versions :: "string \<Rightarrow> string list" where
  "mentioned_versions user_input = dedupe [] (map py_lower (find_all version_at None user_input))"

definition milestone_entries :: "'w assistant \<Rightarrow> string list \<Rightarrow> string \<Rightarrow> pydict list" where
  "milestone_entries a modes version =
     (let path = ''docs/history/'' @ version @ ''.md''
      in case as_docs a path of
           None \<Rightarrow> []
         | Some text \<Rightarrow>
             let added = extract_markdown_section text (''What '' @ version @ '' Added'');
                 supported = extract_markdown_section text ''Supported Shape''
             in (if added = [] then [] else [context_entry (version @ '' shipped changes'') path added]) @
                (if (''summary'' \<in> set modes \<or> ''status'' \<in> set modes) \<and> supported \<noteq> []
                 then [context_entry (version @ '' supported shape'') (path @ ''#supported-shape'') supported]
                 else []))"

definition milestone_history_context :: "'w assistant \<Rightarrow> string \<Rightarrow> pydict list" where
  "milestone_history_context a user_input =
     concat (map (milestone_entries a (question_modes user_input)) (take 2 (mentioned_versions user_input)))"

section \<open>Guidance\<close>

definition answer_guidance :: "string \<Rightarrow> string" where
  "answer_guidance user_input =
     (if question_modes user_input \<noteq> [] \<or> mentions STRUCTURED_KEYWORDS (py_lower user_input) then
        ''Ground the answer in the supplied project context and avoid generic software advice. '' @
        ''Prefer short structured sections or bullets. Name concrete shipped changes instead of abstract themes. '' @
        ''Answer the question that was asked, and do not jump to future milestones unless the user asked for them. '' @
        ''When relevant, cover current state, gaps, and the next recommendation. If the supplied context is insufficient, say what is missing.''
      else
        ''Ground the answer in the supplied project context, keep it concise, answer the asked question directly, '' @
        ''and avoid generic unsupported claims.'')"

definition answer_shape :: "string list \<Rightarrow> string" where
  "answer_shape items = py_join nl (''Use this answer shape:'' # map (\<lambda>i. ''- '' @ i) items)"

definition answer_structure_hint :: "string \<Rightarrow> pydict option" where
  "answer_structure_hint user_input =
     (let modes = question_modes user_input;
          content =
            (if ''comparison'' \<in> set modes \<and> ''plan'' \<in> set modes then answer_shape
               [''Current position: where ClarityClaw stands now in the compared area'',
                ''Similarities: the strongest overlaps worth naming'',
                ''Gaps: the main missing capabilities or weaker areas'',
                ''Next milestone priority: the smallest next move that closes the most important gap'']
             else if ''comparison'' \<in> set modes then answer_shape
               [''Current position: the short bottom line first'',
                ''Similarities: where the systems are meaningfully alike'',
                ''Gaps: what ClarityClaw still lacks or does differently'',
                ''Recommendation: what to prioritize next'']
             else if ''summary'' \<in> set modes then answer_shape
               [''Bottom line: one sentence on what changed'',
                ''Concrete improvements: 3 to 5 specific shipped changes'',
                ''User-visible impact: why those changes matter in practice'',
                ''Keep the answer on the asked milestone unless future milestones were explicitly requested'']
             else if ''plan'' \<in> set modes then answer_shape
               [''Objective: what the milestone is trying to achieve'',
                ''Current state: what already exists in the repo'',
                ''Next slices: the best ordered next moves'',
                ''Out of scope: what should not be chased yet'']
             else if ''status'' \<in> set modes then answer_shape
               [''Objective'', ''Where we are now'', ''What is working'', ''What should happen next'']
             else ''Use a short structured answer with a clear bottom line first, then grounded supporting points.'')
      in if modes = [] then None
         else Some (context_entry ''Suggested answer structure'' ''answer_structure'' content))"

text \<open>The keywords in the order of their length, the longest first, until three terms are found.\<close>

fun prioritized_terms :: "string \<Rightarrow> string list \<Rightarrow> string list \<Rightarrow> string list" where
  "prioritized_terms lowered found [] = found"
| "prioritized_terms lowered found (keyword # ks) =
     (let found' = (if py_contains lowered keyword \<and> keyword \<notin> set found
                    then (let f = found @ [keyword] in f @ filter (\<lambda>t. t \<notin> set f) (QUERY_TERM_ALIASES keyword))
                    else found)
      in if 3 \<le> length found' then found' else prioritized_terms lowered found' ks)"

fun fallback_terms :: "string list \<Rightarrow> string list \<Rightarrow> string list" where
  "fallback_terms found [] = found"
| "fallback_terms found (token # ts) =
     (if length token < 5 \<or> token \<in> set STOP_WORDS \<or> token \<in> set found then fallback_terms found ts
      else if 3 \<le> length (found @ [token]) then found @ [token]
      else fallback_terms (found @ [token]) ts)"

definition extract_query_terms :: "'w assistant \<Rightarrow> string \<Rightarrow> string list" where
  "extract_query_terms a user_input =
     (let lowered = py_lower user_input;
          prioritized = prioritized_terms lowered [] (sort_key (\<lambda>k. - int (length k)) (as_keywords a))
      in if 3 \<le> length prioritized then prioritized
         else fallback_terms prioritized (find_all query_word_at None lowered))"

definition repo_search_specs :: "string \<Rightarrow> (string \<times> string) list" where
  "repo_search_specs user_input =
     (let lowered = py_lower user_input
      in [(''.'', ''*.md'')] @
         (if mentions RUNTIME_KEYWORDS lowered then [(''runtime'', ''*.py'')] else []) @
         (if mentions UI_KEYWORDS lowered then [(''ui'', ''*.html'')] else []))"

text \<open>\<open>s[:limit - 3].rstrip() + "..."\<close> for a text longer than the limit.\<close>

definition shorten :: "int \<Rightarrow> string \<Rightarrow> string" where
  "shorten n s = (if int (length s) \<le> n then s else py_rstrip (py_upto s (n - 3)) @ ''...'')"

definition normalize_excerpt_content :: "string \<Rightarrow> string" where
  "normalize_excerpt_content content = shorten 500 (py_strip content)"

section \<open>Tools\<close>

text \<open>\<open>tool_name not in agent_config.get("tools", [])\<close>, where \<open>None\<close> is no container.\<close>

definition tool_permitted_for_agent :: "'w assistant \<Rightarrow> string \<Rightarrow> string \<Rightarrow> pydict \<Rightarrow> bool res" where
  "tool_permitted_for_agent a agent_name tool_name tool_args =
     (let pe = h_policy_env (as_host a)
      in res_bind (load_agent pe agent_name) (\<lambda>config.
         res_bind (case dict_get_or config ''tools'' (PList []) of
                     PNone \<Rightarrow> Inl (TypeError ''argument of type NoneType is not iterable'')
                   | tools \<Rightarrow> tool_allowed tool_name tools) (\<lambda>listed.
           if \<not> listed then Inr False
           else
             res_bind (get_tool_definition tool_name) (\<lambda>td.
             res_bind (tool_action td tool_args) (\<lambda>action.
             res_bind (build_agent_policy pe config) (\<lambda>policy.
             res_bind (evaluate_policy pe policy action) (\<lambda>decision. Inr (pd_allowed decision))))))))"

definition guarded_tool_call ::
    "'z agent_world_scheme assistant \<Rightarrow> string \<Rightarrow> string \<Rightarrow> pydict \<Rightarrow> ('z agent_world_scheme, pydict option) io" where
  "guarded_tool_call a agent_name tool_name tool_args =
     io_bind (io_lift (tool_permitted_for_agent a agent_name tool_name tool_args)) (\<lambda>permitted.
       if \<not> permitted then io_return None
       else io_bind (call_tool (as_host a) tool_name (PDict tool_args)) (\<lambda>result.
              io_return (if py_truthy (dict_get result ''ok'') then Some result else None)))"

text \<open>\<open>result["output"]["value"]\<close>, and \<open>v.get(k, default)\<close> of a value that may be no object.\<close>

definition reported_value :: "pydict \<Rightarrow> pyval res" where
  "reported_value result =
     res_bind (res_bind (dict_item result ''output'') object_of) (\<lambda>output. dict_item output ''value'')"

definition value_get :: "pyval \<Rightarrow> string \<Rightarrow> pyval \<Rightarrow> pyval res" where
  "value_get v k dflt = (case v of PDict d \<Rightarrow> Inr (dict_get_or d k dflt) | _ \<Rightarrow> Inl attribute_error)"

definition or_value :: "pyval \<Rightarrow> pyval \<Rightarrow> pyval" where
  "or_value v w = (if py_truthy v then v else w)"

definition labelled :: "string \<Rightarrow> pyval \<Rightarrow> string res" where
  "labelled label v = Inr (label @ py_str v)"

definition field_line :: "string \<Rightarrow> pyval \<Rightarrow> string \<Rightarrow> string res" where
  "field_line label v k = res_bind (value_get v k PNone) (labelled label)"

text \<open>The summary of a view where it is a text that is not blank.\<close>

definition own_summary :: "pyval \<Rightarrow> string option res" where
  "own_summary view =
     res_bind (value_get view ''summary'' PNone) (\<lambda>summary.
       Inr (case summary of PStr s \<Rightarrow> if py_strip s \<noteq> [] then Some s else None | _ \<Rightarrow> None))"

definition summarize_session_inspection :: "pyval \<Rightarrow> string res" where
  "summarize_session_inspection view =
     res_bind (own_summary view) (\<lambda>summary.
       case summary of
         Some s \<Rightarrow> Inr s
       | None \<Rightarrow>
           res_bind (value_get view ''session'' (PDict [])) (\<lambda>session_info.
           res_bind (value_get view ''current_workflow'' PNone) (\<lambda>current.
           res_bind (value_get view ''continuity'' PNone) (\<lambda>found.
             let workflow = or_value current (PDict []); continuity = or_value found (PDict [])
             in res_bind (res_map (\<lambda>(label, v, k). field_line label v k)
               [(''Session status: '', session_info, ''status''), (''Agent: '', session_info, ''agent''),
                (''Current workflow: '', session_info, ''current_workflow_id''),
                (''Workflow count: '', session_info, ''workflow_count''),
                (''Message count: '', session_info, ''message_count''),
                (''Current workflow status: '', workflow, ''status''),
                (''Current step: '', workflow, ''current_step''),
                (''Recent continuity memories: '', continuity, ''recent_count'')])
                  (\<lambda>lines. Inr (py_join nl lines))))))"

definition summarize_workflow_inspection :: "pyval \<Rightarrow> string res" where
  "summarize_workflow_inspection view =
     res_bind (own_summary view) (\<lambda>summary.
       case summary of
         Some s \<Rightarrow> Inr s
       | None \<Rightarrow>
           res_bind (value_get view ''workflow'' (PDict [])) (\<lambda>workflow.
           res_bind (value_get view ''current_step'' PNone) (\<lambda>step.
           res_bind (value_get view ''incident'' PNone) (\<lambda>found.
             let current_step = or_value step (PDict []); incident = or_value found (PDict [])
             in res_bind (res_map (\<lambda>(label, v, k). field_line label v k)
               [(''Workflow status: '', workflow, ''status''), (''Agent: '', workflow, ''agent''),
                (''Run type: '', workflow, ''run_type'')]) (\<lambda>lines.
                res_bind (value_get current_step ''step_type'' PNone) (\<lambda>step_type.
                res_bind (value_get current_step ''status'' PNone) (\<lambda>status.
                res_bind (field_line ''Failure summary: '' view ''failure'') (\<lambda>failure.
                res_bind (field_line ''Incident rollup: '' incident ''rollup'') (\<lambda>rollup.
                  Inr (py_join nl (lines @ [''Current step: '' @ py_str step_type @ '' ('' @ py_str status @ '')'',
                                            failure, rollup])))))))))))"

text \<open>What one of the inspection tools reports of an identifier in the question.\<close>

definition inspection_entry ::
    "'z agent_world_scheme assistant \<Rightarrow> string \<Rightarrow> string \<Rightarrow> string \<Rightarrow> ('z agent_world_scheme, pydict option) io" where
  "inspection_entry a agent_name kind identifier =
     io_bind (guarded_tool_call a agent_name (''inspect_'' @ kind) [(kind @ ''_id'', PStr identifier)]) (\<lambda>result.
       case result of
         None \<Rightarrow> io_return None
       | Some r \<Rightarrow>
           io_bind (io_lift (reported_value r)) (\<lambda>view.
           io_bind (io_lift (if kind = ''session'' then summarize_session_inspection view
                             else summarize_workflow_inspection view)) (\<lambda>content.
             io_return (Some (context_entry
               (if kind = ''session'' then ''Session inspection summary'' else ''Workflow inspection summary'')
               (''inspect_'' @ kind @ '':'' @ identifier) content)))))"

fun identifier_entries ::
    "'z agent_world_scheme assistant \<Rightarrow> string \<Rightarrow> string \<Rightarrow> (string \<times> string) list \<Rightarrow> (string \<times> string) list
      \<Rightarrow> ('z agent_world_scheme, pydict list) io" where
  "identifier_entries a agent_name lowered seen [] = io_return []"
| "identifier_entries a agent_name lowered seen ((kind, identifier) # rest) =
     (if py_contains lowered kind \<and> (kind, identifier) \<notin> set seen then
        io_bind (inspection_entry a agent_name kind identifier) (\<lambda>entry.
          case entry of
            None \<Rightarrow> identifier_entries a agent_name lowered seen rest
          | Some e \<Rightarrow>
              io_bind (identifier_entries a agent_name lowered ((kind, identifier) # seen) rest)
                (\<lambda>es. io_return (e # es)))
      else identifier_entries a agent_name lowered seen rest)"

definition runtime_identifier_context ::
    "'z agent_world_scheme assistant \<Rightarrow> string \<Rightarrow> string \<Rightarrow> ('z agent_world_scheme, pydict list) io" where
  "runtime_identifier_context a agent_name user_input =
     identifier_entries a agent_name (py_lower user_input) []
       (concat (map (\<lambda>i. [(''session'', i), (''workflow'', i)]) (take 2 (find_all uuid_at None user_input))))"

definition fetched_entry :: "string \<Rightarrow> string \<Rightarrow> pyval \<Rightarrow> pydict res" where
  "fetched_entry keyword url v =
     res_bind (value_get v ''url'' (PStr url)) (\<lambda>source.
     res_bind (value_get v ''summary'' PNone) (\<lambda>summary.
     res_bind (value_get v ''content_preview'' PNone) (\<lambda>preview.
     res_bind (value_get v ''content'' (PStr [])) (\<lambda>content.
       Inr [(''title'', PStr (''Fetched external reference for `'' @ keyword @ ''`'')), (''source'', source),
            (''content'', PStr (normalize_excerpt_content
               (py_str (or_value summary (or_value preview content)))))]))))"

fun external_entries ::
    "'z agent_world_scheme assistant \<Rightarrow> string \<Rightarrow> (string \<times> string) list
      \<Rightarrow> ('z agent_world_scheme, pydict list) io" where
  "external_entries a agent_name [] = io_return []"
| "external_entries a agent_name ((keyword, url) # rest) =
     io_bind (guarded_tool_call a agent_name ''fetch_url'' [(''url'', PStr url), (''max_chars'', PInt 1200)]) (\<lambda>result.
       case result of
         None \<Rightarrow> external_entries a agent_name rest
       | Some r \<Rightarrow>
           io_bind (io_lift (res_bind (reported_value r) (fetched_entry keyword url))) (\<lambda>e.
           io_bind (external_entries a agent_name rest) (\<lambda>es. io_return (e # es))))"

definition external_fetch_context ::
    "'z agent_world_scheme assistant \<Rightarrow> string \<Rightarrow> string \<Rightarrow> ('z agent_world_scheme, pydict list) io" where
  "external_fetch_context a agent_name user_input =
     external_entries a agent_name
       (filter (\<lambda>(keyword, _). py_contains (py_lower user_input) keyword) EXTERNAL_FETCH_KEYWORDS)"

text \<open>The excerpt around one hit of a search, where there is one and it has a text.\<close>

definition excerpt_entry :: "string \<Rightarrow> pyval \<Rightarrow> pydict \<Rightarrow> pyval \<Rightarrow> pydict option res" where
  "excerpt_entry term hit_path hit excerpt =
     res_bind (value_get excerpt ''content'' (PStr [])) (\<lambda>raw.
       let content = normalize_excerpt_content (py_str raw);
           header = or_value (dict_get hit ''match_preview'') (or_value (dict_get hit ''line'') (PStr term))
       in if content = [] then Inr None
          else
            res_bind (res_bind (object_of excerpt) (\<lambda>d. dict_item d ''start_line'')) (\<lambda>first.
            res_bind (res_bind (object_of excerpt) (\<lambda>d. dict_item d ''end_line'')) (\<lambda>last_line.
              Inr (Some (context_entry (''Relevant excerpt for `'' @ py_str header @ ''`'')
                (py_str hit_path @ '':'' @ py_str first @ ''-'' @ py_str last_line) content)))))"

text \<open>
  The loop over hits with the places seen and the excerpts collected so far; it stops as soon as there
  are as many excerpts as are wanted, and so do the loops over terms and paths around it.
\<close>

fun collect_hits ::
    "'z agent_world_scheme assistant \<Rightarrow> string \<Rightarrow> string \<Rightarrow> pyval list \<Rightarrow> (string \<times> int) list \<times> pydict list
      \<Rightarrow> ('z agent_world_scheme, (string \<times> int) list \<times> pydict list) io" where
  "collect_hits a agent_name term [] found = io_return found"
| "collect_hits a agent_name term (hit # hits) (seen, excerpts) =
     io_bind (io_lift (case hit of PDict d \<Rightarrow> Inr d | _ \<Rightarrow> Inl attribute_error)) (\<lambda>d.
       case (dict_get d ''path'', py_int (dict_get d ''line_number'')) of
         (PStr path, Some line) \<Rightarrow>
           if (path, line) \<in> set seen then collect_hits a agent_name term hits (seen, excerpts)
           else
             io_bind (guarded_tool_call a agent_name ''read_file_range''
                 [(''path'', PStr path), (''start_line'', PInt (max 1 (line - 1))), (''end_line'', PInt (line + 2))])
               (\<lambda>result.
                 case result of
                   None \<Rightarrow> collect_hits a agent_name term hits ((path, line) # seen, excerpts)
                 | Some r \<Rightarrow>
                     io_bind (io_lift (res_bind (reported_value r) (excerpt_entry term (PStr path) d))) (\<lambda>entry.
                       let excerpts' = excerpts @ (case entry of None \<Rightarrow> [] | Some e \<Rightarrow> [e])
                       in if MAX_GROUNDED_EXCERPTS \<le> length excerpts'
                          then io_return ((path, line) # seen, excerpts')
                          else collect_hits a agent_name term hits ((path, line) # seen, excerpts')))
       | _ \<Rightarrow> collect_hits a agent_name term hits (seen, excerpts))"

fun collect_searches ::
    "'z agent_world_scheme assistant \<Rightarrow> string \<Rightarrow> (string \<times> string \<times> string) list
      \<Rightarrow> (string \<times> int) list \<times> pydict list \<Rightarrow> ('z agent_world_scheme, pydict list) io" where
  "collect_searches a agent_name [] found = io_return (snd found)"
| "collect_searches a agent_name ((path, pattern, term) # rest) found =
     io_bind (guarded_tool_call a agent_name ''search_files''
         [(''path'', PStr path), (''query'', PStr term), (''pattern'', PStr pattern), (''limit'', PInt 2)]) (\<lambda>result.
       case result of
         None \<Rightarrow> collect_searches a agent_name rest found
       | Some r \<Rightarrow>
           io_bind (io_lift (res_bind (res_bind (reported_value r)
               (\<lambda>v. value_get v ''hits'' (PList []))) iter_values)) (\<lambda>hits.
           io_bind (collect_hits a agent_name term hits found) (\<lambda>found'.
             if MAX_GROUNDED_EXCERPTS \<le> length (snd found') then io_return (snd found')
             else collect_searches a agent_name rest found')))"

definition tool_guided_context ::
    "'z agent_world_scheme assistant \<Rightarrow> string \<Rightarrow> string \<Rightarrow> ('z agent_world_scheme, pydict list) io" where
  "tool_guided_context a agent_name user_input =
     (let terms = extract_query_terms a user_input
      in collect_searches a agent_name
           (concat (map (\<lambda>(path, pattern). map (\<lambda>term. (path, pattern, term)) terms) (repo_search_specs user_input)))
           ([], []))"

section \<open>The context of a question\<close>

definition evidence_line :: "pydict \<Rightarrow> string option" where
  "evidence_line entry =
     (let title = py_strip (py_str (dict_get_or entry ''title'' (PStr ''Context'')));
          source = py_strip (py_str (dict_get_or entry ''source'' (PStr [])));
          content = normalize_excerpt_content (py_str (dict_get_or entry ''content'' (PStr [])));
          label = (if source = [] then title else title @ '' ['' @ source @ '']'')
      in if content = [] then None else Some (''- '' @ label @ '': '' @ hd (splitlines content)))"

definition evidence_guidance :: "string \<Rightarrow> string" where
  "evidence_guidance user_input =
     (let modes = question_modes user_input
      in if ''comparison'' \<in> set modes then
           ''Use the evidence below to support a comparison-focused answer. Start with the bottom line, '' @
           ''then name the strongest similarities, then the biggest gaps, then the next recommendation.''
         else if ''summary'' \<in> set modes then
           ''Use the evidence below to support a concrete summary. Start with the bottom line, '' @
           ''then name the shipped changes directly from the evidence, then explain the practical impact. '' @
           ''Do not drift into future milestones unless the user asked for them.''
         else if ''plan'' \<in> set modes then
           ''Use the evidence below to support a plan-focused answer. Start with the objective and current state, '' @
           ''then propose the next slices or priorities.''
         else if ''status'' \<in> set modes \<or> mentions STRUCTURED_KEYWORDS (py_lower user_input) then
           ''Use the evidence below to support the final answer. Prefer a concise answer with a short current-state summary, '' @
           ''then key evidence or gaps, then the next recommendation.''
         else ''Use the evidence below directly and avoid unsupported generalizations.'')"

fun hashable :: "pyval \<Rightarrow> bool" where
  "hashable (PList vs) = False"
| "hashable (PDict d) = False"
| "hashable _ = True"

definition is_evidence :: "pydict \<Rightarrow> bool res" where
  "is_evidence entry =
     (let source = dict_get entry ''source''
      in if \<not> hashable source then Inl (TypeError ''unhashable type'')
         else Inr (source \<notin> PStr ` set [''README.md'', ''docs/roadmap.md'', ''assistant_profile'']))"

definition build_grounding_summary :: "string \<Rightarrow> pydict list \<Rightarrow> pydict option res" where
  "build_grounding_summary user_input context =
     res_bind (res_filter is_evidence context) (\<lambda>evidence.
       let lines = List.map_filter evidence_line (take MAX_GROUNDED_EXCERPTS evidence)
       in Inr (if lines = [] then None
               else Some (context_entry ''Working answer frame'' ''grounding_summary''
                      (evidence_guidance user_input @ nl @ py_join nl lines))))"

definition build_assistant_prompt_context ::
    "'z agent_world_scheme assistant \<Rightarrow> pyval \<Rightarrow> string \<Rightarrow> string \<Rightarrow> ('z agent_world_scheme, pydict list) io" where
  "build_assistant_prompt_context a surface user_input agent_name =
     (if \<not> assistant_surface_grounding_enabled surface \<or> \<not> looks_like_project_question user_input then io_return []
      else
        io_bind (io_lift (repo_grounding_context a)) (\<lambda>repo.
        io_bind (runtime_identifier_context a agent_name user_input) (\<lambda>identifiers.
        io_bind (tool_guided_context a agent_name user_input) (\<lambda>excerpts.
        io_bind (external_fetch_context a agent_name user_input) (\<lambda>fetched.
          let context = repo @ milestone_history_context a user_input @ identifiers @ excerpts @ fetched
          in io_bind (io_lift (build_grounding_summary user_input context)) (\<lambda>summary.
               io_return (context @
                 (case summary of None \<Rightarrow> [] | Some e \<Rightarrow> [e]) @
                 (case answer_structure_hint user_input of None \<Rightarrow> [] | Some e \<Rightarrow> [e]) @
                 [context_entry ''Answer guidance'' ''assistant_profile'' (answer_guidance user_input)])))))))"

end
