(* ===== verification/Session.thy ===== *)
theory Session
  imports Grounding Workflow_Runner
begin

text \<open>
  src/runtime/session.py: the conversations of the assistant surfaces. A session is one file with its
  messages, the workflows they started, an owner's token hash, a history of changes, and summaries
  (compactions) that carry earlier messages on into later prompts. The files hold JSON objects, so
  loading normalises what it reads. SHA-256 is a parameter (\<open>sv_hash\<close>), the tokens of
  \<open>secrets.token_urlsafe\<close> are a supply like the identifiers, and \<open>sv_passes\<close> bounds the passes of the
  runs that messages start. Timestamps are the texts the code stores.
\<close>

record 'w services =
  sv_assistant :: "'w assistant"
  sv_hash :: "string \<Rightarrow> string"
  sv_passes :: nat

record session_world = agent_world +
  session_files :: state_dir
  token_supply :: "nat \<Rightarrow> string"
  token_n :: nat

definition SESSION_STATE_SCHEMA :: string where
  "SESSION_STATE_SCHEMA = ''session.v1''"

definition DEFAULT_SESSION_AUTH_HEADER :: string where
  "DEFAULT_SESSION_AUTH_HEADER = ''X-Session-Token''"

section \<open>Names\<close>

datatype session_status = Ss_open | Ss_active | Ss_waiting | Ss_errored | Ss_archived | Ss_recovered

fun session_status_name :: "session_status \<Rightarrow> string" where
  "session_status_name Ss_open = ''open''"
| "session_status_name Ss_active = ''active''"
| "session_status_name Ss_waiting = ''waiting''"
| "session_status_name Ss_errored = ''errored''"
| "session_status_name Ss_archived = ''archived''"
| "session_status_name Ss_recovered = ''recovered''"

definition SESSION_STATUSES :: "session_status list" where
  "SESSION_STATUSES = [Ss_open, Ss_active, Ss_waiting, Ss_errored, Ss_archived, Ss_recovered]"

fun SESSION_STATUS_TRANSITIONS :: "session_status \<Rightarrow> session_status list" where
  "SESSION_STATUS_TRANSITIONS Ss_open = [Ss_active, Ss_waiting, Ss_errored, Ss_archived]"
| "SESSION_STATUS_TRANSITIONS Ss_active = [Ss_active, Ss_waiting, Ss_errored, Ss_archived]"
| "SESSION_STATUS_TRANSITIONS Ss_waiting = [Ss_active, Ss_waiting, Ss_errored, Ss_recovered, Ss_archived]"
| "SESSION_STATUS_TRANSITIONS Ss_errored = [Ss_active, Ss_waiting, Ss_recovered, Ss_archived]"
| "SESSION_STATUS_TRANSITIONS Ss_recovered = [Ss_active, Ss_waiting, Ss_errored, Ss_archived]"
| "SESSION_STATUS_TRANSITIONS Ss_archived = []"

datatype message_role = User | Assistant | System

fun message_role_name :: "message_role \<Rightarrow> string" where
  "message_role_name User = ''user''"
| "message_role_name Assistant = ''assistant''"
| "message_role_name System = ''system''"

datatype message_status = Submitted | Completed | Msg_waiting | Errored

fun message_status_name :: "message_status \<Rightarrow> string" where
  "message_status_name Submitted = ''submitted''"
| "message_status_name Completed = ''completed''"
| "message_status_name Msg_waiting = ''waiting''"
| "message_status_name Errored = ''errored''"

definition CONTINUITY_COMPACTION_STRATEGY :: string where
  "CONTINUITY_COMPACTION_STRATEGY = ''session_compaction_v1''"

definition MAX_STORED_COMPACTIONS :: nat where "MAX_STORED_COMPACTIONS = 5"
definition CONTINUITY_KEEP_RECENT_MESSAGES :: int where "CONTINUITY_KEEP_RECENT_MESSAGES = 6"
definition CONTINUITY_RECENT_MESSAGE_LIMIT :: int where "CONTINUITY_RECENT_MESSAGE_LIMIT = 4"
definition CONTINUITY_SOURCE_MEMORY_LIMIT :: int where "CONTINUITY_SOURCE_MEMORY_LIMIT = 4"
definition CONTINUITY_MAX_SUMMARY_CHARS :: int where "CONTINUITY_MAX_SUMMARY_CHARS = 900"
definition CONTINUITY_MAX_UNCOMPACTED_MESSAGES :: int where "CONTINUITY_MAX_UNCOMPACTED_MESSAGES = 8"
definition CONTINUITY_MAX_MESSAGES_BEFORE_COMPACTION :: int where "CONTINUITY_MAX_MESSAGES_BEFORE_COMPACTION = 12"

section \<open>Timestamps\<close>

text \<open>
  \<open>datetime.fromisoformat\<close> on the extended format \<open>YYYY-MM-DD\<close>, alone or with a separator, a time of
  hours, minutes, seconds and a fraction, and an offset or Z. The basic format without hyphens and
  week dates are not modelled; \<open>write_session\<close> stores what \<open>isoformat\<close> gives.
\<close>

definition fixed_digits :: "nat \<Rightarrow> string \<Rightarrow> nat option" where
  "fixed_digits n s = (if length s = n \<and> list_all is_digit s then Some (int_of_digits s) else None)"

definition leap_year :: "nat \<Rightarrow> bool" where
  "leap_year y \<longleftrightarrow> y mod 4 = 0 \<and> (y mod 100 \<noteq> 0 \<or> y mod 400 = 0)"

definition month_days :: "nat \<Rightarrow> nat \<Rightarrow> nat" where
  "month_days y m = (if m = 2 then (if leap_year y then 29 else 28) else if m \<in> {4, 6, 9, 11} then 30 else 31)"

text \<open>Days since 1970-01-01 of a civil date.\<close>

definition civil_day :: "int \<Rightarrow> int \<Rightarrow> int \<Rightarrow> int" where
  "civil_day y m d =
     (let y' = (if m \<le> 2 then y - 1 else y);
          era = y' div 400;
          yoe = y' mod 400;
          doy = (153 * (if m > 2 then m - 3 else m + 9) + 2) div 5 + d - 1
      in era * 146097 + yoe * 365 + yoe div 4 - yoe div 100 + doy - 719468)"

definition parse_date :: "string \<Rightarrow> int option" where
  "parse_date s =
     (case (fixed_digits 4 (take 4 s), fixed_digits 2 (take 2 (drop 5 s)), fixed_digits 2 (drop 8 s)) of
        (Some y, Some m, Some d) \<Rightarrow>
          if s ! 4 = CHR ''-'' \<and> s ! 7 = CHR ''-'' \<and> 1 \<le> y \<and> 1 \<le> m \<and> m \<le> 12 \<and> 1 \<le> d \<and> d \<le> month_days y m
          then Some (civil_day (int y) (int m) (int d)) else None
      | _ \<Rightarrow> None)"

text \<open>Microseconds of a fraction; further digits are cut off.\<close>

definition parse_fraction :: "string \<Rightarrow> int option" where
  "parse_fraction s =
     (if s = [] then Some 0
      else if hd s \<in> set ''.,'' \<and> tl s \<noteq> [] \<and> list_all is_digit (tl s)
           then Some (int (int_of_digits (take 6 (tl s @ ''00000''))))
           else None)"

text \<open>\<open>HH[:MM[:SS[.f]]]\<close> in microseconds, each part below its bound.\<close>

definition parse_time :: "string \<Rightarrow> int option" where
  "parse_time s =
     (let n = length s
      in case (fixed_digits 2 (take 2 s), if n = 2 then Some 0 else fixed_digits 2 (take 2 (drop 3 s)),
               if n \<le> 5 then Some 0 else fixed_digits 2 (take 2 (drop 6 s)), parse_fraction (drop 8 s)) of
           (Some h, Some m, Some sec, Some f) \<Rightarrow>
             if h < 24 \<and> m < 60 \<and> sec < 60 \<and> (n = 2 \<or> s ! 2 = CHR '':'') \<and> (n \<le> 5 \<or> s ! 5 = CHR '':'')
             then Some (((int h * 60 + int m) * 60 + int sec) * 1000000 + f) else None
         | _ \<Rightarrow> None)"

definition parse_offset :: "string \<Rightarrow> int option option" where
  "parse_offset s =
     (if s = [] then Some None
      else if s = ''Z'' then Some (Some 0)
      else case parse_time (tl s) of
             None \<Rightarrow> None
           | Some us \<Rightarrow> if hd s \<in> set ''+-'' then Some (Some ((if hd s = CHR ''-'' then - 1 else 1) * (us div 1000000)))
                        else None)"

definition parse_iso :: "string \<Rightarrow> stamp option" where
  "parse_iso s =
     (case parse_date (take 10 s) of
        None \<Rightarrow> None
      | Some day \<Rightarrow>
          if length s = 10 then Some (Naive (day * 86400000000))
          else
            (let time = takeWhile (\<lambda>c. c \<notin> set ''+-Z'') (drop 11 s)
             in case (parse_time time, parse_offset (drop (length time) (drop 11 s))) of
                  (Some us, Some None) \<Rightarrow> Some (Naive (day * 86400000000 + us))
                | (Some us, Some (Some off)) \<Rightarrow> Some (Aware (day * 86400000000 + us - off * 1000000) off)
                | _ \<Rightarrow> None))"

definition now_text :: "('z env_scheme, string) io" where
  "now_text = io_bind utc_now (\<lambda>us. io_return (isoformat (utc_stamp us)))"

section \<open>Normalisation\<close>

definition session_string :: "pyval \<Rightarrow> string \<Rightarrow> string res" where
  "session_string v field_name =
     (case non_empty_text v of
        Some s \<Rightarrow> Inr s
      | None \<Rightarrow> Inl (ValueError (''Session `'' @ field_name @ ''` must be a non-empty string'')))"

definition session_optional_string :: "pyval \<Rightarrow> string \<Rightarrow> string option res" where
  "session_optional_string v field_name =
     (if v = PNone then Inr None else res_bind (session_string v field_name) (\<lambda>s. Inr (Some s)))"

definition session_timestamp :: "string \<Rightarrow> string \<Rightarrow> stamp res" where
  "session_timestamp v field_name =
     (case parse_iso (py_strip v) of
        Some t \<Rightarrow> Inr t
      | None \<Rightarrow> Inl (ValueError (''Session `'' @ field_name @ ''` must be an ISO 8601 timestamp'')))"

definition normalize_optional_message_content :: "pyval \<Rightarrow> string option res" where
  "normalize_optional_message_content v =
     (case v of
        PNone \<Rightarrow> Inr None
      | PStr s \<Rightarrow> Inr (if py_strip s = [] then None else Some (py_strip s))
      | _ \<Rightarrow> Inl (ValueError ''Session message `content` must be a string when provided''))"

definition session_metadata :: "pyval \<Rightarrow> pydict res" where
  "session_metadata v =
     (case v of PNone \<Rightarrow> Inr [] | PDict d \<Rightarrow> Inr d | _ \<Rightarrow> Inl (ValueError ''Session `metadata` must be an object''))"

text \<open>\<open>value not in {...}\<close> over a set of names, with the error of the code for any other value.\<close>

definition named :: "('a \<Rightarrow> string) \<Rightarrow> 'a list \<Rightarrow> string \<Rightarrow> pyval \<Rightarrow> 'a res" where
  "named name xs what v =
     (if \<not> hashable v then Inl (TypeError ''unhashable type'')
      else case find (\<lambda>x. PStr (name x) = v) xs of
             Some x \<Rightarrow> Inr x | None \<Rightarrow> Inl (ValueError (what @ py_str v)))"

definition normalize_status :: "pyval \<Rightarrow> session_status res" where
  "normalize_status = named session_status_name SESSION_STATUSES ''Unknown session status: ''"

definition normalize_message_role :: "pyval \<Rightarrow> message_role res" where
  "normalize_message_role = named message_role_name [User, Assistant, System] ''Unknown session message role: ''"

definition normalize_message_status :: "pyval \<Rightarrow> message_status res" where
  "normalize_message_status =
     named message_status_name [Submitted, Completed, Msg_waiting, Errored] ''Unknown session message status: ''"

definition normalize_transition_history :: "pyval \<Rightarrow> pydict list res" where
  "normalize_transition_history v =
     (case v of
        PNone \<Rightarrow> Inr []
      | PList vs \<Rightarrow> res_map (\<lambda>e. case e of
            PDict d \<Rightarrow> Inr d
          | _ \<Rightarrow> Inl (ValueError ''Session `transition_history` entries must be objects'')) vs
      | _ \<Rightarrow> Inl (ValueError ''Session `transition_history` must be a list''))"

definition session_positive_int :: "pyval \<Rightarrow> string \<Rightarrow> int res" where
  "session_positive_int v field_name =
     (let bad = Inl (ValueError (''Session `'' @ field_name @ ''` must be a positive integer''))
      in case py_int v of None \<Rightarrow> bad | Some i \<Rightarrow> if i \<le> 0 then bad else Inr i)"

record session_scope =
  ms_kind :: scope_kind
  ms_value :: "string option"

definition normalize_scope_value :: "scope_kind \<Rightarrow> pyval \<Rightarrow> string option res" where
  "normalize_scope_value kind v =
     (if kind = Scope_global then Inr None
      else res_bind (session_string v ''memory_scope.value'') (\<lambda>s. Inr (Some s)))"

definition normalize_memory_scope :: "pyval \<Rightarrow> string \<Rightarrow> session_scope res" where
  "normalize_memory_scope scope agent =
     (case scope of
        PNone \<Rightarrow> Inr \<lparr>ms_kind = Scope_agent, ms_value = Some agent\<rparr>
      | PDict d \<Rightarrow>
          res_bind (named scope_kind_name MEMORY_SCOPE_KINDS ''Unknown session memory scope kind: ''
                      (dict_get_or d ''kind'' (PStr ''agent''))) (\<lambda>kind.
          res_bind (normalize_scope_value kind
                      (dict_get_or d ''value'' (if kind = Scope_agent then PStr agent else PNone))) (\<lambda>v.
            Inr \<lparr>ms_kind = kind, ms_value = v\<rparr>))
      | _ \<Rightarrow> Inl (ValueError ''Session `memory_scope` must be an object''))"

record ownership =
  ow_auth_required :: bool
  ow_surface :: "string option"
  ow_token_hash :: "string option"
  ow_issued_at :: "string option"

definition normalize_ownership :: "pyval \<Rightarrow> ownership res" where
  "normalize_ownership v =
     (case v of
        PNone \<Rightarrow> Inr \<lparr>ow_auth_required = False, ow_surface = None, ow_token_hash = None, ow_issued_at = None\<rparr>
      | PDict d \<Rightarrow>
          (case dict_get_or d ''auth_required'' (PBool False) of
             PBool auth \<Rightarrow>
               res_bind (session_optional_string (dict_get d ''token_hash'') ''ownership.token_hash'') (\<lambda>token_hash.
               if auth \<and> token_hash = None then Inl (ValueError ''Owned sessions must persist `ownership.token_hash`'')
               else
               res_bind (session_optional_string (dict_get d ''surface'') ''ownership.surface'') (\<lambda>surface.
               res_bind (session_optional_string (dict_get d ''issued_at'') ''ownership.issued_at'') (\<lambda>issued.
                 Inr \<lparr>ow_auth_required = auth, ow_surface = surface, ow_token_hash = token_hash,
                      ow_issued_at = issued\<rparr>)))
           | _ \<Rightarrow> Inl (ValueError ''Session `ownership.auth_required` must be a boolean''))
      | _ \<Rightarrow> Inl (ValueError ''Session `ownership` must be an object''))"

section \<open>Sessions and their objects\<close>

record session_message =
  sm_message_id :: string
  sm_role :: message_role
  sm_content :: "string option"
  sm_status :: message_status
  sm_created_at :: string
  sm_agent :: "string option"
  sm_workflow_id :: "string option"
  sm_run_id :: "string option"
  sm_job_id :: "string option"
  sm_worker_id :: "string option"
  sm_metadata :: pydict

record session =
  sn_session_id :: pyval
  sn_title :: "string option"
  sn_agent :: string
  sn_status :: session_status
  sn_ownership :: ownership
  sn_memory_scope :: session_scope
  sn_current_workflow_id :: "string option"
  sn_workflow_ids :: "string list"
  sn_last_run_id :: "string option"
  sn_last_job_id :: "string option"
  sn_messages :: "session_message list"
  sn_metadata :: pydict
  sn_transition_history :: "pydict list"
  sn_created_at :: string
  sn_updated_at :: string

text \<open>
  The ownership of a session is normalised when it is made or loaded; the code normalises it again
  for each snapshot, which changes nothing (lemma \<open>ownership_again\<close> below).
\<close>

definition public_ownership_snapshot :: "ownership \<Rightarrow> pydict" where
  "public_ownership_snapshot o' =
     [(''auth_required'', PBool (ow_auth_required o')), (''surface'', opt_str (ow_surface o')),
      (''issued_at'', opt_str (ow_issued_at o'))]"

definition storage_ownership_snapshot :: "ownership \<Rightarrow> pydict" where
  "storage_ownership_snapshot o' =
     [(''auth_required'', PBool (ow_auth_required o')), (''surface'', opt_str (ow_surface o')),
      (''token_hash'', opt_str (ow_token_hash o')), (''issued_at'', opt_str (ow_issued_at o'))]"

definition session_scope_object :: "session_scope \<Rightarrow> pydict" where
  "session_scope_object sc = [(''kind'', PStr (scope_kind_name (ms_kind sc))), (''value'', opt_str (ms_value sc))]"

definition message_snapshot :: "session_message \<Rightarrow> pydict" where
  "message_snapshot m =
     [(''message_id'', PStr (sm_message_id m)), (''role'', PStr (message_role_name (sm_role m))),
      (''content'', opt_str (sm_content m)), (''status'', PStr (message_status_name (sm_status m))),
      (''created_at'', PStr (sm_created_at m)), (''agent'', opt_str (sm_agent m)),
      (''workflow_id'', opt_str (sm_workflow_id m)), (''run_id'', opt_str (sm_run_id m)),
      (''job_id'', opt_str (sm_job_id m)), (''worker_id'', opt_str (sm_worker_id m)),
      (''metadata'', PDict (sm_metadata m))]"

definition session_summary_with :: "pydict \<Rightarrow> session \<Rightarrow> pydict" where
  "session_summary_with owner s =
     [(''session_id'', sn_session_id s), (''title'', opt_str (sn_title s)), (''agent'', PStr (sn_agent s)),
      (''status'', PStr (session_status_name (sn_status s))), (''ownership'', PDict owner),
      (''memory_scope'', PDict (session_scope_object (sn_memory_scope s))),
      (''current_workflow_id'', opt_str (sn_current_workflow_id s)), (''workflow_ids'', str_list (sn_workflow_ids s)),
      (''last_run_id'', opt_str (sn_last_run_id s)), (''last_job_id'', opt_str (sn_last_job_id s)),
      (''message_count'', PInt (int (length (sn_messages s)))),
      (''last_message'', if sn_messages s = [] then PNone else PDict (message_snapshot (last (sn_messages s)))),
      (''metadata'', PDict (sn_metadata s)), (''created_at'', PStr (sn_created_at s)),
      (''updated_at'', PStr (sn_updated_at s))]"

definition session_summary :: "session \<Rightarrow> pydict" where
  "session_summary s = session_summary_with (public_ownership_snapshot (sn_ownership s)) s"

definition session_messages_object :: "session \<Rightarrow> pydict" where
  "session_messages_object s =
     [(''messages'', dict_list (map message_snapshot (sn_messages s))),
      (''transition_history'', dict_list (sn_transition_history s))]"

definition session_snapshot :: "session \<Rightarrow> pydict" where
  "session_snapshot s = session_summary s @ session_messages_object s"

definition session_storage_payload :: "session \<Rightarrow> pydict" where
  "session_storage_payload s =
     session_summary_with (storage_ownership_snapshot (sn_ownership s)) s @ session_messages_object s"

section \<open>Access\<close>

definition session_auth_required :: "session \<Rightarrow> bool" where
  "session_auth_required s = ow_auth_required (sn_ownership s)"

text \<open>\<open>hmac.compare_digest\<close> refuses texts beyond ASCII.\<close>

definition compare_digest :: "string \<Rightarrow> string \<Rightarrow> bool res" where
  "compare_digest x y =
     (if list_all (\<lambda>c. (of_char c :: nat) < 128) (x @ y) then Inr (x = y)
      else Inl (TypeError ''comparing strings with non-ASCII characters is not supported''))"

definition verify_session_access :: "(string \<Rightarrow> string) \<Rightarrow> session \<Rightarrow> pyval \<Rightarrow> string \<Rightarrow> unit res" where
  "verify_session_access hash s session_token header_name =
     (if \<not> session_auth_required s then Inr ()
      else
        let expected = (case ow_token_hash (sn_ownership s) of None \<Rightarrow> [] | Some x \<Rightarrow> x);
            candidate = (case session_token of PStr t \<Rightarrow> py_strip t | _ \<Rightarrow> [])
        in if expected = [] \<or> candidate = [] then
             Inl (SessionAuthError (''Session token is required via `'' @ header_name @ ''`'') header_name
                    (py_str (sn_session_id s)))
           else
             res_bind (compare_digest (hash candidate) expected) (\<lambda>same.
               if same then Inr ()
               else Inl (SessionAuthError (''Valid session token is required via `'' @ header_name @ ''`'') header_name
                           (py_str (sn_session_id s)))))"

section \<open>Small operations\<close>

definition default_title :: "string \<Rightarrow> string" where
  "default_title content = shorten 60 (py_strip content)"

definition follow_memory_scope :: "session \<Rightarrow> pyval \<Rightarrow> pyval \<Rightarrow> session res" where
  "follow_memory_scope s workflow_id run_id =
     (let put = (\<lambda>v. res_bind (session_optional_string v ''memory_scope.value'')
                   (\<lambda>x. Inr (s\<lparr>sn_memory_scope := (sn_memory_scope s)\<lparr>ms_value := x\<rparr>\<rparr>)))
      in case ms_kind (sn_memory_scope s) of
           Scope_workflow \<Rightarrow> put workflow_id | Scope_run \<Rightarrow> put run_id | _ \<Rightarrow> Inr s)"

definition session_entry :: "string \<Rightarrow> pyval \<Rightarrow> pydict \<Rightarrow> pydict" where
  "session_entry event_type timestamp details =
     [(''event_type'', PStr event_type), (''timestamp'', timestamp)] @ details"

definition unique_strings :: "pyval list \<Rightarrow> string list" where
  "unique_strings vs = dedupe [] (List.map_filter non_empty_text vs)"

definition message_preview_for_summary :: "session_message \<Rightarrow> int \<Rightarrow> string" where
  "message_preview_for_summary m limit =
     (let stripped = (case sm_content m of None \<Rightarrow> [] | Some c \<Rightarrow> py_strip c);
          content = (if stripped = [] then ''['' @ message_status_name (sm_status m) @ '']'' else stripped);
          label = message_role_name (sm_role m) @
                  (if sm_status m = Completed then [] else '' ('' @ message_status_name (sm_status m) @ '')'')
      in ''- '' @ label @ '': '' @ shorten limit content)"

text \<open>
  The lines that fit into a number of characters, each but the first with a line end before it; where
  a further line does not fit, a line of three dots follows, which is not counted.
\<close>

fun bounded_blocks :: "int \<Rightarrow> string list \<Rightarrow> int \<Rightarrow> string list \<Rightarrow> string" where
  "bounded_blocks max_chars blocks used [] = concat blocks"
| "bounded_blocks max_chars blocks used (line # ls) =
     (let candidate = (if blocks = [] then line else nl @ line)
      in if used + int (length candidate) > max_chars then
           (if blocks = [] then shorten max_chars line else concat (blocks @ [nl @ ''...'']))
         else bounded_blocks max_chars (blocks @ [candidate]) (used + int (length candidate)) ls)"

definition bounded_lines_text :: "string list \<Rightarrow> int \<Rightarrow> string" where
  "bounded_lines_text lines max_chars = bounded_blocks max_chars [] 0 lines"

definition role_count :: "message_role \<Rightarrow> session_message list \<Rightarrow> int" where
  "role_count r ms = int (length (filter (\<lambda>m. sm_role m = r) ms))"

definition summarize_message_window :: "session_message list \<Rightarrow> int \<Rightarrow> string" where
  "summarize_message_window ms max_chars =
     (if ms = [] then ''No messages were selected for continuity compaction.''
      else bounded_blocks max_chars [] 0
        ((''Compacted '' @ show_int (int (length ms)) @ '' earlier messages spanning '' @ sm_created_at (hd ms) @
          '' to '' @ sm_created_at (last ms) @ ''. Roles: user='' @ show_int (role_count User ms) @
          '', assistant='' @ show_int (role_count Assistant ms) @ '', system='' @ show_int (role_count System ms) @ ''.'')
         # map (\<lambda>m. message_preview_for_summary m 96) ms))"

definition format_memory_scope :: "session_scope \<Rightarrow> string" where
  "format_memory_scope sc =
     scope_kind_name (ms_kind sc) @
     (case ms_value sc of None \<Rightarrow> [] | Some v \<Rightarrow> if v = [] then [] else '':'' @ v)"

definition session_target_status :: "session_status \<Rightarrow> pyval \<Rightarrow> session_status" where
  "session_target_status previous workflow_status =
     (if workflow_status = PStr ''success'' then
        (if previous \<in> {Ss_waiting, Ss_errored} then Ss_recovered else Ss_active)
      else if workflow_status \<in> {PStr ''pending'', PStr ''retry_wait''} then Ss_waiting
      else Ss_errored)"

definition session_terminal_for_cleanup :: "session \<Rightarrow> bool" where
  "session_terminal_for_cleanup s \<longleftrightarrow> sn_status s \<in> {Ss_archived, Ss_errored, Ss_recovered}"

definition transition_session :: "session \<Rightarrow> session_status \<Rightarrow> session res" where
  "transition_session s next_status =
     (if next_status \<notin> set (SESSION_STATUS_TRANSITIONS (sn_status s)) then
        Inl (ValueError (''Cannot transition session `'' @ py_str (sn_session_id s) @ ''` from `'' @
          session_status_name (sn_status s) @ ''` to `'' @ session_status_name next_status @ ''`''))
      else Inr (s\<lparr>sn_status := next_status\<rparr>))"

section \<open>The history of a session\<close>

text \<open>\<open>len(v)\<close>, and \<open>(v or {}).get(k)\<close> with \<open>or {}\<close> again.\<close>

definition py_len :: "pyval \<Rightarrow> int res" where
  "py_len v =
     (case v of
        PList vs \<Rightarrow> Inr (int (length vs)) | PStr s \<Rightarrow> Inr (int (length s)) | PDict d \<Rightarrow> Inr (int (length d))
      | _ \<Rightarrow> Inl (TypeError ''object has no len()''))"

definition or_dict :: "pyval \<Rightarrow> pyval" where
  "or_dict v = or_value v (PDict [])"

definition continuity_of :: "pydict \<Rightarrow> pyval res" where
  "continuity_of d =
     res_bind (value_get (or_dict (dict_get d ''metadata'')) ''continuity'' PNone) (\<lambda>v. Inr (or_dict v))"

definition has_compaction_id :: "pyval \<Rightarrow> pyval \<Rightarrow> bool" where
  "has_compaction_id k entry =
     (case entry of PDict d \<Rightarrow> py_eq (dict_get d ''compaction_id'') k | _ \<Rightarrow> False)"

definition changed_entry :: "pydict \<Rightarrow> pydict \<Rightarrow> string \<Rightarrow> string \<Rightarrow> string \<Rightarrow> string \<Rightarrow> pyval \<Rightarrow> pydict list" where
  "changed_entry previous current key event from_key to_key timestamp =
     (if py_eq (dict_get previous key) (dict_get current key) then []
      else [session_entry event timestamp [(from_key, dict_get previous key), (to_key, dict_get current key)]])"

definition compacted_entry :: "pydict \<Rightarrow> pyval \<Rightarrow> pyval \<Rightarrow> pydict res" where
  "compacted_entry active current_id timestamp =
     res_bind (py_len (dict_get_or active ''retained_message_ids'' (PList []))) (\<lambda>retained.
     res_bind (py_len (dict_get_or active ''source_memory_ids'' (PList []))) (\<lambda>sources.
       Inr (session_entry ''continuity_compacted'' timestamp
         [(''compaction_id'', current_id), (''strategy'', dict_get active ''strategy''),
          (''compacted_message_count'', dict_get active ''message_count''),
          (''retained_message_count'', PInt retained), (''source_memory_count'', PInt sources)])))"

definition compaction_entries :: "pydict \<Rightarrow> pydict \<Rightarrow> pyval \<Rightarrow> pydict list res" where
  "compaction_entries previous current timestamp =
     res_bind (continuity_of previous) (\<lambda>before.
     res_bind (continuity_of current) (\<lambda>now.
     res_bind (value_get before ''active_compaction_id'' PNone) (\<lambda>previous_id.
     res_bind (value_get now ''active_compaction_id'' PNone) (\<lambda>current_id.
       if py_eq current_id previous_id then Inr []
       else
         res_bind (res_bind (value_get now ''compactions'' (PList [])) iter_values) (\<lambda>compactions.
           case find (has_compaction_id current_id) compactions of
             Some (PDict active) \<Rightarrow> res_bind (compacted_entry active current_id timestamp) (\<lambda>e. Inr [e])
           | _ \<Rightarrow> Inr [])))))"

text \<open>The entry for a message whose identifier is not among the known ones.\<close>

definition appended_entry :: "pyval list \<Rightarrow> pyval \<Rightarrow> pyval \<Rightarrow> pydict list res" where
  "appended_entry known timestamp m =
     (case m of
        PDict d \<Rightarrow>
          let message_id = dict_get d ''message_id''
          in if \<not> hashable message_id then Inl (TypeError ''unhashable type'')
             else if list_ex (py_eq message_id) known then Inr []
             else Inr [session_entry ''message_appended'' timestamp
               [(''message_id'', message_id), (''role'', dict_get d ''role''), (''status'', dict_get d ''status''),
                (''workflow_id'', dict_get d ''workflow_id''), (''run_id'', dict_get d ''run_id'')]]
      | _ \<Rightarrow> Inr [])"

definition message_entries :: "pydict \<Rightarrow> pydict \<Rightarrow> pyval \<Rightarrow> pydict list res" where
  "message_entries previous current timestamp =
     res_bind (iter_values (dict_get_or previous ''messages'' (PList []))) (\<lambda>old.
     let known = List.map_filter (\<lambda>m. case m of PDict d \<Rightarrow> Some (dict_get d ''message_id'') | _ \<Rightarrow> None) old
     in if \<not> list_all hashable known then Inl (TypeError ''unhashable type'')
        else
          res_bind (iter_values (dict_get_or current ''messages'' (PList []))) (\<lambda>new.
          res_bind (res_map (appended_entry known timestamp) new) (\<lambda>entries. Inr (concat entries))))"

definition build_session_transition_history :: "pydict option \<Rightarrow> pydict \<Rightarrow> pydict list res" where
  "build_session_transition_history previous current =
     res_bind (normalize_transition_history
        (dict_get (case previous of None \<Rightarrow> current | Some p \<Rightarrow> p) ''transition_history'')) (\<lambda>history.
     res_bind (dict_item current ''updated_at'') (\<lambda>timestamp.
     case previous of
       None \<Rightarrow>
         Inr (history @ [session_entry ''created'' timestamp
           [(''status'', dict_get current ''status''), (''agent'', dict_get current ''agent''),
            (''memory_scope'', dict_get current ''memory_scope'')]])
     | Some p \<Rightarrow>
         res_bind (compaction_entries p current timestamp) (\<lambda>compacted.
         res_bind (message_entries p current timestamp) (\<lambda>appended.
           Inr (history @
             changed_entry p current ''status'' ''session_status_changed'' ''from_status'' ''to_status'' timestamp @
             changed_entry p current ''current_workflow_id'' ''current_workflow_changed''
               ''from_workflow_id'' ''to_workflow_id'' timestamp @
             changed_entry p current ''last_run_id'' ''last_run_changed'' ''from_run_id'' ''to_run_id'' timestamp @
             compacted @ appended)))))"

section \<open>Files\<close>

definition on_session_files :: "(state_dir, 'a) io \<Rightarrow> ('z session_world_scheme, 'a) io" where
  "on_session_files m =
     (\<lambda>w. case m (session_files w) of (r, fs) \<Rightarrow> (r, w\<lparr>session_files := fs\<rparr>))"

definition session_file :: "string \<Rightarrow> ('z session_world_scheme, bool) io" where
  "session_file path = io_get (\<lambda>w. dir_get (docs (session_files w)) path \<noteq> None)"

text \<open>The result is the session with its new history; the code returns the snapshot of it.\<close>

definition write_session :: "session \<Rightarrow> ('z session_world_scheme, session) io" where
  "write_session s =
     io_then (io_modify (\<lambda>w. w\<lparr>session_files := (session_files w)\<lparr>dir_exists := True\<rparr>\<rparr>))
     (io_bind now_text (\<lambda>timestamp.
      let stamped = s\<lparr>sn_updated_at := timestamp\<rparr>; path = py_str (sn_session_id s)
      in io_bind (session_file path) (\<lambda>stored.
         io_bind (if stored
                  then io_bind (on_session_files (load_state_payload path SESSION_STATE_SCHEMA)) (\<lambda>p. io_return (Some p))
                  else io_return None) (\<lambda>previous.
         io_bind (io_lift (build_session_transition_history previous (session_storage_payload stamped))) (\<lambda>history.
           let final = stamped\<lparr>sn_transition_history := history\<rparr>
           in io_then (on_session_files (write_state_payload path (session_storage_payload final)
                         SESSION_STATE_SCHEMA PERSISTED_STATE_VERSION))
                (io_return final))))))"

definition optional_field :: "pydict \<Rightarrow> string \<Rightarrow> string option res" where
  "optional_field d k = session_optional_string (dict_get d k) k"

definition message_text_field :: "pydict \<Rightarrow> string \<Rightarrow> string option res" where
  "message_text_field d k = session_optional_string (dict_get d k) (''messages[].'' @ k)"

definition load_message :: "pyval \<Rightarrow> session_message res" where
  "load_message v =
     res_bind (object_of v) (\<lambda>d.
     res_bind (res_bind (dict_item d ''message_id'') (\<lambda>x. session_string x ''messages[].message_id'')) (\<lambda>message_id.
     res_bind (res_bind (dict_item d ''role'') normalize_message_role) (\<lambda>role.
     res_bind (normalize_optional_message_content (dict_get d ''content'')) (\<lambda>content.
     res_bind (res_bind (dict_item d ''status'') normalize_message_status) (\<lambda>status.
     res_bind (res_bind (dict_item d ''created_at'') (\<lambda>x. session_string x ''messages[].created_at'')) (\<lambda>created_at.
     res_bind (message_text_field d ''agent'') (\<lambda>agent.
     res_bind (message_text_field d ''workflow_id'') (\<lambda>workflow_id.
     res_bind (message_text_field d ''run_id'') (\<lambda>run_id.
     res_bind (message_text_field d ''job_id'') (\<lambda>job_id.
     res_bind (message_text_field d ''worker_id'') (\<lambda>worker_id.
     res_bind (session_metadata (dict_get d ''metadata'')) (\<lambda>metadata.
       Inr \<lparr>sm_message_id = message_id, sm_role = role, sm_content = content, sm_status = status,
            sm_created_at = created_at, sm_agent = agent, sm_workflow_id = workflow_id, sm_run_id = run_id,
            sm_job_id = job_id, sm_worker_id = worker_id, sm_metadata = metadata\<rparr>))))))))))))"

text \<open>The record of a payload but for its times.\<close>

definition session_of :: "pydict \<Rightarrow> session res" where
  "session_of data =
     res_bind (dict_item data ''session_id'') (\<lambda>session_id.
     res_bind (optional_field data ''title'') (\<lambda>title.
     res_bind (session_string (dict_get_or data ''agent'' (PStr ''default'')) ''agent'') (\<lambda>agent.
     res_bind (normalize_status (dict_get_or data ''status'' (PStr ''open''))) (\<lambda>status.
     res_bind (normalize_ownership (dict_get data ''ownership'')) (\<lambda>owner.
     res_bind (normalize_memory_scope (dict_get data ''memory_scope'') agent) (\<lambda>scope.
     res_bind (optional_field data ''current_workflow_id'') (\<lambda>current_workflow_id.
     res_bind (iter_values (dict_get_or data ''workflow_ids'' (PList []))) (\<lambda>workflow_ids.
     res_bind (optional_field data ''last_run_id'') (\<lambda>last_run_id.
     res_bind (optional_field data ''last_job_id'') (\<lambda>last_job_id.
     res_bind (res_bind (iter_values (dict_get_or data ''messages'' (PList []))) (res_map load_message)) (\<lambda>messages.
     res_bind (session_metadata (dict_get data ''metadata'')) (\<lambda>metadata.
     res_bind (normalize_transition_history (dict_get data ''transition_history'')) (\<lambda>history.
       Inr \<lparr>sn_session_id = session_id, sn_title = title, sn_agent = agent, sn_status = status,
            sn_ownership = owner, sn_memory_scope = scope, sn_current_workflow_id = current_workflow_id,
            sn_workflow_ids = unique_strings workflow_ids, sn_last_run_id = last_run_id, sn_last_job_id = last_job_id,
            sn_messages = messages, sn_metadata = metadata, sn_transition_history = history,
            sn_created_at = [], sn_updated_at = []\<rparr>)))))))))))))"

text \<open>The clock is read for each of the two times, whether or not it is missing.\<close>

definition time_field :: "pydict \<Rightarrow> string \<Rightarrow> ('z env_scheme, string) io" where
  "time_field data k =
     io_bind now_text (\<lambda>now. io_lift (session_string (dict_get_or data k (PStr now)) k))"

definition load_session :: "string \<Rightarrow> ('z session_world_scheme, session) io" where
  "load_session session_id =
     io_bind (session_file session_id) (\<lambda>stored.
       if \<not> stored then io_raise (FileNotFoundError (''Session not found: '' @ session_id))
       else
         io_bind (on_session_files (load_state_payload session_id SESSION_STATE_SCHEMA)) (\<lambda>data.
         io_bind (io_lift (session_of data)) (\<lambda>s.
         io_bind (time_field data ''created_at'') (\<lambda>created_at.
         io_bind (time_field data ''updated_at'') (\<lambda>updated_at.
           io_return (s\<lparr>sn_created_at := created_at, sn_updated_at := updated_at\<rparr>))))))"

record session_request =
  sq_title :: pyval
  sq_agent :: pyval
  sq_metadata :: pyval
  sq_memory_scope :: pyval
  sq_surface :: pyval

definition generate_session_token :: "('z session_world_scheme, string) io" where
  "generate_session_token = (\<lambda>w. (Inr (token_supply w (token_n w)), w\<lparr>token_n := Suc (token_n w)\<rparr>))"

text \<open>The session that is written, and the token, which is shown only here.\<close>

definition create_session ::
    "(string \<Rightarrow> string) \<Rightarrow> session_request \<Rightarrow> ('z session_world_scheme, session \<times> string) io" where
  "create_session hash rq =
     io_bind (io_lift (session_string (sq_agent rq) ''agent'')) (\<lambda>agent.
     io_bind now_text (\<lambda>issued_at.
     io_bind generate_session_token (\<lambda>token.
     io_bind uuid4 (\<lambda>session_id.
     io_bind (io_lift (session_optional_string (sq_title rq) ''title'')) (\<lambda>title.
     io_bind (io_lift (session_optional_string (sq_surface rq) ''surface'')) (\<lambda>surface.
     io_bind (io_lift (normalize_memory_scope (sq_memory_scope rq) agent)) (\<lambda>scope.
     io_bind (io_lift (session_metadata (sq_metadata rq))) (\<lambda>metadata.
     io_bind (write_session
        \<lparr>sn_session_id = PStr session_id, sn_title = title, sn_agent = agent, sn_status = Ss_open,
         sn_ownership = \<lparr>ow_auth_required = True, ow_surface = surface, ow_token_hash = Some (hash token),
                         ow_issued_at = Some issued_at\<rparr>,
         sn_memory_scope = scope, sn_current_workflow_id = None, sn_workflow_ids = [], sn_last_run_id = None,
         sn_last_job_id = None, sn_messages = [], sn_metadata = metadata, sn_transition_history = [],
         sn_created_at = issued_at, sn_updated_at = issued_at\<rparr>) (\<lambda>written.
       io_return (written, token))))))))))"

section \<open>Listing, archiving, pruning\<close>

text \<open>\<open>sort(key=..., reverse=True)\<close> keeps the order of equal keys.\<close>

definition newest_first :: "session list \<Rightarrow> session list" where
  "newest_first ss = rev (sort_key sn_updated_at (rev ss))"

definition optional_limit :: "pyval \<Rightarrow> nat option res" where
  "optional_limit limit =
     (if limit = PNone then Inr None
      else res_bind (session_positive_int limit ''limit'') (\<lambda>n. Inr (Some (nat n))))"

definition list_sessions :: "pyval \<Rightarrow> pyval \<Rightarrow> pyval \<Rightarrow> ('z session_world_scheme, pydict list) io" where
  "list_sessions status agent limit =
     io_bind (io_lift (if status = PNone then Inr None
                       else res_bind (normalize_status status) (\<lambda>x. Inr (Some x)))) (\<lambda>wanted.
     io_bind (io_lift (session_optional_string agent ''agent'')) (\<lambda>owner.
     io_bind (io_lift (optional_limit limit)) (\<lambda>n.
     io_bind (io_get (\<lambda>w. dir_exists (session_files w))) (\<lambda>present.
       if \<not> present then io_return []
       else
         io_bind (io_get (\<lambda>w. sorted_ids (docs (session_files w)))) (\<lambda>paths.
         io_bind (io_map load_session paths) (\<lambda>loaded.
           io_return (map session_summary (take_limit n (newest_first
             (filter (\<lambda>s. (wanted = None \<or> wanted = Some (sn_status s)) \<and> (owner = None \<or> owner = Some (sn_agent s)))
                loaded)))))))))) "

text \<open>\<open>dict(v)\<close> of a value that should be an object.\<close>

definition dict_of :: "pyval \<Rightarrow> pydict res" where
  "dict_of v =
     (case v of
        PDict d \<Rightarrow> Inr d
      | PList vs \<Rightarrow> if vs = [] then Inr [] else Inl (TypeError ''cannot convert dictionary update sequence'')
      | PStr s \<Rightarrow> if s = [] then Inr [] else Inl (ValueError ''dictionary update sequence element has length 1'')
      | _ \<Rightarrow> Inl (TypeError ''object is not iterable''))"

definition archive_session :: "string \<Rightarrow> pyval \<Rightarrow> ('z session_world_scheme, session) io" where
  "archive_session session_id reason =
     io_bind (load_session session_id) (\<lambda>s.
       if sn_status s = Ss_archived then io_return s
       else
         io_bind (io_lift (transition_session s Ss_archived)) (\<lambda>moved.
         io_bind (io_lift (dict_of (dict_get_or (sn_metadata moved) ''maintenance'' (PDict [])))) (\<lambda>notes.
         io_bind now_text (\<lambda>now.
         io_bind (io_lift (if reason = PNone then Inr (dict_put notes ''archived_at'' (PStr now))
                  else res_bind (session_string reason ''reason'') (\<lambda>r.
                    Inr (dict_put (dict_put notes ''archived_at'' (PStr now)) ''archive_reason'' (PStr r))))) (\<lambda>noted.
           write_session (moved\<lparr>sn_metadata := dict_put (sn_metadata moved) ''maintenance'' (PDict noted)\<rparr>))))))"

record prune_report =
  pr_pruned :: "pyval list"
  pr_scanned :: nat

text \<open>The loop over the files: each is loaded and, where it is old and done with, removed.\<close>

fun prune_files ::
    "session_status list \<Rightarrow> int \<Rightarrow> nat option \<Rightarrow> prune_report \<Rightarrow> string list
      \<Rightarrow> ('z session_world_scheme, prune_report) io" where
  "prune_files statuses threshold limit report [] = io_return report"
| "prune_files statuses threshold limit report (path # paths) =
     io_bind (load_session path) (\<lambda>s.
       let seen = report\<lparr>pr_scanned := Suc (pr_scanned report)\<rparr>
       in if sn_status s \<notin> set statuses \<or> \<not> session_terminal_for_cleanup s
          then prune_files statuses threshold limit seen paths
          else
            io_bind (io_lift (res_bind (session_timestamp (sn_updated_at s) ''updated_at'')
                                (\<lambda>t. stamp_gt t threshold))) (\<lambda>recent.
              if recent then prune_files statuses threshold limit seen paths
              else
                io_then (io_modify (\<lambda>w. w\<lparr>session_files :=
                    (session_files w)\<lparr>docs := dir_del (docs (session_files w)) path\<rparr>\<rparr>))
                (let report' = seen\<lparr>pr_pruned := pr_pruned report @ [sn_session_id s]\<rparr>
                 in if (case limit of None \<Rightarrow> False | Some n \<Rightarrow> n \<le> length (pr_pruned report'))
                    then io_return report'
                    else prune_files statuses threshold limit report' paths)))"

definition prune_sessions ::
    "string list option \<Rightarrow> int \<Rightarrow> pyval \<Rightarrow> ('z session_world_scheme, prune_report) io" where
  "prune_sessions statuses older_than_hours limit =
     io_bind (io_lift (res_map (\<lambda>n. normalize_status (PStr n))
                (case statuses of None \<Rightarrow> [''archived''] | Some ns \<Rightarrow> ns))) (\<lambda>wanted.
       if older_than_hours \<le> 0 then
         io_raise (ValueError ''Session prune `older_than_hours` must be a positive integer'')
       else
         io_bind (io_lift (optional_limit limit)) (\<lambda>n.
         io_bind utc_now (\<lambda>now.
         io_bind (io_lift (add_seconds now (- (older_than_hours * 3600)))) (\<lambda>threshold.
         io_bind (io_get (\<lambda>w. sorted_ids (docs (session_files w)))) (\<lambda>paths.
           prune_files wanted threshold n \<lparr>pr_pruned = [], pr_scanned = 0\<rparr> paths)))))"

definition prune_report_object :: "session_status list \<Rightarrow> int \<Rightarrow> prune_report \<Rightarrow> pydict" where
  "prune_report_object statuses older_than_hours r =
     [(''pruned_count'', PInt (int (length (pr_pruned r)))), (''pruned_session_ids'', PList (pr_pruned r)),
      (''statuses'', str_list (map session_status_name statuses)), (''older_than_hours'', PInt older_than_hours),
      (''scanned'', PInt (int (pr_scanned r)))]"

section \<open>Continuity\<close>

record continuity =
  co_compactions :: "pydict list"
  co_active_id :: pyval
  co_active :: "pydict option"
  co_summary :: "pydict option"
  co_updated_at :: "string option"

definition dicts_of :: "pyval list \<Rightarrow> pydict list" where
  "dicts_of = List.map_filter (\<lambda>v. case v of PDict d \<Rightarrow> Some d | _ \<Rightarrow> None)"

definition continuity_metadata :: "session \<Rightarrow> continuity res" where
  "continuity_metadata s =
     (case dict_get (sn_metadata s) ''continuity'' of
        PDict c \<Rightarrow>
          res_bind (iter_values (dict_get_or c ''compactions'' (PList []))) (\<lambda>entries.
          let compactions = dicts_of entries; active_id = dict_get c ''active_compaction_id'';
              chosen = find (\<lambda>e. py_eq (dict_get e ''compaction_id'') active_id) compactions;
              active = (case chosen of Some e \<Rightarrow> Some e | None \<Rightarrow> if compactions = [] then None else Some (hd compactions))
          in res_bind (session_optional_string (dict_get c ''updated_at'') ''metadata.continuity.updated_at'') (\<lambda>updated.
               Inr \<lparr>co_compactions = compactions,
                    co_active_id = (case (chosen, active) of
                       (None, Some e) \<Rightarrow> dict_get e ''compaction_id'' | _ \<Rightarrow> active_id),
                    co_active = active,
                    co_summary = (case dict_get c ''active_summary'' of PDict d \<Rightarrow> Some d | _ \<Rightarrow> None),
                    co_updated_at = updated\<rparr>))
      | _ \<Rightarrow> Inr \<lparr>co_compactions = [], co_active_id = PNone, co_active = None, co_summary = None,
                  co_updated_at = None\<rparr>)"

definition session_continuity_snapshot :: "session \<Rightarrow> pydict res" where
  "session_continuity_snapshot s =
     res_bind (continuity_metadata s) (\<lambda>c.
       Inr [(''compaction_count'', PInt (int (length (co_compactions c)))), (''active_compaction_id'', co_active_id c),
            (''active_compaction'', dict_value (co_active c)), (''active_summary'', dict_value (co_summary c)),
            (''updated_at'', opt_str (co_updated_at c))])"

definition continuity_budget_limits :: pydict where
  "continuity_budget_limits =
     [(''keep_recent_messages'', PInt CONTINUITY_KEEP_RECENT_MESSAGES),
      (''recent_message_limit'', PInt CONTINUITY_RECENT_MESSAGE_LIMIT),
      (''source_memory_limit'', PInt CONTINUITY_SOURCE_MEMORY_LIMIT),
      (''max_summary_chars'', PInt CONTINUITY_MAX_SUMMARY_CHARS),
      (''max_uncompacted_messages'', PInt CONTINUITY_MAX_UNCOMPACTED_MESSAGES),
      (''max_messages_before_compaction'', PInt CONTINUITY_MAX_MESSAGES_BEFORE_COMPACTION)]"

text \<open>\<open>set(v)\<close>, and \<open>int(v or 0)\<close> (a text is read as decimal digits with an optional sign).\<close>

definition set_of :: "pyval \<Rightarrow> pyval list res" where
  "set_of v =
     res_bind (iter_values v) (\<lambda>vs. if list_all hashable vs then Inr vs else Inl (TypeError ''unhashable type''))"

definition int_or_zero :: "pyval \<Rightarrow> int res" where
  "int_or_zero v =
     (if \<not> py_truthy v then Inr 0
      else case v of
             PBool b \<Rightarrow> Inr 1
           | PInt i \<Rightarrow> Inr i
           | PFloat r \<Rightarrow> Inr (if r < 0 then - \<lfloor>- r\<rfloor> else \<lfloor>r\<rfloor>)
           | PStr s \<Rightarrow>
               let t = py_strip s; digits = (if t \<noteq> [] \<and> hd t \<in> set ''+-'' then tl t else t)
               in if digits \<noteq> [] \<and> list_all is_digit digits
                  then Inr ((if hd t = CHR ''-'' then - 1 else 1) * int (int_of_digits digits))
                  else Inl (ValueError (''invalid literal for int() with base 10: '' @ py_repr v))
           | _ \<Rightarrow> Inl (TypeError ''int() argument must be a string or a real number''))"

definition not_among :: "pyval list \<Rightarrow> session_message \<Rightarrow> bool" where
  "not_among ids m \<longleftrightarrow> PStr (sm_message_id m) \<notin> set ids"

text \<open>What \<open>session_continuity_budget\<close> counts: uncompacted and new messages, then the parts of the summary.\<close>

record budget_counts =
  bc_uncompacted :: int
  bc_new :: int
  bc_recent :: int
  bc_memories :: int
  bc_workflows :: int
  bc_chars :: int

definition continuity_counts :: "session \<Rightarrow> continuity \<Rightarrow> budget_counts res" where
  "continuity_counts s c =
     res_bind (case co_active c of
                 None \<Rightarrow> Inr (sn_messages s, sn_messages s)
               | Some a \<Rightarrow>
                   res_bind (set_of (dict_get_or a ''compacted_message_ids'' (PList []))) (\<lambda>compacted.
                   res_bind (set_of (dict_get_or a ''retained_message_ids'' (PList []))) (\<lambda>retained.
                     Inr (filter (not_among compacted) (sn_messages s),
                          filter (\<lambda>m. not_among compacted m \<and> not_among retained m) (sn_messages s))))) (\<lambda>(old, new).
     let carry = (case co_summary c of None \<Rightarrow> PDict [] | Some d \<Rightarrow> dict_get_or d ''carry_forward'' (PDict []))
     in res_bind (res_bind (value_get carry ''recent_message_count'' (PInt 0)) int_or_zero) (\<lambda>recent.
        res_bind (res_bind (value_get carry ''source_memory_count'' (PInt 0)) int_or_zero) (\<lambda>memories.
        res_bind (res_bind (value_get carry ''source_workflow_ids'' (PList [])) py_len) (\<lambda>workflows.
        res_bind (case co_summary c of None \<Rightarrow> Inr 0 | Some d \<Rightarrow> py_len (dict_get_or d ''summary'' (PStr []))) (\<lambda>chars.
          Inr \<lparr>bc_uncompacted = int (length old), bc_new = int (length new), bc_recent = recent,
               bc_memories = memories, bc_workflows = workflows, bc_chars = chars\<rparr>)))))"

definition continuity_recommendation :: "session \<Rightarrow> continuity \<Rightarrow> budget_counts \<Rightarrow> string" where
  "continuity_recommendation s c b =
     (if co_active c = None \<and> int (length (sn_messages s)) > CONTINUITY_MAX_MESSAGES_BEFORE_COMPACTION then ''compact_now''
      else if co_active c \<noteq> None \<and> bc_uncompacted b > CONTINUITY_MAX_UNCOMPACTED_MESSAGES then ''recompact_now''
      else if co_summary c = None \<and> co_active c \<noteq> None then ''refresh_summary''
      else if bc_recent b \<ge> CONTINUITY_RECENT_MESSAGE_LIMIT \<or> bc_memories b \<ge> CONTINUITY_SOURCE_MEMORY_LIMIT \<or>
              bc_chars b \<ge> CONTINUITY_MAX_SUMMARY_CHARS then ''monitor_budget''
      else ''within_budget'')"

definition session_continuity_budget :: "session \<Rightarrow> pydict res" where
  "session_continuity_budget s =
     res_bind (continuity_metadata s) (\<lambda>c.
     res_bind (continuity_counts s c) (\<lambda>b.
       let recommendation = continuity_recommendation s c b
       in Inr [(''limits'', PDict continuity_budget_limits),
           (''counts'', PDict
             [(''total_messages'', PInt (int (length (sn_messages s)))), (''uncompacted_messages'', PInt (bc_uncompacted b)),
              (''new_messages_since_compaction'', PInt (bc_new b)),
              (''carry_forward_recent_messages'', PInt (bc_recent b)),
              (''carry_forward_source_memories'', PInt (bc_memories b)),
              (''carry_forward_source_workflows'', PInt (bc_workflows b)),
              (''carry_forward_summary_chars'', PInt (bc_chars b))]),
           (''active'', PDict [(''has_compaction'', PBool (co_active c \<noteq> None)),
              (''has_summary'', PBool (co_summary c \<noteq> None))]),
           (''status'', PDict [(''needs_initial_compaction'', PBool (recommendation = ''compact_now'')),
              (''needs_recompaction'', PBool (recommendation = ''recompact_now'')),
              (''summary_missing'', PBool (recommendation = ''refresh_summary'')),
              (''at_or_near_budget'', PBool (recommendation = ''monitor_budget''))]),
           (''recommendation'', PStr recommendation)]))"

definition scope_filter :: "scope_kind \<Rightarrow> string option \<Rightarrow> memory_filter" where
  "scope_filter kind v =
     \<lparr>mf_memory_type = None, mf_scope_kind = Some (scope_kind_name kind),
      mf_agent = (if kind = Scope_agent then opt_str v else PNone),
      mf_workflow_id = (if kind = Scope_workflow then opt_str v else PNone),
      mf_run_id = (if kind = Scope_run then opt_str v else PNone), mf_tags = PNone\<rparr>"

text \<open>The memories of the workflows of a session, each once, until there are enough.\<close>

fun add_memories :: "nat \<Rightarrow> memory list \<Rightarrow> memory list \<Rightarrow> memory list" where
  "add_memories limit found [] = found"
| "add_memories limit found (m # ms) =
     (if mm_memory_id m \<in> mm_memory_id ` set found then add_memories limit found ms
      else if limit \<le> Suc (length found) then found @ [m]
      else add_memories limit (found @ [m]) ms)"

fun workflow_memories :: "int \<Rightarrow> memory list \<Rightarrow> string list \<Rightarrow> ('z memory_world_scheme, memory list) io" where
  "workflow_memories limit found [] = io_return found"
| "workflow_memories limit found (workflow_id # ids) =
     io_bind (list_memories (scope_filter Scope_workflow (Some workflow_id)) (PInt limit)) (\<lambda>ms.
       let found' = add_memories (nat limit) found ms
       in if nat limit \<le> length found' then io_return found' else workflow_memories limit found' ids)"

definition continuity_scope_memories :: "session \<Rightarrow> int \<Rightarrow> ('z memory_world_scheme, pydict list \<times> pydict list) io" where
  "continuity_scope_memories s limit =
     (let kind = ms_kind (sn_memory_scope s); v = ms_value (sn_memory_scope s)
      in io_bind (if kind \<in> {Scope_workflow, Scope_run} \<and> (v = None \<or> v = Some []) then io_return []
                  else list_memories (scope_filter kind v) (PInt limit)) (\<lambda>scoped.
         io_bind (workflow_memories limit [] (sn_workflow_ids s)) (\<lambda>more.
           io_return (map memory_summary scoped, map memory_summary more))))"

fun select_memories :: "int \<Rightarrow> string list \<Rightarrow> pydict list \<Rightarrow> pydict list" where
  "select_memories limit seen [] = []"
| "select_memories limit seen (m # ms) =
     (case dict_get m ''memory_id'' of
        PStr k \<Rightarrow>
          if py_strip k = [] \<or> k \<in> set seen then select_memories limit seen ms
          else m # (if limit \<le> int (Suc (length seen)) then [] else select_memories limit (k # seen) ms)
      | _ \<Rightarrow> select_memories limit seen ms)"

definition select_continuity_memories :: "session \<Rightarrow> int \<Rightarrow> ('z memory_world_scheme, pydict list) io" where
  "select_continuity_memories s limit =
     io_bind (continuity_scope_memories s limit) (\<lambda>(recent, more).
       io_return (select_memories limit [] (recent @ more)))"

text \<open>\<open>xs[-n:]\<close> for a positive \<open>n\<close>.\<close>

definition last_of :: "int \<Rightarrow> 'a list \<Rightarrow> 'a list" where
  "last_of n xs = drop (length xs - nat n) xs"

text \<open>
  \<open>truncate_text\<close> of a stored summary. A stored summary that is neither missing nor a text, which only
  metadata given by a client can contain, ends in an error here.
\<close>

definition stored_text :: "pyval \<Rightarrow> int \<Rightarrow> string res" where
  "stored_text v limit =
     (case v of PNone \<Rightarrow> Inr [] | PStr s \<Rightarrow> Inr (shorten limit s) | _ \<Rightarrow> Inl (TypeError ''object is not a text''))"

definition continuity_memory_line :: "pydict \<Rightarrow> string" where
  "continuity_memory_line m =
     ''- ['' @ py_str (dict_get m ''memory_id'') @ ''] '' @
     (case dict_get m ''payload_summary'' of
        PStr t \<Rightarrow> if shorten 92 t = [] then ''memory'' else shorten 92 t
      | _ \<Rightarrow> ''memory'')"

definition summary_lines :: "session \<Rightarrow> string \<Rightarrow> session_message list \<Rightarrow> pydict list \<Rightarrow> string list" where
  "summary_lines s earlier recent ms =
     [''Carry-forward summary for this session.'',
      ''Session status: '' @ session_status_name (sn_status s) @ ''. Current workflow: '' @
        or_string (sn_current_workflow_id s) ''none'' @ ''. Memory scope: '' @
        format_memory_scope (sn_memory_scope s) @ ''.''] @
     (if earlier = [] then [] else [''Earlier compacted context:'', earlier]) @
     (if recent = [] then [] else ''Recent message tail:'' # map (\<lambda>m. message_preview_for_summary m 84) recent) @
     (if ms = [] then [] else ''Relevant continuity memories:'' # map continuity_memory_line ms)"

definition build_session_continuity_summary ::
    "session \<Rightarrow> string list \<Rightarrow> int \<Rightarrow> int \<Rightarrow> int \<Rightarrow> ('z memory_world_scheme, pydict option) io" where
  "build_session_continuity_summary s excluded recent_message_limit memory_limit max_chars =
     io_bind (io_lift (continuity_metadata s)) (\<lambda>c.
       case co_active c of
         None \<Rightarrow> io_return None
       | Some active \<Rightarrow>
           let recent_limit = max recent_message_limit 1; sources = max memory_limit 1; chars = max max_chars 240;
               recent = last_of recent_limit (filter (\<lambda>m. sm_message_id m \<notin> set excluded) (sn_messages s))
           in io_bind (select_continuity_memories s sources) (\<lambda>memories.
              io_bind (io_lift (iter_values (dict_get_or active ''source_workflow_ids'' (PList [])))) (\<lambda>earlier_ids.
              let workflow_ids = unique_strings ([opt_str (sn_current_workflow_id s)] @ earlier_ids @
                    map (\<lambda>m. opt_str (sm_workflow_id m)) recent @ map (\<lambda>m. dict_get m ''workflow_id'') memories)
              in io_bind (io_lift (stored_text (dict_get active ''summary'') (min (chars div 2) 480))) (\<lambda>earlier.
                 io_bind now_text (\<lambda>now.
                   io_return (Some
                     [(''kind'', PStr ''session_continuity_summary''),
                      (''based_on_compaction_id'', dict_get active ''compaction_id''), (''updated_at'', PStr now),
                      (''summary'', PStr (bounded_lines_text (summary_lines s earlier recent memories) chars)),
                      (''carry_forward'', PDict
                        [(''limits'', PDict [(''recent_message_limit'', PInt recent_limit),
                            (''source_memory_limit'', PInt sources), (''max_summary_chars'', PInt chars)]),
                         (''session_status'', PStr (session_status_name (sn_status s))),
                         (''current_workflow_id'', opt_str (sn_current_workflow_id s)),
                         (''memory_scope'', PDict (session_scope_object (sn_memory_scope s))),
                         (''recent_message_ids'', str_list (map sm_message_id recent)),
                         (''source_memory_ids'', PList (map (\<lambda>m. dict_get m ''memory_id'') memories)),
                         (''source_workflow_ids'', str_list workflow_ids),
                         (''recent_message_count'', PInt (int (length recent))),
                         (''source_memory_count'', PInt (int (length memories)))])]))))))"

definition refresh_session_continuity_summary :: "session \<Rightarrow> ('z memory_world_scheme, session) io" where
  "refresh_session_continuity_summary s =
     io_bind (io_lift (continuity_metadata s)) (\<lambda>c.
     io_bind (build_session_continuity_summary s [] CONTINUITY_RECENT_MESSAGE_LIMIT CONTINUITY_SOURCE_MEMORY_LIMIT
                CONTINUITY_MAX_SUMMARY_CHARS) (\<lambda>summary.
       let state = [(''compactions'', dict_list (co_compactions c)), (''active_compaction_id'', co_active_id c),
                    (''updated_at'', case summary of None \<Rightarrow> opt_str (co_updated_at c) | Some d \<Rightarrow> dict_get d ''updated_at'')] @
                   (case summary of None \<Rightarrow> [] | Some d \<Rightarrow> [(''active_summary'', PDict d)])
       in io_return (s\<lparr>sn_metadata := dict_put (sn_metadata s) ''continuity'' (PDict state)\<rparr>)))"

definition build_session_continuity_prompt_context ::
    "session \<Rightarrow> string list \<Rightarrow> ('z memory_world_scheme, pydict list) io" where
  "build_session_continuity_prompt_context s excluded =
     io_bind (build_session_continuity_summary s excluded CONTINUITY_RECENT_MESSAGE_LIMIT
                CONTINUITY_SOURCE_MEMORY_LIMIT CONTINUITY_MAX_SUMMARY_CHARS) (\<lambda>summary.
       io_return (case summary of
         None \<Rightarrow> []
       | Some d \<Rightarrow> [[(''title'', PStr ''Session continuity''),
           (''source'', PStr (''session_continuity:'' @ py_str (sn_session_id s))), (''content'', dict_get d ''summary'')]]))"

section \<open>Compaction\<close>

record compact_result =
  cr_compacted :: bool
  cr_reason :: string
  cr_session :: session
  cr_compaction :: "pydict option"

definition compact_result_object :: "compact_result \<Rightarrow> pydict res" where
  "compact_result_object r =
     res_bind (session_continuity_snapshot (cr_session r)) (\<lambda>c.
       Inr [(''compacted'', PBool (cr_compacted r)), (''reason'', PStr (cr_reason r)),
            (''session'', PDict (session_snapshot (cr_session r))), (''continuity'', PDict c),
            (''compaction'', dict_value (cr_compaction r))])"

definition memory_field_values :: "string \<Rightarrow> pydict list \<Rightarrow> pyval list" where
  "memory_field_values k ds = map (\<lambda>d. dict_get d k) ds"

definition same_compaction :: "pydict \<Rightarrow> string list \<Rightarrow> string list \<Rightarrow> string list \<Rightarrow> bool" where
  "same_compaction active compacted retained sources \<longleftrightarrow>
     py_eq (dict_get_or active ''compacted_message_ids'' (PList [])) (str_list compacted) \<and>
     py_eq (dict_get_or active ''retained_message_ids'' (PList [])) (str_list retained) \<and>
     py_eq (dict_get_or active ''source_memory_ids'' (PList [])) (str_list sources)"

definition role_counts_object :: "session_message list \<Rightarrow> pydict" where
  "role_counts_object ms =
     [(''user'', PInt (role_count User ms)), (''assistant'', PInt (role_count Assistant ms)),
      (''system'', PInt (role_count System ms))]"

definition compaction_object ::
    "session \<Rightarrow> string \<Rightarrow> string \<Rightarrow> int \<Rightarrow> session_message list \<Rightarrow> session_message list \<Rightarrow> string list \<Rightarrow> string list
      \<Rightarrow> pydict" where
  "compaction_object s compaction_id timestamp max_chars compacted retained sources workflow_ids =
     [(''compaction_id'', PStr compaction_id), (''kind'', PStr ''session_message_compaction''),
      (''strategy'', PStr CONTINUITY_COMPACTION_STRATEGY), (''created_at'', PStr timestamp),
      (''summary'', PStr (summarize_message_window compacted max_chars)),
      (''message_count'', PInt (int (length compacted))), (''message_roles'', PDict (role_counts_object compacted)),
      (''compacted_message_ids'', str_list (map sm_message_id compacted)),
      (''retained_message_ids'', str_list (map sm_message_id retained)),
      (''source_memory_ids'', str_list sources), (''source_workflow_ids'', str_list workflow_ids),
      (''memory_scope'', PDict (session_scope_object (sn_memory_scope s))),
      (''from_timestamp'', PStr (sm_created_at (hd compacted))), (''to_timestamp'', PStr (sm_created_at (last compacted)))]"

text \<open>The new compaction comes first; only so many are kept.\<close>

definition with_compaction :: "continuity \<Rightarrow> pydict \<Rightarrow> string \<Rightarrow> string \<Rightarrow> session \<Rightarrow> session" where
  "with_compaction c compaction compaction_id timestamp s =
     s\<lparr>sn_metadata := dict_put (sn_metadata s) ''continuity'' (PDict
        [(''compactions'', dict_list (take MAX_STORED_COMPACTIONS (compaction # co_compactions c))),
         (''active_compaction_id'', PStr compaction_id), (''updated_at'', PStr timestamp)])\<rparr>"

definition compact_session_continuity ::
    "string \<Rightarrow> pyval \<Rightarrow> pyval \<Rightarrow> pyval \<Rightarrow> ('z session_world_scheme, compact_result) io" where
  "compact_session_continuity session_id keep_recent_messages memory_limit max_summary_chars =
     io_bind (io_lift (session_positive_int keep_recent_messages ''keep_recent_messages'')) (\<lambda>keep.
     io_bind (io_lift (session_positive_int memory_limit ''memory_limit'')) (\<lambda>sources_limit.
     io_bind (io_lift (session_positive_int max_summary_chars ''max_summary_chars'')) (\<lambda>chars.
     io_bind (load_session session_id) (\<lambda>s.
     io_bind (io_lift (continuity_metadata s)) (\<lambda>c.
       if int (length (sn_messages s)) \<le> keep then
         io_return \<lparr>cr_compacted = False, cr_reason = ''not_enough_messages'', cr_session = s,
                    cr_compaction = co_active c\<rparr>
       else
         let retained = last_of keep (sn_messages s);
             compacted = take (length (sn_messages s) - nat keep) (sn_messages s)
         in io_bind (continuity_scope_memories s sources_limit) (\<lambda>(recent, more).
            let sources = unique_strings (memory_field_values ''memory_id'' (recent @ more));
                workflow_ids = unique_strings (map (\<lambda>m. opt_str (sm_workflow_id m)) compacted @
                                               memory_field_values ''workflow_id'' (recent @ more))
            in if (case co_active c of None \<Rightarrow> False
                   | Some a \<Rightarrow> same_compaction a (map sm_message_id compacted) (map sm_message_id retained) sources) then
                 io_return \<lparr>cr_compacted = False, cr_reason = ''already_compacted'', cr_session = s,
                            cr_compaction = co_active c\<rparr>
               else
                 io_bind now_text (\<lambda>timestamp.
                 io_bind uuid4 (\<lambda>compaction_id.
                 let compaction = compaction_object s compaction_id timestamp chars compacted retained sources workflow_ids
                 in io_bind (refresh_session_continuity_summary
                               (with_compaction c compaction compaction_id timestamp s)) (\<lambda>refreshed.
                    io_bind (write_session refreshed) (\<lambda>written.
                      io_return \<lparr>cr_compacted = True, cr_reason = ''compacted'', cr_session = written,
                                 cr_compaction = Some compaction\<rparr>)))))))))) "

section \<open>Messages\<close>

record message_request =
  mq_content :: pyval
  mq_agent :: pyval
  mq_tool_name :: "string option"
  mq_tool_args :: pyval
  mq_approval_id :: "string option"
  mq_metadata :: pyval

definition blank_message :: "string \<Rightarrow> message_role \<Rightarrow> string option \<Rightarrow> message_status \<Rightarrow> string \<Rightarrow> string \<Rightarrow> pydict \<Rightarrow> session_message" where
  "blank_message message_id role content status created_at agent metadata =
     \<lparr>sm_message_id = message_id, sm_role = role, sm_content = content, sm_status = status,
      sm_created_at = created_at, sm_agent = Some agent, sm_workflow_id = None, sm_run_id = None,
      sm_job_id = None, sm_worker_id = None, sm_metadata = metadata\<rparr>"

definition request_object :: "message_request \<Rightarrow> pydict res" where
  "request_object rq =
     res_bind (if mq_tool_args rq = PNone then Inr PNone
               else res_bind (dict_of (or_value (mq_tool_args rq) (PDict []))) (\<lambda>d. Inr (PDict d))) (\<lambda>args.
       Inr [(''tool'', opt_str (mq_tool_name rq)), (''tool_args'', args),
            (''approval_id'', opt_str (mq_approval_id rq))])"

text \<open>The message of the user, and the session with it.\<close>

definition new_user_message :: "message_request \<Rightarrow> string \<Rightarrow> string \<Rightarrow> ('z env_scheme, session_message) io" where
  "new_user_message rq content agent =
     io_bind now_text (\<lambda>timestamp.
     io_bind uuid4 (\<lambda>message_id.
     io_bind (io_lift (session_metadata (mq_metadata rq))) (\<lambda>metadata.
     io_bind (io_lift (request_object rq)) (\<lambda>request.
       io_return (blank_message message_id User (Some content) Submitted timestamp agent
         (dict_put metadata ''request'' (PDict request)))))))"

definition with_user_message :: "session \<Rightarrow> session_message \<Rightarrow> string \<Rightarrow> string \<Rightarrow> session res" where
  "with_user_message s m content agent =
     res_bind (normalize_memory_scope (PDict (session_scope_object (sn_memory_scope s))) agent) (\<lambda>scope.
       Inr (s\<lparr>sn_messages := sn_messages s @ [m], sn_agent := agent, sn_memory_scope := scope,
              sn_title := (case sn_title s of None \<Rightarrow> Some (default_title content) | Some t \<Rightarrow> Some t)\<rparr>))"

definition grounding_object :: "pydict list \<Rightarrow> pydict" where
  "grounding_object context =
     [(''profile'', PStr ''repo_assistant''),
      (''sources'', dict_list (map (\<lambda>e. [(''title'', dict_get e ''title''), (''source'', dict_get e ''source'')]) context))]"

definition with_grounding :: "pydict list \<Rightarrow> session_message \<Rightarrow> session_message" where
  "with_grounding context m =
     (if context = [] then m
      else m\<lparr>sm_metadata := dict_put (sm_metadata m) ''grounding'' (PDict (grounding_object context))\<rparr>)"

text \<open>The last message of a session, replaced: the code changes the object it has appended.\<close>

definition with_last_message :: "session_message \<Rightarrow> session \<Rightarrow> session" where
  "with_last_message m s = s\<lparr>sn_messages := butlast (sn_messages s) @ [m]\<rparr>"

text \<open>The run raised: the session becomes errored, says so in a message, and the exception goes on.\<close>

definition record_failed_run :: "session \<Rightarrow> string \<Rightarrow> exc \<Rightarrow> ('z session_world_scheme, 'a) io" where
  "record_failed_run s agent e =
     io_bind (io_lift (transition_session s Ss_errored)) (\<lambda>moved.
     io_bind uuid4 (\<lambda>message_id.
     io_bind now_text (\<lambda>now.
     io_then (write_session (moved\<lparr>sn_messages := sn_messages moved @
         [blank_message message_id Assistant None Errored now agent
           [(''error'', PDict [(''type'', PStr (exc_type e)), (''message'', PStr (exc_str e))])]]\<rparr>))
       (io_raise e))))"

text \<open>The identifiers that the message fields take over are texts or missing in every response of a run.\<close>

definition text_or_none :: "pyval \<Rightarrow> string option" where
  "text_or_none v = (case v of PStr s \<Rightarrow> Some s | _ \<Rightarrow> None)"

definition with_run_ids :: "pydict \<Rightarrow> pydict \<Rightarrow> session_message \<Rightarrow> session_message" where
  "with_run_ids result workflow m =
     m\<lparr>sm_workflow_id := text_or_none (dict_get workflow ''workflow_id''),
       sm_run_id := text_or_none (or_value (dict_get workflow ''latest_run_id'') (dict_get workflow ''run_id'')),
       sm_job_id := text_or_none (dict_get result ''job_id''),
       sm_worker_id := text_or_none (dict_get result ''worker_id'')\<rparr>"

text \<open>What the session takes from the response: the workflow, the scope, the next status.\<close>

definition follow_result :: "pydict \<Rightarrow> pydict \<Rightarrow> session \<Rightarrow> session res" where
  "follow_result result workflow s =
     (let workflow_id = dict_get workflow ''workflow_id'';
          run_id = or_value (dict_get workflow ''latest_run_id'') (dict_get workflow ''run_id'')
      in res_bind (session_optional_string workflow_id ''current_workflow_id'') (\<lambda>current.
         res_bind (session_optional_string run_id ''last_run_id'') (\<lambda>last_run.
         let job_id = (case non_empty_text (dict_get result ''job_id'') of None \<Rightarrow> sn_last_job_id s | Some j \<Rightarrow> Some j)
         in res_bind (follow_memory_scope (s\<lparr>sn_current_workflow_id := current,
                 sn_workflow_ids := unique_strings (map PStr (sn_workflow_ids s) @ [workflow_id]),
                 sn_last_run_id := last_run, sn_last_job_id := job_id\<rparr>) workflow_id run_id) (\<lambda>placed.
              transition_session placed
                (session_target_status (sn_status placed) (dict_get_or result ''status'' (PStr ''errored'')))))))"

definition assistant_reply :: "pydict \<Rightarrow> pydict \<Rightarrow> string \<Rightarrow> ('z env_scheme, session_message) io" where
  "assistant_reply result workflow agent =
     io_bind uuid4 (\<lambda>message_id.
     io_bind (io_lift (normalize_optional_message_content (dict_get result ''output''))) (\<lambda>content.
     io_bind now_text (\<lambda>now.
       io_return (with_run_ids result workflow
         (blank_message message_id Assistant content
            (if dict_get result ''status'' = PStr ''success'' then Completed else Msg_waiting) now agent
            [(''result_status'', dict_get result ''status''), (''approval'', dict_get result ''approval''),
             (''retry'', dict_get result ''retry'')])))))"

definition record_result ::
    "session \<Rightarrow> session_message \<Rightarrow> string \<Rightarrow> pydict \<Rightarrow> ('z session_world_scheme, session) io" where
  "record_result s m agent result =
     io_bind (io_lift (case or_dict (dict_get result ''workflow'') of
                         PDict d \<Rightarrow> Inr d | _ \<Rightarrow> Inl attribute_error)) (\<lambda>workflow.
     let answered = with_run_ids result workflow (m\<lparr>sm_status := Completed\<rparr>)
     in io_bind (io_lift (follow_result result workflow (with_last_message answered s))) (\<lambda>moved.
        io_bind (assistant_reply result workflow agent) (\<lambda>reply.
        io_bind (refresh_session_continuity_summary (moved\<lparr>sn_messages := sn_messages moved @ [reply]\<rparr>))
          write_session)))"

text \<open>Everything before the run: the session with the new message, the message, and what the run is called with.\<close>

record prepared =
  pp_session :: session
  pp_message :: session_message
  pp_content :: string
  pp_agent :: string
  pp_context :: "pydict list"

definition prepare_message ::
    "'z session_world_scheme services \<Rightarrow> string \<Rightarrow> message_request \<Rightarrow> ('z session_world_scheme, prepared) io" where
  "prepare_message sv session_id rq =
     io_bind (load_session session_id) (\<lambda>s.
       if sn_status s = Ss_archived then
         io_raise (ValueError (''Session `'' @ session_id @ ''` is archived and cannot accept new messages''))
       else
         io_bind (io_lift (session_string (mq_content rq) ''content'')) (\<lambda>content.
         io_bind (io_lift (session_string (or_value (mq_agent rq) (PStr (sn_agent s))) ''agent'')) (\<lambda>agent.
         io_bind (new_user_message rq content agent) (\<lambda>m.
         io_bind (io_lift (with_user_message s m content agent)) (\<lambda>extended.
         io_bind (build_session_continuity_prompt_context extended [sm_message_id m]) (\<lambda>continuity_context.
         io_bind (build_assistant_prompt_context (sv_assistant sv) (opt_str (ow_surface (sn_ownership s))) content agent)
           (\<lambda>grounding.
         let context = continuity_context @ grounding; asked = with_grounding context m
         in io_return \<lparr>pp_session = with_last_message asked extended, pp_message = asked, pp_content = content,
                       pp_agent = agent, pp_context = context\<rparr>)))))))"

definition run_message ::
    "'z session_world_scheme services \<Rightarrow> message_request \<Rightarrow> prepared
      \<Rightarrow> ('z session_world_scheme, pydict option) io" where
  "run_message sv rq p =
     start_workflow (sv_passes sv) (as_host (sv_assistant sv)) (pp_content p) (pp_agent p) (mq_tool_name rq)
       (mq_tool_args rq) (mq_approval_id rq) None None (dict_list (pp_context p))"

text \<open>The result is the session as written and the response of the run; \<open>None\<close> as in \<open>run_agent\<close>.\<close>

definition append_session_message ::
    "'z session_world_scheme services \<Rightarrow> string \<Rightarrow> message_request
      \<Rightarrow> ('z session_world_scheme, (session \<times> pydict) option) io" where
  "append_session_message sv session_id rq =
     io_bind (prepare_message sv session_id rq) (\<lambda>p.
     io_bind (io_catch (run_message sv rq p) (record_failed_run (pp_session p) (pp_agent p))) (\<lambda>result.
       case result of
         None \<Rightarrow> io_return None
       | Some r \<Rightarrow>
           io_bind (record_result (pp_session p) (pp_message p) (pp_agent p) r)
             (\<lambda>written. io_return (Some (written, r)))))"

end
