(* ===== verification/Grounding_Properties.thy ===== *)
theory Grounding_Properties
  imports Grounding Agent_Properties
begin

text \<open>
  What the grounding of a question may reach: it calls five tools that only read, and each only where
  the agent lists the tool and its policy allows the action outright. It adds at most four excerpts.
\<close>

definition GROUNDING_TOOLS :: "string list" where
  "GROUNDING_TOOLS = [''inspect_session'', ''inspect_workflow'', ''search_files'', ''read_file_range'', ''fetch_url'']"

definition reads_only :: "'z agent_world_scheme host \<Rightarrow> string \<Rightarrow> ('z \<Rightarrow> bool) \<Rightarrow> bool" where
  "reads_only h agent_name P \<longleftrightarrow>
     (\<forall>name \<in> set GROUNDING_TOOLS. \<forall>args. agent_permits h agent_name name args \<longrightarrow> keeps (outside P) (h_tool h name args))"

lemma tool_permitted_agent_permits:
  assumes "tool_permitted_for_agent a agent_name name args = Inr True"
  shows "agent_permits (as_host a) agent_name name args"
proof -
  from assms obtain config td action policy decision where
      c: "load_agent (h_policy_env (as_host a)) agent_name = Inr config"
      "(case dict_get_or config ''tools'' (PList []) of
          PNone \<Rightarrow> Inl (TypeError ''argument of type NoneType is not iterable'') | tools \<Rightarrow> tool_allowed name tools) = Inr True"
      "get_tool_definition name = Inr td" "tool_action td args = Inr action"
      "build_agent_policy (h_policy_env (as_host a)) config = Inr policy"
      "evaluate_policy (h_policy_env (as_host a)) policy action = Inr decision" "pd_allowed decision"
    by (auto simp: tool_permitted_for_agent_def Let_def split: if_splits)
  from c(2) have "tool_allowed name (dict_get_or config ''tools'' (PList [])) = Inr True"
    by (auto split: pyval.splits)
  with c show ?thesis by (auto simp: agent_permits_def granted_def)
qed

lemma keeps_guarded:
  assumes "reads_only (as_host a) agent_name P" and "name \<in> set GROUNDING_TOOLS"
  shows "keeps (outside P) (guarded_tool_call a agent_name name args)"
  unfolding guarded_tool_call_def keeps_wp
proof (intro allI impI)
  fix w assume w: "outside P w"
  have "keeps (outside P) (call_tool (as_host a) name (PDict args))"
    if "tool_permitted_for_agent a agent_name name args = Inr True"
    using assms tool_permitted_agent_permits [OF that]
    by (intro outside_call_tool [where d = args]) (auto simp: reads_only_def)
  then show "wp (io_bind (io_lift (tool_permitted_for_agent a agent_name name args)) (\<lambda>permitted.
      if \<not> permitted then io_return None
      else io_bind (call_tool (as_host a) name (PDict args)) (\<lambda>result.
        io_return (if py_truthy (dict_get result ''ok'') then Some result else None))))
     (\<lambda>_. outside P) (\<lambda>_. outside P) w"
    using w by (auto simp: wp keeps_wp split: sum.splits)
qed

lemma inspection_tools: "kind \<in> {''session'', ''workflow''} \<Longrightarrow> ''inspect_'' @ kind \<in> set GROUNDING_TOOLS"
  by (auto simp: GROUNDING_TOOLS_def)

lemma keeps_identifiers:
  assumes "reads_only (as_host a) agent_name P" and "\<forall>(kind, i) \<in> set todo. kind \<in> {''session'', ''workflow''}"
  shows "keeps (outside P) (identifier_entries a agent_name lowered seen todo)"
  using assms(2)
proof (induction todo arbitrary: seen)
  case Nil
  then show ?case by (simp add: keeps_return)
next
  case (Cons item rest)
  obtain kind i where item: "item = (kind, i)" by fastforce
  with Cons.prems have "keeps (outside P) (guarded_tool_call a agent_name (''inspect_'' @ kind) args)" for args
    by (intro keeps_guarded [OF assms(1)] inspection_tools) auto
  then have "keeps (outside P) (inspection_entry a agent_name kind i)"
    unfolding inspection_entry_def by (intro keeps_intro)
  then show ?case
    using Cons item by (auto intro!: keeps_intro split: option.split)
qed

lemma keeps_external:
  assumes "reads_only (as_host a) agent_name P"
  shows "keeps (outside P) (external_entries a agent_name todo)"
proof (induction todo)
  case Nil
  then show ?case by (simp add: keeps_return)
next
  case (Cons item rest)
  have "keeps (outside P) (guarded_tool_call a agent_name ''fetch_url'' args)" for args
    by (rule keeps_guarded [OF assms]) (simp add: GROUNDING_TOOLS_def)
  with Cons show ?case by (cases item) (auto intro!: keeps_intro split: option.split)
qed

lemma keeps_hits:
  assumes "reads_only (as_host a) agent_name P"
  shows "keeps (outside P) (collect_hits a agent_name query hits (seen, excerpts))"
proof (induction hits arbitrary: seen excerpts)
  case Nil
  then show ?case by (simp add: keeps_return)
next
  case (Cons hit hits)
  have call: "keeps (outside P) (guarded_tool_call a agent_name ''read_file_range'' args)" for args
    by (rule keeps_guarded [OF assms]) (simp add: GROUNDING_TOOLS_def)
  show ?case
    unfolding collect_hits.simps Let_def
    by (intro keeps_bind keeps_lift) (auto intro!: keeps_intro call Cons.IH split: pyval.split option.split)
qed

lemma keeps_searches:
  assumes "reads_only (as_host a) agent_name P"
  shows "keeps (outside P) (collect_searches a agent_name todo found)"
proof (induction todo arbitrary: found)
  case Nil
  then show ?case by (simp add: keeps_return)
next
  case (Cons item rest)
  have call: "keeps (outside P) (guarded_tool_call a agent_name ''search_files'' args)" for args
    by (rule keeps_guarded [OF assms]) (simp add: GROUNDING_TOOLS_def)
  have hits: "keeps (outside P) (collect_hits a agent_name query hits found)" for query hits
    using keeps_hits [OF assms] by (cases found) simp
  obtain path pattern query where item: "item = (path, pattern, query)" by (cases item)
  show ?case
    unfolding item collect_searches.simps by (intro keeps_intro call hits Cons.IH)
qed

lemma keeps_grounding:
  assumes "reads_only (as_host a) agent_name P"
  shows "keeps (outside P) (build_assistant_prompt_context a surface user_input agent_name)"
proof -
  have "keeps (outside P) (runtime_identifier_context a agent_name user_input)"
    unfolding runtime_identifier_context_def by (rule keeps_identifiers [OF assms]) auto
  moreover have "keeps (outside P) (tool_guided_context a agent_name user_input)"
    unfolding tool_guided_context_def Let_def by (rule keeps_searches [OF assms])
  moreover have "keeps (outside P) (external_fetch_context a agent_name user_input)"
    unfolding external_fetch_context_def by (rule keeps_external [OF assms])
  ultimately show ?thesis
    unfolding build_assistant_prompt_context_def Let_def by (intro keeps_intro)
qed

end
