(* ===== verification/Session_Properties.thy ===== *)
theory Session_Properties
  imports Session Grounding_Properties Runner_Properties
begin

text \<open>
  Properties of sessions: what is written is loaded back; the token of a session opens it; statuses
  follow the table of transitions over any requests, and the history records them; pruning; what a
  compaction keeps; what a message may reach, and which messages are lost.
\<close>

section \<open>Texts that are stored\<close>

lemma py_strip_id:
  assumes "s \<noteq> []" and "\<not> py_space (hd s)" and "\<not> py_space (last s)"
  shows "py_strip s = s"
proof -
  have "py_lstrip s = s" unfolding py_lstrip_def using assms(2) by (intro dropWhile_id) simp
  moreover have "py_rstrip s = s"
    unfolding py_rstrip_def using assms(1,3) by (subst dropWhile_id) (simp_all add: hd_rev)
  ultimately show ?thesis by (simp add: py_strip_def)
qed

lemma clean_iff: "clean s \<longleftrightarrow> s \<noteq> [] \<and> py_strip s = s"
  by (auto simp: clean_def)

definition clean_opt :: "string option \<Rightarrow> bool" where
  "clean_opt x \<longleftrightarrow> (case x of None \<Rightarrow> True | Some s \<Rightarrow> clean s)"

lemma clean_opt_simps [simp]: "clean_opt None" "clean_opt (Some s) = clean s"
  by (simp_all add: clean_opt_def)

lemma digit_char_not_space: "d < 10 \<Longrightarrow> \<not> py_space (digit_char d)"
  by (simp add: py_space_def digit_char_def Let_def)

lemma hd_show_nat: "show_nat n \<noteq> [] \<and> \<not> py_space (hd (show_nat n))"
proof (induction n rule: less_induct)
  case (less n)
  then show ?case
    by (cases "n < 10") (simp_all add: show_nat_digits digit_char_not_space)
qed

lemma hd_show_int: "show_int i \<noteq> [] \<and> \<not> py_space (hd (show_int i))"
  using hd_show_nat by (auto simp: show_int_def py_space_def)

lemma hd_pad_left: "pad_left n i \<noteq> [] \<and> \<not> py_space (hd (pad_left n i))"
  using hd_show_int [of i] by (cases "n - length (show_int i)") (auto simp: pad_left_def py_space_def Let_def)

lemma wall_text_hd: "wall_text us \<noteq> [] \<and> \<not> py_space (hd (wall_text us))"
  using hd_pad_left by (auto simp: wall_text_def Let_def hd_append split: prod.split)

lemma clean_isoformat: "clean (isoformat (utc_stamp us))"
proof -
  have off: "offset_text 0 = ''+00:00''"
    by (simp add: offset_text_def pad_left_def show_int_def show_nat_digits digit_chars Let_def)
  have "isoformat (utc_stamp us) = wall_text us @ ''+00:00''"
    by (simp add: isoformat_def utc_stamp_def stamp_wall_def off)
  then show ?thesis
    using wall_text_hd [of us] by (auto simp: clean_iff hd_append py_space_def intro!: py_strip_id)
qed

lemma session_string_clean: "clean s \<Longrightarrow> session_string (PStr s) f = Inr s"
  by (simp add: session_string_def clean_def del: non_empty_text.simps)

lemma session_string_Inr: "session_string v f = Inr s \<Longrightarrow> clean s"
  by (cases v) (auto simp: session_string_def clean_iff split: if_splits)

lemma session_optional_clean: "clean_opt x \<Longrightarrow> session_optional_string (opt_str x) f = Inr x"
  by (cases x) (simp_all add: session_optional_string_def session_string_clean)

lemma session_optional_Inr: "session_optional_string v f = Inr x \<Longrightarrow> clean_opt x"
  by (auto simp: session_optional_string_def dest: session_string_Inr split: if_splits)

lemma message_content_clean: "clean_opt x \<Longrightarrow> normalize_optional_message_content (opt_str x) = Inr x"
  by (cases x) (simp_all add: normalize_optional_message_content_def clean_iff)

lemma message_content_Inr: "normalize_optional_message_content v = Inr x \<Longrightarrow> clean_opt x"
  by (cases v) (auto simp: normalize_optional_message_content_def clean_iff split: if_splits)

lemma unique_strings_clean:
  assumes "\<And>s. s \<in> set ss \<Longrightarrow> clean s" and "distinct ss"
  shows "unique_strings (map PStr ss) = ss"
proof -
  have "List.map_filter non_empty_text (map PStr ss) = ss"
    using assms(1) by (induction ss) (auto simp: clean_def List.map_filter_simps simp del: non_empty_text.simps)
  then show ?thesis using assms(2) by (simp add: unique_strings_def dedupe_id)
qed

lemma unique_strings_props:
  "distinct (unique_strings vs)" "s \<in> set (unique_strings vs) \<Longrightarrow> clean s"
  by (auto simp: unique_strings_def distinct_dedupe set_dedupe List.map_filter_def clean_iff
      elim!: non_empty_text.elims split: if_splits)

section \<open>Normal sessions\<close>

definition normal_scope :: "session_scope \<Rightarrow> bool" where
  "normal_scope sc \<longleftrightarrow>
     (if ms_kind sc = Scope_global then ms_value sc = None
      else case ms_value sc of None \<Rightarrow> False | Some v \<Rightarrow> clean v)"

definition normal_ownership :: "ownership \<Rightarrow> bool" where
  "normal_ownership ow \<longleftrightarrow> (ow_auth_required ow \<longrightarrow> ow_token_hash ow \<noteq> None) \<and>
     clean_opt (ow_surface ow) \<and> clean_opt (ow_token_hash ow) \<and> clean_opt (ow_issued_at ow)"

definition normal_message :: "session_message \<Rightarrow> bool" where
  "normal_message m \<longleftrightarrow> clean (sm_message_id m) \<and> clean_opt (sm_content m) \<and> clean (sm_created_at m) \<and>
     clean_opt (sm_agent m) \<and> clean_opt (sm_workflow_id m) \<and> clean_opt (sm_run_id m) \<and>
     clean_opt (sm_job_id m) \<and> clean_opt (sm_worker_id m)"

definition normal_session :: "session \<Rightarrow> bool" where
  "normal_session s \<longleftrightarrow> clean_opt (sn_title s) \<and> clean (sn_agent s) \<and> normal_ownership (sn_ownership s) \<and>
     normal_scope (sn_memory_scope s) \<and> clean_opt (sn_current_workflow_id s) \<and>
     distinct (sn_workflow_ids s) \<and> (\<forall>k \<in> set (sn_workflow_ids s). clean k) \<and>
     clean_opt (sn_last_run_id s) \<and> clean_opt (sn_last_job_id s) \<and> (\<forall>m \<in> set (sn_messages s). normal_message m) \<and>
     clean (sn_created_at s)"

lemma named_name:
  assumes "x \<in> set xs" and "inj_on name (set xs)"
  shows "named name xs what (PStr (name x)) = Inr x"
proof -
  have "find (\<lambda>y. name y = name x) xs = Some x"
    using assms
  proof (induction xs)
    case (Cons y ys)
    then show ?case by (auto simp: inj_on_def)
  qed simp
  then show ?thesis by (simp add: named_def)
qed

lemma status_again: "normalize_status (PStr (session_status_name st)) = Inr st"
proof -
  have "st \<in> set SESSION_STATUSES" by (cases st) (simp_all add: SESSION_STATUSES_def)
  moreover have "inj_on session_status_name (set SESSION_STATUSES)" by (simp add: SESSION_STATUSES_def)
  ultimately show ?thesis unfolding normalize_status_def by (rule named_name)
qed

lemma role_again: "normalize_message_role (PStr (message_role_name r)) = Inr r"
proof -
  have "r \<in> set [User, Assistant, System]" by (cases r) simp_all
  moreover have "inj_on message_role_name (set [User, Assistant, System])" by simp
  ultimately show ?thesis unfolding normalize_message_role_def by (rule named_name)
qed

lemma message_status_again: "normalize_message_status (PStr (message_status_name ms)) = Inr ms"
proof -
  have "ms \<in> set [Submitted, Completed, Msg_waiting, Errored]" by (cases ms) simp_all
  moreover have "inj_on message_status_name (set [Submitted, Completed, Msg_waiting, Errored])" by simp
  ultimately show ?thesis unfolding normalize_message_status_def by (rule named_name)
qed

lemma scope_kind_again: "named scope_kind_name MEMORY_SCOPE_KINDS f (PStr (scope_kind_name k)) = Inr k"
proof -
  have "k \<in> set MEMORY_SCOPE_KINDS" by (cases k) (simp_all add: MEMORY_SCOPE_KINDS_def)
  moreover have "inj_on scope_kind_name (set MEMORY_SCOPE_KINDS)" by (simp add: MEMORY_SCOPE_KINDS_def)
  ultimately show ?thesis by (rule named_name)
qed

lemmas names_again = status_again role_again message_status_again scope_kind_again

lemma ownership_again:
  "normal_ownership ow \<Longrightarrow> normalize_ownership (PDict (storage_ownership_snapshot ow)) = Inr ow"
  by (auto simp: normalize_ownership_def storage_ownership_snapshot_def dict_get_def dict_get_or_def
      normal_ownership_def session_optional_clean)

lemma scope_again:
  "normal_scope sc \<Longrightarrow> normalize_memory_scope (PDict (session_scope_object sc)) agent = Inr sc"
  by (auto simp: normalize_memory_scope_def session_scope_object_def dict_get_or_def names_again normal_scope_def
      normalize_scope_value_def session_string_clean split: if_splits option.splits)

lemma message_again: "normal_message m \<Longrightarrow> load_message (PDict (message_snapshot m)) = Inr m"
  by (simp add: load_message_def object_of_def message_snapshot_def dict_item_def dict_get_def session_string_clean
      names_again message_content_clean message_text_field_def session_optional_clean session_metadata_def
      normal_message_def)

lemma messages_again:
  "(\<forall>m \<in> set ms. normal_message m) \<Longrightarrow> res_map load_message (map (\<lambda>m. PDict (message_snapshot m)) ms) = Inr ms"
  by (induction ms) (simp_all add: message_again)

lemma history_again: "normalize_transition_history (PList (map PDict h)) = Inr h"
proof -
  have "res_map (\<lambda>e. case e of PDict d \<Rightarrow> Inr d
      | _ \<Rightarrow> Inl (ValueError ''Session `transition_history` entries must be objects'')) (map PDict h) = Inr h"
    by (induction h) simp_all
  then show ?thesis by (simp add: normalize_transition_history_def)
qed

lemmas session_objects = session_storage_payload_def session_summary_with_def session_messages_object_def
  str_list_def dict_list_def

lemma session_of_payload:
  assumes "normal_session s"
  shows "session_of (session_storage_payload s) = Inr (s\<lparr>sn_created_at := [], sn_updated_at := []\<rparr>)"
proof -
  have ids: "unique_strings (map PStr (sn_workflow_ids s)) = sn_workflow_ids s"
    using assms by (intro unique_strings_clean) (auto simp: normal_session_def)
  have ms: "res_map load_message (map PDict (map message_snapshot (sn_messages s))) = Inr (sn_messages s)"
    using assms messages_again [of "sn_messages s"] by (simp add: normal_session_def comp_def)
  show ?thesis
    using assms ids ms
    by (simp add: session_of_def session_objects dict_item_def dict_get_def dict_get_or_def optional_field_def
        session_optional_clean session_string_clean names_again ownership_again scope_again session_metadata_def
        history_again normal_session_def)
qed

lemma load_message_normal: "load_message v = Inr m \<Longrightarrow> normal_message m"
  by (auto simp: load_message_def normal_message_def message_text_field_def
      dest!: session_string_Inr session_optional_Inr message_content_Inr)

lemma load_messages_normal: "res_map load_message vs = Inr ms \<Longrightarrow> m \<in> set ms \<Longrightarrow> normal_message m"
  using res_map_Inr [of load_message vs ms] load_message_normal by blast

lemma load_ownership_normal: "normalize_ownership v = Inr ow \<Longrightarrow> normal_ownership ow"
  by (cases v) (auto simp: normalize_ownership_def normal_ownership_def dest!: session_optional_Inr
      split: pyval.splits if_splits)

lemma load_scope_normal: "clean agent \<Longrightarrow> normalize_memory_scope v agent = Inr sc \<Longrightarrow> normal_scope sc"
  by (cases v) (auto simp: normalize_memory_scope_def normal_scope_def normalize_scope_value_def
      dest!: session_string_Inr split: if_splits)

lemma session_of_normal:
  assumes "session_of d = Inr s" and "clean t"
  shows "normal_session (s\<lparr>sn_created_at := t, sn_updated_at := u\<rparr>)"
proof -
  from assms(1) obtain agent where "session_string (dict_get_or d ''agent'' (PStr ''default'')) ''agent'' = Inr agent"
      "sn_agent s = agent" "normalize_memory_scope (dict_get d ''memory_scope'') agent = Inr (sn_memory_scope s)"
    by (auto simp: session_of_def)
  then have "clean (sn_agent s)" "normal_scope (sn_memory_scope s)"
    using load_scope_normal by (auto dest: session_string_Inr)
  then show ?thesis
    using assms
    by (auto simp: session_of_def normal_session_def optional_field_def unique_strings_props load_ownership_normal
        dest: session_optional_Inr load_messages_normal)
qed

section \<open>Writing and loading\<close>

lemma on_session_files_eq:
  "on_session_files m w = (fst (m (session_files w)), w\<lparr>session_files := snd (m (session_files w))\<rparr>)"
  by (simp add: on_session_files_def split: prod.split)

lemma wp_on_session_files [wp]:
  "wp (on_session_files m) Q E w =
     wp m (\<lambda>x fs. Q x (w\<lparr>session_files := fs\<rparr>)) (\<lambda>e fs. E e (w\<lparr>session_files := fs\<rparr>)) (session_files w)"
  by (auto simp: wp_def on_session_files_def split: prod.splits sum.splits)

lemma wp_now_text [wp]:
  "wp now_text Q E w = Q (isoformat (utc_stamp (clk w (ticks w)))) (w\<lparr>ticks := Suc (ticks w)\<rparr>)"
  by (simp add: now_text_def wp)

lemma session_schema_ok: "schema_name_ok SESSION_STATE_SCHEMA"
  by code_simp

definition stored_session :: "string \<Rightarrow> state_dir \<Rightarrow> pydict option res" where
  "stored_session path fs =
     (case dir_get (docs fs) path of
        None \<Rightarrow> Inr None
      | Some v \<Rightarrow> res_bind (unwrap_state_payload v SESSION_STATE_SCHEMA) (\<lambda>p. Inr (Some p)))"

definition put_session :: "session \<Rightarrow> state_dir \<Rightarrow> state_dir" where
  "put_session s fs = fs\<lparr>docs := dir_put (docs fs) (py_str (sn_session_id s))
     (enveloped (session_storage_payload s) SESSION_STATE_SCHEMA PERSISTED_STATE_VERSION)\<rparr>"

lemma stored_put:
  "stored_session k (put_session s fs) =
     (if k = py_str (sn_session_id s) then Inr (Some (session_storage_payload s)) else stored_session k fs)"
  by (simp add: stored_session_def put_session_def dir_simps unwrap_enveloped [OF version_current])

lemma ticks_then_files:
  "ticks_update f (session_files_update g w) = session_files_update g (ticks_update f w)"
  by simp

lemma wp_write_session:
  "wp (write_session s) Q E w =
     (let stamped = s\<lparr>sn_updated_at := isoformat (utc_stamp (clk w (ticks w)))\<rparr>;
          fs = (session_files w)\<lparr>dir_exists := True\<rparr>;
          w1 = w\<lparr>ticks := Suc (ticks w), session_files := fs\<rparr>
      in case res_bind (stored_session (py_str (sn_session_id s)) fs)
                (\<lambda>previous. build_session_transition_history previous (session_storage_payload stamped)) of
           Inl e \<Rightarrow> E e w1
         | Inr h \<Rightarrow> (let final = stamped\<lparr>sn_transition_history := h\<rparr>
                     in Q final (w1\<lparr>session_files := put_session final fs\<rparr>)))"
  by (simp add: write_session_def wp session_file_def stored_session_def put_session_def Let_def wp_def [of "load_state_payload p s" for p s]
      wp_def [of "write_state_payload p d s v" for p d s v] load_state_payload_eq
      write_state_payload_ok [OF session_schema_ok version_current] ticks_then_files split: option.split sum.split)

lemma write_session_InrE:
  assumes "write_session s w = (Inr s', w')"
  obtains h previous where
    "s' = s\<lparr>sn_updated_at := isoformat (utc_stamp (clk w (ticks w))), sn_transition_history := h\<rparr>"
    "session_files w' = put_session s' ((session_files w)\<lparr>dir_exists := True\<rparr>)"
    "stored_session (py_str (sn_session_id s)) ((session_files w)\<lparr>dir_exists := True\<rparr>) = Inr previous"
    "build_session_transition_history previous (session_storage_payload
        (s\<lparr>sn_updated_at := isoformat (utc_stamp (clk w (ticks w)))\<rparr>)) = Inr h"
    "w' = w\<lparr>ticks := Suc (ticks w), session_files := session_files w'\<rparr>"
proof -
  have "wp (write_session s) (\<lambda>x v. x = s' \<and> v = w') (\<lambda>_ _. False) w"
    by (simp add: wp_def assms)
  then show thesis
    by (auto simp: wp_write_session Let_def split: sum.splits intro!: that)
qed

lemma loaded_session:
  assumes "stored_session k (session_files w) = Inr (Some (session_storage_payload s))" and "normal_session s"
    and "clean (sn_updated_at s)"
  shows "load_session k w = (Inr s, w\<lparr>ticks := Suc (Suc (ticks w))\<rparr>)"
proof -
  from assms(1) obtain v where v: "dir_get (docs (session_files w)) k = Some v"
      "unwrap_state_payload v SESSION_STATE_SCHEMA = Inr (session_storage_payload s)"
    by (auto simp: stored_session_def split: option.splits)
  have times: "dict_get_or (session_storage_payload s) ''created_at'' d = PStr (sn_created_at s)"
    "dict_get_or (session_storage_payload s) ''updated_at'' d = PStr (sn_updated_at s)" for d
    by (simp_all add: session_objects dict_get_or_def)
  have "wp (load_session k) (\<lambda>x v. x = s \<and> v = w\<lparr>ticks := Suc (Suc (ticks w))\<rparr>) (\<lambda>_ _. False) w"
    using v assms(2,3)
    by (simp add: load_session_def wp session_file_def wp_def [of "load_state_payload p s" for p s] load_state_payload_eq
        session_of_payload time_field_def times session_string_clean normal_session_def)
  then show ?thesis by (auto simp: wp_def split: prod.splits sum.splits)
qed

lemma load_written:
  assumes "normal_session s" and "write_session s w = (Inr s', w')"
  shows "load_session (py_str (sn_session_id s)) w' = (Inr s', w'\<lparr>ticks := Suc (Suc (ticks w'))\<rparr>)"
    and "sn_session_id s' = sn_session_id s" and "sn_ownership s' = sn_ownership s"
    and "k \<noteq> py_str (sn_session_id s) \<Longrightarrow> stored_session k (session_files w') = stored_session k (session_files w)"
proof -
  from assms(2) obtain h where s': "s' = s\<lparr>sn_updated_at := isoformat (utc_stamp (clk w (ticks w))), sn_transition_history := h\<rparr>"
      and fs: "session_files w' = put_session s' ((session_files w)\<lparr>dir_exists := True\<rparr>)"
    by (rule write_session_InrE)
  have "normal_session s'" and "clean (sn_updated_at s')"
    using assms(1) clean_isoformat by (simp_all add: s' normal_session_def)
  then show "load_session (py_str (sn_session_id s)) w' = (Inr s', w'\<lparr>ticks := Suc (Suc (ticks w'))\<rparr>)"
    by (intro loaded_session) (simp_all add: fs stored_put s')
  show "sn_session_id s' = sn_session_id s" and "sn_ownership s' = sn_ownership s" by (simp_all add: s')
  show "k \<noteq> py_str (sn_session_id s) \<Longrightarrow> stored_session k (session_files w') = stored_session k (session_files w)"
    by (simp add: fs stored_put s') (simp add: stored_session_def)
qed

text \<open>
  C6: a session is loaded back exactly as it was written. A session whose texts are trimmed, as every
  loaded one is, can be written, and what \<open>write_session\<close> gives, with the new time and history, is what
  \<open>load_session\<close> of its identifier then gives, messages, ownership and metadata included; loading
  changes nothing but the clock, and the files of the other sessions are as before.
\<close>

theorem session_write_load:
  assumes "normal_session s" and "write_session s w = (Inr s', w')"
  shows "load_session (py_str (sn_session_id s)) w' = (Inr s', w'\<lparr>ticks := Suc (Suc (ticks w'))\<rparr>) \<and>
    (\<forall>k. k = py_str (sn_session_id s) \<or> stored_session k (session_files w') = stored_session k (session_files w))"
  using load_written [OF assms] by blast

text \<open>A session with one message, and a world without files.\<close>

definition sample_session :: session where
  "sample_session =
     \<lparr>sn_session_id = PStr ''s1'', sn_title = Some ''t'', sn_agent = ''a'', sn_status = Ss_active,
      sn_ownership = \<lparr>ow_auth_required = True, ow_surface = None, ow_token_hash = Some ''h'', ow_issued_at = Some ''i''\<rparr>,
      sn_memory_scope = \<lparr>ms_kind = Scope_agent, ms_value = Some ''a''\<rparr>, sn_current_workflow_id = Some ''w1'',
      sn_workflow_ids = [''w1''], sn_last_run_id = Some ''r1'', sn_last_job_id = None,
      sn_messages = [blank_message ''m1'' User (Some ''hello'') Completed ''c'' ''a'' []], sn_metadata = [],
      sn_transition_history = [], sn_created_at = ''c'', sn_updated_at = ''u''\<rparr>"

definition sample_session_world :: "string list session_world_scheme" where
  "sample_session_world = agent_world.extend (agent_world.truncate (sample_world\<lparr>uuids := (\<lambda>n. replicate (Suc n) CHR ''u'')\<rparr>))
     \<lparr>session_files = \<lparr>dir_exists = False, docs = []\<rparr>, token_supply = (\<lambda>n. replicate (Suc n) CHR ''t''), token_n = 0, \<dots> = []\<rparr>"

definition sample_services :: "string list session_world_scheme services" where
  "sample_services =
     \<lparr>sv_assistant =
        \<lparr>as_host =
           \<lparr>h_policy_env = sample_policies ''http'', h_json_len = (\<lambda>v. 10),
            h_tool = (\<lambda>name args w. (Inr (PStr ''body''), session_world.more_update (\<lambda>l. name # l) w)),
            h_openai = (\<lambda>m p w. (Inr ''text'', session_world.more_update (\<lambda>l. m # l) w)),
            h_ollama = (\<lambda>u b w. (Inr Http_unreachable, session_world.more_update (\<lambda>l. u # l) w))\<rparr>,
         as_docs = (\<lambda>path. None), as_keywords = []\<rparr>,
      sv_hash = (\<lambda>t. if t = ''t'' then ''h'' else ''x''), sv_passes = 3\<rparr>"

lemma new_session_written:
  assumes "dir_get (docs (session_files w)) (py_str (sn_session_id s)) = None"
  shows "\<exists>s' w'. write_session s w = (Inr s', w')"
proof -
  have "wp (write_session s) (\<lambda>_ _. True) (\<lambda>_ _. False) w"
    using assms
    by (simp add: wp_write_session stored_session_def Let_def build_session_transition_history_def
        session_objects dict_get_def dict_item_def history_again)
  then show ?thesis by (auto simp: wp_def split: prod.splits sum.splits)
qed

theorem session_write_load_witness:
  "case write_session sample_session sample_session_world of
     (Inr s', w') \<Rightarrow> load_session ''s1'' w' = (Inr s', w'\<lparr>ticks := Suc (Suc (ticks w'))\<rparr>) \<and>
       stored_session ''s2'' (session_files w') = Inr None
   | _ \<Rightarrow> False"
proof -
  have normal: "normal_session sample_session"
    by (simp add: sample_session_def normal_session_def normal_ownership_def normal_scope_def normal_message_def
        blank_message_def clean_iff) (simp add: py_strip_def py_lstrip_def py_rstrip_def py_space_def)
  obtain s' w' where w: "write_session sample_session sample_session_world = (Inr s', w')"
    using new_session_written [of sample_session_world sample_session]
    by (auto simp: sample_session_def sample_session_world_def agent_world.defs dir_get_def)
  have id: "py_str (sn_session_id sample_session) = ''s1''" by (simp add: sample_session_def)
  note loaded = session_write_load [OF normal w, unfolded id]
  have "stored_session ''s2'' (session_files sample_session_world) = Inr None"
    by (simp add: sample_session_world_def agent_world.defs stored_session_def dir_get_def)
  moreover have "stored_session ''s2'' (session_files w') = stored_session ''s2'' (session_files sample_session_world)"
    using loaded [THEN conjunct2, THEN spec, of "''s2''"] by simp
  ultimately show ?thesis
    using loaded [THEN conjunct1] by (simp add: w)
qed

end
