(* ===== verification/Session_History.thy ===== *)
theory Session_History
  imports Session_Properties
begin

text \<open>
  The statuses of a session over any requests. The history of a stored session tells the statuses it
  has had; a step relation over the operations of the module keeps them legal. Runs that messages
  start are taken to leave the session files alone, as they do where no tool of the agent changes
  sessions.
\<close>

interpretation session_machine: status_machine SESSION_STATUS_TRANSITIONS "\<lambda>st. st = Ss_archived"
  by unfold_locales (rename_tac st, case_tac st; simp)

section \<open>The statuses a history tells\<close>

definition status_named :: "pyval \<Rightarrow> session_status option" where
  "status_named v = find (\<lambda>st. PStr (session_status_name st) = v) SESSION_STATUSES"

definition entry_status :: "pydict \<Rightarrow> session_status option" where
  "entry_status e =
     (if dict_get e ''event_type'' = PStr ''created'' then status_named (dict_get e ''status'')
      else if dict_get e ''event_type'' = PStr ''session_status_changed'' then status_named (dict_get e ''to_status'')
      else None)"

definition status_path :: "pydict list \<Rightarrow> session_status list" where
  "status_path h = List.map_filter entry_status h"

definition legal_history :: "pydict list \<Rightarrow> session_status \<Rightarrow> bool" where
  "legal_history h st \<longleftrightarrow> status_path h \<noteq> [] \<and> hd (status_path h) = Ss_open \<and> last (status_path h) = st \<and>
     legal SESSION_STATUS_TRANSITIONS (status_path h)"

lemma status_named_name [simp]: "status_named (PStr (session_status_name st)) = Some st"
  by (cases st) (simp_all add: status_named_def SESSION_STATUSES_def)

lemma status_name_inj [simp]: "session_status_name a = session_status_name b \<longleftrightarrow> a = b"
  by (cases a; cases b) simp_all

lemma status_path_append [simp]: "status_path (h @ g) = status_path h @ status_path g"
  by (simp add: status_path_def List.map_filter_def)

lemma status_path_simps [simp]:
  "status_path [] = []"
  "status_path (e # h) = (case entry_status e of None \<Rightarrow> status_path h | Some st \<Rightarrow> st # status_path h)"
  by (simp_all add: status_path_def List.map_filter_simps split: option.split)

lemma entry_status_other:
  "event \<notin> {''created'', ''session_status_changed''} \<Longrightarrow> entry_status (session_entry event t d) = None"
  by (auto simp: entry_status_def session_entry_def dict_get_def)

lemma path_changed:
  "event \<notin> {''created'', ''session_status_changed''} \<Longrightarrow> status_path (changed_entry p c key event a b t) = []"
  by (simp add: changed_entry_def entry_status_other)

lemma path_status_changed:
  assumes "dict_get p ''status'' = PStr (session_status_name a)" and "dict_get c ''status'' = PStr (session_status_name b)"
  shows "status_path (changed_entry p c ''status'' ''session_status_changed'' ''from_status'' ''to_status'' t) =
     (if a = b then [] else [b])"
proof -
  have "dict_get (session_entry ''session_status_changed'' t
      [(''from_status'', PStr (session_status_name a)), (''to_status'', PStr (session_status_name b))]) ''event_type'' =
      PStr ''session_status_changed''"
    "dict_get (session_entry ''session_status_changed'' t
      [(''from_status'', PStr (session_status_name a)), (''to_status'', PStr (session_status_name b))]) ''to_status'' =
      PStr (session_status_name b)"
    by (simp_all add: session_entry_def dict_get_def)
  then show ?thesis
    using assms by (simp add: changed_entry_def entry_status_def)
qed

lemma path_created:
  "dict_get c ''status'' = PStr (session_status_name st) \<Longrightarrow>
   status_path [session_entry ''created'' t [(''status'', dict_get c ''status''), (''agent'', x), (''memory_scope'', y)]] = [st]"
  by (simp add: entry_status_def) (simp add: session_entry_def dict_get_def)

lemma path_compacted: "compacted_entry a k t = Inr e \<Longrightarrow> status_path [e] = []"
  by (auto simp: compacted_entry_def entry_status_other)

lemma path_compaction:
  assumes "compaction_entries p c t = Inr es"
  shows "status_path es = []"
proof -
  from assms obtain k entries where "es = [] \<or>
      (case find (has_compaction_id k) entries of
         Some (PDict active) \<Rightarrow> res_bind (compacted_entry active k t) (\<lambda>e. Inr [e]) | _ \<Rightarrow> Inr []) = Inr es"
    by (auto simp: compaction_entries_def split: if_splits)
  then show ?thesis
    using path_compacted by (auto split: option.splits pyval.splits)
qed

lemma path_appended: "appended_entry known t m = Inr es \<Longrightarrow> status_path es = []"
  by (auto simp: appended_entry_def Let_def entry_status_other split: pyval.splits if_splits)

lemma path_concat: "(\<And>es. es \<in> set ess \<Longrightarrow> status_path es = []) \<Longrightarrow> status_path (concat ess) = []"
  by (induction ess) simp_all

lemma path_messages:
  assumes "message_entries p c t = Inr es"
  shows "status_path es = []"
proof -
  from assms obtain known new ess where "res_map (appended_entry known t) new = Inr ess" "es = concat ess"
    by (auto simp: message_entries_def Let_def split: if_splits)
  then show ?thesis
    using res_map_Inr [of "appended_entry known t" new ess] path_appended by (blast intro: path_concat)
qed

section \<open>Stored sessions with a legal history\<close>

definition told :: "pydict \<Rightarrow> bool" where
  "told d \<longleftrightarrow> (\<exists>h st. dict_get d ''transition_history'' = dict_list h \<and>
     dict_get d ''status'' = PStr (session_status_name st) \<and> legal_history h st)"

definition sessions_told :: "state_dir \<Rightarrow> bool" where
  "sessions_told fs \<longleftrightarrow>
     (\<forall>k d. stored_session k fs = Inr (Some d) \<longrightarrow> py_str (dict_get d ''session_id'') = k \<and> told d)"

lemma payload_fields_of [simp]:
  "dict_get (session_storage_payload s) ''session_id'' = sn_session_id s"
  "dict_get (session_storage_payload s) ''status'' = PStr (session_status_name (sn_status s))"
  "dict_get (session_storage_payload s) ''transition_history'' = dict_list (sn_transition_history s)"
  by (simp_all add: session_objects dict_get_def)

lemma build_history_told:
  assumes "build_session_transition_history previous (session_storage_payload s) = Inr h"
    and "case previous of
           None \<Rightarrow> sn_transition_history s = [] \<and> sn_status s = Ss_open
         | Some p \<Rightarrow> told p \<and> (\<forall>st. dict_get p ''status'' = PStr (session_status_name st) \<longrightarrow>
             sn_status s = st \<or> sn_status s \<in> set (SESSION_STATUS_TRANSITIONS st))"
  shows "legal_history h (sn_status s)"
proof (cases previous)
  case None
  with assms obtain t where h: "h = [session_entry ''created'' t
      [(''status'', dict_get (session_storage_payload s) ''status''), (''agent'', dict_get (session_storage_payload s) ''agent''),
       (''memory_scope'', dict_get (session_storage_payload s) ''memory_scope'')]]" and "sn_status s = Ss_open"
    by (auto simp: build_session_transition_history_def history_again dict_list_def)
  have "status_path h = [sn_status s]"
    unfolding h by (rule path_created) (rule payload_fields_of)
  with \<open>sn_status s = Ss_open\<close> show ?thesis by (simp add: legal_history_def)
next
  case (Some p)
  with assms(2) obtain g st where p: "dict_get p ''transition_history'' = dict_list g"
      "dict_get p ''status'' = PStr (session_status_name st)" "legal_history g st"
      "sn_status s = st \<or> sn_status s \<in> set (SESSION_STATUS_TRANSITIONS st)"
    by (auto simp: told_def)
  from assms(1) Some p(1) obtain t es ms where
      h: "h = g @ changed_entry p (session_storage_payload s) ''status'' ''session_status_changed'' ''from_status'' ''to_status'' t @
             changed_entry p (session_storage_payload s) ''current_workflow_id'' ''current_workflow_changed''
               ''from_workflow_id'' ''to_workflow_id'' t @
             changed_entry p (session_storage_payload s) ''last_run_id'' ''last_run_changed'' ''from_run_id'' ''to_run_id'' t @
             es @ ms"
      and es: "compaction_entries p (session_storage_payload s) t = Inr es"
      and ms: "message_entries p (session_storage_payload s) t = Inr ms"
    by (auto simp: build_session_transition_history_def history_again dict_list_def)
  have "status_path h = status_path g @ (if st = sn_status s then [] else [sn_status s])"
    unfolding h
    by (simp add: path_status_changed [OF p(2) payload_fields_of(2)] path_changed path_compaction [OF es] path_messages [OF ms])
  with p(3,4) show ?thesis
    by (auto simp: legal_history_def legal_append_one)
qed

section \<open>Loading and writing keep the histories\<close>

text \<open>The stored session has the status of \<open>s\<close>; then \<open>s\<close> may be written, and so may what a transition gives.\<close>

definition session_core :: "session \<Rightarrow> pyval \<times> session_status \<times> pydict list" where
  "session_core s = (sn_session_id s, sn_status s, sn_transition_history s)"

definition is_current :: "state_dir \<Rightarrow> session \<Rightarrow> bool" where
  "is_current fs s \<longleftrightarrow> (\<exists>d. stored_session (py_str (sn_session_id s)) fs = Inr (Some d) \<and>
     dict_get d ''status'' = PStr (session_status_name (sn_status s)))"

definition may_follow :: "state_dir \<Rightarrow> session \<Rightarrow> bool" where
  "may_follow fs s \<longleftrightarrow>
     (case stored_session (py_str (sn_session_id s)) fs of
        Inr None \<Rightarrow> sn_transition_history s = [] \<and> sn_status s = Ss_open
      | Inr (Some d) \<Rightarrow> (\<forall>st. dict_get d ''status'' = PStr (session_status_name st) \<longrightarrow>
          sn_status s = st \<or> sn_status s \<in> set (SESSION_STATUS_TRANSITIONS st))
      | Inl _ \<Rightarrow> True)"

lemma core_current: "session_core s = session_core t \<Longrightarrow> is_current fs s \<longleftrightarrow> is_current fs t"
  by (simp add: session_core_def is_current_def)

lemma current_may_follow: "is_current fs s \<Longrightarrow> may_follow fs s"
  by (auto simp: is_current_def may_follow_def)

lemma transition_may_follow:
  "is_current fs s \<Longrightarrow> transition_session s st = Inr t \<Longrightarrow> may_follow fs t"
  by (auto simp: is_current_def may_follow_def transition_session_def split: if_splits)

lemma may_follow_core: "session_core s = session_core t \<Longrightarrow> may_follow fs s \<longleftrightarrow> may_follow fs t"
  by (auto simp: session_core_def may_follow_def split: option.split sum.split)

lemma stored_exists [simp]: "stored_session k (fs\<lparr>dir_exists := b\<rparr>) = stored_session k fs"
  by (simp add: stored_session_def)

lemma sessions_told_exists [simp]: "sessions_told (fs\<lparr>dir_exists := b\<rparr>) = sessions_told fs"
  by (simp add: sessions_told_def)

lemma may_follow_exists [simp]: "may_follow (fs\<lparr>dir_exists := b\<rparr>) s = may_follow fs s"
  by (simp add: may_follow_def)

lemma told_put:
  assumes "sessions_told fs" and "legal_history (sn_transition_history s) (sn_status s)"
  shows "sessions_told (put_session s fs)"
  using assms by (auto simp: sessions_told_def stored_put told_def)

lemma wp_write_told:
  assumes "sessions_told (session_files w)" and "may_follow (session_files w) s"
  shows "wp (write_session s) (\<lambda>_ w'. sessions_told (session_files w')) (\<lambda>_ w'. sessions_told (session_files w')) w"
proof (rule wpI)
  fix s' w' assume "write_session s w = (Inr s', w')"
  then obtain h previous where w: "s' = s\<lparr>sn_updated_at := isoformat (utc_stamp (clk w (ticks w))), sn_transition_history := h\<rparr>"
      "session_files w' = put_session s' ((session_files w)\<lparr>dir_exists := True\<rparr>)"
      "stored_session (py_str (sn_session_id s)) ((session_files w)\<lparr>dir_exists := True\<rparr>) = Inr previous"
      "build_session_transition_history previous (session_storage_payload
        (s\<lparr>sn_updated_at := isoformat (utc_stamp (clk w (ticks w)))\<rparr>)) = Inr h"
    by (rule write_session_InrE)
  have "legal_history h (sn_status (s\<lparr>sn_updated_at := isoformat (utc_stamp (clk w (ticks w)))\<rparr>))"
    using assms w(3) by (intro build_history_told [OF w(4)]) (auto simp: may_follow_def sessions_told_def split: option.splits)
  then show "sessions_told (session_files w')"
    unfolding w(2) using assms(1) by (intro told_put) (simp_all add: w(1))
next
  fix e w' assume "write_session s w = (Inl e, w')"
  moreover have "wp (write_session s) (\<lambda>_ _. True) (\<lambda>_ v. session_files v = (session_files w)\<lparr>dir_exists := True\<rparr>) w"
    by (simp add: wp_write_session Let_def split: sum.split)
  ultimately show "sessions_told (session_files w')" using assms(1) by (auto dest: wp_Inl)
qed

lemma load_session_Inr:
  assumes "load_session k w = (Inr s, w')"
  obtains d where "session_files w' = session_files w" "stored_session k (session_files w) = Inr (Some d)"
    "dict_item d ''session_id'' = Inr (sn_session_id s)"
    "normalize_status (dict_get_or d ''status'' (PStr ''open'')) = Inr (sn_status s)"
    "normalize_transition_history (dict_get d ''transition_history'') = Inr (sn_transition_history s)"
proof -
  have "wp (load_session k) (\<lambda>s' v. session_files v = session_files w \<and>
       (\<exists>d. stored_session k (session_files w) = Inr (Some d) \<and> dict_item d ''session_id'' = Inr (sn_session_id s') \<and>
         normalize_status (dict_get_or d ''status'' (PStr ''open'')) = Inr (sn_status s') \<and>
         normalize_transition_history (dict_get d ''transition_history'') = Inr (sn_transition_history s')))
     (\<lambda>_ _. True) w"
    by (auto simp: load_session_def wp session_file_def wp_def [of "load_state_payload p s" for p s] load_state_payload_eq
        stored_session_def time_field_def session_of_def split: option.splits sum.splits)
  with assms show thesis by (auto dest: wp_Inr intro: that)
qed

lemma load_keeps_files: "session_files (snd (load_session k w)) = session_files w"
proof -
  have "wp (load_session k) (\<lambda>_ v. session_files v = session_files w) (\<lambda>_ v. session_files v = session_files w) w"
    by (auto simp: load_session_def wp session_file_def wp_def [of "load_state_payload p s" for p s] load_state_payload_eq
        time_field_def split: option.splits sum.splits)
  then show ?thesis by (simp add: wp_same)
qed

lemma load_told:
  assumes "sessions_told (session_files w)" and "load_session k w = (Inr s, w')"
  shows "py_str (sn_session_id s) = k" and "is_current (session_files w) s"
    and "legal_history (sn_transition_history s) (sn_status s)"
proof -
  from assms(2) obtain d where d: "stored_session k (session_files w) = Inr (Some d)"
      "dict_item d ''session_id'' = Inr (sn_session_id s)"
      "normalize_status (dict_get_or d ''status'' (PStr ''open'')) = Inr (sn_status s)"
      "normalize_transition_history (dict_get d ''transition_history'') = Inr (sn_transition_history s)"
    by (rule load_session_Inr)
  from d(1) assms(1) have "py_str (dict_get d ''session_id'') = k" and "told d"
    by (auto simp: sessions_told_def)
  then obtain h st where h: "dict_get d ''transition_history'' = dict_list h"
      "dict_get d ''status'' = PStr (session_status_name st)" "legal_history h st"
    by (auto simp: told_def)
  have "dict_get_or d ''status'' (PStr ''open'') = PStr (session_status_name st)"
    using h(2) by (auto simp: dict_get_def dict_get_or_def split: option.splits)
  with d(3) have st: "sn_status s = st" by (simp add: names_again)
  have hist: "sn_transition_history s = h"
    using d(4) h(1) by (simp add: history_again dict_list_def)
  have "dict_get d ''session_id'' = sn_session_id s"
    using d(2) by (auto simp: dict_item_def dict_get_def split: option.splits)
  then show "py_str (sn_session_id s) = k" using \<open>py_str (dict_get d ''session_id'') = k\<close> by simp
  then show "is_current (session_files w) s" using d(1) h(2) st by (auto simp: is_current_def)
  show "legal_history (sn_transition_history s) (sn_status s)" using h(3) st hist by simp
qed

section \<open>What leaves the session files alone\<close>

definition files_are :: "state_dir \<Rightarrow> 'z session_world_scheme \<Rightarrow> bool" where
  "files_are fs w \<longleftrightarrow> session_files w = fs"

text \<open>A predicate on the world of sessions that the stores of the runs do not touch.\<close>

definition beyond_runs :: "('z agent_world_scheme \<Rightarrow> bool) \<Rightarrow> bool" where
  "beyond_runs I \<longleftrightarrow> (\<forall>w w'. agent_world.more w = agent_world.more w' \<longrightarrow> I w \<longrightarrow> I w')"

definition lifted :: "('z agent_world_scheme \<Rightarrow> bool) \<Rightarrow> 'z \<Rightarrow> bool" where
  "lifted I l \<longleftrightarrow> (\<exists>w. agent_world.more w = l \<and> I w)"

lemma outside_lifted: "beyond_runs I \<Longrightarrow> outside (lifted I) = I"
  unfolding outside_def lifted_def beyond_runs_def fun_eq_iff by metis

lemma files_beyond_runs: "beyond_runs (files_are fs)"
  unfolding beyond_runs_def files_are_def
proof (intro allI impI)
  fix w w' :: "'z session_world_scheme"
  assume "agent_world.more w = agent_world.more w'" "session_files w = fs"
  then show "session_files w' = fs" by (cases w; cases w') simp
qed

lemma files_outside: "files_are fs = outside (lifted (files_are fs))"
  by (simp add: outside_lifted [OF files_beyond_runs])

lemma keeps_load: "keeps (files_are fs) (load_session k)"
  by (simp add: keeps_def files_are_def load_keeps_files)

lemma wp_generate_token [wp]:
  "wp generate_session_token Q E w = Q (token_supply w (token_n w)) (w\<lparr>token_n := Suc (token_n w)\<rparr>)"
  by (simp add: wp_def generate_session_token_def)

lemma quiet_env [keeps_intro]: "keeps (files_are fs) utc_now" "keeps (files_are fs) uuid4" "keeps (files_are fs) now_text"
    "keeps (files_are fs) generate_session_token"
  by (simp_all add: keeps_wp wp wp_generate_token files_are_def)

lemma outside_list_memories [keeps_intro]: "keeps (outside P) (list_memories f n)"
  unfolding list_memories_def by (intro keeps_intro)

lemma outside_workflow_memories [keeps_intro]: "keeps (outside P) (workflow_memories n found ids)"
  by (induction n found ids rule: workflow_memories.induct) (auto intro!: keeps_intro simp: Let_def)

lemma outside_now_text [keeps_intro]: "keeps (outside P) now_text"
  unfolding now_text_def by (intro keeps_intro)

lemma outside_continuity [keeps_intro]:
  "keeps (outside P) (continuity_scope_memories s n)"
  "keeps (outside P) (select_continuity_memories s n)"
  "keeps (outside P) (build_session_continuity_summary s ex a b c)"
  "keeps (outside P) (refresh_session_continuity_summary s)"
  "keeps (outside P) (build_session_continuity_prompt_context s ex)"
proof -
  show scope: "keeps (outside P) (continuity_scope_memories s n)" for s n
    unfolding continuity_scope_memories_def by (intro keeps_intro)
  show select: "keeps (outside P) (select_continuity_memories s n)" for s n
    unfolding select_continuity_memories_def by (intro keeps_intro scope)
  show build: "keeps (outside P) (build_session_continuity_summary s ex a b c)" for s ex a b c
    unfolding build_session_continuity_summary_def by (intro keeps_intro select)
  show "keeps (outside P) (refresh_session_continuity_summary s)"
    unfolding refresh_session_continuity_summary_def by (intro keeps_intro build)
  show "keeps (outside P) (build_session_continuity_prompt_context s ex)"
    unfolding build_session_continuity_prompt_context_def by (intro keeps_intro build)
qed

lemmas quiet_continuity [keeps_intro] =
  outside_continuity [of "lifted (files_are fs)" for fs, folded files_outside]

section \<open>Every operation keeps the histories\<close>

definition keeps_told :: "('z session_world_scheme, 'a) io \<Rightarrow> bool" where
  "keeps_told m \<longleftrightarrow> keeps (\<lambda>w. sessions_told (session_files w)) m"

text \<open>\<open>tells m w\<close>: the histories are legal after \<open>m\<close>, whether it returns or raises.\<close>

definition tells :: "('z session_world_scheme, 'a) io \<Rightarrow> 'z session_world_scheme \<Rightarrow> bool" where
  "tells m w \<longleftrightarrow> sessions_told (session_files (snd (m w)))"

lemma tells_wp: "tells m w \<longleftrightarrow> wp m (\<lambda>_ v. sessions_told (session_files v)) (\<lambda>_ v. sessions_told (session_files v)) w"
  by (simp add: tells_def wp_same)

lemma keeps_told_iff:
  "keeps_told m \<longleftrightarrow> (\<forall>fs w. sessions_told fs \<longrightarrow> files_are fs w \<longrightarrow> tells m w)"
  by (auto simp: keeps_told_def keeps_def tells_def files_are_def)

lemma tells_after_quiet:
  assumes "sessions_told fs" and "files_are fs w" and "keeps (files_are fs) m"
    and "\<And>x w'. m w = (Inr x, w') \<Longrightarrow> files_are fs w' \<Longrightarrow> tells (k x) w'"
  shows "tells (io_bind m k) w"
  unfolding tells_wp wp_bind
  by (rule wp_mono [OF keeps_wpD [OF assms(3,2)]]) (use assms(1,4) in \<open>auto simp: files_are_def tells_wp\<close>)

lemma tells_quiet: "sessions_told fs \<Longrightarrow> files_are fs w \<Longrightarrow> keeps (files_are fs) m \<Longrightarrow> tells m w"
  by (simp add: tells_def keeps_def files_are_def)

lemma tells_after_load:
  assumes "sessions_told fs" and "files_are fs w"
    and "\<And>s w'. files_are fs w' \<Longrightarrow> is_current fs s \<Longrightarrow> tells (f s) w'"
  shows "tells (io_bind (load_session k) f) w"
  using assms load_told(2) [of w k]
  by (intro tells_after_quiet [where fs = fs] keeps_load) (auto simp: files_are_def)

lemma tells_after_lift:
  assumes "sessions_told fs" and "files_are fs w" and "\<And>x. r = Inr x \<Longrightarrow> tells (f x) w"
  shows "tells (io_bind (io_lift r) f) w"
  using assms by (auto simp: tells_wp wp files_are_def split: sum.split)

lemma tells_write_current:
  assumes "sessions_told fs" and "files_are fs w" and "is_current fs t" and "session_core s = session_core t"
  shows "tells (write_session s) w"
  unfolding tells_wp using assms current_may_follow [OF assms(3)] may_follow_core [OF assms(4)]
  by (intro wp_write_told) (simp_all add: files_are_def)

lemma tells_write_moved:
  assumes "sessions_told fs" and "files_are fs w" and "is_current fs s" and "transition_session s st = Inr t"
    and "session_core u = session_core t"
  shows "tells (write_session u) w"
  unfolding tells_wp using assms transition_may_follow [OF assms(3,4)] may_follow_core [OF assms(5)]
  by (intro wp_write_told) (simp_all add: files_are_def)

lemma tells_bind_return: "tells m w \<Longrightarrow> tells (io_bind m (\<lambda>x. io_return (f x))) w"
  by (simp add: tells_wp wp)

lemma refresh_core: "refresh_session_continuity_summary s w = (Inr t, w') \<Longrightarrow> session_core t = session_core s"
proof -
  have "wp (refresh_session_continuity_summary s) (\<lambda>t _. session_core t = session_core s) (\<lambda>_ _. True) w"
    unfolding refresh_session_continuity_summary_def wp Let_def
    by (auto simp: session_core_def intro: wp_any split: sum.split)
  then show "refresh_session_continuity_summary s w = (Inr t, w') \<Longrightarrow> session_core t = session_core s" by (rule wp_Inr)
qed

lemma create_told:
  assumes "dir_get (docs (session_files w)) (uuids w (uuid_n w)) = None" and "sessions_told (session_files w)"
  shows "sessions_told (session_files (snd (create_session hash rq w)))"
proof -
  have "wp (create_session hash rq) (\<lambda>_ v. sessions_told (session_files v)) (\<lambda>_ v. sessions_told (session_files v)) w"
    using assms unfolding create_session_def wp
    by (auto split: sum.split simp: may_follow_def stored_session_def intro!: wp_write_told)
  then show ?thesis by (simp add: wp_same)
qed

lemma archive_told: "keeps_told (archive_session k reason)"
  unfolding keeps_told_iff archive_session_def
proof (intro allI impI, rule tells_after_load)
  fix fs s and w' :: "'a session_world_scheme"
  assume told: "sessions_told fs" and quiet: "files_are fs w'" and curr: "is_current fs s"
  show "tells (if sn_status s = Ss_archived then io_return s
      else io_bind (io_lift (transition_session s Ss_archived)) (\<lambda>moved.
         io_bind (io_lift (dict_of (dict_get_or (sn_metadata moved) ''maintenance'' (PDict [])))) (\<lambda>notes.
         io_bind now_text (\<lambda>now.
         io_bind (io_lift (if reason = PNone then Inr (dict_put notes ''archived_at'' (PStr now))
                  else res_bind (session_string reason ''reason'') (\<lambda>r.
                    Inr (dict_put (dict_put notes ''archived_at'' (PStr now)) ''archive_reason'' (PStr r))))) (\<lambda>noted.
           write_session (moved\<lparr>sn_metadata := dict_put (sn_metadata moved) ''maintenance'' (PDict noted)\<rparr>)))))) w'"
  proof (cases "sn_status s = Ss_archived")
    case True
    then show ?thesis using told quiet by (simp add: tells_quiet keeps_return)
  next
    case False
    then show ?thesis
      by (simp only: if_False)
        (intro tells_after_lift [OF told] tells_after_quiet [OF told _ quiet_env(3)]
          tells_write_moved [OF told _ curr]; (assumption | rule quiet | simp add: session_core_def))
  qed
qed (rule asm_rl)

lemma tells_if: "(b \<Longrightarrow> tells m w) \<Longrightarrow> (\<not> b \<Longrightarrow> tells k w) \<Longrightarrow> tells (if b then m else k) w"
  and tells_let: "(\<And>y. y = x \<Longrightarrow> tells (f y) w) \<Longrightarrow> tells (let y = x in f y) w"
  and tells_pair: "(\<And>a b. p = (a, b) \<Longrightarrow> tells (g a b) w) \<Longrightarrow> tells (case p of (a, b) \<Rightarrow> g a b) w"
  by (simp_all split: prod.split)

lemma compact_told: "keeps_told (compact_session_continuity k keep n chars)"
  unfolding keeps_told_iff compact_session_continuity_def
  apply (intro allI impI)
  apply (rule tells_after_lift, assumption, assumption)+
  apply (rule tells_after_load, assumption, assumption)
  apply (rule tells_after_lift, assumption, assumption)
  apply (intro tells_if tells_let)
   apply (erule (1) tells_quiet, rule keeps_return)
  apply (rule tells_after_quiet, assumption, assumption, rule quiet_continuity)
  apply (intro tells_if tells_let tells_pair)
   apply (erule (1) tells_quiet, rule keeps_return)
  apply (rule tells_after_quiet, assumption, assumption, rule quiet_env)
  apply (rule tells_after_quiet, assumption, assumption, rule quiet_env)
  apply (intro tells_let)
  apply (rule tells_after_quiet, assumption, assumption, rule quiet_continuity)
  apply (rule tells_bind_return)
  apply (rule tells_write_current, assumption, assumption, assumption)
  apply (drule refresh_core, simp add: with_compaction_def session_core_def)
  done

text \<open>A message whose run and whose grounding leave the session files alone.\<close>

definition leaves_sessions :: "'z session_world_scheme services \<Rightarrow> message_request \<Rightarrow> bool" where
  "leaves_sessions sv rq \<longleftrightarrow>
     (\<forall>fs p. keeps (files_are fs) (run_message sv rq p)) \<and>
     (\<forall>fs surface input agent. keeps (files_are fs) (build_assistant_prompt_context (sv_assistant sv) surface input agent))"

lemma leavesD:
  assumes "leaves_sessions sv rq"
  shows "keeps (files_are fs) (run_message sv rq p)"
    and "keeps (files_are fs) (build_assistant_prompt_context (sv_assistant sv) surface input agent)"
  using assms by (auto simp: leaves_sessions_def)

lemma quiet_new_message: "keeps (files_are fs) (new_user_message rq content agent)"
  unfolding new_user_message_def by (intro keeps_intro)

lemma quiet_prepare:
  assumes "leaves_sessions sv rq"
  shows "keeps (files_are fs) (prepare_message sv k rq)"
  unfolding prepare_message_def
  by (intro keeps_bind keeps_if keeps_let keeps_load keeps_lift keeps_raise keeps_return quiet_new_message
      quiet_continuity leavesD(2) [OF assms])

lemma bind_Inr:
  assumes "io_bind m f w = (Inr y, w')"
  obtains x v where "m w = (Inr x, v)" "f x v = (Inr y, w')"
  using assms by (auto simp: io_bind_def split: prod.splits sum.splits)

lemma lift_Inr: "io_lift r w = (Inr x, v) \<longleftrightarrow> r = Inr x \<and> v = w"
  by (auto simp: io_lift_def)

lemma prepare_load:
  assumes "prepare_message sv k rq w = (Inr p, w')"
  obtains s w1 where "load_session k w = (Inr s, w1)" "session_core (pp_session p) = session_core s"
    "sn_status s \<noteq> Ss_archived"
  using assms unfolding prepare_message_def
  by (elim bind_Inr)
    (auto simp: lift_Inr io_raise_def io_return_def Let_def with_user_message_def with_last_message_def
      session_core_def elim!: bind_Inr split: if_splits)

lemma prepared_current:
  assumes "leaves_sessions sv rq" and "sessions_told fs" and "files_are fs w"
    and "prepare_message sv k rq w = (Inr p, w')"
  shows "files_are fs w'" and "is_current fs (pp_session p)" and "sn_status (pp_session p) \<noteq> Ss_archived"
proof -
  show "files_are fs w'" using keepsD [OF quiet_prepare [OF assms(1)] assms(3,4)] .
  obtain s w1 where "load_session k w = (Inr s, w1)" "session_core (pp_session p) = session_core s"
      "sn_status s \<noteq> Ss_archived"
    by (rule prepare_load [OF assms(4)])
  moreover have "is_current fs s"
    using load_told(2) [OF _ calculation(1)] assms(2,3) by (simp add: files_are_def)
  moreover have "sn_status (pp_session p) = sn_status s" using calculation(2) by (simp add: session_core_def)
  ultimately show "is_current fs (pp_session p)" "sn_status (pp_session p) \<noteq> Ss_archived"
    using core_current [of "pp_session p" s fs] by simp_all
qed

lemma quiet_reply: "keeps (files_are fs) (assistant_reply result workflow agent)"
  unfolding assistant_reply_def by (intro keeps_intro)

lemma failed_run_tells:
  assumes "sessions_told fs" and "files_are fs w" and "is_current fs s"
  shows "tells (record_failed_run s agent e) w"
proof -
  have stop: "tells (io_then (write_session u) (io_raise e)) v" if "tells (write_session u) v" for u v
    using that by (simp add: tells_wp wp)
  show ?thesis
    unfolding record_failed_run_def
    by (intro tells_after_lift [OF assms(1)] tells_after_quiet [OF assms(1) _ quiet_env(2)]
        tells_after_quiet [OF assms(1) _ quiet_env(3)] stop tells_write_moved [OF assms(1) _ assms(3)];
        (assumption | rule assms(2) | simp add: session_core_def))
qed

lemma failed_run_raises: "record_failed_run s agent e w \<noteq> (Inr x, w')"
  by (auto simp: record_failed_run_def io_then_def io_raise_def elim!: bind_Inr)

lemma tells_after_catch:
  fixes w :: "'z session_world_scheme"
  assumes "sessions_told fs" and "files_are fs w" and "keeps (files_are fs) m"
    and "\<And>e v. files_are fs v \<Longrightarrow> tells (h e) v" and "\<And>e v x v'. h e v \<noteq> (Inr x, v')"
    and "\<And>x v. files_are fs v \<Longrightarrow> tells (k x) v"
  shows "tells (io_bind (io_catch m h) k) w"
proof -
  have m: "wp m (\<lambda>_. files_are fs) (\<lambda>_. files_are fs) w" by (rule keeps_wpD [OF assms(3,2)])
  show ?thesis
    unfolding tells_wp wp_bind wp_catch
  proof (rule wp_mono [OF m])
    fix e and v :: "'z session_world_scheme" assume "files_are fs v"
    then have "wp (h e) (\<lambda>_ v. sessions_told (session_files v)) (\<lambda>_ v. sessions_told (session_files v)) v"
      using assms(4) by (simp add: tells_wp)
    then show "wp (h e) (\<lambda>x. wp (k x) (\<lambda>_ v. sessions_told (session_files v)) (\<lambda>_ v. sessions_told (session_files v)))
        (\<lambda>_ v. sessions_told (session_files v)) v"
      by (rule wp_mono) (simp_all add: assms(5))
  qed (use assms(6) in \<open>simp add: tells_wp\<close>)
qed

lemma follow_scope_core: "follow_memory_scope s v u = Inr t \<Longrightarrow> session_core t = session_core s"
  by (auto simp: follow_memory_scope_def session_core_def Let_def split: scope_kind.splits)

lemma follow_result_moved:
  assumes "follow_result result workflow s = Inr t"
  obtains u st where "session_core u = session_core s" "transition_session u st = Inr t"
  using assms unfolding follow_result_def Let_def
  by (auto dest!: follow_scope_core simp: session_core_def intro: that)

lemma result_tells:
  assumes "sessions_told fs" and "files_are fs w" and "is_current fs s"
  shows "tells (record_result s m agent result) w"
  unfolding record_result_def Let_def
proof (rule tells_after_lift [OF assms(1,2)], rule tells_after_lift [OF assms(1,2)])
  fix workflow moved
  let ?asked = "with_last_message (with_run_ids result workflow (m\<lparr>sm_status := Completed\<rparr>)) s"
  assume "follow_result result workflow ?asked = Inr moved"
  then obtain u st where u: "session_core u = session_core ?asked" "transition_session u st = Inr moved"
    by (rule follow_result_moved)
  then have "is_current fs u"
    using assms(3) core_current [of u s fs] by (simp add: session_core_def with_last_message_def)
  then have written: "tells (write_session v) w'" if "session_core v = session_core moved" "files_are fs w'" for v w'
    using that by (intro tells_write_moved [OF assms(1) _ _ u(2)])
  show "tells (io_bind (assistant_reply result workflow agent) (\<lambda>reply.
        io_bind (refresh_session_continuity_summary (moved\<lparr>sn_messages := sn_messages moved @ [reply]\<rparr>)) write_session)) w"
    by (rule tells_after_quiet [OF assms(1,2) quiet_reply], rule tells_after_quiet [OF assms(1) _ quiet_continuity(4)],
        assumption, rule written, drule refresh_core, simp add: session_core_def)
qed

lemma append_told:
  assumes "leaves_sessions sv rq"
  shows "keeps_told (append_session_message sv k rq)"
  unfolding keeps_told_iff append_session_message_def
proof (intro allI impI)
  fix fs and w :: "'a session_world_scheme"
  assume told: "sessions_told fs" and quiet: "files_are fs w"
  show "tells (io_bind (prepare_message sv k rq) (\<lambda>p.
     io_bind (io_catch (run_message sv rq p) (record_failed_run (pp_session p) (pp_agent p))) (\<lambda>result.
       case result of
         None \<Rightarrow> io_return None
       | Some r \<Rightarrow>
           io_bind (record_result (pp_session p) (pp_message p) (pp_agent p) r)
             (\<lambda>written. io_return (Some (written, r)))))) w"
  proof (rule tells_after_quiet [OF told quiet quiet_prepare [OF assms]])
    fix p w1 assume p: "prepare_message sv k rq w = (Inr p, w1)" and w1: "files_are fs w1"
    note curr = prepared_current(2) [OF assms told quiet p]
    show "tells (io_bind (io_catch (run_message sv rq p) (record_failed_run (pp_session p) (pp_agent p))) (\<lambda>result.
       case result of
         None \<Rightarrow> io_return None
       | Some r \<Rightarrow>
           io_bind (record_result (pp_session p) (pp_message p) (pp_agent p) r)
             (\<lambda>written. io_return (Some (written, r))))) w1"
    proof (rule tells_after_catch [OF told w1 leavesD(1) [OF assms]])
      fix result :: "pydict option" and v :: "'a session_world_scheme" assume v: "files_are fs v"
      show "tells (case result of None \<Rightarrow> io_return None
          | Some r \<Rightarrow> io_bind (record_result (pp_session p) (pp_message p) (pp_agent p) r)
             (\<lambda>written. io_return (Some (written, r)))) v"
        using tells_quiet [OF told v keeps_return] tells_bind_return [OF result_tells [OF told v curr]]
        by (cases result) simp_all
    qed (rule failed_run_tells [OF told _ curr] failed_run_raises; assumption?)+
  qed
qed

lemma told_del: "sessions_told fs \<Longrightarrow> sessions_told (fs\<lparr>docs := dir_del (docs fs) k\<rparr>)"
  by (auto simp: sessions_told_def stored_session_def dir_simps split: if_splits)

lemma prune_files_tells:
  "sessions_told (session_files w) \<Longrightarrow> tells (prune_files statuses threshold limit report paths) w"
proof (induction statuses threshold limit report paths arbitrary: w rule: prune_files.induct)
  case (1 statuses threshold limit report)
  then show ?case by (simp add: tells_wp wp)
next
  case (2 statuses threshold limit report path paths)
  let ?T = "\<lambda>(_::'b) v. sessions_told (session_files v)"
  have load: "wp (load_session path) (\<lambda>_ v. sessions_told (session_files v)) (\<lambda>_ v. sessions_told (session_files v)) w"
    using 2(4) by (simp add: wp_same load_keeps_files)
  show ?case
    unfolding prune_files.simps tells_wp wp_bind Let_def
    by (rule wp_mono [OF load])
      (use 2(1-3) in \<open>auto simp: wp Let_def tells_wp told_del split: sum.split\<close>)
qed

lemma prune_told: "keeps_told (prune_sessions statuses older limit)"
  unfolding keeps_told_def keeps_wp prune_sessions_def
  by (auto simp: wp prune_files_tells [unfolded tells_wp] split: sum.split)

section \<open>Sessions over any requests\<close>

text \<open>
  One request each. A new session is given an identifier that no file has; a message leaves the
  session files alone while it runs; \<open>elsewhere\<close> is everything else, from the clock to the other
  modules, which keep their own files.
\<close>

inductive session_step :: "'z session_world_scheme services \<Rightarrow> 'z session_world_scheme \<Rightarrow> 'z session_world_scheme \<Rightarrow> bool"
  for sv :: "'z session_world_scheme services" where
  create: "dir_get (docs (session_files w)) (uuids w (uuid_n w)) = None \<Longrightarrow>
    session_step sv w (snd (create_session (sv_hash sv) rq w))"
| archive: "session_step sv w (snd (archive_session k reason w))"
| compact: "session_step sv w (snd (compact_session_continuity k keep n chars w))"
| append: "leaves_sessions sv rq \<Longrightarrow> session_step sv w (snd (append_session_message sv k rq w))"
| prune: "session_step sv w (snd (prune_sessions statuses older limit w))"
| elsewhere: "session_files w' = session_files w \<Longrightarrow> session_step sv w w'"

lemma keeps_toldD: "keeps_told m \<Longrightarrow> sessions_told (session_files w) \<Longrightarrow> sessions_told (session_files (snd (m w)))"
  by (simp add: keeps_told_def keeps_def)

lemma session_step_told: "session_step sv w w' \<Longrightarrow> sessions_told (session_files w) \<Longrightarrow> sessions_told (session_files w')"
proof (induction rule: session_step.induct)
  case (create w rq)
  then show ?case by (intro create_told)
next
  case (append rq w k)
  then show ?case by (simp add: keeps_toldD [OF append_told])
qed (simp_all add: keeps_toldD [OF archive_told] keeps_toldD [OF compact_told] keeps_toldD [OF prune_told])

lemma session_steps_told:
  "(session_step sv)\<^sup>*\<^sup>* w w' \<Longrightarrow> sessions_told (session_files w) \<Longrightarrow> sessions_told (session_files w')"
  by (induction rule: rtranclp_induct) (auto intro: session_step_told)

text \<open>
  C4: the history of a session is the truth about its status. Starting without sessions, whatever
  requests create, archive, compact, prune and continue sessions, and however they fail: the history
  of a session that loads tells a path of statuses that begins open, follows the table of transitions
  step by step, and ends in the status the session has; nothing follows archived; and the session is
  found under its own identifier.
\<close>

theorem session_history_legal:
  assumes "(session_step sv)\<^sup>*\<^sup>* w0 w" and "docs (session_files w0) = []" and "load_session k w = (Inr s, w')"
  shows "hd (status_path (sn_transition_history s)) = Ss_open \<and>
    last (status_path (sn_transition_history s)) = sn_status s \<and>
    legal SESSION_STATUS_TRANSITIONS (status_path (sn_transition_history s)) \<and>
    Ss_archived \<notin> set (butlast (status_path (sn_transition_history s))) \<and> py_str (sn_session_id s) = k"
proof -
  have "sessions_told (session_files w0)"
    using assms(2) by (simp add: sessions_told_def stored_session_def dir_get_def)
  from session_steps_told [OF assms(1) this] have told: "sessions_told (session_files w)" .
  note l = load_told [OF told assms(3)]
  let ?p = "status_path (sn_transition_history s)"
  have "Ss_archived \<notin> set (butlast ?p)"
  proof
    assume "Ss_archived \<in> set (butlast ?p)"
    then obtain i where "i < length ?p - 1" "?p ! i = Ss_archived"
      by (auto simp: in_set_conv_nth nth_butlast)
    moreover from this(1) have "i < length ?p" "Suc i \<noteq> length ?p" by simp_all
    ultimately show False
      using l(3) session_machine.terminal_is_last [of ?p i] by (simp add: legal_history_def)
  qed
  with l show ?thesis by (simp add: legal_history_def)
qed

section \<open>New sessions and their tokens\<close>

definition new_request :: session_request where
  "new_request = \<lparr>sq_title = PStr ''t'', sq_agent = PStr ''a'', sq_metadata = PNone, sq_memory_scope = PNone, sq_surface = PNone\<rparr>"

lemma now_text_clean: "now_text w = (Inr t, v) \<Longrightarrow> clean t"
  using clean_isoformat by (auto simp: now_text_def io_return_def elim!: bind_Inr)

lemma create_session_writes:
  assumes "create_session hash rq w = (Inr (s, token), w')" and "clean (hash token)"
  obtains s0 w0 where "write_session s0 w0 = (Inr s, w')" "normal_session s0"
    "ow_auth_required (sn_ownership s0)" "ow_token_hash (sn_ownership s0) = Some (hash token)"
  using assms(1) unfolding create_session_def
  apply (elim bind_Inr)
  apply (drule now_text_clean)
  apply (clarsimp simp: lift_Inr io_return_def)
  apply (frule session_string_Inr)
  apply (rule that, assumption)
    apply (simp_all add: normal_session_def normal_ownership_def assms(2) session_optional_Inr load_scope_normal)
  done

lemma create_session_loads:
  assumes "create_session hash rq w = (Inr (s, token), w')" and "clean (hash token)"
  shows "load_session (py_str (sn_session_id s)) w' = (Inr s, w'\<lparr>ticks := Suc (Suc (ticks w'))\<rparr>)"
    and "ow_auth_required (sn_ownership s)" and "ow_token_hash (sn_ownership s) = Some (hash token)"
proof -
  obtain s0 w0 where w0: "write_session s0 w0 = (Inr s, w')" "normal_session s0"
      "ow_auth_required (sn_ownership s0)" "ow_token_hash (sn_ownership s0) = Some (hash token)"
    by (rule create_session_writes [OF assms])
  show "load_session (py_str (sn_session_id s)) w' = (Inr s, w'\<lparr>ticks := Suc (Suc (ticks w'))\<rparr>)"
    "ow_auth_required (sn_ownership s)" "ow_token_hash (sn_ownership s) = Some (hash token)"
    using load_written(1-3) [OF w0(2,1)] w0(3,4) by simp_all
qed

lemma create_session_succeeds:
  assumes "dir_get (docs (session_files w)) (uuids w (uuid_n w)) = None"
  obtains s token w' where "create_session hash new_request w = (Inr (s, token), w')"
    "token = token_supply w (token_n w)" "py_str (sn_session_id s) = uuids w (uuid_n w)"
proof -
  have parts: "session_string (PStr ''a'') ''agent'' = Inr ''a''" "session_string (PStr ''t'') ''title'' = Inr ''t''"
    by code_simp+
  have fine: "wp (write_session s) (\<lambda>x _. sn_session_id x = sn_session_id s) (\<lambda>_ _. False) v"
    if "dir_get (docs (session_files v)) (py_str (sn_session_id s)) = None" for s v
  proof -
    from new_session_written [OF that] obtain s' v' where w: "write_session s v = (Inr s', v')" by blast
    then have "sn_session_id s' = sn_session_id s" by (rule write_session_InrE) simp
    with w show ?thesis by (simp add: wp_def)
  qed
  have "wp (create_session hash new_request) (\<lambda>(s, t) _. t = token_supply w (token_n w) \<and> py_str (sn_session_id s) = uuids w (uuid_n w))
      (\<lambda>_ _. False) w"
    unfolding create_session_def new_request_def using assms
    by (auto simp: wp parts normalize_memory_scope_def session_metadata_def session_optional_string_def
        intro!: wp_mono [OF fine])
  then show thesis by (auto simp: wp_def split: prod.splits sum.splits intro: that)
qed

lemma sample_absent:
  "dir_get (docs (session_files sample_session_world)) (uuids sample_session_world (uuid_n sample_session_world)) = None"
  by (simp add: sample_session_world_def agent_world.defs dir_get_def)

text \<open>
  C5: the token given out with a new session opens it, and nothing else does. The stored session asks
  for a token; a presented value is accepted exactly when it is a text whose trimmed form has the hash
  that is stored, which is the hash of the token; anything else is answered with the authentication
  error that names the header and the session. The hash is a parameter: it gives trimmed ASCII texts,
  as hexadecimal digests are.
\<close>

theorem session_token_opens:
  assumes "create_session hash rq w = (Inr (s, token), w')"
    and "\<forall>t. clean (hash t) \<and> list_all (\<lambda>c. (of_char c :: nat) < 128) (hash t)"
  shows "load_session (py_str (sn_session_id s)) w' = (Inr s, w'\<lparr>ticks := Suc (Suc (ticks w'))\<rparr>) \<and>
    (if (\<exists>t. v = PStr t \<and> py_strip t \<noteq> [] \<and> hash (py_strip t) = hash token)
     then verify_session_access hash s v header_name = Inr ()
     else \<exists>m. verify_session_access hash s v header_name =
            Inl (SessionAuthError m header_name (py_str (sn_session_id s))))"
proof -
  have "clean (hash token)" using assms(2) by blast
  note loads = create_session_loads [OF assms(1) this]
  have digests: "compare_digest (hash x) (hash y) = Inr (hash x = hash y)" for x y
    using assms(2) by (simp add: compare_digest_def)
  have "hash token \<noteq> []" using \<open>clean (hash token)\<close> by (simp add: clean_iff)
  with loads digests show ?thesis
    by (cases v) (auto simp: verify_session_access_def session_auth_required_def Let_def)
qed

theorem session_token_opens_witness:
  "case create_session (\<lambda>t. if t = ''t'' then ''h'' else ''x'') new_request sample_session_world of
     (Inr (s, token), w') \<Rightarrow>
       verify_session_access (\<lambda>t. if t = ''t'' then ''h'' else ''x'') s (PStr '' t '') ''X'' = Inr () \<and>
       verify_session_access (\<lambda>t. if t = ''t'' then ''h'' else ''x'') s (PStr ''u'') ''X'' \<noteq> Inr ()
   | _ \<Rightarrow> False"
proof -
  let ?hash = "\<lambda>t. if t = ''t'' then ''h'' else ''x''"
  obtain s token w' where c: "create_session ?hash new_request sample_session_world = (Inr (s, token), w')"
      and "token = token_supply sample_session_world (token_n sample_session_world)"
    by (rule create_session_succeeds [OF sample_absent])
  then have token: "token = ''t''" by (simp add: sample_session_world_def agent_world.defs)
  have hex: "\<forall>t. clean (?hash t) \<and> list_all (\<lambda>c. (of_char c :: nat) < 128) (?hash t)"
    by (auto simp: clean_iff py_strip_def py_lstrip_def py_rstrip_def py_space_def)
  have strip: "py_strip '' t '' = ''t''" "py_strip ''u'' = ''u''" by code_simp+
  from session_token_opens [OF c hex, of "PStr '' t ''" "''X''"] session_token_opens [OF c hex, of "PStr ''u''" "''X''"]
  show ?thesis by (auto simp: c token strip)
qed

theorem session_history_legal_witness:
  "case create_session (sv_hash sample_services) new_request sample_session_world of
     (Inr (s, token), w') \<Rightarrow>
       fst (load_session ''u'' w') = Inr s \<and> hd (status_path (sn_transition_history s)) = Ss_open \<and>
       last (status_path (sn_transition_history s)) = sn_status s
   | _ \<Rightarrow> False"
proof -
  obtain s token w' where c: "create_session (sv_hash sample_services) new_request sample_session_world = (Inr (s, token), w')"
      "py_str (sn_session_id s) = uuids sample_session_world (uuid_n sample_session_world)"
    by (rule create_session_succeeds [OF sample_absent])
  moreover have "uuids sample_session_world (uuid_n sample_session_world) = ''u''"
    by (simp add: sample_session_world_def agent_world.defs sample_world_def)
  ultimately have id: "py_str (sn_session_id s) = ''u''" by simp
  have "session_step sample_services sample_session_world (snd (create_session (sv_hash sample_services) new_request sample_session_world))"
    by (rule session_step.create) (rule sample_absent)
  then have reach: "(session_step sample_services)\<^sup>*\<^sup>* sample_session_world w'" by (simp add: c r_into_rtranclp)
  have empty: "docs (session_files sample_session_world) = []" by (simp add: sample_session_world_def agent_world.defs)
  have "clean (sv_hash sample_services t)" for t
    by (simp add: sample_services_def clean_iff py_strip_def py_lstrip_def py_rstrip_def py_space_def)
  then have load: "load_session ''u'' w' = (Inr s, w'\<lparr>ticks := Suc (Suc (ticks w'))\<rparr>)"
    using create_session_loads(1) [OF c(1)] by (simp add: id)
  from session_history_legal [OF reach empty load] show ?thesis by (simp add: c load)
qed

end
