(* ===== verification/Spec2Isabelle.thy ===== *)
theory Spec2Isabelle
  imports Memory_Properties State_Files Worker_Health Worker_Loop Budget Approval Contracts Policy Worker_Properties
    Workflow_Store State_Refinement Runner_Properties
    Session_History
begin

text \<open>
  Verification of the ClarityClaw runtime (the Python package under src/runtime).

  The program. ClarityClaw runs agents: a run executes one action, a call of a tool or of a model,
  as a workflow of persisted steps, under a policy, a budget and, where the policy demands it, the
  approval of an operator. Runs are started directly or from jobs of a queue, which workers claim,
  execute under a lease, and retry. All state lives in directories of JSON files, one file per
  object, each in a versioned envelope.

  Conventions. Values of JSON are \<open>pyval\<close>, objects association lists in insertion order;
  exceptions are the datatype \<open>exc\<close>; code with effects is a computation of the monad \<open>io\<close>, a function
  from a state to an exception or a value together with the state (an exception does not undo what
  was done). Directories map identifiers to records. A stored timestamp is the \<open>datetime\<close> it denotes;
  the clock and \<open>uuid4\<close> are streams of readings that a computation consumes, arbitrary unless a
  property says otherwise. Python integers are \<open>int\<close>; floats are exact rationals. Strings are lists of
  characters with code points below 256. A directory that does not exist is an empty directory.

  Theories and the code they model:
    Prelude             values, strings, exceptions, the monad, weakest preconditions, preservation
    Py_Text             substrings, slices, words, \<open>isoformat\<close>
    Runtime_Env         timestamps, clock, identifiers, directories (locale \<open>id_store\<close>)
    State_Files         runtime/state.py: envelopes, versions, inspection, migration
    Budget              runtime/budget.py: limits of a run (locale \<open>meter\<close>)
    Status_Machine      status tables with ranks (locale \<open>ranked_machine\<close>), used by approvals and workflows
    Approval            runtime/approval.py: approval requests and their histories
    Contracts           runtime/contracts.py and errors.py: results of tools, classes of errors
    Glob, Policy        runtime/policy.py: loading, validating, evaluating and enforcing policies, with
                        \<open>fnmatch\<close> of the standard library
    Memory, Memory_Properties
                        runtime/memory.py: typed memories, listing and ranked search
    Queue, Queue_Audit, Queue_Lifecycle, Queue_Properties, Queue_Outcomes, Queue_Health
                        runtime/queue.py: jobs, their histories, creation with idempotency keys,
                        scheduling, failure and retry, pruning, the reports
    Worker, Worker_Properties, Worker_Health, Worker_Loop
                        runtime/worker.py and worker_loop.py: leases, claiming, running, recovery, the
                        polling loop; what a job executes is a parameter (a \<open>runner\<close>)
    Workflow, Workflow_Invariants, Workflow_Properties, Workflow_Store
                        runtime/workflow.py: the state machine of a workflow and its file
    Workflow_Json       the JSON objects of workflows and approvals, as traces and responses hold them
    Artifact            runtime/artifact.py and trace.py: stored results and the log of runs
    Tools               runtime/tools.py, tools_memory.py, tools_utility.py, model.py, prompt_builder.py;
                        the other handlers and the model services are a parameter (\<open>host\<close>)
    Agent               runtime/agent.py: one run, from opening its workflow to its response and trace
    Workflow_Runner     runtime/workflow_runner.py: starting, children, resuming, replaying
    Agent_Properties, Runner_Properties
                        what a run and a child may reach, that a run ends, resuming and replaying
    State_Refinement    the state files as a map of payloads (locale \<open>simulation\<close>)
    Grounding           runtime/assistant_grounding.py: the context of a prompt, from documents and reading tools
    Session             runtime/session.py: sessions, messages, tokens, pruning, summaries and compaction
    Grounding_Properties, Session_Properties, Session_History
                        what grounding may call, the round trip of sessions, their tokens and histories

  What the lemmas show. Each component has an invariant of its state that all its operations keep
  (the \<open>keeps\<close> lemmas, by rules of the collection \<open>keeps_intro\<close>), lifted to sequences of requests;
  the outcome of its operations on every branch (by the \<open>wp\<close> equations); and what its reports contain.
  The properties of the manifest are numbered C1 and on in the texts before them.

  Fuel. The polling loop of a worker has fuel, one unit per pass; with limits \<open>m\<close> on the jobs and
  \<open>n\<close> on the idle polls, more than \<open>(m + 1) * max n 1\<close> units are never used up
  (\<open>worker_loop_ends\<close>). The loop of a run (\<open>run_workflow\<close>) has a bound on its passes too and returns
  \<open>None\<close> where it is reached; two passes are enough for a run without an approval (\<open>run_agent_returns\<close>).
  Every other loop is a recursion over a list.

  Not modelled. Parsing of YAML and JSON text (the parsed values are arguments), the length of
  \<open>json.dumps\<close> (a parameter of token estimates), the file system below the level of one file per
  object (no partial writes, no concurrent processes inside one operation), argument parsing and
  printing of the command line. The flag
  \<open>CLARITY_DEBUG\<close> is off. Not yet: email intake, the views of the
  control plane, the handlers of the repository, web and runtime tools, and the HTTP API.
\<close>

end
